(* ===== verification/Prelude.thy ===== *)
theory Prelude
  imports Main "HOL-Library.State_Monad"
begin

text \<open>
  Shared infrastructure of the development: the collections its automation draws on, the
  state in which every effectful operation of the operator runs, the two primitive effects,
  and the program logic \<open>emits\<close> in which the trace properties of the reconcilers are
  proved.

  The operator talks to two outside parties, the Kubernetes API server and the K8Boss control
  plane. Their state is the abstract component \<open>ext\<close> of \<open>sys\<close>, about which the model
  knows nothing: every call hands it to a function of the environment, which answers and
  returns the next one, so between two calls anything may have happened. \<open>trace\<close> is a
  ghost component: the calls made so far with their answers, oldest first.
\<close>

named_theorems emits_intro \<open>introduction rules of the trace logic\<close>
named_theorems reason_defs \<open>the condition reasons and types, as strings\<close>
named_theorems wire_defs \<open>the conversions to the wire shapes\<close>

subsection \<open>State, effects\<close>

record ('e, 'w) sys =
  ext :: 'w
  trace :: "'e list"

type_synonym ('e, 'w, 'a) io = "(('e, 'w) sys, 'a) state"

text \<open>A call to the outside: it consumes the external state and leaves one event.\<close>

definition call :: "('w \<Rightarrow> 'r \<times> 'w) \<Rightarrow> ('r \<Rightarrow> 'e) \<Rightarrow> ('e, 'w, 'r) io" where
  "call f ev = State (\<lambda>s. case f (ext s) of
     (r, w) \<Rightarrow> (r, s\<lparr>ext := w, trace := trace s @ [ev r]\<rparr>))"

text \<open>A read of the outside that changes nothing and is not recorded (the clock).\<close>

definition ask :: "('w \<Rightarrow> 'r) \<Rightarrow> ('e, 'w, 'r) io" where
  "ask f = State (\<lambda>s. (f (ext s), s))"

lemma run_state_call:
  "run_state (call f ev) s =
     (fst (f (ext s)), s\<lparr>ext := snd (f (ext s)), trace := trace s @ [ev (fst (f (ext s)))]\<rparr>)"
  by (simp add: call_def split: prod.splits)

lemma run_state_ask [simp]: "run_state (ask f) s = (f (ext s), s)"
  by (simp add: ask_def)

lemma bind_ext: "(\<And>x. f x = g x) \<Longrightarrow> State_Monad.bind m f = State_Monad.bind m g"
  by (rule arg_cong [of f g]) (rule ext)

subsection \<open>The trace logic\<close>

text \<open>
  \<open>emits m Q\<close>: whatever the state and the environment, running \<open>m\<close> extends the trace
  by some list of events \<open>es\<close>, and \<open>Q\<close> holds of the result and \<open>es\<close>. The events
  carry the answers, so \<open>Q\<close> can say what the result is in terms of what was answered.
\<close>

definition emits :: "('e, 'w, 'a) io \<Rightarrow> ('a \<Rightarrow> 'e list \<Rightarrow> bool) \<Rightarrow> bool" where
  "emits m Q \<longleftrightarrow> (\<forall>s. \<exists>es. trace (snd (run_state m s)) = trace s @ es \<and>
                          Q (fst (run_state m s)) es)"

lemma emitsD:
  assumes "emits m Q" and "run_state m s = (r, s')"
  obtains es where "trace s' = trace s @ es" and "Q r es"
proof -
  from assms(1) obtain es where
    "trace (snd (run_state m s)) = trace s @ es" "Q (fst (run_state m s)) es"
    unfolding emits_def by blast
  with assms(2) show thesis by (intro that) simp_all
qed

text \<open>From an empty trace, the final trace is the one the rules speak of.\<close>

lemma emits_run:
  assumes "emits m Q" and "trace s = []"
  shows "Q (fst (run_state m s)) (trace (snd (run_state m s)))"
  using assms unfolding emits_def by (metis append_Nil)

lemma emits_return [emits_intro]: "Q a [] \<Longrightarrow> emits (State_Monad.return a) Q"
  by (simp add: emits_def)

lemma emits_bind [emits_intro]:
  assumes "emits m (\<lambda>a e1. emits (f a) (\<lambda>b e2. Q b (e1 @ e2)))"
  shows "emits (State_Monad.bind m f) Q"
  unfolding emits_def
proof
  fix s
  obtain a s1 where m: "run_state m s = (a, s1)" by (cases "run_state m s")
  from emitsD [OF assms m] obtain e1 where
    e1: "trace s1 = trace s @ e1" and f: "emits (f a) (\<lambda>b e2. Q b (e1 @ e2))" .
  obtain b s2 where fa: "run_state (f a) s1 = (b, s2)" by (cases "run_state (f a) s1")
  from emitsD [OF f fa] obtain e2 where "trace s2 = trace s1 @ e2" "Q b (e1 @ e2)" .
  with e1 m fa show "\<exists>es. trace (snd (run_state (State_Monad.bind m f) s)) = trace s @ es \<and>
                          Q (fst (run_state (State_Monad.bind m f) s)) es"
    by (intro exI [of _ "e1 @ e2"]) simp
qed

lemma emits_call [emits_intro]:
  assumes "\<And>r. Q r [ev r]"
  shows "emits (call f ev) Q"
  by (simp add: emits_def run_state_call assms)

text \<open>The same rule with the environment's function in view, for what an environment promises.\<close>

lemma emits_call_env: "(\<And>w. Q (fst (f w)) [ev (fst (f w))]) \<Longrightarrow> emits (call f ev) Q"
  by (simp add: emits_def run_state_call)

lemma emits_ask [emits_intro]: "(\<And>w. Q (f w) []) \<Longrightarrow> emits (ask f) Q"
  by (simp add: emits_def)

lemma emits_if [emits_intro]:
  "(b \<Longrightarrow> emits m Q) \<Longrightarrow> (\<not> b \<Longrightarrow> emits n Q) \<Longrightarrow> emits (if b then m else n) Q"
  by simp

lemma emits_sum [emits_intro]:
  "(\<And>e. x = Inl e \<Longrightarrow> emits (f e) Q) \<Longrightarrow> (\<And>v. x = Inr v \<Longrightarrow> emits (g v) Q) \<Longrightarrow>
   emits (case x of Inl e \<Rightarrow> f e | Inr v \<Rightarrow> g v) Q"
  by (cases x) simp_all

lemma emits_option [emits_intro]:
  "(x = None \<Longrightarrow> emits m Q) \<Longrightarrow> (\<And>v. x = Some v \<Longrightarrow> emits (g v) Q) \<Longrightarrow>
   emits (case x of None \<Rightarrow> m | Some v \<Rightarrow> g v) Q"
  by (cases x) simp_all

lemma emits_prod [emits_intro]:
  "(\<And>a b. x = (a, b) \<Longrightarrow> emits (f a b) Q) \<Longrightarrow> emits (case x of (a, b) \<Rightarrow> f a b) Q"
  by (cases x) simp

lemma emits_let [emits_intro]: "emits (f x) Q \<Longrightarrow> emits (let y = x in f y) Q"
  by simp

lemma emits_weaken:
  assumes "emits m Q" and "\<And>r es. Q r es \<Longrightarrow> R r es"
  shows "emits m R"
  using assms unfolding emits_def by blast

lemma emits_conj:
  assumes "emits m Q" and "emits m R"
  shows "emits m (\<lambda>r es. Q r es \<and> R r es)"
  unfolding emits_def
proof
  fix s
  from assms obtain e1 e2 where
    "trace (snd (run_state m s)) = trace s @ e1" "Q (fst (run_state m s)) e1"
    "trace (snd (run_state m s)) = trace s @ e2" "R (fst (run_state m s)) e2"
    unfolding emits_def by blast
  then show "\<exists>es. trace (snd (run_state m s)) = trace s @ es \<and>
                  Q (fst (run_state m s)) es \<and> R (fst (run_state m s)) es"
    by auto
qed

subsection \<open>Order of events in a trace\<close>

text \<open>
  \<open>precedes P Q es\<close>: no event of \<open>es\<close> satisfies \<open>Q\<close> before one has satisfied
  \<open>P\<close>.
\<close>

fun precedes :: "('e \<Rightarrow> bool) \<Rightarrow> ('e \<Rightarrow> bool) \<Rightarrow> 'e list \<Rightarrow> bool" where
  "precedes P Q [] = True"
| "precedes P Q (e # es) = (\<not> Q e \<and> (P e \<or> precedes P Q es))"

lemma precedes_nth:
  "precedes P Q es \<Longrightarrow> i < length es \<Longrightarrow> Q (es ! i) \<Longrightarrow> \<exists>j<i. P (es ! j)"
proof (induction es arbitrary: i)
  case (Cons e es)
  then obtain k where i: "i = Suc k" by (cases i) auto
  show ?case
  proof (cases "P e")
    case True
    with i show ?thesis by (intro exI [of _ 0]) simp
  next
    case False
    with Cons i obtain j where "j < k" "P (es ! j)" by auto
    with i show ?thesis by (intro exI [of _ "Suc j"]) simp
  qed
qed simp

lemma precedes_never: "(\<And>e. e \<in> set es \<Longrightarrow> \<not> Q e) \<Longrightarrow> precedes P Q es"
  by (induction es) auto

lemma precedes_append:
  "precedes P Q es \<Longrightarrow> precedes P Q fs \<Longrightarrow> precedes P Q (es @ fs)"
  by (induction es) auto

end
