(* ===== verification/GoStd.thy ===== *)
theory GoStd
  imports Prelude "HOL-Library.Word"
begin

text \<open>
  The parts of Go and of its standard library that the operator's own text relies on: byte
  strings and UTF-8, \<open>strings.TrimRight\<close>, \<open>strings.TrimSpace\<close>, \<open>strings.Join\<close>, the
  verbs \<open>%d\<close>, \<open>%t\<close> and \<open>%q\<close> of \<open>fmt.Sprintf\<close>, and \<open>strconv.ParseInt\<close> in base ten.
  A Go string is a sequence of bytes, so it is a \<open>string\<close> (a list of 8-bit characters) here,
  and a character outside ASCII is written out as its UTF-8 bytes. A Go \<open>int\<close> is 64 bits
  wide on the platforms the image is built for.
\<close>

type_synonym int64 = "64 word"
type_synonym time = int \<comment> \<open>nanoseconds since the zero time\<close>
type_synonym duration = int \<comment> \<open>nanoseconds\<close>

definition second :: duration where "second = 1000000000"
definition minute :: duration where "minute = 60 * second"

abbreviation byte :: "nat \<Rightarrow> char" where "byte n \<equiv> char_of n"
abbreviation code :: "char \<Rightarrow> nat" where "code c \<equiv> of_char c"

definition em_dash :: string where "em_dash = map byte [226, 128, 148]"
definition ellipsis :: string where "ellipsis = map byte [226, 128, 166]"
definition dquote :: string where "dquote = [byte 34]"

subsection \<open>Joining and trimming\<close>

fun join :: "string \<Rightarrow> string list \<Rightarrow> string" where
  "join sep [] = []"
| "join sep [x] = x"
| "join sep (x # xs) = x @ sep @ join sep xs"

lemma join_Nil_iff: "join sep xs = [] \<Longrightarrow> \<forall>x \<in> set xs. x = []"
  by (induction sep xs rule: join.induct) auto

definition trim_right_char :: "char \<Rightarrow> string \<Rightarrow> string" where
  "trim_right_char c s = rev (dropWhile (\<lambda>x. x = c) (rev s))"

lemma trim_right_char_last: "trim_right_char c s \<noteq> [] \<Longrightarrow> last (trim_right_char c s) \<noteq> c"
  unfolding trim_right_char_def
  by (metis (full_types) hd_dropWhile last_rev rev_is_Nil_conv)

text \<open>The UTF-8 encodings of the code points \<open>unicode.IsSpace\<close> accepts.\<close>

definition space_runes :: "string list" where
  "space_runes = map (map byte)
     ([[9], [10], [11], [12], [13], [32], [194, 133], [194, 160], [225, 154, 128]] @
      map (\<lambda>k. [226, 128, k]) [128, 129, 130, 131, 132, 133, 134, 135, 136, 137, 138] @
      [[226, 128, 168], [226, 128, 169], [226, 128, 175], [226, 129, 159], [227, 128, 128]])"

fun starts_with :: "string \<Rightarrow> string \<Rightarrow> bool" where
  "starts_with [] s = True"
| "starts_with (p # ps) [] = False"
| "starts_with (p # ps) (c # s) = (p = c \<and> starts_with ps s)"

definition strip_one :: "string list \<Rightarrow> string \<Rightarrow> string option" where
  "strip_one ps s = map_option (\<lambda>p. drop (length p) s)
     (find (\<lambda>p. p \<noteq> [] \<and> starts_with p s) ps)"

lemma strip_one_shorter: "strip_one ps s = Some t \<Longrightarrow> length t < length s"
  by (cases s) (auto simp: strip_one_def find_Some_iff neq_Nil_conv)

function trim_left :: "string list \<Rightarrow> string \<Rightarrow> string" where
  "trim_left ps s = (case strip_one ps s of None \<Rightarrow> s | Some t \<Rightarrow> trim_left ps t)"
  by pat_completeness auto
termination
  by (relation "measure (\<lambda>(ps, s). length s)") (auto dest: strip_one_shorter)

declare trim_left.simps [simp del]

definition trim_space :: "string \<Rightarrow> string" where
  "trim_space s = rev (trim_left (map rev space_runes) (rev (trim_left space_runes s)))"

lemma trim_left_length: "length (trim_left ps s) \<le> length s"
proof (induction ps s rule: trim_left.induct)
  case (1 ps s)
  then show ?case
    by (subst trim_left.simps) (fastforce split: option.splits dest: strip_one_shorter)
qed

lemma trim_space_length: "length (trim_space s) \<le> length s"
  unfolding trim_space_def by (metis length_rev order_trans trim_left_length)

subsection \<open>Decimal and hexadecimal text\<close>

fun show_nat :: "nat \<Rightarrow> string" where
  "show_nat n = (if n < 10 then [byte (48 + n)] else show_nat (n div 10) @ [byte (48 + n mod 10)])"

declare show_nat.simps [simp del]

definition show_int :: "int \<Rightarrow> string" where
  "show_int i = (if i < 0 then [byte 45] else []) @ show_nat (nat \<bar>i\<bar>)"

definition show_int64 :: "int64 \<Rightarrow> string" where "show_int64 w = show_int (sint w)"

definition show_bool :: "bool \<Rightarrow> string" where
  "show_bool b = (if b then ''true'' else ''false'')"

definition hex_digit :: "nat \<Rightarrow> char" where
  "hex_digit n = (if n < 10 then byte (48 + n) else byte (87 + n))"

fun show_hex :: "nat \<Rightarrow> nat \<Rightarrow> string" where
  "show_hex 0 n = []"
| "show_hex (Suc w) n = show_hex w (n div 16) @ [hex_digit (n mod 16)]"

subsection \<open>UTF-8\<close>

definition rune_error :: nat where "rune_error = 65533"

definition cont :: "nat \<Rightarrow> bool" where "cont b \<longleftrightarrow> 128 \<le> b \<and> b < 192"

text \<open>\<open>utf8.DecodeRuneInString\<close> on a non-empty string: the code point and its width.\<close>

definition decode_rune :: "string \<Rightarrow> nat \<times> nat" where
  "decode_rune s = (case map code (take 4 s) of
       [] \<Rightarrow> (rune_error, 0)
     | b0 # bs \<Rightarrow>
         if b0 < 128 then (b0, 1)
         else if 194 \<le> b0 \<and> b0 < 224 then
           (case bs of b1 # _ \<Rightarrow> if cont b1 then ((b0 - 192) * 64 + (b1 - 128), 2)
                                  else (rune_error, 1)
            | _ \<Rightarrow> (rune_error, 1))
         else if 224 \<le> b0 \<and> b0 < 240 then
           (case bs of b1 # b2 # _ \<Rightarrow>
              if cont b1 \<and> cont b2 \<and> (b0 = 224 \<longrightarrow> 160 \<le> b1) \<and> (b0 = 237 \<longrightarrow> b1 < 160)
              then ((b0 - 224) * 4096 + (b1 - 128) * 64 + (b2 - 128), 3) else (rune_error, 1)
            | _ \<Rightarrow> (rune_error, 1))
         else if 240 \<le> b0 \<and> b0 < 245 then
           (case bs of [b1, b2, b3] \<Rightarrow>
              if cont b1 \<and> cont b2 \<and> cont b3 \<and> (b0 = 240 \<longrightarrow> 144 \<le> b1) \<and> (b0 = 244 \<longrightarrow> b1 < 144)
              then ((b0 - 240) * 262144 + (b1 - 128) * 4096 + (b2 - 128) * 64 + (b3 - 128), 4)
              else (rune_error, 1)
            | _ \<Rightarrow> (rune_error, 1))
         else (rune_error, 1))"

text \<open>\<open>utf8.AppendRune\<close> for a valid code point.\<close>

definition encode_rune :: "nat \<Rightarrow> string" where
  "encode_rune r = map byte
     (if r < 128 then [r]
      else if r < 2048 then [192 + r div 64, 128 + r mod 64]
      else if r < 65536 then [224 + r div 4096, 128 + r div 64 mod 64, 128 + r mod 64]
      else [240 + r div 262144, 128 + r div 4096 mod 64, 128 + r div 64 mod 64, 128 + r mod 64])"

subsection \<open>Quoting\<close>

text \<open>
  \<open>strconv.Quote\<close>, the verb \<open>%q\<close>. Below code point 256 \<open>strconv.IsPrint\<close> is written
  out; above, it is a table of the Unicode version of the toolchain, the parameter \<open>ip\<close>.
\<close>

definition is_print :: "(nat \<Rightarrow> bool) \<Rightarrow> nat \<Rightarrow> bool" where
  "is_print ip r = (if r \<le> 255 then (32 \<le> r \<and> r < 127) \<or> (161 \<le> r \<and> r \<noteq> 173) else ip r)"

definition escape_rune :: "(nat \<Rightarrow> bool) \<Rightarrow> nat \<Rightarrow> string" where
  "escape_rune ip r =
     (if r = 34 \<or> r = 92 then [byte 92, byte r]
      else if is_print ip r then encode_rune r
      else if r = 7 then [byte 92, CHR ''a'']
      else if r = 8 then [byte 92, CHR ''b'']
      else if r = 12 then [byte 92, CHR ''f'']
      else if r = 10 then [byte 92, CHR ''n'']
      else if r = 13 then [byte 92, CHR ''r'']
      else if r = 9 then [byte 92, CHR ''t'']
      else if r = 11 then [byte 92, CHR ''v'']
      else if r < 32 \<or> r = 127 then [byte 92, CHR ''x''] @ show_hex 2 r
      else if r < 65536 then [byte 92, CHR ''u''] @ show_hex 4 r
      else [byte 92, CHR ''U''] @ show_hex 8 r)"

function quote_body :: "(nat \<Rightarrow> bool) \<Rightarrow> string \<Rightarrow> string" where
  "quote_body ip s = (case s of [] \<Rightarrow> []
     | c # _ \<Rightarrow> (case decode_rune s of (r, w) \<Rightarrow>
         if w = 1 \<and> r = rune_error
         then [byte 92, CHR ''x''] @ show_hex 2 (code c) @ quote_body ip (drop 1 s)
         else escape_rune ip r @ quote_body ip (drop (max 1 w) s)))"
  by pat_completeness auto
termination
  by (relation "measure (\<lambda>(ip, s). length s)") auto

declare quote_body.simps [simp del]

definition go_quote :: "(nat \<Rightarrow> bool) \<Rightarrow> string \<Rightarrow> string" where
  "go_quote ip s = dquote @ quote_body ip s @ dquote"

subsection \<open>Parsing integers\<close>

datatype num_error = ErrSyntax | ErrRange

definition is_digit :: "char \<Rightarrow> bool" where
  "is_digit c \<longleftrightarrow> 48 \<le> code c \<and> code c \<le> 57"

text \<open>The loop of \<open>strconv.ParseUint\<close> in base ten: an overflow is reported where it happens.\<close>

fun parse_digits :: "nat \<Rightarrow> string \<Rightarrow> num_error + nat" where
  "parse_digits n [] = Inr n"
| "parse_digits n (c # cs) =
     (if \<not> is_digit c then Inl ErrSyntax
      else if 2 ^ 64 \<le> 10 * n + (code c - 48) then Inl ErrRange
      else parse_digits (10 * n + (code c - 48)) cs)"

definition parse_uint :: "string \<Rightarrow> num_error + nat" where
  "parse_uint s = (if s = [] then Inl ErrSyntax else parse_digits 0 s)"

text \<open>\<open>strconv.ParseInt(s, 10, 64)\<close>.\<close>

definition parse_int64 :: "string \<Rightarrow> num_error + int64" where
  "parse_int64 s =
     (let neg = (case s of c # _ \<Rightarrow> c = byte 45 | [] \<Rightarrow> False);
          t = (case s of c # r \<Rightarrow> if c = byte 43 \<or> c = byte 45 then r else s | [] \<Rightarrow> [])
      in case parse_uint t of
           Inl e \<Rightarrow> Inl e
         | Inr n \<Rightarrow>
             if \<not> neg \<and> 2 ^ 63 \<le> n then Inl ErrRange
             else if neg \<and> 2 ^ 63 < n then Inl ErrRange
             else Inr (word_of_int (if neg then - int n else int n)))"

lemma code_byte: "n < 256 \<Longrightarrow> code (byte n) = n"
  by simp

lemma parse_digits_append:
  "parse_digits n (xs @ ys) =
     (case parse_digits n xs of Inl e \<Rightarrow> Inl e | Inr m \<Rightarrow> parse_digits m ys)"
  by (induction n xs rule: parse_digits.induct) simp_all

lemma show_nat_not_Nil: "show_nat n \<noteq> []"
  by (subst show_nat.simps) simp

lemma parse_digits_show: "n < 2 ^ 64 \<Longrightarrow> parse_digits 0 (show_nat n) = Inr n"
proof (induction n rule: show_nat.induct)
  case (1 n)
  show ?case
  proof (cases "n < 10")
    case True
    then show ?thesis by (subst show_nat.simps) (simp add: is_digit_def)
  next
    case False
    have "n div 10 < 2 ^ 64" using "1.prems" by simp
    with "1.IH" False have "parse_digits 0 (show_nat (n div 10)) = Inr (n div 10)" by blast
    moreover have "10 * (n div 10) + n mod 10 = n" by simp
    ultimately show ?thesis using False "1.prems"
      by (subst show_nat.simps) (simp add: parse_digits_append is_digit_def)
  qed
qed

lemma parse_uint_show: "n < 2 ^ 64 \<Longrightarrow> parse_uint (show_nat n) = Inr n"
  by (simp add: parse_uint_def show_nat_not_Nil parse_digits_show)

lemma show_nat_hd: "\<exists>c cs. show_nat n = c # cs \<and> 48 \<le> code c \<and> code c \<le> 57"
proof (induction n rule: show_nat.induct)
  case (1 n)
  then show ?case by (subst show_nat.simps) auto
qed

lemma parse_int64_show: "parse_int64 (show_int64 w) = Inr w"
proof -
  have lower: "- (2 ^ 63) \<le> sint w" and upper: "sint w < 2 ^ 63"
    using sint_greater_eq [of w] sint_less [of w] by simp_all
  show ?thesis
  proof (cases "sint w < 0")
    case True
    let ?n = "nat (- sint w)"
    have n: "?n \<le> 2 ^ 63" using lower by simp
    then have "parse_uint (show_nat ?n) = Inr ?n" by (intro parse_uint_show) simp
    moreover have "show_int64 w = byte 45 # show_nat ?n"
      using True by (simp add: show_int64_def show_int_def)
    ultimately show ?thesis using True n by (simp add: parse_int64_def)
  next
    case False
    let ?n = "nat (sint w)"
    have n: "?n < 2 ^ 63" using upper False by simp
    then have "parse_uint (show_nat ?n) = Inr ?n" by (intro parse_uint_show) simp
    moreover obtain c cs where hd: "show_nat ?n = c # cs" "48 \<le> code c" using show_nat_hd by blast
    then have "c \<noteq> byte 45" "c \<noteq> byte 43" by auto
    moreover have "show_int64 w = show_nat ?n" using False by (simp add: show_int64_def show_int_def)
    ultimately show ?thesis using False n hd by (simp add: parse_int64_def)
  qed
qed

end
