(* ===== verification/ApiTypes.thy ===== *)
theory ApiTypes
  imports GoStd
begin

text \<open>
  The three custom resources of \<open>api/v1alpha1\<close>, with the parts of the Kubernetes metadata
  and condition types the operator reads or writes. A Go slice or map whose nil-ness the code
  tests is an \<open>option\<close>, nil being \<open>None\<close>. The remaining metadata of an object travels
  with it unread and is left out, but for the resource version, on which the API server decides
  conflicting updates.
\<close>

subsection \<open>Kubernetes metadata\<close>

type_synonym NamespacedName = "string \<times> string" \<comment> \<open>namespace, name\<close>
type_synonym labels = "string \<rightharpoonup> string"

record ObjectMeta =
  om_name :: string
  om_namespace :: string
  om_resourceVersion :: string
  om_generation :: int64
  om_deletionTimestamp :: "time option"
  om_finalizers :: "string list"

text \<open>\<open>(*metav1.Time).IsZero\<close>: a nil pointer is zero as well.\<close>

definition time_is_zero :: "time option \<Rightarrow> bool" where
  "time_is_zero t = (case t of None \<Rightarrow> True | Some x \<Rightarrow> x = 0)"

datatype ConditionStatus = ConditionTrue | ConditionFalse | ConditionUnknown

record Condition =
  c_type :: string
  c_status :: ConditionStatus
  c_observedGeneration :: int64
  c_lastTransitionTime :: time
  c_reason :: string
  c_message :: string

subsection \<open>SegmentationPolicy\<close>

record WorkloadSelector =
  matchLabels :: "labels option"

record SegmentationRule =
  ports :: "32 word list option"
  peerSelector :: "labels option"
  peerNamespace :: string

record SegmentationPolicySpec =
  sps_selector :: WorkloadSelector
  sps_ingress :: "SegmentationRule list option"
  sps_egress :: "SegmentationRule list option"
  sps_providerRef :: string

record SegmentationPolicyStatus =
  sst_conditions :: "Condition list"
  sst_observedGeneration :: int64
  sst_resolvedFlowProvider :: string

record SegmentationPolicy =
  sp_meta :: ObjectMeta
  sp_spec :: SegmentationPolicySpec
  sp_status :: SegmentationPolicyStatus

subsection \<open>RuntimeSecurityPolicy\<close>

record RuntimeSecurityPolicySpec =
  rps_selector :: WorkloadSelector
  rps_tracingPolicyRef :: string
  rps_deniedBinaries :: "string list option"

record RuntimeSecurityPolicyStatus =
  rst_conditions :: "Condition list"
  rst_observedGeneration :: int64
  rst_correlatedEvidenceCount :: int64

record RuntimeSecurityPolicy =
  rp_meta :: ObjectMeta
  rp_spec :: RuntimeSecurityPolicySpec
  rp_status :: RuntimeSecurityPolicyStatus

subsection \<open>PlatformConfig\<close>

type_synonym FlowProviderKind = string

definition FlowProviderRHNO :: FlowProviderKind where "FlowProviderRHNO = ''RHNO''"
definition FlowProviderHubble :: FlowProviderKind where "FlowProviderHubble = ''Hubble''"
definition FlowProviderCalico :: FlowProviderKind where "FlowProviderCalico = ''Calico''"
definition FlowProviderGoldmane :: FlowProviderKind where "FlowProviderGoldmane = ''Goldmane''"
definition FlowProviderMock :: FlowProviderKind where "FlowProviderMock = ''Mock''"

record PlatformConfigSpec =
  pcs_flowProvider :: FlowProviderKind
  pcs_paused :: bool

text \<open>The health verdict is a Go string type, so its zero value is the empty string.\<close>

type_synonym HealthVerdict = string

definition ProviderHealthUnknown :: HealthVerdict where "ProviderHealthUnknown = ''Unknown''"
definition ProviderHealthTrue :: HealthVerdict where "ProviderHealthTrue = ''True''"
definition ProviderHealthFalse :: HealthVerdict where "ProviderHealthFalse = ''False''"

record ProviderHealthStatus =
  phs_name :: string
  phs_health :: HealthVerdict
  phs_lastQueryError :: string
  phs_reason :: string
  phs_observedAt :: time

definition zero_ProviderHealthStatus :: ProviderHealthStatus where
  "zero_ProviderHealthStatus =
     \<lparr>phs_name = [], phs_health = [], phs_lastQueryError = [], phs_reason = [], phs_observedAt = 0\<rparr>"

record PlatformConfigStatus =
  pst_conditions :: "Condition list"
  pst_observedGeneration :: int64
  pst_providerHealth :: "ProviderHealthStatus list"

record PlatformConfig =
  pc_meta :: ObjectMeta
  pc_spec :: PlatformConfigSpec
  pc_status :: PlatformConfigStatus

lemma health_verdicts_distinct [simp]:
  "ProviderHealthUnknown \<noteq> ProviderHealthTrue" "ProviderHealthUnknown \<noteq> ProviderHealthFalse"
  "ProviderHealthTrue \<noteq> ProviderHealthFalse" "ProviderHealthTrue \<noteq> ProviderHealthUnknown"
  "ProviderHealthFalse \<noteq> ProviderHealthUnknown" "ProviderHealthFalse \<noteq> ProviderHealthTrue"
  by (simp_all add: ProviderHealthUnknown_def ProviderHealthTrue_def ProviderHealthFalse_def)

subsection \<open>Objects of any of the three kinds\<close>

datatype kind = SegmentationPolicyKind | RuntimeSecurityPolicyKind | PlatformConfigKind

datatype k8s_object =
    SegObj SegmentationPolicy
  | RtObj RuntimeSecurityPolicy
  | PcObj PlatformConfig

fun obj_kind :: "k8s_object \<Rightarrow> kind" where
  "obj_kind (SegObj _) = SegmentationPolicyKind"
| "obj_kind (RtObj _) = RuntimeSecurityPolicyKind"
| "obj_kind (PcObj _) = PlatformConfigKind"

fun obj_meta :: "k8s_object \<Rightarrow> ObjectMeta" where
  "obj_meta (SegObj x) = sp_meta x"
| "obj_meta (RtObj x) = rp_meta x"
| "obj_meta (PcObj x) = pc_meta x"

fun obj_conditions :: "k8s_object \<Rightarrow> Condition list" where
  "obj_conditions (SegObj x) = sst_conditions (sp_status x)"
| "obj_conditions (RtObj x) = rst_conditions (rp_status x)"
| "obj_conditions (PcObj x) = pst_conditions (pc_status x)"

fun obj_observedGeneration :: "k8s_object \<Rightarrow> int64" where
  "obj_observedGeneration (SegObj x) = sst_observedGeneration (sp_status x)"
| "obj_observedGeneration (RtObj x) = rst_observedGeneration (rp_status x)"
| "obj_observedGeneration (PcObj x) = pst_observedGeneration (pc_status x)"

definition obj_finalizers :: "k8s_object \<Rightarrow> string list" where
  "obj_finalizers x = om_finalizers (obj_meta x)"

definition obj_key :: "k8s_object \<Rightarrow> NamespacedName" where
  "obj_key x = (om_namespace (obj_meta x), om_name (obj_meta x))"

text \<open>The condition of a type: at most the first one counts, as in \<open>meta.FindStatusCondition\<close>.\<close>

definition find_condition :: "string \<Rightarrow> Condition list \<Rightarrow> Condition option" where
  "find_condition t cs = find (\<lambda>c. c_type c = t) cs"

text \<open>Two conditions that say the same, whenever they were stamped.\<close>

definition same_verdict :: "Condition \<Rightarrow> Condition \<Rightarrow> bool" where
  "same_verdict c d \<longleftrightarrow> c_type c = c_type d \<and> c_status c = c_status d \<and>
     c_observedGeneration c = c_observedGeneration d \<and>
     c_reason c = c_reason d \<and> c_message c = c_message d"

definition has_condition :: "k8s_object \<Rightarrow> string \<Rightarrow> ConditionStatus \<Rightarrow> string \<Rightarrow> bool" where
  "has_condition x t st rsn \<longleftrightarrow> (\<exists>c. find_condition t (obj_conditions x) = Some c \<and>
     c_status c = st \<and> c_reason c = rsn)"

lemma has_condition_code [code]:
  "has_condition x t st rsn = (case find_condition t (obj_conditions x) of
     None \<Rightarrow> False | Some c \<Rightarrow> c_status c = st \<and> c_reason c = rsn)"
  by (auto simp: has_condition_def split: option.splits)

end
