(* ===== verification/Json.thy ===== *)
theory Json
  imports GoStd
begin

text \<open>
  \<open>encoding/json\<close> as the operator uses it: the syntax check and parse of a document, and
  the rules by which \<open>json.Unmarshal\<close> stores a value in a Go variable. The control plane's
  answers are read through these definitions, so what an absent field, a null, a repeated key
  or a value of the wrong type does to a decision is part of the model.

  The parser recurses on fuel. \<open>2 * length s + 1\<close> is enough for every input
  (\<open>parse_fuel_enough\<close>), and \<open>json_parse\<close> supplies that much. Go's limit of 10000
  nested containers is the depth argument.
\<close>

datatype json =
    JNull
  | JBool bool
  | JNum string            \<comment> \<open>the literal, unconverted\<close>
  | JStr string            \<comment> \<open>unquoted, as UTF-8 bytes\<close>
  | JArr "json list"
  | JObj "(string \<times> json) list"   \<comment> \<open>members in document order, repeated keys kept\<close>

subsection \<open>Lexical level\<close>

fun skip_ws :: "string \<Rightarrow> string" where
  "skip_ws [] = []"
| "skip_ws (c # s) = (if code c \<in> {32, 9, 13, 10} then skip_ws s else c # s)"

lemma skip_ws_length: "length (skip_ws s) \<le> length s"
  by (induction s) auto

definition hex_val :: "char \<Rightarrow> nat option" where
  "hex_val c = (let n = code c in
     if 48 \<le> n \<and> n \<le> 57 then Some (n - 48)
     else if 97 \<le> n \<and> n \<le> 102 then Some (n - 87)
     else if 65 \<le> n \<and> n \<le> 70 then Some (n - 55)
     else None)"

text \<open>Four hexadecimal digits, as after \<open>\u\<close>.\<close>

fun hex4 :: "string \<Rightarrow> (nat \<times> string) option" where
  "hex4 (a # b # c # d # s) =
     (case (hex_val a, hex_val b, hex_val c, hex_val d) of
        (Some w, Some x, Some y, Some z) \<Rightarrow> Some (w * 4096 + x * 256 + y * 16 + z, s)
      | _ \<Rightarrow> None)"
| "hex4 _ = None"

lemma hex4_length: "hex4 s = Some (n, t) \<Longrightarrow> length s = length t + 4"
  by (induction s rule: hex4.induct) (auto split: option.splits)

text \<open>
  The rest of a string literal after its opening quote: one escape sequence or one code point
  at a time. Raw bytes that are not UTF-8 and unpaired surrogates become U+FFFD.
\<close>

definition simple_escape :: "char \<Rightarrow> nat option" where
  "simple_escape c = map_of
     [(CHR 0x22, 34), (CHR 0x5C, 92), (CHR ''/'', 47), (CHR ''b'', 8), (CHR ''f'', 12),
      (CHR ''n'', 10), (CHR ''r'', 13), (CHR ''t'', 9)] c"

definition unicode_escape :: "string \<Rightarrow> (string \<times> string) option" where
  "unicode_escape s = (case hex4 s of
       None \<Rightarrow> None
     | Some (r, t) \<Rightarrow>
         if 55296 \<le> r \<and> r < 57344 then
           (case t of b # u # t' \<Rightarrow>
              if b = CHR 0x5C \<and> u = CHR ''u'' then
                (case hex4 t' of
                   Some (r2, t'') \<Rightarrow>
                     if r < 56320 \<and> 56320 \<le> r2 \<and> r2 < 57344
                     then Some (encode_rune ((r - 55296) * 1024 + (r2 - 56320) + 65536), t'')
                     else Some (encode_rune rune_error, t)
                 | None \<Rightarrow> Some (encode_rune rune_error, t))
              else Some (encode_rune rune_error, t)
            | _ \<Rightarrow> Some (encode_rune rune_error, t))
         else Some (encode_rune r, t))"

lemma unicode_escape_length: "unicode_escape s = Some (p, t) \<Longrightarrow> length t < length s"
  by (auto simp: unicode_escape_def split: option.splits prod.splits if_splits list.splits
      dest!: hex4_length)

definition string_piece :: "string \<Rightarrow> (string \<times> string) option" where
  "string_piece s = (case s of
       [] \<Rightarrow> None
     | c # r \<Rightarrow>
         if code c < 32 then None
         else if c = CHR 0x5C then
           (case r of
              [] \<Rightarrow> None
            | e # t \<Rightarrow> if e = CHR ''u'' then unicode_escape t
                       else map_option (\<lambda>n. ([byte n], t)) (simple_escape e))
         else (case decode_rune s of (n, w) \<Rightarrow> Some (encode_rune n, drop (max 1 w) s)))"

lemma string_piece_length: "string_piece s = Some (p, t) \<Longrightarrow> length t < length s"
  by (auto simp: string_piece_def split: list.splits if_splits prod.splits
      dest!: unicode_escape_length)

function parse_string :: "string \<Rightarrow> (string \<times> string) option" where
  "parse_string s = (case s of
       [] \<Rightarrow> None
     | c # r \<Rightarrow>
         if c = CHR 0x22 then Some ([], r)
         else (case string_piece s of
                 None \<Rightarrow> None
               | Some (p, t) \<Rightarrow> map_option (\<lambda>(q, u). (p @ q, u)) (parse_string t)))"
  by pat_completeness auto
termination
  by (relation "measure length") (auto dest: string_piece_length)

declare parse_string.simps [simp del]

lemma parse_string_length: "parse_string s = Some (p, t) \<Longrightarrow> length t < length s"
proof (induction s arbitrary: p t rule: parse_string.induct)
  case (1 s)
  show ?case
  proof (cases s)
    case Nil
    with "1.prems" show ?thesis by (simp add: parse_string.simps)
  next
    case (Cons c r)
    show ?thesis
    proof (cases "c = CHR 0x22")
      case True
      with "1.prems" Cons show ?thesis by (simp add: parse_string.simps)
    next
      case False
      with "1.prems" Cons obtain q u v where
        piece: "string_piece s = Some (q, u)" and rest: "parse_string u = Some (v, t)"
        by (subst (asm) parse_string.simps) (auto split: option.splits)
      with "1.IH" Cons False have "length t < length u" by blast
      with string_piece_length [OF piece] show ?thesis by simp
    qed
  qed
qed

fun take_digits :: "string \<Rightarrow> string \<times> string" where
  "take_digits [] = ([], [])"
| "take_digits (c # s) =
     (if is_digit c then (case take_digits s of (d, r) \<Rightarrow> (c # d, r)) else ([], c # s))"

text \<open>The number grammar of RFC 8259; the literal is returned as written.\<close>

definition parse_frac :: "string \<Rightarrow> (string \<times> string) option" where
  "parse_frac s = (case s of
       c # r \<Rightarrow> if c = CHR ''.'' then
                  (case take_digits r of (d, t) \<Rightarrow> if d = [] then None else Some (c # d, t))
                else Some ([], s)
     | [] \<Rightarrow> Some ([], s))"

definition parse_exp :: "string \<Rightarrow> (string \<times> string) option" where
  "parse_exp s = (case s of
       c # r \<Rightarrow> if c = CHR ''e'' \<or> c = CHR ''E'' then
                  (case (case r of g # r' \<Rightarrow> if g = CHR ''+'' \<or> g = CHR ''-'' then ([g], r') else ([], r)
                         | [] \<Rightarrow> ([], [])) of (sg, r') \<Rightarrow>
                   case take_digits r' of (d, t) \<Rightarrow> if d = [] then None else Some (c # sg @ d, t))
                else Some ([], s)
     | [] \<Rightarrow> Some ([], s))"

definition parse_sign :: "string \<Rightarrow> string \<times> string" where
  "parse_sign s = (case s of c # r \<Rightarrow> if c = CHR ''-'' then ([c], r) else ([], s) | [] \<Rightarrow> ([], []))"

definition parse_number :: "string \<Rightarrow> (string \<times> string) option" where
  "parse_number s = (case parse_sign s of (sg, u) \<Rightarrow> case take_digits u of (d, t) \<Rightarrow>
     if d = [] \<or> (hd d = CHR ''0'' \<and> tl d \<noteq> []) then None
     else case parse_frac t of
            None \<Rightarrow> None
          | Some (f, v) \<Rightarrow> (case parse_exp v of
                               None \<Rightarrow> None
                             | Some (e, w) \<Rightarrow> Some (sg @ d @ f @ e, w)))"

lemma take_digits_length: "take_digits s = (d, r) \<Longrightarrow> length s = length d + length r"
  by (induction s arbitrary: d r) (auto split: if_splits prod.splits)

lemma parse_frac_length: "parse_frac s = Some (f, t) \<Longrightarrow> length t \<le> length s"
  by (auto simp: parse_frac_def split: list.splits if_splits prod.splits dest!: take_digits_length)

lemma parse_exp_length: "parse_exp s = Some (f, t) \<Longrightarrow> length t \<le> length s"
  by (auto simp: parse_exp_def split: list.splits if_splits prod.splits dest!: take_digits_length)

lemma parse_sign_length: "parse_sign s = (sg, u) \<Longrightarrow> length u \<le> length s"
  by (auto simp: parse_sign_def split: list.splits if_splits)

lemma parse_number_length:
  assumes "parse_number s = Some (l, t)"
  shows "length t < length s"
proof -
  obtain sg u where sg: "parse_sign s = (sg, u)" by (cases "parse_sign s")
  obtain d v where d: "take_digits u = (d, v)" by (cases "take_digits u")
  from assms sg d have ne: "d \<noteq> []" by (simp add: parse_number_def split: if_splits)
  from assms sg d obtain f x where f: "parse_frac v = Some (f, x)"
    by (auto simp: parse_number_def split: if_splits option.splits)
  from assms sg d f obtain e where e: "parse_exp x = Some (e, t)"
    by (auto simp: parse_number_def split: if_splits option.splits)
  have "length t \<le> length v" using parse_exp_length [OF e] parse_frac_length [OF f] by simp
  with parse_sign_length [OF sg] take_digits_length [OF d] ne show ?thesis
    by (cases d) simp_all
qed

subsection \<open>Values\<close>

definition literal :: "string \<Rightarrow> json \<Rightarrow> string \<Rightarrow> (json \<times> string) option" where
  "literal w v s = (if starts_with w s then Some (v, drop (length w) s) else None)"

text \<open>The next byte that is not white space, when it is the expected one.\<close>

definition expect :: "char \<Rightarrow> string \<Rightarrow> string option" where
  "expect c s = (case skip_ws s of x # t \<Rightarrow> if x = c then Some t else None | [] \<Rightarrow> None)"

definition parse_scalar :: "string \<Rightarrow> (json \<times> string) option" where
  "parse_scalar s = (case skip_ws s of
       [] \<Rightarrow> None
     | c # r \<Rightarrow>
         if c = CHR 0x22 then map_option (\<lambda>(x, t). (JStr x, t)) (parse_string r)
         else if c = CHR ''n'' then literal ''null'' JNull (c # r)
         else if c = CHR ''t'' then literal ''true'' (JBool True) (c # r)
         else if c = CHR ''f'' then literal ''false'' (JBool False) (c # r)
         else map_option (\<lambda>(x, t). (JNum x, t)) (parse_number (c # r)))"

text \<open>A member's key and the colon after it.\<close>

definition parse_key :: "string \<Rightarrow> (string \<times> string) option" where
  "parse_key s = (case expect CHR 0x22 s of
       None \<Rightarrow> None
     | Some r \<Rightarrow> (case parse_string r of
           None \<Rightarrow> None
         | Some (k, r1) \<Rightarrow> map_option (\<lambda>t. (k, t)) (expect CHR '':'' r1)))"

fun parse_value :: "nat \<Rightarrow> nat \<Rightarrow> string \<Rightarrow> (json \<times> string) option"
and parse_elems :: "nat \<Rightarrow> nat \<Rightarrow> string \<Rightarrow> (json list \<times> string) option"
and parse_members :: "nat \<Rightarrow> nat \<Rightarrow> string \<Rightarrow> ((string \<times> json) list \<times> string) option" where
  "parse_value d 0 s = None"
| "parse_value d (Suc n) s = (case expect CHR ''['' s of
       Some r \<Rightarrow>
         (if d = 0 then None
          else case expect CHR '']'' r of
                 Some t \<Rightarrow> Some (JArr [], t)
               | None \<Rightarrow> map_option (\<lambda>(x, u). (JArr x, u)) (parse_elems (d - 1) n r))
     | None \<Rightarrow> (case expect CHR 0x7B s of
           Some r \<Rightarrow>
             (if d = 0 then None
              else case expect CHR 0x7D r of
                     Some t \<Rightarrow> Some (JObj [], t)
                   | None \<Rightarrow> map_option (\<lambda>(x, u). (JObj x, u)) (parse_members (d - 1) n r))
         | None \<Rightarrow> parse_scalar s))"
| "parse_elems d 0 s = None"
| "parse_elems d (Suc n) s = (case parse_value d n s of
       None \<Rightarrow> None
     | Some (v, r) \<Rightarrow> (case expect CHR '']'' r of
           Some t \<Rightarrow> Some ([v], t)
         | None \<Rightarrow> (case expect CHR '','' r of
               None \<Rightarrow> None
             | Some t \<Rightarrow> map_option (\<lambda>(x, u). (v # x, u)) (parse_elems d n t))))"
| "parse_members d 0 s = None"
| "parse_members d (Suc n) s = (case parse_key s of
       None \<Rightarrow> None
     | Some (k, r) \<Rightarrow> (case parse_value d n r of
           None \<Rightarrow> None
         | Some (v, r') \<Rightarrow> (case expect CHR 0x7D r' of
               Some t \<Rightarrow> Some ([(k, v)], t)
             | None \<Rightarrow> (case expect CHR '','' r' of
                   None \<Rightarrow> None
                 | Some t \<Rightarrow> map_option (\<lambda>(x, u). ((k, v) # x, u)) (parse_members d n t)))))"

text \<open>A document: one value, and nothing but white space after it.\<close>

definition json_parse :: "string \<Rightarrow> json option" where
  "json_parse s = (case parse_value 10000 (2 * length s + 1) s of
       None \<Rightarrow> None
     | Some (v, t) \<Rightarrow> if skip_ws t = [] then Some v else None)"

subsection \<open>The fuel is enough\<close>

text \<open>Every parser consumes input when it succeeds, so the fuel bounds the work.\<close>

definition shortens :: "(string \<Rightarrow> ('a \<times> string) option) \<Rightarrow> bool" where
  "shortens p \<longleftrightarrow> (\<forall>s v t. p s = Some (v, t) \<longrightarrow> length t < length s)"

lemma shortensD: "shortens p \<Longrightarrow> p s = Some (v, t) \<Longrightarrow> length t < length s"
  by (simp add: shortens_def)

lemma skip_ws_Cons_length: "skip_ws s = c # r \<Longrightarrow> length r < length s"
  using skip_ws_length [of s] by simp

lemma expect_length: "expect c s = Some t \<Longrightarrow> length t < length s"
  by (auto simp: expect_def split: list.splits if_splits dest: skip_ws_Cons_length)

lemma literal_length: "literal w v s = Some (x, t) \<Longrightarrow> w \<noteq> [] \<Longrightarrow> s \<noteq> [] \<Longrightarrow> length t < length s"
  by (cases w; cases s) (auto simp: literal_def split: if_splits)

lemma parse_key_length: "parse_key s = Some (k, t) \<Longrightarrow> length t < length s"
  by (auto simp: parse_key_def split: option.splits
      dest!: expect_length parse_string_length)

lemma parse_scalar_length:
  assumes "parse_scalar s = Some (v, t)"
  shows "length t < length s"
proof -
  from assms obtain c r where c: "skip_ws s = c # r"
    by (auto simp: parse_scalar_def split: list.splits)
  with assms have "length t < length (c # r)"
    by (auto simp: parse_scalar_def split: if_splits
        dest!: parse_string_length parse_number_length literal_length)
  with skip_ws_length [of s] c show ?thesis by simp
qed

lemma shortens_value:
  assumes "\<And>d. shortens (parse_elems d n)" and "\<And>d. shortens (parse_members d n)"
  shows "shortens (parse_value d (Suc n))"
  unfolding shortens_def
proof (intro allI impI)
  fix s v t
  assume p: "parse_value d (Suc n) s = Some (v, t)"
  consider (arr) r where "expect CHR ''['' s = Some r"
    | (obj) r where "expect CHR ''['' s = None" "expect CHR 0x7B s = Some r"
    | (scalar) "expect CHR ''['' s = None" "expect CHR 0x7B s = None" by fastforce
  then show "length t < length s"
  proof cases
    case arr
    with p have "length t < length r"
      by (auto split: option.splits if_splits dest: expect_length shortensD [OF assms(1)])
    with expect_length [OF arr] show ?thesis by simp
  next
    case obj
    with p have "length t < length r"
      by (auto split: option.splits if_splits dest: expect_length shortensD [OF assms(2)])
    with expect_length [OF obj(2)] show ?thesis by simp
  next
    case scalar
    with p show ?thesis by (simp add: parse_scalar_length)
  qed
qed

lemma shortens_elems:
  assumes "shortens (parse_value d n)" and "shortens (parse_elems d n)"
  shows "shortens (parse_elems d (Suc n))"
  unfolding shortens_def
proof (intro allI impI)
  fix s vs t
  assume p: "parse_elems d (Suc n) s = Some (vs, t)"
  then obtain v r where v: "parse_value d n s = Some (v, r)" by (auto split: option.splits)
  with p have "length t < length r"
    by (auto split: option.splits dest!: expect_length shortensD [OF assms(2)])
  with shortensD [OF assms(1) v] show "length t < length s" by simp
qed

lemma shortens_members:
  assumes "shortens (parse_value d n)" and "shortens (parse_members d n)"
  shows "shortens (parse_members d (Suc n))"
  unfolding shortens_def
proof (intro allI impI)
  fix s ms t
  assume p: "parse_members d (Suc n) s = Some (ms, t)"
  then obtain k r where k: "parse_key s = Some (k, r)" by (auto split: option.splits)
  with p obtain v u where v: "parse_value d n r = Some (v, u)" by (auto split: option.splits)
  with p k have "length t < length u"
    by (auto split: option.splits dest!: expect_length shortensD [OF assms(2)])
  with parse_key_length [OF k] shortensD [OF assms(1) v] show "length t < length s" by simp
qed

lemma parse_shorter:
  "(\<forall>d. shortens (parse_value d n)) \<and> (\<forall>d. shortens (parse_elems d n)) \<and>
   (\<forall>d. shortens (parse_members d n))"
proof (induction n)
  case 0
  show ?case by (simp add: shortens_def)
next
  case (Suc n)
  then show ?case by (blast intro: shortens_value shortens_elems shortens_members)
qed

lemmas parse_value_shorter = parse_shorter [THEN conjunct1, rule_format, THEN shortensD]

text \<open>Any two amounts of fuel that are large enough give the same result.\<close>

definition fuel_indep :: "(nat \<Rightarrow> string \<Rightarrow> 'a) \<Rightarrow> nat \<Rightarrow> nat \<Rightarrow> bool" where
  "fuel_indep p k n \<longleftrightarrow> (\<forall>s m. 2 * length s + k \<le> n \<longrightarrow> 2 * length s + k \<le> m \<longrightarrow> p n s = p m s)"

lemma fuel_indepD:
  "fuel_indep p k n \<Longrightarrow> 2 * length s + k \<le> n \<Longrightarrow> 2 * length s + k \<le> m \<Longrightarrow> p n s = p m s"
  unfolding fuel_indep_def by blast

lemma fuel_indepI:
  assumes "\<And>(s :: string) m. 2 * length s + k \<le> Suc n \<Longrightarrow> 2 * length s + k \<le> Suc m \<Longrightarrow> p (Suc n) s = p (Suc m) s"
    and "0 < k"
  shows "fuel_indep p k (Suc n)"
  unfolding fuel_indep_def
proof (intro allI impI)
  fix s :: string and m
  assume n: "2 * length s + k \<le> Suc n" and m: "2 * length s + k \<le> m"
  from m assms(2) obtain l where "m = Suc l" by (cases m) auto
  with assms(1) [of s l] n m show "p (Suc n) s = p m s" by (simp only:)
qed

lemma fuel_value:
  assumes "\<And>d. fuel_indep (parse_elems d) 2 n" and "\<And>d. fuel_indep (parse_members d) 2 n"
  shows "fuel_indep (parse_value d) 1 (Suc n)"
proof (rule fuel_indepI)
  fix s :: string and m
  assume fuel: "2 * length s + 1 \<le> Suc n" "2 * length s + 1 \<le> Suc m"
  have "parse_elems (d - 1) n r = parse_elems (d - 1) m r" if "expect CHR ''['' s = Some r" for r
    using fuel expect_length [OF that] by (intro fuel_indepD [OF assms(1)]) auto
  moreover
  have "parse_members (d - 1) n r = parse_members (d - 1) m r" if "expect CHR 0x7B s = Some r" for r
    using fuel expect_length [OF that] by (intro fuel_indepD [OF assms(2)]) auto
  ultimately show "parse_value d (Suc n) s = parse_value d (Suc m) s"
    by (auto split: option.splits)
qed simp

lemma fuel_elems:
  assumes "fuel_indep (parse_value d) 1 n" and "fuel_indep (parse_elems d) 2 n"
  shows "fuel_indep (parse_elems d) 2 (Suc n)"
proof (rule fuel_indepI)
  fix s :: string and m
  assume fuel: "2 * length s + 2 \<le> Suc n" "2 * length s + 2 \<le> Suc m"
  have "parse_value d n s = parse_value d m s"
    using fuel by (intro fuel_indepD [OF assms(1)]) auto
  moreover
  have "parse_elems d n t = parse_elems d m t"
    if "parse_value d m s = Some (x, r)" "expect CHR '','' r = Some t" for x r t
    using fuel parse_value_shorter [OF that(1)] expect_length [OF that(2)]
    by (intro fuel_indepD [OF assms(2)]) auto
  ultimately show "parse_elems d (Suc n) s = parse_elems d (Suc m) s"
    by (auto split: option.splits)
qed simp

lemma fuel_members:
  assumes "fuel_indep (parse_value d) 1 n" and "fuel_indep (parse_members d) 2 n"
  shows "fuel_indep (parse_members d) 2 (Suc n)"
proof (rule fuel_indepI)
  fix s :: string and m
  assume fuel: "2 * length s + 2 \<le> Suc n" "2 * length s + 2 \<le> Suc m"
  have val: "parse_value d n r = parse_value d m r" if "parse_key s = Some (k, r)" for k r
    using fuel parse_key_length [OF that] by (intro fuel_indepD [OF assms(1)]) auto
  have mem: "parse_members d n t = parse_members d m t"
    if "parse_key s = Some (k, r)" "parse_value d m r = Some (x, u)" "expect CHR '','' u = Some t"
    for k r x u t
    using fuel parse_key_length [OF that(1)] parse_value_shorter [OF that(2)]
      expect_length [OF that(3)]
    by (intro fuel_indepD [OF assms(2)]) auto
  show "parse_members d (Suc n) s = parse_members d (Suc m) s"
    by (cases "parse_key s") (auto simp: val mem split: option.splits)
qed simp

lemma parse_fuel:
  "(\<forall>d. fuel_indep (parse_value d) 1 n) \<and> (\<forall>d. fuel_indep (parse_elems d) 2 n) \<and>
   (\<forall>d. fuel_indep (parse_members d) 2 n)"
proof (induction n)
  case 0
  show ?case by (simp add: fuel_indep_def)
next
  case (Suc n)
  then show ?case by (blast intro: fuel_value fuel_elems fuel_members)
qed

lemma parse_fuel_enough:
  "2 * length s + 1 \<le> n \<Longrightarrow> parse_value d n s = parse_value d (2 * length s + 1) s"
  by (rule fuel_indepD [OF parse_fuel [THEN conjunct1, rule_format]]) auto

end
