(* ===== verification/Unmarshal.thy ===== *)
theory Unmarshal
  imports Json
begin

text \<open>
  The storing half of \<open>json.Unmarshal\<close>. A \<open>store\<close> takes the current value of a Go
  variable and a JSON value and gives the variable's new value, or \<open>None\<close> where Go reports
  an \<open>UnmarshalTypeError\<close>. Go goes on after such an error and reports the first one at the
  end; the operator discards the target whenever there was one, so \<open>None\<close> ends the decoding
  here.
\<close>

type_synonym 'a store = "'a \<Rightarrow> json \<Rightarrow> 'a option"

fun store_string :: "string store" where
  "store_string cur JNull = Some cur"
| "store_string cur (JStr s) = Some s"
| "store_string cur _ = None"

fun store_bool :: "bool store" where
  "store_bool cur JNull = Some cur"
| "store_bool cur (JBool b) = Some b"
| "store_bool cur _ = None"

fun store_int :: "int64 store" where
  "store_int cur JNull = Some cur"
| "store_int cur (JNum l) = (case parse_int64 l of Inl _ \<Rightarrow> None | Inr n \<Rightarrow> Some n)"
| "store_int cur _ = None"

text \<open>A \<open>json.RawMessage\<close> takes any value, null too; \<open>None\<close> is the empty one.\<close>

definition store_raw :: "json option store" where
  "store_raw cur v = Some (Some v)"

text \<open>A pointer: null stores nil, anything else allocates the target when it is nil.\<close>

definition store_pointer :: "'a \<Rightarrow> 'a store \<Rightarrow> 'a option store" where
  "store_pointer zero st cur v = (case v of
       JNull \<Rightarrow> Some None
     | _ \<Rightarrow> map_option Some (st (case cur of None \<Rightarrow> zero | Some x \<Rightarrow> x) v))"

text \<open>A slice: null stores nil (the empty list, as only its length is used), an array its elements.\<close>

definition store_slice :: "'a \<Rightarrow> 'a store \<Rightarrow> 'a list store" where
  "store_slice zero st cur v = (case v of
       JNull \<Rightarrow> Some []
     | JArr vs \<Rightarrow> those (map (st zero) vs)
     | _ \<Rightarrow> None)"

text \<open>
  Keys match field names up to case. Besides the ASCII letters, two code points fold to an
  ASCII letter: U+212A to k and U+017F to s.
\<close>

fun fold_name :: "string \<Rightarrow> string" where
  "fold_name [] = []"
| "fold_name (c # s) =
     (if starts_with (map byte [226, 132, 170]) (c # s) then CHR ''k'' # fold_name (drop 2 s)
      else if starts_with (map byte [197, 191]) (c # s) then CHR ''s'' # fold_name (drop 1 s)
      else (if 65 \<le> code c \<and> code c \<le> 90 then byte (code c + 32) else c) # fold_name s)"

text \<open>A name of lower-case ASCII letters and underscores folds to itself.\<close>

definition plain_name :: "string \<Rightarrow> bool" where
  "plain_name s \<longleftrightarrow> (\<forall>c\<in>set s. code c = 95 \<or> 97 \<le> code c \<and> code c \<le> 122)"

lemma fold_name_plain: "plain_name s \<Longrightarrow> fold_name s = s"
proof (induction s)
  case (Cons c s)
  then have c: "code c = 95 \<or> 97 \<le> code c \<and> code c \<le> 122" and s: "fold_name s = s"
    by (auto simp: plain_name_def)
  have "code (byte 226) = 226" "code (byte 197) = 197" by simp_all
  with c have "byte 226 \<noteq> c" "byte 197 \<noteq> c" by auto
  with c s show ?case by auto
qed simp

declare fold_name.simps [simp del]

text \<open>
  A struct: null leaves it alone, the members of an object are stored in document order, so
  that a repeated key overwrites, and a member whose key is no field is skipped.
\<close>

type_synonym 'r field = "string \<times> 'r store"

definition field :: "string \<Rightarrow> ('r \<Rightarrow> 'a) \<Rightarrow> (('a \<Rightarrow> 'a) \<Rightarrow> 'r \<Rightarrow> 'r) \<Rightarrow> 'a store \<Rightarrow> 'r field" where
  "field name get upd st = (name, \<lambda>r v. map_option (\<lambda>x. upd (\<lambda>_. x) r) (st (get r) v))"

definition find_field :: "'r field list \<Rightarrow> string \<Rightarrow> 'r store option" where
  "find_field fs k = map_option snd (find (\<lambda>f. fold_name (fst f) = fold_name k) fs)"

fun store_members :: "'r field list \<Rightarrow> 'r \<Rightarrow> (string \<times> json) list \<Rightarrow> 'r option" where
  "store_members fs r [] = Some r"
| "store_members fs r ((k, v) # ms) = (case find_field fs k of
       None \<Rightarrow> store_members fs r ms
     | Some st \<Rightarrow> (case st r v of None \<Rightarrow> None | Some r' \<Rightarrow> store_members fs r' ms))"

definition store_struct :: "'r field list \<Rightarrow> 'r store" where
  "store_struct fs cur v = (case v of
       JNull \<Rightarrow> Some cur
     | JObj ms \<Rightarrow> store_members fs cur ms
     | _ \<Rightarrow> None)"

text \<open>\<open>json.Unmarshal\<close>: a document that is not valid JSON stores nothing.\<close>

definition unmarshal :: "'r store \<Rightarrow> 'r \<Rightarrow> string \<Rightarrow> 'r option" where
  "unmarshal st r s = (case json_parse s of None \<Rightarrow> None | Some v \<Rightarrow> st r v)"

lemma unmarshal_null: "json_parse s = Some JNull \<Longrightarrow> unmarshal (store_struct fs) r s = Some r"
  by (simp add: unmarshal_def store_struct_def)

lemma unmarshal_empty_object:
  "json_parse s = Some (JObj []) \<Longrightarrow> unmarshal (store_struct fs) r s = Some r"
  by (simp add: unmarshal_def store_struct_def)

end
