(* ===== verification/Wire.thy ===== *)
theory Wire
  imports ApiTypes Unmarshal
begin

text \<open>
  The shapes that cross the boundary between the operator and the outside: the request and
  response types of \<open>internal/backendclient/client.go\<close>, the error values, and the recorded
  events. A request body is kept as the Go value handed to \<open>json.Marshal\<close>, which cannot fail
  on these types (its text is the subject of \<open>Marshal\<close>); a response body is kept as the bytes received and decoded by the model of
  \<open>encoding/json\<close>.
\<close>

subsection \<open>Requests\<close>

record WireSegmentationRule =
  w_ports :: "32 word list option"
  w_peerSelector :: "labels option"
  w_peerNamespace :: string

record WireSegmentationPolicySpec =
  ws_selector :: WorkloadSelector
  ws_ingress :: "WireSegmentationRule list option"
  ws_egress :: "WireSegmentationRule list option"
  ws_providerRef :: string

record WireRuntimeSecurityPolicySpec =
  wr_selector :: WorkloadSelector
  wr_tracingPolicyRef :: string
  wr_deniedBinaries :: "string list option"

record segmentationReconcileRequest =
  srq_clusterID :: int64
  srq_namespace :: string
  srq_name :: string
  srq_spec :: WireSegmentationPolicySpec

record runtimeSecurityReconcileRequest =
  rrq_clusterID :: int64
  rrq_namespace :: string
  rrq_name :: string
  rrq_spec :: WireRuntimeSecurityPolicySpec

record closeRequest =
  crq_crKind :: string
  crq_clusterID :: int64
  crq_namespace :: string
  crq_name :: string

datatype request_body =
    SegmentationBody segmentationReconcileRequest
  | RuntimeBody runtimeSecurityReconcileRequest
  | CloseBody closeRequest
  | PausedBody bool string   \<comment> \<open>\<open>paused\<close>, \<open>by\<close>\<close>

record http_request =
  rq_method :: string
  rq_url :: string
  rq_header :: "(string \<times> string) list"
  rq_body :: "request_body option"

subsection \<open>Responses\<close>

record ReconcileResult =
  rr_status :: string
  rr_edgesUpserted :: int64
  rr_edgesClosed :: int64
  rr_edgeKeys :: "string list"
  rr_matchedWorkloads :: int64
  rr_unverifiedEdgeKeys :: "string list"
  rr_providerInstalled :: "bool option"

record CloseResult =
  cl_status :: string
  cl_edgesClosed :: int64
  cl_unverifiedEdgeKeys :: "string list"

record PausedState =
  ps_paused :: bool
  ps_updatedAt :: "string option"
  ps_updatedBy :: "string option"
  ps_everSet :: bool

record ProviderHealth =
  ph_name :: string
  ph_checked :: bool
  ph_healthy :: "bool option"
  ph_message :: string
  ph_lastQueryError :: "string option"
  ph_blockers :: "string list"

record ProviderHealthResponse =
  phr_clusterID :: int64
  phr_providers :: "ProviderHealth list"

text \<open>Zero values, and the fields with the keys of their \<open>json\<close> tags.\<close>

definition zero_ReconcileResult :: ReconcileResult where
  "zero_ReconcileResult = \<lparr>rr_status = [], rr_edgesUpserted = 0, rr_edgesClosed = 0,
     rr_edgeKeys = [], rr_matchedWorkloads = 0, rr_unverifiedEdgeKeys = [],
     rr_providerInstalled = None\<rparr>"

definition store_ReconcileResult :: "ReconcileResult store" where
  "store_ReconcileResult = store_struct
    [field ''status'' rr_status rr_status_update store_string,
     field ''edges_upserted'' rr_edgesUpserted rr_edgesUpserted_update store_int,
     field ''edges_closed'' rr_edgesClosed rr_edgesClosed_update store_int,
     field ''edge_keys'' rr_edgeKeys rr_edgeKeys_update (store_slice [] store_string),
     field ''matched_workloads'' rr_matchedWorkloads rr_matchedWorkloads_update store_int,
     field ''unverified_edge_keys'' rr_unverifiedEdgeKeys rr_unverifiedEdgeKeys_update
       (store_slice [] store_string),
     field ''provider_installed'' rr_providerInstalled rr_providerInstalled_update
       (store_pointer False store_bool)]"

definition zero_CloseResult :: CloseResult where
  "zero_CloseResult = \<lparr>cl_status = [], cl_edgesClosed = 0, cl_unverifiedEdgeKeys = []\<rparr>"

definition store_CloseResult :: "CloseResult store" where
  "store_CloseResult = store_struct
    [field ''status'' cl_status cl_status_update store_string,
     field ''edges_closed'' cl_edgesClosed cl_edgesClosed_update store_int,
     field ''unverified_edge_keys'' cl_unverifiedEdgeKeys cl_unverifiedEdgeKeys_update
       (store_slice [] store_string)]"

definition zero_PausedState :: PausedState where
  "zero_PausedState = \<lparr>ps_paused = False, ps_updatedAt = None, ps_updatedBy = None,
     ps_everSet = False\<rparr>"

definition store_PausedState :: "PausedState store" where
  "store_PausedState = store_struct
    [field ''paused'' ps_paused ps_paused_update store_bool,
     field ''updated_at'' ps_updatedAt ps_updatedAt_update (store_pointer [] store_string),
     field ''updated_by'' ps_updatedBy ps_updatedBy_update (store_pointer [] store_string),
     field ''ever_set'' ps_everSet ps_everSet_update store_bool]"

definition zero_ProviderHealth :: ProviderHealth where
  "zero_ProviderHealth = \<lparr>ph_name = [], ph_checked = False, ph_healthy = None,
     ph_message = [], ph_lastQueryError = None, ph_blockers = []\<rparr>"

definition store_ProviderHealth :: "ProviderHealth store" where
  "store_ProviderHealth = store_struct
    [field ''name'' ph_name ph_name_update store_string,
     field ''checked'' ph_checked ph_checked_update store_bool,
     field ''healthy'' ph_healthy ph_healthy_update (store_pointer False store_bool),
     field ''message'' ph_message ph_message_update store_string,
     field ''last_query_error'' ph_lastQueryError ph_lastQueryError_update
       (store_pointer [] store_string),
     field ''blockers'' ph_blockers ph_blockers_update (store_slice [] store_string)]"

definition zero_ProviderHealthResponse :: ProviderHealthResponse where
  "zero_ProviderHealthResponse = \<lparr>phr_clusterID = 0, phr_providers = []\<rparr>"

definition store_ProviderHealthResponse :: "ProviderHealthResponse store" where
  "store_ProviderHealthResponse = store_struct
    [field ''cluster_id'' phr_clusterID phr_clusterID_update store_int,
     field ''providers'' phr_providers phr_providers_update
       (store_slice zero_ProviderHealth store_ProviderHealth)]"

definition Determinate :: "ProviderHealth \<Rightarrow> bool" where
  "Determinate p \<longleftrightarrow> ph_checked p \<and> ph_healthy p \<noteq> None"

subsection \<open>Errors\<close>

record APIError =
  ae_statusCode :: nat
  ae_category :: string
  ae_code :: string
  ae_message :: string

text \<open>
  An error value of code outside the repository, known by its text and, for errors of the API
  server, the machine reason it carries.
\<close>

record foreign =
  f_reason :: string
  f_text :: string

text \<open>
  The errors the operator passes around. \<open>Wrap pre e post\<close> is \<open>fmt.Errorf\<close> with one
  \<open>%w\<close>, \<open>pre\<close> and \<open>post\<close> being the formatted text around it; \<open>Errorf\<close> is
  \<open>fmt.Errorf\<close> without.
\<close>

datatype gerror =
    Unconfigured "string list"
  | API APIError
  | Foreign foreign
  | Errorf string
  | Wrap string gerror string

subsection \<open>Events\<close>

record http_response =
  rs_status :: nat
  rs_body :: "foreign + string"   \<comment> \<open>what \<open>io.ReadAll\<close> makes of the body\<close>

datatype event =
    EvGet kind NamespacedName "foreign + k8s_object"
  | EvUpdate k8s_object "foreign + k8s_object"
  | EvStatusUpdate k8s_object "foreign + k8s_object"
  | EvHttp http_request "foreign + http_response"
  | EvDiscovery string "foreign + string list"

type_synonym ('w, 'a) op = "(event, 'w, 'a) io"

subsection \<open>The environment\<close>

text \<open>
  The HTTP transport: whether \<open>http.NewRequestWithContext\<close> rejects the method and URL, the
  round trip, and the error \<open>encoding/json\<close> describes a body with that it cannot store
  (the path names the target type). \<open>roundTrip\<close> is a whole \<open>http.Client.Do\<close>, with the redirects that
  \<open>net/http\<close> follows inside it and the response of the last one as its answer: an event stands for
  one such call.
\<close>

record 'w net =
  newRequest :: "string \<Rightarrow> string \<Rightarrow> foreign option"
  roundTrip :: "http_request \<Rightarrow> 'w \<Rightarrow> (foreign + http_response) \<times> 'w"
  jsonError :: "string \<Rightarrow> string \<Rightarrow> foreign"

definition http_do :: "'w net \<Rightarrow> http_request \<Rightarrow> ('w, foreign + http_response) op" where
  "http_do N req = call (roundTrip N req) (EvHttp req)"

text \<open>
  The Kubernetes client libraries. \<open>setStatusCondition\<close> reads the clock, so it sees the
  external state; the finalizer helpers of \<open>controllerutil\<close> act on an object's finalizer
  list; \<open>isPrint\<close> is the Unicode table behind \<open>%q\<close>.
\<close>

record 'w k8s =
  getSeg :: "NamespacedName \<Rightarrow> 'w \<Rightarrow> (foreign + SegmentationPolicy) \<times> 'w"
  updateSeg :: "SegmentationPolicy \<Rightarrow> 'w \<Rightarrow> (foreign + SegmentationPolicy) \<times> 'w"
  statusSeg :: "SegmentationPolicy \<Rightarrow> 'w \<Rightarrow> (foreign + SegmentationPolicy) \<times> 'w"
  getRt :: "NamespacedName \<Rightarrow> 'w \<Rightarrow> (foreign + RuntimeSecurityPolicy) \<times> 'w"
  updateRt :: "RuntimeSecurityPolicy \<Rightarrow> 'w \<Rightarrow> (foreign + RuntimeSecurityPolicy) \<times> 'w"
  statusRt :: "RuntimeSecurityPolicy \<Rightarrow> 'w \<Rightarrow> (foreign + RuntimeSecurityPolicy) \<times> 'w"
  getPc :: "NamespacedName \<Rightarrow> 'w \<Rightarrow> (foreign + PlatformConfig) \<times> 'w"
  statusPc :: "PlatformConfig \<Rightarrow> 'w \<Rightarrow> (foreign + PlatformConfig) \<times> 'w"
  isNotFound :: "foreign option \<Rightarrow> bool"
  ignoreNotFound :: "foreign option \<Rightarrow> foreign option"
  setStatusCondition :: "'w \<Rightarrow> Condition list \<Rightarrow> Condition \<Rightarrow> Condition list"
  containsFinalizer :: "string list \<Rightarrow> string \<Rightarrow> bool"
  addFinalizer :: "string list \<Rightarrow> string \<Rightarrow> string list"
  removeFinalizer :: "string list \<Rightarrow> string \<Rightarrow> string list"
  timeNow :: "'w \<Rightarrow> time"
  isPrint :: "nat \<Rightarrow> bool"

definition answer :: "('a \<Rightarrow> k8s_object) \<Rightarrow> foreign + 'a \<Rightarrow> foreign + k8s_object" where
  "answer mk r = (case r of Inl e \<Rightarrow> Inl e | Inr x \<Rightarrow> Inr (mk x))"

lemma answer_simps [simp]: "answer mk (Inl e) = Inl e" "answer mk (Inr x) = Inr (mk x)"
  by (simp_all add: answer_def)

definition get_seg :: "'w k8s \<Rightarrow> NamespacedName \<Rightarrow> ('w, foreign + SegmentationPolicy) op" where
  "get_seg K n = call (getSeg K n) (\<lambda>r. EvGet SegmentationPolicyKind n (answer SegObj r))"

definition update_seg :: "'w k8s \<Rightarrow> SegmentationPolicy \<Rightarrow> ('w, foreign + SegmentationPolicy) op" where
  "update_seg K x = call (updateSeg K x) (\<lambda>r. EvUpdate (SegObj x) (answer SegObj r))"

definition status_seg :: "'w k8s \<Rightarrow> SegmentationPolicy \<Rightarrow> ('w, foreign + SegmentationPolicy) op" where
  "status_seg K x = call (statusSeg K x) (\<lambda>r. EvStatusUpdate (SegObj x) (answer SegObj r))"

definition get_rt :: "'w k8s \<Rightarrow> NamespacedName \<Rightarrow> ('w, foreign + RuntimeSecurityPolicy) op" where
  "get_rt K n = call (getRt K n) (\<lambda>r. EvGet RuntimeSecurityPolicyKind n (answer RtObj r))"

definition update_rt :: "'w k8s \<Rightarrow> RuntimeSecurityPolicy \<Rightarrow> ('w, foreign + RuntimeSecurityPolicy) op" where
  "update_rt K x = call (updateRt K x) (\<lambda>r. EvUpdate (RtObj x) (answer RtObj r))"

definition status_rt :: "'w k8s \<Rightarrow> RuntimeSecurityPolicy \<Rightarrow> ('w, foreign + RuntimeSecurityPolicy) op" where
  "status_rt K x = call (statusRt K x) (\<lambda>r. EvStatusUpdate (RtObj x) (answer RtObj r))"

definition get_pc :: "'w k8s \<Rightarrow> NamespacedName \<Rightarrow> ('w, foreign + PlatformConfig) op" where
  "get_pc K n = call (getPc K n) (\<lambda>r. EvGet PlatformConfigKind n (answer PcObj r))"

definition status_pc :: "'w k8s \<Rightarrow> PlatformConfig \<Rightarrow> ('w, foreign + PlatformConfig) op" where
  "status_pc K x = call (statusPc K x) (\<lambda>r. EvStatusUpdate (PcObj x) (answer PcObj r))"

lemmas op_defs = http_do_def get_seg_def update_seg_def status_seg_def get_rt_def update_rt_def
  status_rt_def get_pc_def status_pc_def

text \<open>
  What the operator relies on of the Kubernetes libraries, as their documentation states it:
  a set condition is the one found for its type and leaves the other types alone; an added
  finalizer is contained, a removed one is not, and the others stay; no error is not a
  not-found error; \<open>IgnoreNotFound\<close> drops exactly the not-found errors.
\<close>

definition sets_condition :: "(Condition list \<Rightarrow> Condition \<Rightarrow> Condition list) \<Rightarrow> bool" where
  "sets_condition f \<longleftrightarrow> (\<forall>cs c.
     (\<exists>d. find_condition (c_type c) (f cs c) = Some d \<and> same_verdict c d) \<and>
     (\<forall>t. t \<noteq> c_type c \<longrightarrow> find_condition t (f cs c) = find_condition t cs))"

definition k8s_laws :: "'w k8s \<Rightarrow> bool" where
  "k8s_laws K \<longleftrightarrow>
     (\<forall>w. sets_condition (setStatusCondition K w)) \<and>
     (\<forall>fs f. containsFinalizer K (addFinalizer K fs f) f) \<and>
     (\<forall>fs f. \<not> containsFinalizer K (removeFinalizer K fs f) f) \<and>
     (\<forall>fs f g. g \<noteq> f \<longrightarrow> containsFinalizer K (removeFinalizer K fs f) g = containsFinalizer K fs g) \<and>
     \<not> isNotFound K None \<and>
     (\<forall>e. ignoreNotFound K e = (if isNotFound K e then None else e))"

end
