(* ===== verification/BackendClient.thy ===== *)
theory BackendClient
  imports Wire
begin

text \<open>
  \<open>internal/backendclient/client.go\<close>: the client of the control-plane API. Its state is
  the record \<open>Client\<close>; a client with a non-empty \<open>missing\<close> is the stub of an
  unconfigured operator. \<open>client_do\<close> is the one place a request is made, the six exported
  calls go through it, and the predicates on errors are what the reconcilers branch on.
\<close>

subsection \<open>The client\<close>

definition clientTimeout :: duration where "clientTimeout = 30 * second"

record Client =
  baseURL :: string
  token :: string
  httpTimeout :: duration
  missing :: "string list"

definition NewClient :: "string \<Rightarrow> string \<Rightarrow> Client" where
  "NewClient url tok = \<lparr>baseURL = trim_right_char CHR ''/'' url, token = tok,
     httpTimeout = clientTimeout, missing = []\<rparr>"

definition NewUnconfigured :: "string list \<Rightarrow> Client" where
  "NewUnconfigured ms = \<lparr>baseURL = [], token = [], httpTimeout = clientTimeout, missing = ms\<rparr>"

subsection \<open>Errors\<close>

definition unconfigured_text :: "string list \<Rightarrow> string" where
  "unconfigured_text ms = ''the K8Boss control-plane connection is not configured ('' @
     join '', '' ms @ '' unset), so no call was attempted''"

definition api_error_text :: "APIError \<Rightarrow> string" where
  "api_error_text e =
     (if ae_category e \<noteq> [] \<and> ae_code e \<noteq> [] then
        ''HTTP '' @ show_nat (ae_statusCode e) @ '' '' @ ae_category e @ ''/'' @ ae_code e @
        '': '' @ ae_message e
      else if ae_category e \<noteq> [] then
        ''HTTP '' @ show_nat (ae_statusCode e) @ '' '' @ ae_category e @ '': '' @ ae_message e
      else ''HTTP '' @ show_nat (ae_statusCode e) @ '': '' @ ae_message e)"

text \<open>\<open>Error()\<close> of every error value.\<close>

fun error_text :: "gerror \<Rightarrow> string" where
  "error_text (Unconfigured ms) = unconfigured_text ms"
| "error_text (API e) = api_error_text e"
| "error_text (Foreign f) = f_text f"
| "error_text (Errorf s) = s"
| "error_text (Wrap pre e post) = pre @ error_text e @ post"

text \<open>\<open>errors.As\<close> for the two error types of the package: the first of the wrap chain.\<close>

fun as_unconfigured :: "gerror \<Rightarrow> string list option" where
  "as_unconfigured (Unconfigured ms) = Some ms"
| "as_unconfigured (Wrap _ e _) = as_unconfigured e"
| "as_unconfigured _ = None"

fun as_api :: "gerror \<Rightarrow> APIError option" where
  "as_api (API e) = Some e"
| "as_api (Wrap _ e _) = as_api e"
| "as_api _ = None"

definition IsUnconfigured :: "gerror \<Rightarrow> bool" where
  "IsUnconfigured err \<longleftrightarrow> as_unconfigured err \<noteq> None"

definition StatusLocked :: nat where "StatusLocked = 423"
definition StatusServiceUnavailable :: nat where "StatusServiceUnavailable = 503"

definition IsPaused :: "gerror \<Rightarrow> bool" where
  "IsPaused err = (case as_api err of None \<Rightarrow> False
     | Some e \<Rightarrow> ae_statusCode e = StatusLocked \<or> ae_category e = ''paused'')"

definition IsProviderUnavailable :: "gerror \<Rightarrow> bool" where
  "IsProviderUnavailable err = (case as_api err of None \<Rightarrow> False
     | Some e \<Rightarrow> ae_statusCode e = StatusServiceUnavailable \<or>
                ae_category e = ''provider_unavailable'')"

definition IsWriteNotVerified :: "gerror \<Rightarrow> bool" where
  "IsWriteNotVerified err = (case as_api err of None \<Rightarrow> False
     | Some e \<Rightarrow> ae_category e = ''write_not_verified'')"

subsection \<open>Reading an error response\<close>

definition maxMessage :: nat where "maxMessage = 512"

definition truncateBody :: "string \<Rightarrow> string" where
  "truncateBody s = (let t = trim_space s in
     if length t > maxMessage then take maxMessage t @ ellipsis
     else if t = [] then ''(empty response body)''
     else t)"

record errorDetail =
  ed_detail :: "json option"
  ed_reason :: string

definition zero_errorDetail :: errorDetail where
  "zero_errorDetail = \<lparr>ed_detail = None, ed_reason = []\<rparr>"

definition store_errorDetail :: "errorDetail store" where
  "store_errorDetail = store_struct
    [field ''detail'' ed_detail ed_detail_update store_raw,
     field ''reason'' ed_reason ed_reason_update store_string]"

record structuredDetail =
  sd_category :: string
  sd_code :: string
  sd_message :: string

definition zero_structuredDetail :: structuredDetail where
  "zero_structuredDetail = \<lparr>sd_category = [], sd_code = [], sd_message = []\<rparr>"

definition store_structuredDetail :: "structuredDetail store" where
  "store_structuredDetail = store_struct
    [field ''category'' sd_category sd_category_update store_string,
     field ''code'' sd_code sd_code_update store_string,
     field ''message'' sd_message sd_message_update store_string]"

definition raw_error :: "nat \<Rightarrow> string \<Rightarrow> APIError" where
  "raw_error st body =
     \<lparr>ae_statusCode = st, ae_category = [], ae_code = [], ae_message = truncateBody body\<rparr>"

text \<open>The cluster-layer shape: \<open>detail\<close> is a plain string (or null), \<open>reason\<close> the key.\<close>

definition parse_plain :: "nat \<Rightarrow> string \<Rightarrow> errorDetail \<Rightarrow> json \<Rightarrow> APIError" where
  "parse_plain st body env detail = (case store_string [] detail of
       Some plain \<Rightarrow>
         \<lparr>ae_statusCode = st,
          ae_category = (if ed_reason env \<noteq> [] then ''cluster'' else []),
          ae_code = ed_reason env, ae_message = plain\<rparr>
     | None \<Rightarrow> raw_error st body)"

text \<open>
  The second \<open>json.Unmarshal\<close> reads \<open>env.Detail\<close>, the raw text of a value that has been
  checked already, so it stores the value itself.
\<close>

definition parseAPIError :: "nat \<Rightarrow> string \<Rightarrow> APIError" where
  "parseAPIError st body = (case unmarshal store_errorDetail zero_errorDetail body of
       None \<Rightarrow> raw_error st body
     | Some env \<Rightarrow> (case ed_detail env of
           None \<Rightarrow> raw_error st body
         | Some detail \<Rightarrow>
             (case store_structuredDetail zero_structuredDetail detail of
                Some sd \<Rightarrow>
                  if sd_category sd \<noteq> [] \<or> sd_code sd \<noteq> [] then
                    \<lparr>ae_statusCode = st, ae_category = sd_category sd, ae_code = sd_code sd,
                     ae_message = sd_message sd\<rparr>
                  else parse_plain st body env detail
              | None \<Rightarrow> parse_plain st body env detail)))"

subsection \<open>Transport\<close>

definition request_header :: "Client \<Rightarrow> request_body option \<Rightarrow> (string \<times> string) list" where
  "request_header c body =
     (if body \<noteq> None then [(''Content-Type'', ''application/json'')] else []) @
     [(''Accept'', ''application/json'')] @
     (if token c \<noteq> [] then [(''Authorization'', ''Bearer '' @ token c)] else [])"

text \<open>
  What \<open>do\<close> makes of the answer to its request. \<open>st = None\<close> is a nil \<open>out\<close>; otherwise
  \<open>out\<close> is what \<open>out\<close> points to and \<open>st\<close> stores into it.
\<close>

definition read_response ::
  "'w net \<Rightarrow> string \<Rightarrow> string \<Rightarrow> 'r \<Rightarrow> 'r store option \<Rightarrow> foreign + http_response \<Rightarrow> gerror + 'r" where
  "read_response N meth path out st got = (case got of
       Inl e \<Rightarrow> Inl (Wrap (''calling '' @ meth @ '' '' @ path @ '': '') (Foreign e) [])
     | Inr resp \<Rightarrow> (case rs_body resp of
           Inl e \<Rightarrow> Inl (Wrap (''reading response from '' @ meth @ '' '' @ path @ '': '') (Foreign e) [])
         | Inr raw \<Rightarrow>
             if rs_status resp < 200 \<or> rs_status resp > 299
             then Inl (API (parseAPIError (rs_status resp) raw))
             else (case st of
                 None \<Rightarrow> Inr out
               | Some s \<Rightarrow> (case unmarshal s out raw of
                     Some r \<Rightarrow> Inr r
                   | None \<Rightarrow> Inl (Wrap (''decoding 200 response from '' @ meth @ '' '' @ path @ '': '')
                       (Foreign (jsonError N path raw)) ('' (body: '' @ truncateBody raw @ '')''))))))"

definition client_do :: "'w net \<Rightarrow> Client \<Rightarrow> string \<Rightarrow> string \<Rightarrow> request_body option \<Rightarrow>
    'r \<Rightarrow> 'r store option \<Rightarrow> ('w, gerror + 'r) op" where
  "client_do N c meth path body out st =
     (if missing c \<noteq> [] then State_Monad.return (Inl (Unconfigured (missing c)))
      else (case newRequest N meth (baseURL c @ path) of
          Some e \<Rightarrow> State_Monad.return
            (Inl (Wrap (''building request '' @ meth @ '' '' @ path @ '': '') (Foreign e) []))
        | None \<Rightarrow> do {
            resp \<leftarrow> http_do N \<lparr>rq_method = meth, rq_url = baseURL c @ path,
                             rq_header = request_header c body, rq_body = body\<rparr>;
            State_Monad.return (read_response N meth path out st resp)
          }))"

definition apiPrefix :: string where "apiPrefix = ''/internal/operator/v1''"

definition MethodGet :: string where "MethodGet = ''GET''"
definition MethodPost :: string where "MethodPost = ''POST''"
definition MethodPut :: string where "MethodPut = ''PUT''"

definition ReconcileSegmentationPolicy :: "'w net \<Rightarrow> Client \<Rightarrow> int64 \<Rightarrow> string \<Rightarrow> string \<Rightarrow>
    WireSegmentationPolicySpec \<Rightarrow> ('w, gerror + ReconcileResult) op" where
  "ReconcileSegmentationPolicy N c clusterID namespace name spec =
     client_do N c MethodPost (apiPrefix @ ''/segmentation-policies/reconcile'')
       (Some (SegmentationBody \<lparr>srq_clusterID = clusterID, srq_namespace = namespace,
          srq_name = name, srq_spec = spec\<rparr>))
       zero_ReconcileResult (Some store_ReconcileResult)"

definition ReconcileRuntimeSecurityPolicy :: "'w net \<Rightarrow> Client \<Rightarrow> int64 \<Rightarrow> string \<Rightarrow> string \<Rightarrow>
    WireRuntimeSecurityPolicySpec \<Rightarrow> ('w, gerror + ReconcileResult) op" where
  "ReconcileRuntimeSecurityPolicy N c clusterID namespace name spec =
     client_do N c MethodPost (apiPrefix @ ''/runtime-security-policies/reconcile'')
       (Some (RuntimeBody \<lparr>rrq_clusterID = clusterID, rrq_namespace = namespace,
          rrq_name = name, rrq_spec = spec\<rparr>))
       zero_ReconcileResult (Some store_ReconcileResult)"

definition CloseCREdges :: "'w net \<Rightarrow> Client \<Rightarrow> string \<Rightarrow> int64 \<Rightarrow> string \<Rightarrow> string \<Rightarrow>
    ('w, gerror + CloseResult) op" where
  "CloseCREdges N c crKind clusterID namespace name =
     client_do N c MethodPost (apiPrefix @ ''/cr-edges/close'')
       (Some (CloseBody \<lparr>crq_crKind = crKind, crq_clusterID = clusterID,
          crq_namespace = namespace, crq_name = name\<rparr>))
       zero_CloseResult (Some store_CloseResult)"

definition SetPaused :: "'w net \<Rightarrow> Client \<Rightarrow> bool \<Rightarrow> string \<Rightarrow> ('w, gerror + PausedState) op" where
  "SetPaused N c paused by' =
     client_do N c MethodPut (apiPrefix @ ''/paused'') (Some (PausedBody paused by'))
       zero_PausedState (Some store_PausedState)"

definition GetPaused :: "'w net \<Rightarrow> Client \<Rightarrow> ('w, gerror + PausedState) op" where
  "GetPaused N c =
     client_do N c MethodGet (apiPrefix @ ''/paused'') None zero_PausedState (Some store_PausedState)"

definition GetProviderHealth :: "'w net \<Rightarrow> Client \<Rightarrow> int64 \<Rightarrow> ('w, gerror + ProviderHealthResponse) op" where
  "GetProviderHealth N c clusterID =
     client_do N c MethodGet (apiPrefix @ ''/provider-health?cluster_id='' @ show_int64 clusterID)
       None zero_ProviderHealthResponse (Some store_ProviderHealthResponse)"

end
