(* ===== verification/Common.thy ===== *)
theory Common
  imports BackendClient
begin

text \<open>
  \<open>internal/controller/common.go\<close>: the names and cadences the three reconcilers share, the
  condition setter and the pause gate. The texts of conditions are definitions of their own
  (\<open>msg_...\<close>), which proofs about control flow leave folded.
\<close>

subsection \<open>Names\<close>

definition CREdgesFinalizer :: string where "CREdgesFinalizer = ''k8boss.io/cr-edges''"

definition ConditionReady :: string where [reason_defs]: "ConditionReady = ''Ready''"
definition ConditionProviderHealthKnown :: string where [reason_defs]:
  "ConditionProviderHealthKnown = ''ProviderHealthKnown''"

definition ReasonReconciled :: string where [reason_defs]: "ReasonReconciled = ''Reconciled''"
definition ReasonPaused :: string where [reason_defs]: "ReasonPaused = ''Paused''"
definition ReasonPlatformConfigMissing :: string where [reason_defs]:
  "ReasonPlatformConfigMissing = ''PlatformConfigMissing''"
definition ReasonPlatformConfigUnreadable :: string where [reason_defs]:
  "ReasonPlatformConfigUnreadable = ''PlatformConfigUnreadable''"
definition ReasonBackendUnreachable :: string where [reason_defs]:
  "ReasonBackendUnreachable = ''BackendUnreachable''"
definition ReasonAwaitingConfiguration :: string where [reason_defs]:
  "ReasonAwaitingConfiguration = ''AwaitingConfiguration''"
definition ReasonReconcileFailed :: string where [reason_defs]:
  "ReasonReconcileFailed = ''ReconcileFailed''"
definition ReasonWriteNotVerified :: string where [reason_defs]:
  "ReasonWriteNotVerified = ''WriteNotVerified''"
definition ReasonProviderUnavailable :: string where [reason_defs]:
  "ReasonProviderUnavailable = ''ProviderUnavailable''"
definition ReasonCloseFailed :: string where [reason_defs]: "ReasonCloseFailed = ''EdgeCloseFailed''"
definition ReasonHealthUndetermined :: string where [reason_defs]:
  "ReasonHealthUndetermined = ''ProviderHealthUndetermined''"
definition ReasonHealthKnown :: string where [reason_defs]:
  "ReasonHealthKnown = ''ProviderHealthDetermined''"
definition ReasonNotSingleton :: string where [reason_defs]:
  "ReasonNotSingleton = ''NotTheConfiguredSingleton''"

lemma condition_types_distinct [simp]:
  "ConditionReady \<noteq> ConditionProviderHealthKnown" "ConditionProviderHealthKnown \<noteq> ConditionReady"
  by (simp_all add: reason_defs)

text \<open>Every failure reason says something else than the one reason of success.\<close>

definition failure_reasons :: "string list" where
  "failure_reasons = [ReasonPaused, ReasonPlatformConfigMissing, ReasonPlatformConfigUnreadable,
     ReasonBackendUnreachable, ReasonAwaitingConfiguration, ReasonReconcileFailed,
     ReasonWriteNotVerified, ReasonProviderUnavailable, ReasonCloseFailed,
     ReasonHealthUndetermined, ReasonNotSingleton]"

lemma failure_reasons_distinct: "distinct (ReasonReconciled # failure_reasons)"
  by (simp add: failure_reasons_def reason_defs)

subsection \<open>Nil slices and maps\<close>

text \<open>Ranging over a nil slice is ranging over the empty one.\<close>

definition elems :: "'a list option \<Rightarrow> 'a list" where
  "elems xs = (case xs of None \<Rightarrow> [] | Some ys \<Rightarrow> ys)"

text \<open>Reading a nil map is reading the empty one.\<close>

definition labels_of :: "labels option \<Rightarrow> labels" where
  "labels_of m = (case m of None \<Rightarrow> Map.empty | Some x \<Rightarrow> x)"

lemma nil_to_empty:
  "(case m of None \<Rightarrow> Some Map.empty | Some x \<Rightarrow> Some x) = Some (labels_of m)"
  "(case xs of None \<Rightarrow> Some [] | Some ys \<Rightarrow> Some ys) = Some (elems xs)"
  by (simp_all add: labels_of_def elems_def split: option.split)

subsection \<open>Cadences\<close>

definition PausedRequeue :: duration where "PausedRequeue = 90 * second"
definition ResyncInterval :: duration where "ResyncInterval = 10 * minute"
definition HealthPollInterval :: duration where "HealthPollInterval = 2 * minute"
definition UnconfiguredRequeue :: duration where "UnconfiguredRequeue = 5 * minute"

lemma cadences_positive [simp]:
  "0 < PausedRequeue" "0 < ResyncInterval" "0 < HealthPollInterval" "0 < UnconfiguredRequeue"
  by (simp_all add: PausedRequeue_def ResyncInterval_def HealthPollInterval_def
      UnconfiguredRequeue_def minute_def second_def)

lemma cadence_values:
  "PausedRequeue = 90000000000" "ResyncInterval = 600000000000"
  "HealthPollInterval = 120000000000" "UnconfiguredRequeue = 300000000000"
  by (simp_all add: PausedRequeue_def ResyncInterval_def HealthPollInterval_def
      UnconfiguredRequeue_def minute_def second_def)

record ctrl_result =
  requeueAfter :: duration

definition no_requeue :: ctrl_result where "no_requeue = \<lparr>requeueAfter = 0\<rparr>"

type_synonym verdict = "ctrl_result \<times> gerror option"

subsection \<open>Conditions\<close>

definition unconfiguredMessage :: "string \<Rightarrow> gerror \<Rightarrow> string" where
  "unconfiguredMessage what err = what @ '' was not attempted: '' @ error_text err @
     ''. Point this operator at a K8Boss control plane by setting K8BOSS_BACKEND_URL, '' @
     ''K8BOSS_CLUSTER_ID and K8BOSS_OPERATOR_TOKEN on its Deployment '' @ em_dash @
     '' under OLM, via the Subscription's spec.config.env and a Secret named k8boss-operator '' @
     ''(key: token) in the operator's namespace.''"

definition newCondition :: "int64 \<Rightarrow> string \<Rightarrow> ConditionStatus \<Rightarrow> string \<Rightarrow> string \<Rightarrow> Condition" where
  "newCondition generation condType status rsn msg =
     \<lparr>c_type = condType, c_status = status, c_observedGeneration = generation,
      c_lastTransitionTime = 0, c_reason = rsn, c_message = msg\<rparr>"

definition setCondition :: "'w k8s \<Rightarrow> Condition list \<Rightarrow> int64 \<Rightarrow> string \<Rightarrow> ConditionStatus \<Rightarrow>
    string \<Rightarrow> string \<Rightarrow> ('w, Condition list) op" where
  "setCondition K conds generation condType status rsn msg =
     ask (\<lambda>w. setStatusCondition K w conds (newCondition generation condType status rsn msg))"

subsection \<open>The pause gate\<close>

record pauseGate =
  pg_paused :: bool
  pg_reason :: string
  pg_message :: string
  pg_flowProvider :: string

definition msg_config_missing :: "(nat \<Rightarrow> bool) \<Rightarrow> string \<Rightarrow> string" where
  "msg_config_missing ip name = ''No PlatformConfig '' @ go_quote ip name @
     '' exists yet; the kill switch defaults to paused, so nothing was reconciled. Apply a '' @
     ''PlatformConfig with spec.paused=false to enable reconciliation.''"

definition msg_config_unreadable :: "(nat \<Rightarrow> bool) \<Rightarrow> string \<Rightarrow> foreign \<Rightarrow> string" where
  "msg_config_unreadable ip name err = ''Could not read PlatformConfig '' @ go_quote ip name @
     '', so we cannot confirm the kill switch is off; treating as paused and reconciling '' @
     ''nothing: '' @ f_text err"

definition msg_config_paused :: "(nat \<Rightarrow> bool) \<Rightarrow> string \<Rightarrow> string" where
  "msg_config_paused ip name = ''PlatformConfig '' @ go_quote ip name @
     '' has spec.paused=true; no mutation was attempted. Set spec.paused=false to resume.''"

definition open_gate :: "string \<Rightarrow> pauseGate" where
  "open_gate provider = \<lparr>pg_paused = False, pg_reason = [], pg_message = [],
     pg_flowProvider = provider\<rparr>"

definition closed_gate :: "string \<Rightarrow> string \<Rightarrow> pauseGate" where
  "closed_gate rsn msg = \<lparr>pg_paused = True, pg_reason = rsn, pg_message = msg,
     pg_flowProvider = []\<rparr>"

fun err_of :: "'e + 'a \<Rightarrow> 'e option" where
  "err_of (Inl e) = Some e"
| "err_of (Inr _) = None"

definition gate_of :: "'w k8s \<Rightarrow> string \<Rightarrow> foreign + PlatformConfig \<Rightarrow> pauseGate" where
  "gate_of K name got =
     (if isNotFound K (err_of got)
      then closed_gate ReasonPlatformConfigMissing (msg_config_missing (isPrint K) name)
      else (case got of
          Inl err \<Rightarrow> closed_gate ReasonPlatformConfigUnreadable
                       (msg_config_unreadable (isPrint K) name err)
        | Inr pc \<Rightarrow>
            if pcs_paused (pc_spec pc)
            then closed_gate ReasonPaused (msg_config_paused (isPrint K) name)
            else open_gate (pcs_flowProvider (pc_spec pc))))"

definition checkPauseGate :: "'w k8s \<Rightarrow> string \<Rightarrow> ('w, pauseGate) op" where
  "checkPauseGate K name = do {
     got \<leftarrow> get_pc K ([], name);
     State_Monad.return (gate_of K name got)
   }"

lemma gate_simps [simp]:
  "pg_paused (closed_gate r m)" "pg_reason (closed_gate r m) = r" "pg_message (closed_gate r m) = m"
  "\<not> pg_paused (open_gate p)" "pg_flowProvider (open_gate p) = p"
  by (simp_all add: closed_gate_def open_gate_def)

end
