(* ===== verification/Traces.thy ===== *)
theory Traces
  imports Common
begin

text \<open>
  The vocabulary of the safety properties, as predicates on single events and on traces, and
  what one call of the client contributes to a trace. None of it models code; it is what the
  specifications of the reconcilers are written in.
\<close>

subsection \<open>Events\<close>

fun is_http :: "event \<Rightarrow> bool" where
  "is_http (EvHttp _ _) = True"
| "is_http _ = False"

fun is_update :: "event \<Rightarrow> bool" where
  "is_update (EvUpdate _ _) = True"
| "is_update _ = False"

fun is_status :: "event \<Rightarrow> bool" where
  "is_status (EvStatusUpdate _ _) = True"
| "is_status _ = False"

fun kind_name :: "kind \<Rightarrow> string" where
  "kind_name SegmentationPolicyKind = ''SegmentationPolicy''"
| "kind_name RuntimeSecurityPolicyKind = ''RuntimeSecurityPolicy''"
| "kind_name PlatformConfigKind = ''PlatformConfig''"

text \<open>The custom resource whose graph edges a request asks the control plane to write.\<close>

fun writes_body :: "request_body \<Rightarrow> (kind \<times> NamespacedName) option" where
  "writes_body (SegmentationBody b) = Some (SegmentationPolicyKind, srq_namespace b, srq_name b)"
| "writes_body (RuntimeBody b) = Some (RuntimeSecurityPolicyKind, rrq_namespace b, rrq_name b)"
| "writes_body _ = None"

definition writes_edges :: "kind \<Rightarrow> NamespacedName \<Rightarrow> http_request \<Rightarrow> bool" where
  "writes_edges k key req \<longleftrightarrow> Option.bind (rq_body req) writes_body = Some (k, key)"

text \<open>The resource whose edges a request asks the control plane to close.\<close>

definition closes_edges :: "kind \<Rightarrow> NamespacedName \<Rightarrow> http_request \<Rightarrow> bool" where
  "closes_edges k key req = (case rq_body req of
       Some (CloseBody b) \<Rightarrow> crq_crKind b = kind_name k \<and> (crq_namespace b, crq_name b) = key
     | _ \<Rightarrow> False)"

text \<open>An answer with a 2xx status whose body decodes to a value satisfying \<open>P\<close>.\<close>

definition confirms :: "'r store \<Rightarrow> 'r \<Rightarrow> ('r \<Rightarrow> bool) \<Rightarrow> foreign + http_response \<Rightarrow> bool" where
  "confirms st zero P got = (case got of
       Inl _ \<Rightarrow> False
     | Inr resp \<Rightarrow> 200 \<le> rs_status resp \<and> rs_status resp \<le> 299 \<and>
         (case rs_body resp of
            Inl _ \<Rightarrow> False
          | Inr raw \<Rightarrow> (case unmarshal st zero raw of None \<Rightarrow> False | Some r \<Rightarrow> P r)))"

lemma confirms_mono: "confirms st zero P got \<Longrightarrow> (\<And>x. P x \<Longrightarrow> Q x) \<Longrightarrow> confirms st zero Q got"
  by (auto simp: confirms_def split: sum.splits option.splits)

definition close_confirmed :: "CloseResult \<Rightarrow> bool" where
  "close_confirmed res \<longleftrightarrow> cl_status res = ''ok'' \<and> cl_unverifiedEdgeKeys res = []"

fun ev_writes :: "kind \<Rightarrow> NamespacedName \<Rightarrow> event \<Rightarrow> bool" where
  "ev_writes k key (EvHttp req _) = writes_edges k key req"
| "ev_writes k key _ = False"

fun ev_write_confirmed :: "(ReconcileResult \<Rightarrow> bool) \<Rightarrow> kind \<Rightarrow> NamespacedName \<Rightarrow> event \<Rightarrow> bool" where
  "ev_write_confirmed P k key (EvHttp req got) =
     (writes_edges k key req \<and> confirms store_ReconcileResult zero_ReconcileResult P got)"
| "ev_write_confirmed P k key _ = False"

fun ev_close_confirmed :: "kind \<Rightarrow> NamespacedName \<Rightarrow> event \<Rightarrow> bool" where
  "ev_close_confirmed k key (EvHttp req got) =
     (closes_edges k key req \<and> confirms store_CloseResult zero_CloseResult close_confirmed got)"
| "ev_close_confirmed k key _ = False"

text \<open>
  The API server is known to hold the finalizer on the resource: it was read with it, or an
  update carrying it was accepted.
\<close>

definition guarded_obj :: "'w k8s \<Rightarrow> k8s_object \<Rightarrow> bool" where
  "guarded_obj K x \<longleftrightarrow> containsFinalizer K (obj_finalizers x) CREdgesFinalizer"

definition is_obj :: "kind \<Rightarrow> NamespacedName \<Rightarrow> k8s_object \<Rightarrow> bool" where
  "is_obj k key x \<longleftrightarrow> obj_kind x = k \<and> obj_key x = key"

fun ev_guarded :: "'w k8s \<Rightarrow> kind \<Rightarrow> NamespacedName \<Rightarrow> event \<Rightarrow> bool" where
  "ev_guarded K k key (EvGet _ _ (Inr x)) = (is_obj k key x \<and> guarded_obj K x)"
| "ev_guarded K k key (EvUpdate x (Inr y)) = (is_obj k key y \<and> guarded_obj K x)"
| "ev_guarded K k key _ = False"

text \<open>An update that takes the finalizer off the resource.\<close>

fun ev_releases :: "'w k8s \<Rightarrow> kind \<Rightarrow> NamespacedName \<Rightarrow> event \<Rightarrow> bool" where
  "ev_releases K k key (EvUpdate x _) = (is_obj k key x \<and> \<not> guarded_obj K x)"
| "ev_releases K k key _ = False"

definition ready_is :: "ConditionStatus \<Rightarrow> k8s_object \<Rightarrow> bool" where
  "ready_is st x \<longleftrightarrow> (case find_condition ConditionReady (obj_conditions x) of
     None \<Rightarrow> False | Some c \<Rightarrow> c_status c = st)"

fun ev_marks_ready :: "kind \<Rightarrow> NamespacedName \<Rightarrow> event \<Rightarrow> bool" where
  "ev_marks_ready k key (EvStatusUpdate x _) = (is_obj k key x \<and> ready_is ConditionTrue x)"
| "ev_marks_ready k key _ = False"

text \<open>The pause gate was consulted and found closed.\<close>

definition gate_closed_in :: "'w k8s \<Rightarrow> string \<Rightarrow> event list \<Rightarrow> bool" where
  "gate_closed_in K name es \<longleftrightarrow>
     (\<exists>got. EvGet PlatformConfigKind ([], name) (answer PcObj got) \<in> set es \<and>
            pg_paused (gate_of K name got))"

lemma answer_inj: "answer PcObj x = answer PcObj y \<longleftrightarrow> x = y"
  by (cases x; cases y) simp_all

subsection \<open>Setting a condition\<close>

lemma condition_set:
  assumes "k8s_laws K"
  shows "\<exists>d. find_condition t (setStatusCondition K w cs (newCondition g t st rsn msg)) = Some d \<and>
     c_status d = st \<and> c_reason d = rsn \<and> c_observedGeneration d = g \<and> c_message d = msg"
proof -
  let ?c = "newCondition g t st rsn msg"
  from assms have "sets_condition (setStatusCondition K w)" by (simp add: k8s_laws_def)
  then obtain d where "find_condition (c_type ?c) (setStatusCondition K w cs ?c) = Some d"
    "same_verdict ?c d" unfolding sets_condition_def by blast
  then show ?thesis by (auto simp: newCondition_def same_verdict_def)
qed

lemma condition_frame:
  assumes "k8s_laws K" and "t' \<noteq> t"
  shows "find_condition t' (setStatusCondition K w cs (newCondition g t st rsn msg)) =
    find_condition t' cs"
proof -
  from assms(1) have "sets_condition (setStatusCondition K w)" by (simp add: k8s_laws_def)
  moreover have "c_type (newCondition g t st rsn msg) = t" by (simp add: newCondition_def)
  ultimately show ?thesis using assms(2) unfolding sets_condition_def by metis
qed

subsection \<open>What one client call contributes\<close>

lemma client_do_emits:
  "emits (client_do N c meth path body out st) (\<lambda>r es.
     if missing c \<noteq> [] then r = Inl (Unconfigured (missing c)) \<and> es = []
     else (\<exists>e. newRequest N meth (baseURL c @ path) = Some e \<and> es = [] \<and>
             r = Inl (Wrap (''building request '' @ meth @ '' '' @ path @ '': '') (Foreign e) [])) \<or>
          (\<exists>got. es = [EvHttp \<lparr>rq_method = meth, rq_url = baseURL c @ path,
                          rq_header = request_header c body, rq_body = body\<rparr> got] \<and>
             r = read_response N meth path out st got))"
  unfolding client_do_def http_do_def by (intro emits_intro) auto

lemma read_response_ok_iff:
  "read_response N meth path out (Some st) got = Inr r \<longleftrightarrow> confirms st out (\<lambda>x. x = r) got"
  by (auto simp: read_response_def confirms_def not_less split: sum.splits option.splits)

lemma read_response_confirms:
  "read_response N meth path out (Some st) got = Inr r \<Longrightarrow> confirms st out P got = P r"
  by (auto simp: read_response_def confirms_def split: sum.splits option.splits if_splits)

text \<open>An error of the transport or of the response is never the unconfigured one.\<close>

lemma read_response_not_unconfigured:
  "read_response N meth path out st got = Inl e \<Longrightarrow> \<not> IsUnconfigured e"
  by (auto simp: read_response_def IsUnconfigured_def split: sum.splits option.splits if_splits)

lemma building_not_unconfigured: "\<not> IsUnconfigured (Wrap pre (Foreign e) post)"
  by (simp add: IsUnconfigured_def)

text \<open>The shape every exported call has, with the request it sends.\<close>

lemma call_emits:
  assumes "\<And>r. \<lbrakk>missing c \<noteq> []; r = Inl (Unconfigured (missing c))\<rbrakk> \<Longrightarrow> Q r []"
    and "\<And>e. \<lbrakk>missing c = []; \<not> IsUnconfigured e\<rbrakk> \<Longrightarrow> Q (Inl e) []"
    and "\<And>got e. \<lbrakk>missing c = []; \<not> IsUnconfigured e; \<forall>P. \<not> confirms st out P got\<rbrakk> \<Longrightarrow>
           Q (Inl e) [EvHttp \<lparr>rq_method = meth, rq_url = baseURL c @ path,
             rq_header = request_header c body, rq_body = body\<rparr> got]"
    and "\<And>got v. \<lbrakk>missing c = []; \<forall>P. confirms st out P got = P v\<rbrakk> \<Longrightarrow>
           Q (Inr v) [EvHttp \<lparr>rq_method = meth, rq_url = baseURL c @ path,
             rq_header = request_header c body, rq_body = body\<rparr> got]"
  shows "emits (client_do N c meth path body out (Some st)) Q"
proof (rule emits_weaken [OF client_do_emits])
  fix r es
  let ?req = "\<lparr>rq_method = meth, rq_url = baseURL c @ path,
     rq_header = request_header c body, rq_body = body\<rparr>"
  assume *: "if missing c \<noteq> [] then r = Inl (Unconfigured (missing c)) \<and> es = []
     else (\<exists>e. newRequest N meth (baseURL c @ path) = Some e \<and> es = [] \<and>
             r = Inl (Wrap (''building request '' @ meth @ '' '' @ path @ '': '') (Foreign e) [])) \<or>
          (\<exists>got. es = [EvHttp ?req got] \<and> r = read_response N meth path out (Some st) got)"
  show "Q r es"
  proof (cases "missing c = []")
    case False
    with * assms(1) show ?thesis by simp
  next
    case True
    with * consider
      (build) e where "es = []" "r = Inl (Wrap (''building request '' @ meth @ '' '' @ path @ '': '') (Foreign e) [])"
      | (sent) got where "es = [EvHttp ?req got]" "r = read_response N meth path out (Some st) got"
      by auto
    then show ?thesis
    proof cases
      case build
      with assms(2) True building_not_unconfigured show ?thesis by simp
    next
      case sent
      show ?thesis
      proof (cases r)
        case (Inl e)
        with sent(2) have "\<forall>P. \<not> confirms st out P got"
          by (auto simp: read_response_def confirms_def split: sum.splits option.splits if_splits)
        with assms(3) True sent Inl read_response_not_unconfigured show ?thesis by metis
      next
        case (Inr v)
        with sent(2) have "\<forall>P. confirms st out P got = P v"
          using read_response_confirms by metis
        with assms(4) True sent(1) Inr show ?thesis by simp
      qed
    qed
  qed
qed

end
