(* ===== verification/PolicyProtocol.thy ===== *)
theory PolicyProtocol
  imports Traces
begin

text \<open>
  The protocol the two policy reconcilers have in common, as an abstract reconciler over a
  record of operations. The source keeps the two reconcilers apart on purpose; the protocol is
  a specification, proved to be what each of them computes (\<open>seg_Reconcile_refines\<close>,
  \<open>rt_Reconcile_refines\<close> in their own theories). Its laws are the locales
  \<open>policy_resource\<close> (the API server's side), \<open>policy_backend\<close> (the control plane's
  side) and their union \<open>policy_controller\<close>, in which the safety properties are proved once.
\<close>

subsection \<open>The abstract reconciler\<close>

record ('w, 'cr) policy_ops =
  po_get :: "NamespacedName \<Rightarrow> ('w, foreign + 'cr) op"
  po_update :: "'cr \<Rightarrow> ('w, foreign + 'cr) op"
  po_status :: "'cr \<Rightarrow> ('w, foreign + 'cr) op"
  po_obj :: "'cr \<Rightarrow> k8s_object"
  po_setFinalizers :: "string list \<Rightarrow> 'cr \<Rightarrow> 'cr"
  po_setConditions :: "Condition list \<Rightarrow> 'cr \<Rightarrow> 'cr"
  po_setReady :: "Condition list \<Rightarrow> pauseGate \<Rightarrow> ReconcileResult \<Rightarrow> 'cr \<Rightarrow> 'cr"
  po_push :: "'cr \<Rightarrow> ('w, gerror + ReconcileResult) op"
  po_close :: "'cr \<Rightarrow> ('w, gerror + CloseResult) op"
  po_inconsistent :: "ReconcileResult \<Rightarrow> string"
  po_inconsistentMessage :: "string \<Rightarrow> string"
  po_readyMessage :: "ReconcileResult \<Rightarrow> string"
  po_diagnose :: "gerror \<Rightarrow> string \<times> string \<times> duration"  \<comment> \<open>reason, message, requeue\<close>
  po_closePaused :: "gerror \<Rightarrow> string"
  po_closeFailed :: "gerror \<Rightarrow> string"
  po_closeUnverified :: "CloseResult \<Rightarrow> string"

text \<open>What a handler returns, from the outcome of its last write.\<close>

definition unready_verdict :: "string \<Rightarrow> string \<Rightarrow> duration \<Rightarrow> foreign + 'a \<Rightarrow> verdict" where
  "unready_verdict rsn msg after u = (case u of
       Inl err \<Rightarrow> (no_requeue, Some (Wrap (''updating status ('' @ rsn @ ''): '') (Foreign err) []))
     | Inr _ \<Rightarrow>
         if after > 0 then (\<lparr>requeueAfter = after\<rparr>, None)
         else (no_requeue, Some (Errorf (rsn @ '': '' @ msg))))"

definition ready_verdict :: "foreign + 'a \<Rightarrow> verdict" where
  "ready_verdict u = (case u of
       Inl err \<Rightarrow>
         (no_requeue, Some (Wrap ''updating status after successful reconcile: '' (Foreign err) []))
     | Inr _ \<Rightarrow> (\<lparr>requeueAfter = ResyncInterval\<rparr>, None))"

definition release_verdict :: "string \<Rightarrow> foreign + 'a \<Rightarrow> verdict" where
  "release_verdict what u = (case u of
       Inl err \<Rightarrow> (no_requeue, Some (Wrap what (Foreign err) []))
     | Inr _ \<Rightarrow> (no_requeue, None))"

lemma verdict_answer [simp]:
  "unready_verdict rsn msg after (answer mk u) = unready_verdict rsn msg after u"
  "ready_verdict (answer mk u) = ready_verdict u"
  "release_verdict what (answer mk u) = release_verdict what u"
  by (cases u; simp add: unready_verdict_def ready_verdict_def release_verdict_def)+

definition policy_notReady :: "'w k8s \<Rightarrow> ('w, 'cr) policy_ops \<Rightarrow> 'cr \<Rightarrow> string \<Rightarrow> string \<Rightarrow>
    duration \<Rightarrow> ('w, verdict) op" where
  "policy_notReady K P cr rsn msg after = do {
     conds \<leftarrow> setCondition K (obj_conditions (po_obj P cr)) (om_generation (obj_meta (po_obj P cr)))
                ConditionReady ConditionFalse rsn msg;
     u \<leftarrow> po_status P (po_setConditions P conds cr);
     State_Monad.return (unready_verdict rsn msg after u)
   }"

definition policy_release :: "'w k8s \<Rightarrow> ('w, 'cr) policy_ops \<Rightarrow> 'cr \<Rightarrow> string \<Rightarrow> ('w, verdict) op" where
  "policy_release K P cr what = do {
     u \<leftarrow> po_update P (po_setFinalizers P
            (removeFinalizer K (obj_finalizers (po_obj P cr)) CREdgesFinalizer) cr);
     State_Monad.return (release_verdict what u)
   }"

text \<open>What \<open>finalize\<close> does with the answer to its close request.\<close>

definition policy_closed :: "'w k8s \<Rightarrow> ('w, 'cr) policy_ops \<Rightarrow> 'cr \<Rightarrow> gerror + CloseResult \<Rightarrow>
    ('w, verdict) op" where
  "policy_closed K P cr got = (case got of
       Inl err \<Rightarrow>
         if IsUnconfigured err then
           policy_release K P cr ''removing finalizer on an unconfigured operator: ''
         else if IsPaused err then
           policy_notReady K P cr ReasonPaused (po_closePaused P err) PausedRequeue
         else policy_notReady K P cr ReasonCloseFailed (po_closeFailed P err) 0
     | Inr res \<Rightarrow>
         if \<not> close_confirmed res then
           policy_notReady K P cr ReasonCloseFailed (po_closeUnverified P res) 0
         else policy_release K P cr ''removing finalizer after confirmed edge close: '')"

definition policy_finalize :: "'w k8s \<Rightarrow> ('w, 'cr) policy_ops \<Rightarrow> 'cr \<Rightarrow> ('w, verdict) op" where
  "policy_finalize K P cr =
     (if \<not> guarded_obj K (po_obj P cr) then State_Monad.return (no_requeue, None)
      else do {
        got \<leftarrow> po_close P cr;
        policy_closed K P cr got
      })"

definition policy_ensureFinalizer :: "'w k8s \<Rightarrow> ('w, 'cr) policy_ops \<Rightarrow> 'cr \<Rightarrow>
    ('w, gerror + 'cr) op" where
  "policy_ensureFinalizer K P cr =
     (if guarded_obj K (po_obj P cr) then State_Monad.return (Inr cr)
      else do {
        u \<leftarrow> po_update P (po_setFinalizers P
               (addFinalizer K (obj_finalizers (po_obj P cr)) CREdgesFinalizer) cr);
        State_Monad.return (case u of
            Inl err \<Rightarrow> Inl (Wrap ''adding finalizer: '' (Foreign err) [])
          | Inr cr' \<Rightarrow> Inr cr')
      })"

definition policy_markReady :: "'w k8s \<Rightarrow> ('w, 'cr) policy_ops \<Rightarrow> pauseGate \<Rightarrow> ReconcileResult \<Rightarrow>
    'cr \<Rightarrow> ('w, verdict) op" where
  "policy_markReady K P gate result cr = do {
     conds \<leftarrow> setCondition K (obj_conditions (po_obj P cr)) (om_generation (obj_meta (po_obj P cr)))
                ConditionReady ConditionTrue ReasonReconciled (po_readyMessage P result);
     u \<leftarrow> po_status P (po_setReady P conds gate result cr);
     State_Monad.return (ready_verdict u)
   }"

text \<open>What the reconciler does with the answer to its push.\<close>

definition policy_pushed :: "'w k8s \<Rightarrow> ('w, 'cr) policy_ops \<Rightarrow> pauseGate \<Rightarrow> 'cr \<Rightarrow>
    gerror + ReconcileResult \<Rightarrow> ('w, verdict) op" where
  "policy_pushed K P gate cr got = (case got of
       Inl err \<Rightarrow> (case po_diagnose P err of
           (rsn, msg, after) \<Rightarrow> policy_notReady K P cr rsn msg after)
     | Inr result \<Rightarrow>
         if po_inconsistent P result \<noteq> [] then
           policy_notReady K P cr ReasonWriteNotVerified
             (po_inconsistentMessage P (po_inconsistent P result)) 0
         else policy_markReady K P gate result cr)"

definition policy_live :: "'w k8s \<Rightarrow> ('w, 'cr) policy_ops \<Rightarrow> string \<Rightarrow> 'cr \<Rightarrow> ('w, verdict) op" where
  "policy_live K P config cr = do {
     gate \<leftarrow> checkPauseGate K config;
     if pg_paused gate then
       policy_notReady K P cr (pg_reason gate) (pg_message gate) PausedRequeue
     else do {
       ready \<leftarrow> policy_ensureFinalizer K P cr;
       case ready of
         Inl e \<Rightarrow> State_Monad.return (no_requeue, Some e)
       | Inr cr \<Rightarrow> do { got \<leftarrow> po_push P cr; policy_pushed K P gate cr got }
     }
   }"

definition policy_reconcile :: "'w k8s \<Rightarrow> ('w, 'cr) policy_ops \<Rightarrow> string \<Rightarrow> NamespacedName \<Rightarrow>
    ('w, verdict) op" where
  "policy_reconcile K P config req = do {
     got \<leftarrow> po_get P req;
     case got of
       Inl err \<Rightarrow> State_Monad.return (no_requeue, map_option Foreign (ignoreNotFound K (Some err)))
     | Inr cr \<Rightarrow>
         if \<not> time_is_zero (om_deletionTimestamp (obj_meta (po_obj P cr)))
         then policy_finalize K P cr
         else policy_live K P config cr
   }"

subsection \<open>The runs the protocol allows\<close>

text \<open>
  An object that is written back with its Ready condition false, for a reason, and nothing of
  its metadata or observed generation changed; and one written back Ready.
\<close>

definition ready_cond :: "k8s_object \<Rightarrow> ConditionStatus \<Rightarrow> string \<Rightarrow> k8s_object \<Rightarrow> bool" where
  "ready_cond x st rsn y \<longleftrightarrow>
     (\<exists>c. find_condition ConditionReady (obj_conditions y) = Some c \<and> c_status c = st \<and>
          c_reason c = rsn \<and> c_observedGeneration c = om_generation (obj_meta x))"

definition unready :: "k8s_object \<Rightarrow> string \<Rightarrow> k8s_object \<Rightarrow> bool" where
  "unready x rsn y \<longleftrightarrow> obj_kind y = obj_kind x \<and> obj_meta y = obj_meta x \<and>
     obj_observedGeneration y = obj_observedGeneration x \<and> ready_cond x ConditionFalse rsn y"

definition readied :: "k8s_object \<Rightarrow> k8s_object \<Rightarrow> bool" where
  "readied x y \<longleftrightarrow> obj_kind y = obj_kind x \<and> obj_meta y = obj_meta x \<and>
     obj_observedGeneration y = om_generation (obj_meta x) \<and>
     ready_cond x ConditionTrue ReasonReconciled y"

definition deleting :: "k8s_object \<Rightarrow> bool" where
  "deleting x \<longleftrightarrow> \<not> time_is_zero (om_deletionTimestamp (obj_meta x))"

text \<open>
  How a run makes sure of the finalizer: by reading it, or by an update that is accepted. The
  object it goes on with is the one the API server returned.
\<close>

definition ensured :: "'w k8s \<Rightarrow> kind \<Rightarrow> k8s_object \<Rightarrow> event list \<Rightarrow> k8s_object \<Rightarrow> bool" where
  "ensured K k x es x' \<longleftrightarrow>
     guarded_obj K x \<and> es = [] \<and> x' = x \<or>
     \<not> guarded_obj K x \<and> obj_kind x' = k \<and>
       (\<exists>y. is_obj k (obj_key x) y \<and> guarded_obj K y \<and> es = [EvUpdate y (Inr x')])"

text \<open>
  What one reconciler has of its own: the kind it reconciles, the connection settings its
  operator lacks, the PlatformConfig it is gated by, the 200 bodies that evidence a converged
  write, and the requests it makes for an object.
\<close>

record contract =
  ct_kind :: kind
  ct_unset :: "string list"
  ct_config :: string
  ct_consistent :: "ReconcileResult \<Rightarrow> bool"
  ct_push :: "k8s_object \<Rightarrow> http_request"
  ct_close :: "k8s_object \<Rightarrow> http_request"

text \<open>A request about nothing, for the objects a contract is not about.\<close>

definition no_request :: http_request where
  "no_request = \<lparr>rq_method = [], rq_url = [], rq_header = [], rq_body = None\<rparr>"

definition contract_ok :: "contract \<Rightarrow> bool" where
  "contract_ok S \<longleftrightarrow> ct_kind S \<noteq> PlatformConfigKind \<and>
     (\<forall>x. obj_kind x = ct_kind S \<longrightarrow>
        writes_edges (ct_kind S) (obj_key x) (ct_push S x) \<and>
        closes_edges (ct_kind S) (obj_key x) (ct_close S x))"

abbreviation read_ev :: "contract \<Rightarrow> NamespacedName \<Rightarrow> k8s_object \<Rightarrow> event" where
  "read_ev S n x \<equiv> EvGet (ct_kind S) n (Inr x)"

abbreviation gate_ev :: "contract \<Rightarrow> foreign + PlatformConfig \<Rightarrow> event" where
  "gate_ev S g \<equiv> EvGet PlatformConfigKind ([], ct_config S) (answer PcObj g)"

text \<open>One rule per path through a reconcile.\<close>

inductive policy_run :: "'w k8s \<Rightarrow> contract \<Rightarrow> NamespacedName \<Rightarrow> event list \<Rightarrow> verdict \<Rightarrow> bool"
  for K S n where
  get_failed: "policy_run K S n [EvGet (ct_kind S) n (Inl e)]
     (no_requeue, map_option Foreign (ignoreNotFound K (Some e)))"
| unguarded_deletion: "\<lbrakk>obj_kind x = ct_kind S; deleting x; \<not> guarded_obj K x\<rbrakk> \<Longrightarrow>
     policy_run K S n [read_ev S n x] (no_requeue, None)"
| release_unconfigured: "\<lbrakk>obj_kind x = ct_kind S; deleting x; guarded_obj K x; ct_unset S \<noteq> [];
     is_obj (ct_kind S) (obj_key x) y; \<not> guarded_obj K y\<rbrakk> \<Longrightarrow>
     policy_run K S n [read_ev S n x, EvUpdate y u]
       (release_verdict ''removing finalizer on an unconfigured operator: '' u)"
| close_unsent: "\<lbrakk>obj_kind x = ct_kind S; deleting x; guarded_obj K x; ct_unset S = [];
     rsn = ReasonPaused \<and> after = PausedRequeue \<or> rsn = ReasonCloseFailed \<and> after = 0;
     unready x rsn y\<rbrakk> \<Longrightarrow>
     policy_run K S n [read_ev S n x, EvStatusUpdate y u]
       (unready_verdict rsn msg after u)"
| close_refused: "\<lbrakk>obj_kind x = ct_kind S; deleting x; guarded_obj K x; ct_unset S = [];
     \<not> confirms store_CloseResult zero_CloseResult close_confirmed a;
     rsn = ReasonPaused \<and> after = PausedRequeue \<or> rsn = ReasonCloseFailed \<and> after = 0;
     unready x rsn y\<rbrakk> \<Longrightarrow>
     policy_run K S n [read_ev S n x, EvHttp (ct_close S x) a, EvStatusUpdate y u]
       (unready_verdict rsn msg after u)"
| closed: "\<lbrakk>obj_kind x = ct_kind S; deleting x; guarded_obj K x; ct_unset S = [];
     confirms store_CloseResult zero_CloseResult close_confirmed a;
     is_obj (ct_kind S) (obj_key x) y; \<not> guarded_obj K y\<rbrakk> \<Longrightarrow>
     policy_run K S n [read_ev S n x, EvHttp (ct_close S x) a, EvUpdate y u]
       (release_verdict ''removing finalizer after confirmed edge close: '' u)"
| gate_closed: "\<lbrakk>obj_kind x = ct_kind S; \<not> deleting x; pg_paused (gate_of K (ct_config S) g);
     unready x (pg_reason (gate_of K (ct_config S) g)) y\<rbrakk> \<Longrightarrow>
     policy_run K S n
       [read_ev S n x, gate_ev S g, EvStatusUpdate y u]
       (unready_verdict (pg_reason (gate_of K (ct_config S) g)) (pg_message (gate_of K (ct_config S) g))
          PausedRequeue u)"
| finalizer_refused: "\<lbrakk>obj_kind x = ct_kind S; \<not> deleting x; \<not> pg_paused (gate_of K (ct_config S) g);
     \<not> guarded_obj K x; is_obj (ct_kind S) (obj_key x) y; guarded_obj K y\<rbrakk> \<Longrightarrow>
     policy_run K S n
       [read_ev S n x, gate_ev S g, EvUpdate y (Inl e)]
       (no_requeue, Some (Wrap ''adding finalizer: '' (Foreign e) []))"
| push_unsent: "\<lbrakk>obj_kind x = ct_kind S; \<not> deleting x; \<not> pg_paused (gate_of K (ct_config S) g);
     ensured K (ct_kind S) x es x'; unready x' rsn y;
     ct_unset S \<noteq> [] \<longrightarrow> rsn = ReasonAwaitingConfiguration \<and> after = UnconfiguredRequeue\<rbrakk> \<Longrightarrow>
     policy_run K S n
       ([read_ev S n x, gate_ev S g] @ es @
        [EvStatusUpdate y u])
       (unready_verdict rsn msg after u)"
| push_refused: "\<lbrakk>obj_kind x = ct_kind S; \<not> deleting x; \<not> pg_paused (gate_of K (ct_config S) g);
     ensured K (ct_kind S) x es x'; ct_unset S = [];
     \<not> confirms store_ReconcileResult zero_ReconcileResult (ct_consistent S) a; unready x' rsn y\<rbrakk> \<Longrightarrow>
     policy_run K S n
       ([read_ev S n x, gate_ev S g] @ es @
        [EvHttp (ct_push S x') a, EvStatusUpdate y u])
       (unready_verdict rsn msg after u)"
| pushed: "\<lbrakk>obj_kind x = ct_kind S; \<not> deleting x; \<not> pg_paused (gate_of K (ct_config S) g);
     ensured K (ct_kind S) x es x'; ct_unset S = [];
     confirms store_ReconcileResult zero_ReconcileResult (ct_consistent S) a; readied x' y\<rbrakk> \<Longrightarrow>
     policy_run K S n
       ([read_ev S n x, gate_ev S g] @ es @
        [EvHttp (ct_push S x') a, EvStatusUpdate y u])
       (ready_verdict u)"

subsection \<open>What every run guarantees\<close>

text \<open>Facts about the events of a run, for any contract whose requests are about the object.\<close>

lemma writes_edges_unique:
  "writes_edges k key req \<Longrightarrow> writes_edges k' key' req \<longleftrightarrow> k' = k \<and> key' = key"
  by (auto simp: writes_edges_def)

lemma closes_not_writes: "closes_edges k key req \<Longrightarrow> \<not> writes_edges k' key' req"
  by (auto simp: writes_edges_def closes_edges_def split: option.splits request_body.splits)

lemma kind_name_inj: "kind_name k = kind_name k' \<longleftrightarrow> k = k'"
  by (cases k; cases k'; simp)

lemma closes_edges_unique:
  "closes_edges k key req \<Longrightarrow> closes_edges k' key' req \<longleftrightarrow> k' = k \<and> key' = key"
  by (auto simp: closes_edges_def kind_name_inj split: option.splits request_body.splits)

lemma contract_requests:
  assumes "contract_ok S" and "obj_kind x = ct_kind S"
  shows "writes_edges k key (ct_push S x) \<longleftrightarrow> k = ct_kind S \<and> key = obj_key x"
    and "closes_edges k key (ct_close S x) \<longleftrightarrow> k = ct_kind S \<and> key = obj_key x"
    and "\<not> writes_edges k key (ct_close S x)"
    and "\<not> closes_edges k key (ct_push S x)"
proof -
  from assms have w: "writes_edges (ct_kind S) (obj_key x) (ct_push S x)"
    and c: "closes_edges (ct_kind S) (obj_key x) (ct_close S x)"
    by (simp_all add: contract_ok_def)
  show "writes_edges k key (ct_push S x) \<longleftrightarrow> k = ct_kind S \<and> key = obj_key x"
    by (rule writes_edges_unique [OF w])
  show "closes_edges k key (ct_close S x) \<longleftrightarrow> k = ct_kind S \<and> key = obj_key x"
    by (rule closes_edges_unique [OF c])
  show "\<not> writes_edges k key (ct_close S x)" by (rule closes_not_writes [OF c])
  show "\<not> closes_edges k key (ct_push S x)" using w closes_not_writes by blast
qed

lemma ensured_kind: "ensured K k x es x' \<Longrightarrow> obj_kind x = k \<Longrightarrow> obj_kind x' = k"
  by (auto simp: ensured_def)

lemma ensured_events: "ensured K k x es x' \<Longrightarrow> e \<in> set es \<Longrightarrow> \<exists>y z. e = EvUpdate y z \<and> guarded_obj K y"
  by (auto simp: ensured_def)

lemma ensured_cases:
  assumes "ensured K k x es x'"
  obtains (held) "guarded_obj K x" "es = []" "x' = x"
  | (added) y where "\<not> guarded_obj K x" "obj_kind x' = k" "is_obj k (obj_key x) y" "guarded_obj K y"
      "es = [EvUpdate y (Inr x')]"
  using assms unfolding ensured_def by blast

lemma unready_not_ready [simp]: "unready x rsn y \<Longrightarrow> \<not> ready_is ConditionTrue y"
  by (auto simp: unready_def ready_cond_def ready_is_def)

lemma readied_ready: "readied x y \<Longrightarrow> ready_is ConditionTrue y \<and> obj_key y = obj_key x \<and> obj_kind y = obj_kind x"
  by (auto simp: readied_def ready_cond_def ready_is_def obj_key_def)

lemma open_gate_read: "\<not> pg_paused (gate_of K config g) \<Longrightarrow> \<exists>pc. g = Inr pc \<and> \<not> pcs_paused (pc_spec pc)"
  by (auto simp: gate_of_def split: sum.splits if_splits)

text \<open>No request that writes edges before the finalizer is known to be on the resource.\<close>

lemma run_finalizer_first:
  assumes "policy_run K S n es v" and "contract_ok S"
  shows "precedes (ev_guarded K (ct_kind S) key) (ev_writes (ct_kind S) key) es"
  using assms
  by cases (auto simp: contract_requests answer_def is_obj_def ensured_kind
      elim!: ensured_cases split: sum.splits)

text \<open>No such request either before the PlatformConfig was read with the switch off.\<close>

fun ev_switch_off :: "string \<Rightarrow> event \<Rightarrow> bool" where
  "ev_switch_off config (EvGet k n (Inr (PcObj pc))) =
     (k = PlatformConfigKind \<and> n = ([], config) \<and> \<not> pcs_paused (pc_spec pc))"
| "ev_switch_off config _ = False"

lemma run_switch_off_first:
  assumes "policy_run K S n es v" and "contract_ok S"
  shows "precedes (ev_switch_off (ct_config S)) (ev_writes k key) es"
  using assms
  by cases (auto simp: contract_requests ensured_kind dest!: open_gate_read elim!: ensured_cases)

text \<open>The finalizer is only taken off a resource whose edges are confirmed closed.\<close>

lemma run_release_confirmed:
  assumes "policy_run K S n es v" and "contract_ok S" and "ct_unset S = []"
  shows "precedes (ev_close_confirmed (ct_kind S) key) (ev_releases K (ct_kind S) key) es"
  using assms
  by cases (auto simp: contract_requests is_obj_def elim!: ensured_cases)

text \<open>Ready is only written after a confirmed, consistent push of that resource.\<close>

lemma run_ready_confirmed:
  assumes "policy_run K S n es v" and "contract_ok S"
  shows "precedes (ev_write_confirmed (ct_consistent S) (ct_kind S) key)
           (ev_marks_ready (ct_kind S) key) es"
  using assms
  by cases (auto simp: contract_requests is_obj_def ensured_kind elim!: ensured_cases dest: readied_ready)

text \<open>At most one request, and none at all from an operator without a connection.\<close>

lemma run_one_request:
  assumes "policy_run K S n es v"
  shows "length (filter is_http es) \<le> 1 \<and> (ct_unset S \<noteq> [] \<longrightarrow> (\<forall>e\<in>set es. \<not> is_http e))"
  using assms by cases (auto elim!: ensured_cases)

text \<open>A closed gate: the resource is told why, nothing else happens, retry in 90 s.\<close>

lemma run_gate_closed:
  assumes "policy_run K S n es v" and "contract_ok S" and "gate_closed_in K (ct_config S) es"
  shows "\<exists>x g y u. es = [read_ev S n x, gate_ev S g, EvStatusUpdate y u] \<and>
     unready x (pg_reason (gate_of K (ct_config S) g)) y \<and>
     v = unready_verdict (pg_reason (gate_of K (ct_config S) g))
           (pg_message (gate_of K (ct_config S) g)) PausedRequeue u"
  using assms
  by cases (auto simp: gate_closed_in_def answer_inj contract_ok_def dest: ensured_events)

text \<open>A run that was turned away: two reads, and a status write that says why.\<close>

definition turned_away :: "'w k8s \<Rightarrow> contract \<Rightarrow> NamespacedName \<Rightarrow> event list \<Rightarrow> verdict \<Rightarrow> bool" where
  "turned_away K S n es v \<longleftrightarrow> (\<exists>x g y u. es = [read_ev S n x, gate_ev S g, EvStatusUpdate y u] \<and>
     unready x (pg_reason (gate_of K (ct_config S) g)) y \<and>
     ((\<exists>z. u = Inr z) \<longrightarrow> v = (\<lparr>requeueAfter = 90000000000\<rparr>, None)))"

lemma run_turned_away:
  assumes "policy_run K S n es v" and "contract_ok S" and "gate_closed_in K (ct_config S) es"
  shows "turned_away K S n es v"
proof -
  from run_gate_closed [OF assms] obtain x g y u where
    "es = [read_ev S n x, gate_ev S g, EvStatusUpdate y u]"
    "unready x (pg_reason (gate_of K (ct_config S) g)) y"
    "v = unready_verdict (pg_reason (gate_of K (ct_config S) g))
       (pg_message (gate_of K (ct_config S) g)) PausedRequeue u" by blast
  then show ?thesis
    unfolding turned_away_def
    by (intro exI [of _ x] exI [of _ g] exI [of _ y] exI [of _ u])
      (auto simp: unready_verdict_def cadence_values)
qed

text \<open>An answered object of the reconciled kind, whether read or returned by an update.\<close>

fun ev_returns :: "event \<Rightarrow> k8s_object option" where
  "ev_returns (EvGet _ _ (Inr x)) = Some x"
| "ev_returns (EvUpdate _ (Inr x)) = Some x"
| "ev_returns _ = None"

definition returned :: "contract \<Rightarrow> event list \<Rightarrow> k8s_object \<Rightarrow> bool" where
  "returned S es x \<longleftrightarrow> obj_kind x = ct_kind S \<and> Some x \<in> ev_returns ` set es"

lemma returned_read [simp]: "obj_kind x = ct_kind S \<Longrightarrow> returned S (read_ev S n x # es) x"
  by (simp add: returned_def)

lemma returned_append: "returned S (es @ fs) x \<longleftrightarrow> returned S es x \<or> returned S fs x"
  by (auto simp: returned_def)

lemma returned_readI:
  "obj_kind x = ct_kind S \<Longrightarrow> R x \<Longrightarrow> \<exists>x'. returned S (read_ev S n x # es) x' \<and> R x'"
  by (intro exI [of _ x]) simp

lemma ensured_returned:
  assumes "ensured K (ct_kind S) x es x'" and "obj_kind x = ct_kind S"
  shows "returned S (read_ev S n x # e # es @ fs) x'"
  using assms by (cases rule: ensured_cases) (auto simp: returned_def)

text \<open>Every request is about an object as the API server returned it in this run.\<close>

lemma run_requests:
  assumes "policy_run K S n es v" and "EvHttp req a \<in> set es"
  shows "\<exists>x. returned S es x \<and>
     (req = ct_push S x \<or> req = ct_close S x \<and> deleting x \<and> guarded_obj K x)"
  using assms
proof cases
  case (push_refused x g es' x' a' rsn y u msg after)
  with assms(2) show ?thesis
    by (intro exI [of _ x']) (auto dest: ensured_events intro: ensured_returned)
next
  case (pushed x g es' x' a' y u)
  with assms(2) show ?thesis
    by (intro exI [of _ x']) (auto dest: ensured_events intro: ensured_returned)
qed (use assms(2) in \<open>auto intro!: returned_readI dest: ensured_events\<close>)

text \<open>
  Every status written keeps the metadata of an object the API server returned in this run; it
  says Ready for the object's generation, and moves the observed generation there only when it
  says so with status True.
\<close>

lemma run_status:
  assumes "policy_run K S n es v" and "EvStatusUpdate y u \<in> set es"
  shows "\<exists>x. returned S es x \<and> (readied x y \<or> (\<exists>rsn. unready x rsn y))"
  using assms
proof cases
  case (push_unsent x g es' x' rsn y' after msg u')
  with assms(2) show ?thesis
    by (intro exI [of _ x']) (auto dest: ensured_events intro: ensured_returned)
next
  case (push_refused x g es' x' a' rsn y u msg after)
  with assms(2) show ?thesis
    by (intro exI [of _ x']) (auto dest: ensured_events intro: ensured_returned)
next
  case (pushed x g es' x' a' y u)
  with assms(2) show ?thesis
    by (intro exI [of _ x']) (auto dest: ensured_events intro: ensured_returned)
qed (use assms(2) in \<open>auto intro!: returned_readI dest: ensured_events\<close>)

definition status_written :: "contract \<Rightarrow> event list \<Rightarrow> k8s_object \<Rightarrow> bool" where
  "status_written S es y \<longleftrightarrow> (\<exists>x. returned S es x \<and> obj_kind y = obj_kind x \<and> obj_meta y = obj_meta x \<and>
     (ready_cond x ConditionTrue ReasonReconciled y \<and>
        obj_observedGeneration y = om_generation (obj_meta x) \<or>
      (\<exists>rsn. ready_cond x ConditionFalse rsn y) \<and>
        obj_observedGeneration y = obj_observedGeneration x))"

lemma run_status_written:
  "policy_run K S n es v \<Longrightarrow> EvStatusUpdate y u \<in> set es \<Longrightarrow> status_written S es y"
  using run_status by (fastforce simp: status_written_def readied_def unready_def)

text \<open>
  A run that neither fails nor asks to be repeated has nothing left to do: the resource is gone,
  or is being deleted without the finalizer, or the API server accepted the update that takes
  the finalizer off.
\<close>

definition finished :: "'w k8s \<Rightarrow> contract \<Rightarrow> NamespacedName \<Rightarrow> event list \<Rightarrow> bool" where
  "finished K S n es \<longleftrightarrow>
     (\<exists>e. es = [EvGet (ct_kind S) n (Inl e)] \<and> isNotFound K (Some e)) \<or>
     (\<exists>x. es = [read_ev S n x] \<and> deleting x \<and> \<not> guarded_obj K x) \<or>
     (\<exists>x y z. read_ev S n x \<in> set es \<and> deleting x \<and> last es = EvUpdate y (Inr z) \<and>
        is_obj (ct_kind S) (obj_key x) y \<and> \<not> guarded_obj K y)"

lemma ResyncInterval_nonzero: "ResyncInterval \<noteq> 0"
  using cadences_positive(2) by (metis less_irrefl)

lemma verdict_settled:
  "unready_verdict rsn msg after u \<noteq> (no_requeue, None)"
  "ready_verdict u \<noteq> (no_requeue, None)"
  "release_verdict what u = (no_requeue, None) \<longleftrightarrow> (\<exists>z. u = Inr z)"
  by (auto simp: ResyncInterval_nonzero unready_verdict_def ready_verdict_def release_verdict_def no_requeue_def
      split: sum.splits)

lemma run_settled:
  assumes "policy_run K S n es v" and "k8s_laws K" and "v = (no_requeue, None)"
  shows "finished K S n es"
  using assms
proof cases
  case (get_failed e)
  with assms(2,3) show ?thesis by (auto simp: finished_def k8s_laws_def split: if_splits)
qed (use assms(3) verdict_settled in \<open>auto simp: finished_def verdict_settled\<close>)

text \<open>An error and a requested delay exclude each other.\<close>

lemma run_verdict:
  assumes "policy_run K S n es v"
  shows "snd v = None \<or> fst v = no_requeue"
  using assms
  by cases (auto simp: unready_verdict_def ready_verdict_def release_verdict_def split: sum.splits)

text \<open>A resource being deleted is never pushed; a live one is never closed nor released.\<close>

lemma run_deleting:
  assumes "policy_run K S n es v" and "contract_ok S" and "read_ev S n x \<in> set es" and "deleting x"
  shows "\<forall>e\<in>set es. \<not> ev_writes k key e"
proof -
  from assms(2) have "ct_kind S \<noteq> PlatformConfigKind" by (simp add: contract_ok_def)
  from assms(1) this assms(2-4) show ?thesis
    by cases (auto simp: contract_requests elim!: ensured_cases)
qed

lemma run_live:
  assumes "policy_run K S n es v" and "contract_ok S" and "read_ev S n x \<in> set es" and "\<not> deleting x"
  shows "\<forall>e\<in>set es. \<not> ev_close_confirmed k key e \<and> \<not> ev_releases K k key e"
proof -
  from assms(2) have "ct_kind S \<noteq> PlatformConfigKind" by (simp add: contract_ok_def)
  from assms(1) this assms(2-4) show ?thesis
    by cases (auto simp: contract_requests ensured_kind elim!: ensured_cases)
qed

text \<open>
  The whole effect of reporting a failure: one status write with Ready false for a reason; once
  it is accepted, a retry after the given delay, or an error where there is none.
\<close>

definition reported :: "k8s_object \<Rightarrow> string \<Rightarrow> duration option \<Rightarrow> verdict \<Rightarrow> event list \<Rightarrow> bool" where
  "reported x rsn after v es \<longleftrightarrow> (\<exists>y u. es = [EvStatusUpdate y u] \<and> unready x rsn y \<and>
     (case u of
        Inl _ \<Rightarrow> snd v \<noteq> None
      | Inr _ \<Rightarrow> (case after of None \<Rightarrow> snd v \<noteq> None | Some d \<Rightarrow> v = (\<lparr>requeueAfter = d\<rparr>, None))))"

lemma unready_reported:
  "unready x rsn y \<Longrightarrow> reported x rsn (if after > 0 then Some after else None)
     (unready_verdict rsn msg after u) [EvStatusUpdate y u]"
  unfolding reported_def by (intro exI [of _ y] exI [of _ u]) (auto simp: unready_verdict_def split: sum.split)

subsection \<open>The interfaces\<close>

locale policy_resource =
  fixes K :: "'w k8s" and P :: "('w, 'cr) policy_ops" and k :: kind
  assumes get_event: "(\<And>got. Q got [EvGet k n (answer (po_obj P) got)]) \<Longrightarrow> emits (po_get P n) Q"
    and update_event:
      "(\<And>got. Q' got [EvUpdate (po_obj P cr) (answer (po_obj P) got)]) \<Longrightarrow> emits (po_update P cr) Q'"
    and status_event:
      "(\<And>got. Q' got [EvStatusUpdate (po_obj P cr) (answer (po_obj P) got)]) \<Longrightarrow>
       emits (po_status P cr) Q'"
    and kind_of: "obj_kind (po_obj P cr) = k"
    and finalizers_set: "obj_finalizers (po_obj P (po_setFinalizers P fs cr)) = fs"
    and finalizers_key: "obj_key (po_obj P (po_setFinalizers P fs cr)) = obj_key (po_obj P cr)"
    and conditions_set: "obj_conditions (po_obj P (po_setConditions P cs cr)) = cs"
    and conditions_meta: "obj_meta (po_obj P (po_setConditions P cs cr)) = obj_meta (po_obj P cr)"
    and conditions_observed:
      "obj_observedGeneration (po_obj P (po_setConditions P cs cr)) = obj_observedGeneration (po_obj P cr)"
    and ready_conditions: "obj_conditions (po_obj P (po_setReady P cs g res cr)) = cs"
    and ready_meta: "obj_meta (po_obj P (po_setReady P cs g res cr)) = obj_meta (po_obj P cr)"
    and ready_observed: "obj_observedGeneration (po_obj P (po_setReady P cs g res cr)) =
      om_generation (obj_meta (po_obj P cr))"

locale policy_backend =
  fixes P :: "('w, 'cr) policy_ops" and S :: contract
  assumes push_event:
      "\<lbrakk>ct_unset S \<noteq> [] \<Longrightarrow> Q (Inl (Unconfigured (ct_unset S))) [];
        \<And>e. \<lbrakk>ct_unset S = []; \<not> IsUnconfigured e\<rbrakk> \<Longrightarrow> Q (Inl e) [];
        \<And>e got. \<lbrakk>ct_unset S = []; \<not> IsUnconfigured e;
            \<forall>R. \<not> confirms store_ReconcileResult zero_ReconcileResult R got\<rbrakk> \<Longrightarrow>
          Q (Inl e) [EvHttp (ct_push S (po_obj P cr)) got];
        \<And>v got. \<lbrakk>ct_unset S = [];
            \<forall>R. confirms store_ReconcileResult zero_ReconcileResult R got = R v\<rbrakk> \<Longrightarrow>
          Q (Inr v) [EvHttp (ct_push S (po_obj P cr)) got]\<rbrakk> \<Longrightarrow> emits (po_push P cr) Q"
    and close_event:
      "\<lbrakk>ct_unset S \<noteq> [] \<Longrightarrow> Q' (Inl (Unconfigured (ct_unset S))) [];
        \<And>e. \<lbrakk>ct_unset S = []; \<not> IsUnconfigured e\<rbrakk> \<Longrightarrow> Q' (Inl e) [];
        \<And>e got. \<lbrakk>ct_unset S = []; \<not> IsUnconfigured e;
            \<forall>R. \<not> confirms store_CloseResult zero_CloseResult R got\<rbrakk> \<Longrightarrow>
          Q' (Inl e) [EvHttp (ct_close S (po_obj P cr)) got];
        \<And>v got. \<lbrakk>ct_unset S = [];
            \<forall>R. confirms store_CloseResult zero_CloseResult R got = R v\<rbrakk> \<Longrightarrow>
          Q' (Inr v) [EvHttp (ct_close S (po_obj P cr)) got]\<rbrakk> \<Longrightarrow> emits (po_close P cr) Q'"
    and consistent_iff: "po_inconsistent P res = [] \<longleftrightarrow> ct_consistent S res"
    and diagnose_unconfigured: "IsUnconfigured e \<Longrightarrow>
      fst (po_diagnose P e) = ReasonAwaitingConfiguration \<and>
      snd (snd (po_diagnose P e)) = UnconfiguredRequeue"

locale policy_controller = policy_resource K P "ct_kind S" + policy_backend P S
  for K :: "'w k8s" and P :: "('w, 'cr) policy_ops" and S :: contract
begin

lemma cond_after_set:
  assumes laws: "k8s_laws K"
    and "obj_conditions y = setStatusCondition K w cs
     (newCondition (om_generation (obj_meta x)) ConditionReady st rsn msg)"
  shows "ready_cond x st rsn y"
  using condition_set [OF laws, of ConditionReady w cs "om_generation (obj_meta x)" st rsn msg] assms(2)
  by (auto simp: ready_cond_def)

lemma added: "k8s_laws K \<Longrightarrow> guarded_obj K (po_obj P (po_setFinalizers P (addFinalizer K fs CREdgesFinalizer) cr))"
  and removed:
    "k8s_laws K \<Longrightarrow>
     \<not> guarded_obj K (po_obj P (po_setFinalizers P (removeFinalizer K fs CREdgesFinalizer) cr))"
  by (simp_all add: k8s_laws_def guarded_obj_def finalizers_set)

lemma refinalized: "is_obj (ct_kind S) (obj_key (po_obj P cr)) (po_obj P (po_setFinalizers P fs cr))"
  by (simp add: is_obj_def kind_of finalizers_key)

lemma notReady_event:
  assumes laws: "k8s_laws K" and run: "\<And>y u. unready (po_obj P cr) rsn y \<Longrightarrow> Q (unready_verdict rsn msg after u) [EvStatusUpdate y u]"
  shows "emits (policy_notReady K P cr rsn msg after) Q"
  unfolding policy_notReady_def setCondition_def
proof (intro emits_intro status_event)
  fix w got
  let ?cs = "setStatusCondition K w (obj_conditions (po_obj P cr))
     (newCondition (om_generation (obj_meta (po_obj P cr))) ConditionReady ConditionFalse rsn msg)"
  have "unready (po_obj P cr) rsn (po_obj P (po_setConditions P ?cs cr))"
    by (simp add: unready_def kind_of conditions_meta conditions_observed cond_after_set [OF laws] conditions_set)
  from run [OF this, of "answer (po_obj P) got"]
  show "Q (unready_verdict rsn msg after got)
     ([] @ [EvStatusUpdate (po_obj P (po_setConditions P ?cs cr)) (answer (po_obj P) got)] @ [])"
    by simp
qed

lemma notReady_reported:
  "k8s_laws K \<Longrightarrow> emits (policy_notReady K P cr rsn msg after)
     (reported (po_obj P cr) rsn (if after > 0 then Some after else None))"
  by (rule notReady_event, assumption, rule unready_reported)

lemma markReady_event:
  assumes laws: "k8s_laws K" and run: "\<And>y u. readied (po_obj P cr) y \<Longrightarrow> Q (ready_verdict u) [EvStatusUpdate y u]"
  shows "emits (policy_markReady K P gate result cr) Q"
  unfolding policy_markReady_def setCondition_def
proof (intro emits_intro status_event)
  fix w got
  let ?cs = "setStatusCondition K w (obj_conditions (po_obj P cr))
     (newCondition (om_generation (obj_meta (po_obj P cr))) ConditionReady ConditionTrue
        ReasonReconciled (po_readyMessage P result))"
  have "readied (po_obj P cr) (po_obj P (po_setReady P ?cs gate result cr))"
    by (simp add: readied_def kind_of ready_meta ready_observed cond_after_set [OF laws] ready_conditions)
  from run [OF this, of "answer (po_obj P) got"]
  show "Q (ready_verdict got)
     ([] @ [EvStatusUpdate (po_obj P (po_setReady P ?cs gate result cr)) (answer (po_obj P) got)] @ [])"
    by simp
qed

lemma release_event:
  assumes laws: "k8s_laws K" and run: "\<And>y u. is_obj (ct_kind S) (obj_key (po_obj P cr)) y \<Longrightarrow> \<not> guarded_obj K y \<Longrightarrow>
     Q (release_verdict what u) [EvUpdate y u]"
  shows "emits (policy_release K P cr what) Q"
  unfolding policy_release_def
proof (intro emits_intro update_event)
  fix got
  from run [OF refinalized removed [OF laws], of "answer (po_obj P) got"]
  show "Q (release_verdict what got)
     ([EvUpdate (po_obj P (po_setFinalizers P (removeFinalizer K (obj_finalizers (po_obj P cr))
         CREdgesFinalizer) cr)) (answer (po_obj P) got)] @ [])"
    by simp
qed

lemma ensureFinalizer_event:
  assumes laws: "k8s_laws K" and ok: "\<And>es cr'. ensured K (ct_kind S) (po_obj P cr) es (po_obj P cr') \<Longrightarrow> Q (Inr cr') es"
    and refused: "\<And>y e. \<lbrakk>\<not> guarded_obj K (po_obj P cr); is_obj (ct_kind S) (obj_key (po_obj P cr)) y; guarded_obj K y\<rbrakk> \<Longrightarrow>
       Q (Inl (Wrap ''adding finalizer: '' (Foreign e) [])) [EvUpdate y (Inl e)]"
  shows "emits (policy_ensureFinalizer K P cr) Q"
proof (cases "guarded_obj K (po_obj P cr)")
  case True
  then have "ensured K (ct_kind S) (po_obj P cr) [] (po_obj P cr)" by (simp add: ensured_def)
  from ok [OF this] True show ?thesis
    unfolding policy_ensureFinalizer_def by (intro emits_intro) auto
next
  case False
  let ?y = "po_obj P (po_setFinalizers P (addFinalizer K (obj_finalizers (po_obj P cr))
      CREdgesFinalizer) cr)"
  have "Q (case got of Inl err \<Rightarrow> Inl (Wrap ''adding finalizer: '' (Foreign err) []) | Inr cr' \<Rightarrow> Inr cr')
      [EvUpdate ?y (answer (po_obj P) got)]" for got
  proof (cases got)
    case (Inl e)
    with refused [OF False refinalized added [OF laws]] show ?thesis by simp
  next
    case (Inr cr')
    have "ensured K (ct_kind S) (po_obj P cr) [EvUpdate ?y (Inr (po_obj P cr'))] (po_obj P cr')"
      using False refinalized added [OF laws] by (auto simp: ensured_def kind_of)
    from ok [OF this] Inr show ?thesis by simp
  qed
  with False show ?thesis
    unfolding policy_ensureFinalizer_def by (intro emits_intro update_event) auto
qed

text \<open>Why a deletion is held: the reason, with how soon it is retried.\<close>

lemma held_event:
  assumes laws: "k8s_laws K" and "\<not> IsUnconfigured e"
    and run: "\<And>rsn msg after y u.
      \<lbrakk>rsn = ReasonPaused \<and> after = PausedRequeue \<or> rsn = ReasonCloseFailed \<and> after = 0;
       unready (po_obj P cr) rsn y\<rbrakk> \<Longrightarrow> Q (unready_verdict rsn msg after u) [EvStatusUpdate y u]"
  shows "emits (policy_closed K P cr (Inl e)) Q"
  unfolding policy_closed_def using assms(2)
  by (auto intro!: notReady_event [OF laws] run)

lemma closed_event:
  assumes laws: "k8s_laws K"
    and released: "\<And>y u. \<lbrakk>close_confirmed res; is_obj (ct_kind S) (obj_key (po_obj P cr)) y; \<not> guarded_obj K y\<rbrakk> \<Longrightarrow>
       Q (release_verdict ''removing finalizer after confirmed edge close: '' u) [EvUpdate y u]"
    and held: "\<And>msg y u. \<lbrakk>\<not> close_confirmed res; unready (po_obj P cr) ReasonCloseFailed y\<rbrakk> \<Longrightarrow>
       Q (unready_verdict ReasonCloseFailed msg 0 u) [EvStatusUpdate y u]"
  shows "emits (policy_closed K P cr (Inr res)) Q"
  unfolding policy_closed_def
  by (auto intro!: notReady_event [OF laws] release_event [OF laws] released held)

lemma finalize_event:
  assumes laws: "k8s_laws K" and "deleting (po_obj P cr)"
    and run: "\<And>es v. policy_run K S n (EvGet (ct_kind S) n (Inr (po_obj P cr)) # es) v \<Longrightarrow> Q v es"
  shows "emits (policy_finalize K P cr) Q"
proof (cases "guarded_obj K (po_obj P cr)")
  case False
  from run [OF policy_run.unguarded_deletion [OF kind_of assms(2) False]] False show ?thesis
    unfolding policy_finalize_def by (auto intro: emits_return)
next
  case True
  note path = kind_of assms(2) True
  have "emits (do { got \<leftarrow> po_close P cr; policy_closed K P cr got }) Q"
  proof (intro emits_bind close_event)
    assume "ct_unset S \<noteq> []"
    then show "emits (policy_closed K P cr (Inl (Unconfigured (ct_unset S)))) (\<lambda>b e2. Q b ([] @ e2))"
      by (auto simp: policy_closed_def IsUnconfigured_def
          intro!: release_event [OF laws] run policy_run.release_unconfigured [OF path])
  next
    fix e
    assume "ct_unset S = []" "\<not> IsUnconfigured e"
    then show "emits (policy_closed K P cr (Inl e)) (\<lambda>b e2. Q b ([] @ e2))"
      by (intro held_event [OF laws]) (auto intro!: run policy_run.close_unsent [OF path])
  next
    fix e got
    assume "ct_unset S = []" "\<not> IsUnconfigured e"
      "\<forall>R. \<not> confirms store_CloseResult zero_CloseResult R got"
    then show "emits (policy_closed K P cr (Inl e)) (\<lambda>b e2. Q b ([EvHttp (ct_close S (po_obj P cr)) got] @ e2))"
      by (intro held_event [OF laws]) (auto intro!: run policy_run.close_refused [OF path])
  next
    fix res got
    assume "ct_unset S = []"
      "\<forall>R. confirms store_CloseResult zero_CloseResult R got = R res"
    then show "emits (policy_closed K P cr (Inr res)) (\<lambda>b e2. Q b ([EvHttp (ct_close S (po_obj P cr)) got] @ e2))"
      by (intro closed_event [OF laws])
        (auto intro!: run policy_run.close_refused [OF path] policy_run.closed [OF path])
  qed
  with True show ?thesis unfolding policy_finalize_def by simp
qed

lemma refused_event:
  assumes laws: "k8s_laws K"
    and run: "\<And>rsn msg after y u. \<lbrakk>unready (po_obj P cr) rsn y;
       IsUnconfigured e \<longrightarrow> rsn = ReasonAwaitingConfiguration \<and> after = UnconfiguredRequeue\<rbrakk> \<Longrightarrow>
       Q (unready_verdict rsn msg after u) [EvStatusUpdate y u]"
  shows "emits (policy_pushed K P gate cr (Inl e)) Q"
proof -
  obtain rsn msg after where diag: "po_diagnose P e = (rsn, msg, after)"
    by (cases "po_diagnose P e")
  with diagnose_unconfigured [of e]
  have "IsUnconfigured e \<longrightarrow> rsn = ReasonAwaitingConfiguration \<and> after = UnconfiguredRequeue"
    by simp
  then show ?thesis
    unfolding policy_pushed_def by (simp add: diag notReady_event [OF laws] run)
qed

lemma pushed_event:
  assumes laws: "k8s_laws K"
    and ready: "\<And>y u. \<lbrakk>ct_consistent S res; readied (po_obj P cr) y\<rbrakk> \<Longrightarrow>
       Q (ready_verdict u) [EvStatusUpdate y u]"
    and unverified: "\<And>msg y u. \<lbrakk>\<not> ct_consistent S res; unready (po_obj P cr) ReasonWriteNotVerified y\<rbrakk> \<Longrightarrow>
       Q (unready_verdict ReasonWriteNotVerified msg 0 u) [EvStatusUpdate y u]"
  shows "emits (policy_pushed K P gate cr (Inr res)) Q"
  unfolding policy_pushed_def
  by (auto simp: consistent_iff intro!: notReady_event [OF laws] markReady_event [OF laws] ready unverified)

lemma live_event:
  assumes laws: "k8s_laws K" and "\<not> deleting (po_obj P cr)"
    and run: "\<And>es v. policy_run K S n (EvGet (ct_kind S) n (Inr (po_obj P cr)) # es) v \<Longrightarrow> Q v es"
  shows "emits (policy_live K P (ct_config S) cr) Q"
  unfolding policy_live_def checkPauseGate_def get_pc_def
  apply (intro emits_bind emits_call emits_return emits_if ensureFinalizer_event [OF laws];
    (simp only: append_Nil append_Nil2 sum.case)?)
proof -
  note path = kind_of assms(2)
  fix g
  let ?pre = "[EvGet PlatformConfigKind ([], ct_config S) (answer PcObj g)]"
  {
    assume paused: "pg_paused (gate_of K (ct_config S) g)"
    show "emits (policy_notReady K P cr (pg_reason (gate_of K (ct_config S) g))
        (pg_message (gate_of K (ct_config S) g)) PausedRequeue) (\<lambda>b e2. Q b (?pre @ e2))"
      by (intro notReady_event [OF laws])
        (auto intro!: run policy_run.gate_closed [OF path paused])
  next
    fix es cr'
    assume opened: "\<not> pg_paused (gate_of K (ct_config S) g)" and ens: "ensured K (ct_kind S) (po_obj P cr) es (po_obj P cr')"
    note path = path opened ens
    let ?tr = "\<lambda>es'. ?pre @ es @ es'"
    show "emits (do { got \<leftarrow> po_push P cr'; policy_pushed K P (gate_of K (ct_config S) g) cr' got })
        (\<lambda>b e2. Q b (?pre @ es @ e2))"
    proof (intro emits_bind push_event)
      assume "ct_unset S \<noteq> []"
      then show "emits (policy_pushed K P (gate_of K (ct_config S) g) cr' (Inl (Unconfigured (ct_unset S))))
          (\<lambda>b e2. Q b (?pre @ es @ ([] @ e2)))"
        by (intro refused_event [OF laws])
          (auto simp: IsUnconfigured_def intro!: run policy_run.push_unsent [OF path, simplified])
    next
      fix e
      assume "ct_unset S = []" "\<not> IsUnconfigured e"
      then show "emits (policy_pushed K P (gate_of K (ct_config S) g) cr' (Inl e))
          (\<lambda>b e2. Q b (?pre @ es @ ([] @ e2)))"
        by (intro refused_event [OF laws])
          (auto intro!: run policy_run.push_unsent [OF path, simplified])
    next
      fix e got
      assume "ct_unset S = []" "\<not> IsUnconfigured e"
        "\<forall>R. \<not> confirms store_ReconcileResult zero_ReconcileResult R got"
      then show "emits (policy_pushed K P (gate_of K (ct_config S) g) cr' (Inl e))
          (\<lambda>b e2. Q b (?pre @ es @ ([EvHttp (ct_push S (po_obj P cr')) got] @ e2)))"
        by (intro refused_event [OF laws])
          (auto intro!: run policy_run.push_refused [OF path, simplified])
    next
      fix res got
      assume "ct_unset S = []"
        "\<forall>R. confirms store_ReconcileResult zero_ReconcileResult R got = R res"
      then show "emits (policy_pushed K P (gate_of K (ct_config S) g) cr' (Inr res))
          (\<lambda>b e2. Q b (?pre @ es @ ([EvHttp (ct_push S (po_obj P cr')) got] @ e2)))"
        by (intro pushed_event [OF laws])
          (auto intro!: run policy_run.push_refused [OF path, simplified]
             policy_run.pushed [OF path, simplified])
    qed
  next
    fix y e
    assume "\<not> pg_paused (gate_of K (ct_config S) g)" "\<not> guarded_obj K (po_obj P cr)"
      "is_obj (ct_kind S) (obj_key (po_obj P cr)) y" "guarded_obj K y"
    from run [OF policy_run.finalizer_refused [OF path this]]
    show "emits (State_Monad.return (no_requeue, Some (Wrap ''adding finalizer: '' (Foreign e) [])))
        (\<lambda>b e2. Q b (?pre @ [EvUpdate y (Inl e)] @ e2))"
      by (auto intro: emits_return)
  }
qed

theorem reconcile_runs:
  assumes laws: "k8s_laws K"
  shows "emits (policy_reconcile K P (ct_config S) n)
           (\<lambda>v es. policy_run K S n es v)"
  unfolding policy_reconcile_def
proof (intro emits_bind get_event emits_sum emits_if)
  fix got :: "foreign + 'cr" and e :: foreign
  assume "got = Inl e"
  then show "emits (State_Monad.return (no_requeue, map_option Foreign (ignoreNotFound K (Some e))))
     (\<lambda>b e2. policy_run K S n ([EvGet (ct_kind S) n (answer (po_obj P) got)] @ e2) b)"
    by (auto intro!: emits_return policy_run.get_failed)
qed (auto simp: deleting_def intro!: finalize_event [OF laws] live_event [OF laws])

end

end
