(* ===== verification/Samples.thy ===== *)
theory Samples
  imports PolicyProtocol
begin

text \<open>
  Concrete environments, on which the properties of the development are applied: an API server
  that always answers with the same objects and accepts every write, the documented behaviour
  of the Kubernetes helper functions, and a control plane that gives every request the same
  answer. None of it models code of the repository.
\<close>

subsection \<open>The helper functions, as documented\<close>

text \<open>
  \<open>meta.SetStatusCondition\<close>: replace the condition of the type, keeping its transition time
  when the status has not changed, or add it.
\<close>

definition stamp :: "time \<Rightarrow> Condition option \<Rightarrow> Condition \<Rightarrow> Condition" where
  "stamp now old c = (case old of
       None \<Rightarrow> c\<lparr>c_lastTransitionTime := now\<rparr>
     | Some d \<Rightarrow> c\<lparr>c_lastTransitionTime :=
         (if c_status d = c_status c then c_lastTransitionTime d else now)\<rparr>)"

definition set_condition :: "time \<Rightarrow> Condition list \<Rightarrow> Condition \<Rightarrow> Condition list" where
  "set_condition now cs c =
     stamp now (find_condition (c_type c) cs) c # filter (\<lambda>d. c_type d \<noteq> c_type c) cs"

definition is_not_found :: "foreign option \<Rightarrow> bool" where
  "is_not_found e = (case e of None \<Rightarrow> False | Some f \<Rightarrow> f_reason f = ''NotFound'')"

definition is_ascii_print :: "nat \<Rightarrow> bool" where
  "is_ascii_print n \<longleftrightarrow> 32 \<le> n \<and> n < 127"

definition sample_k8s :: "foreign + SegmentationPolicy \<Rightarrow> foreign + RuntimeSecurityPolicy \<Rightarrow>
    foreign + PlatformConfig \<Rightarrow> unit k8s" where
  "sample_k8s seg rt pc =
     \<lparr>getSeg = (\<lambda>_ w. (seg, w)), updateSeg = (\<lambda>x w. (Inr x, w)), statusSeg = (\<lambda>x w. (Inr x, w)),
      getRt = (\<lambda>_ w. (rt, w)), updateRt = (\<lambda>x w. (Inr x, w)), statusRt = (\<lambda>x w. (Inr x, w)),
      getPc = (\<lambda>_ w. (pc, w)), statusPc = (\<lambda>x w. (Inr x, w)),
      isNotFound = is_not_found,
      ignoreNotFound = (\<lambda>e. if is_not_found e then None else e),
      setStatusCondition = (\<lambda>_. set_condition 1000),
      containsFinalizer = (\<lambda>fs f. f \<in> set fs),
      addFinalizer = (\<lambda>fs f. if f \<in> set fs then fs else fs @ [f]),
      removeFinalizer = (\<lambda>fs f. filter (\<lambda>g. g \<noteq> f) fs),
      timeNow = (\<lambda>_. 1000), isPrint = is_ascii_print\<rparr>"

lemma sets_condition_sample: "sets_condition (set_condition now)"
proof -
  have find_filter: "find (\<lambda>c. c_type c = t) (filter (\<lambda>d. c_type d \<noteq> t') cs) = find (\<lambda>c. c_type c = t) cs"
    if "t \<noteq> t'" for t t' and cs :: "Condition list"
    using that by (induction cs) auto
  show ?thesis
    by (auto simp: sets_condition_def set_condition_def find_condition_def stamp_def
        same_verdict_def find_filter split: option.split)
qed

lemma sample_k8s_laws: "k8s_laws (sample_k8s seg rt pc)"
  by (auto simp: k8s_laws_def sample_k8s_def sets_condition_sample is_not_found_def)

subsection \<open>A control plane\<close>

definition sample_net :: "nat \<Rightarrow> string \<Rightarrow> unit net" where
  "sample_net st body =
     \<lparr>newRequest = (\<lambda>_ _. None),
      roundTrip = (\<lambda>_ w. (Inr \<lparr>rs_status = st, rs_body = Inr body\<rparr>, w)),
      jsonError = (\<lambda>_ _. \<lparr>f_reason = [], f_text = ''invalid character''\<rparr>)\<rparr>"

definition sample_client :: Client where
  "sample_client = NewClient ''https://cp.example/'' ''secret''"

definition start :: "(event, unit) sys" where
  "start = \<lparr>ext = (), trace = []\<rparr>"

subsection \<open>Objects\<close>

definition sample_meta :: "string list \<Rightarrow> time option \<Rightarrow> ObjectMeta" where
  "sample_meta fs deleted = \<lparr>om_name = ''web'', om_namespace = ''shop'', om_resourceVersion = ''7'',
     om_generation = 3, om_deletionTimestamp = deleted, om_finalizers = fs\<rparr>"

definition sample_seg :: "string list \<Rightarrow> time option \<Rightarrow> SegmentationPolicy" where
  "sample_seg fs deleted =
     \<lparr>sp_meta = sample_meta fs deleted,
      sp_spec = \<lparr>sps_selector = \<lparr>matchLabels = None\<rparr>, sps_ingress = None,
        sps_egress = Some [\<lparr>ports = Some [443], peerSelector = None, peerNamespace = ''db''\<rparr>],
        sps_providerRef = []\<rparr>,
      sp_status = \<lparr>sst_conditions = [], sst_observedGeneration = 2, sst_resolvedFlowProvider = []\<rparr>\<rparr>"

definition sample_rt :: "string list \<Rightarrow> time option \<Rightarrow> RuntimeSecurityPolicy" where
  "sample_rt fs deleted =
     \<lparr>rp_meta = sample_meta fs deleted,
      rp_spec = \<lparr>rps_selector = \<lparr>matchLabels = None\<rparr>, rps_tracingPolicyRef = ''tp'',
        rps_deniedBinaries = None\<rparr>,
      rp_status = \<lparr>rst_conditions = [], rst_observedGeneration = 2, rst_correlatedEvidenceCount = 0\<rparr>\<rparr>"

definition sample_pc :: "string \<Rightarrow> bool \<Rightarrow> PlatformConfig" where
  "sample_pc name paused =
     \<lparr>pc_meta = \<lparr>om_name = name, om_namespace = [], om_resourceVersion = ''1'', om_generation = 1,
        om_deletionTimestamp = None, om_finalizers = []\<rparr>,
      pc_spec = \<lparr>pcs_flowProvider = FlowProviderHubble, pcs_paused = paused\<rparr>,
      pc_status = \<lparr>pst_conditions = [], pst_observedGeneration = 0, pst_providerHealth = []\<rparr>\<rparr>"

definition sample_k :: "string list \<Rightarrow> time option \<Rightarrow> bool \<Rightarrow> unit k8s" where
  "sample_k fs deleted paused = sample_k8s (Inr (sample_seg fs deleted)) (Inr (sample_rt fs deleted))
     (Inr (sample_pc ''default'' paused))"

lemma sample_laws: "k8s_laws (sample_k fs deleted paused)"
  by (simp add: sample_k_def sample_k8s_laws)

text \<open>The bodies used as answers, with what they parse to.\<close>

definition sample_body :: string where
  "sample_body = [CHR 0x7B] @ dquote @ ''status'' @ dquote @ '':'' @ dquote @ ''ok'' @ dquote @
     '','' @ dquote @ ''provider_installed'' @ dquote @ '':true'' @ [CHR 0x7D]"

lemma sample_body_parse:
  "json_parse sample_body = Some (JObj [(''status'', JStr ''ok''), (''provider_installed'', JBool True)])"
  by code_simp

lemma field_names:
  "fold_name ''status'' = ''status''" "fold_name ''edges_upserted'' = ''edges_upserted''"
  "fold_name ''edges_closed'' = ''edges_closed''" "fold_name ''edge_keys'' = ''edge_keys''"
  "fold_name ''matched_workloads'' = ''matched_workloads''"
  "fold_name ''unverified_edge_keys'' = ''unverified_edge_keys''"
  "fold_name ''provider_installed'' = ''provider_installed''"
  by (rule fold_name_plain, simp add: plain_name_def)+

lemma sample_result: "unmarshal store_ReconcileResult zero_ReconcileResult sample_body =
    Some (zero_ReconcileResult\<lparr>rr_status := ''ok'', rr_providerInstalled := Some True\<rparr>)"
  unfolding unmarshal_def sample_body_parse option.case
  by (simp add: store_ReconcileResult_def store_struct_def find_field_def field_def field_names store_pointer_def)

lemma sample_close: "unmarshal store_CloseResult zero_CloseResult sample_body =
    Some (zero_CloseResult\<lparr>cl_status := ''ok''\<rparr>)"
  unfolding unmarshal_def sample_body_parse option.case
  by (simp add: store_CloseResult_def store_struct_def find_field_def field_def field_names store_pointer_def)

subsection \<open>Evaluating with them\<close>

lemma sample_k_simps:
  "getSeg (sample_k fs deleted paused) n w = (Inr (sample_seg fs deleted), w)"
  "updateSeg (sample_k fs deleted paused) seg w = (Inr seg, w)"
  "statusSeg (sample_k fs deleted paused) seg w = (Inr seg, w)"
  "getRt (sample_k fs deleted paused) n w = (Inr (sample_rt fs deleted), w)"
  "updateRt (sample_k fs deleted paused) rt w = (Inr rt, w)"
  "statusRt (sample_k fs deleted paused) rt w = (Inr rt, w)"
  "getPc (sample_k fs deleted paused) n w = (Inr (sample_pc ''default'' paused), w)"
  "statusPc (sample_k fs deleted paused) pc w = (Inr pc, w)"
  "containsFinalizer (sample_k fs deleted paused) gs f \<longleftrightarrow> f \<in> set gs"
  "addFinalizer (sample_k fs deleted paused) gs f = (if f \<in> set gs then gs else gs @ [f])"
  "removeFinalizer (sample_k fs deleted paused) gs f = filter (\<lambda>g. g \<noteq> f) gs"
  "isNotFound (sample_k fs deleted paused) = is_not_found"
  "is_not_found None = False"
  "setStatusCondition (sample_k fs deleted paused) w = set_condition 1000"
  "isPrint (sample_k fs deleted paused) = is_ascii_print"
  by (simp_all add: sample_k_def sample_k8s_def is_not_found_def)

lemma sample_net_simps:
  "newRequest (sample_net st body) m u = None"
  "roundTrip (sample_net st body) req w = (Inr \<lparr>rs_status = st, rs_body = Inr body\<rparr>, w)"
  by (simp_all add: sample_net_def)

lemma sample_client_simps:
  "missing sample_client = []" "baseURL sample_client = ''https://cp.example''"
  by (simp_all add: sample_client_def NewClient_def trim_right_char_def)

lemma sample_object_simps:
  "sp_meta (sample_seg fs deleted) = sample_meta fs deleted"
  "rp_meta (sample_rt fs deleted) = sample_meta fs deleted"
  "om_finalizers (sample_meta fs deleted) = fs"
  "om_deletionTimestamp (sample_meta fs deleted) = deleted"
  "om_name (sample_meta fs deleted) = ''web''" "om_namespace (sample_meta fs deleted) = ''shop''"
  "om_generation (sample_meta fs deleted) = 3"
  "pcs_paused (pc_spec (sample_pc nm paused)) = paused" "om_name (pc_meta (sample_pc nm paused)) = nm"
  by (simp_all add: sample_seg_def sample_rt_def sample_meta_def sample_pc_def)

lemma zero_simps:
  "rr_edgesUpserted zero_ReconcileResult = 0" "rr_matchedWorkloads zero_ReconcileResult = 0"
  "rr_unverifiedEdgeKeys zero_ReconcileResult = []" "cl_unverifiedEdgeKeys zero_CloseResult = []"
  by (simp_all add: zero_ReconcileResult_def zero_CloseResult_def)

lemma stamp_simps [simp]:
  "c_type (stamp now old c) = c_type c" "c_status (stamp now old c) = c_status c"
  by (cases old; simp add: stamp_def)+

lemma newCondition_simps:
  "c_type (newCondition g t st rsn msg) = t" "c_status (newCondition g t st rsn msg) = st"
  by (simp_all add: newCondition_def)

lemma find_set_condition:
  "find_condition t (set_condition now cs (newCondition g t st rsn msg)) =
     Some (stamp now (find_condition t cs) (newCondition g t st rsn msg))"
  by (simp add: set_condition_def find_condition_def newCondition_simps)

lemmas sample_simps = find_set_condition newCondition_simps zero_simps sample_k_simps sample_net_simps sample_client_simps sample_object_simps
  sample_result sample_close

end
