(* ===== verification/SegmentationController.thy ===== *)
theory SegmentationController
  imports Samples
begin

text \<open>
  \<open>internal/controller/segmentationpolicy_controller.go\<close>: the reconciler of
  SegmentationPolicy, handler by handler. Log calls are left out; every other call is an
  operation of the environment, made in the order of the source.
\<close>

definition crKindSegmentationPolicy :: string where
  "crKindSegmentationPolicy = ''SegmentationPolicy''"

record SegmentationPolicyReconciler =
  sr_backend :: Client
  sr_clusterID :: int64
  sr_platformConfigName :: string

subsection \<open>Conversion to the wire\<close>

definition toWireRule :: "SegmentationRule \<Rightarrow> WireSegmentationRule" where [wire_defs]:
  "toWireRule rule =
     \<lparr>w_ports = (case ports rule of None \<Rightarrow> Some [] | Some ps \<Rightarrow> Some ps),
      w_peerSelector = (case peerSelector rule of None \<Rightarrow> Some Map.empty | Some m \<Rightarrow> Some m),
      w_peerNamespace = peerNamespace rule\<rparr>"

definition toWireSpec :: "SegmentationPolicySpec \<Rightarrow> WireSegmentationPolicySpec" where [wire_defs]:
  "toWireSpec spec =
     \<lparr>ws_selector = \<lparr>matchLabels = (case matchLabels (sps_selector spec) of
          None \<Rightarrow> Some Map.empty | Some m \<Rightarrow> Some m)\<rparr>,
      ws_ingress = Some (map toWireRule (elems (sps_ingress spec))),
      ws_egress = Some (map toWireRule (elems (sps_egress spec))),
      ws_providerRef = sps_providerRef spec\<rparr>"

subsection \<open>Reading the answer\<close>

definition inconsistentSegmentationResult :: "(nat \<Rightarrow> bool) \<Rightarrow> ReconcileResult \<Rightarrow> string" where
  "inconsistentSegmentationResult ip res =
     (if rr_status res \<noteq> ''ok'' then
        ''status was '' @ go_quote ip (rr_status res) @ '', not '' @ dquote @ ''ok'' @ dquote
      else if rr_unverifiedEdgeKeys res \<noteq> [] then
        show_nat (length (rr_unverifiedEdgeKeys res)) @ '' edge(s) did not verify as open after commit''
      else if rr_edgesUpserted res \<noteq> rr_matchedWorkloads res then
        ''edges_upserted='' @ show_int64 (rr_edgesUpserted res) @
        '' does not match matched_workloads='' @ show_int64 (rr_matchedWorkloads res)
      else [])"

definition segmentationReadyMessage :: "ReconcileResult \<Rightarrow> string" where
  "segmentationReadyMessage res =
     (if rr_matchedWorkloads res = 0 then
        ''Control plane recorded this policy's intent in the Knowledge Graph, and confirmed that '' @
        ''NO workload in this namespace matches spec.selector (a checked zero, not an unchecked '' @
        ''one): 0 edge(s) upserted, '' @ show_int64 (rr_edgesClosed res) @ '' edge(s) closed.''
      else
        ''Control plane recorded this policy's intent in the Knowledge Graph: '' @
        show_int64 (rr_matchedWorkloads res) @ '' workload(s) matched, '' @
        show_int64 (rr_edgesUpserted res) @ '' edge(s) upserted, '' @
        show_int64 (rr_edgesClosed res) @ '' edge(s) closed.'')"

subsection \<open>Messages\<close>

definition seg_msg_inconsistent :: "string \<Rightarrow> string" where
  "seg_msg_inconsistent why = ''segmentation policy reconcile returned 200 but the response does '' @
     ''not confirm the write: '' @ why @ ''. Not marking Ready.''"

definition seg_msg_paused :: "gerror \<Rightarrow> string" where
  "seg_msg_paused err =
     ''Control-plane API is paused server-side; no mutation was applied: '' @ error_text err"

definition seg_msg_failed :: "APIError \<Rightarrow> string" where
  "seg_msg_failed e = ''segmentation policy reconcile failed: '' @ ae_code e @ '' '' @ em_dash @
     '' '' @ ae_message e"

definition seg_msg_unreachable :: "gerror \<Rightarrow> string" where
  "seg_msg_unreachable err = ''segmentation policy reconcile could not reach the control-plane '' @
     ''API, so the policy's applied state is unknown: '' @ error_text err"

definition msg_close_paused :: "gerror \<Rightarrow> string" where
  "msg_close_paused err = ''Deletion is blocked: the control-plane API is paused, so this CR's '' @
     ''graph edges cannot be closed yet. The finalizer is held until it resumes: '' @ error_text err"

definition msg_close_failed :: "gerror \<Rightarrow> string" where
  "msg_close_failed err = ''Deletion is blocked: closing this CR's graph edges failed, so the '' @
     ''finalizer is held rather than orphaning them: '' @ error_text err"

definition msg_close_unverified :: "(nat \<Rightarrow> bool) \<Rightarrow> CloseResult \<Rightarrow> string" where
  "msg_close_unverified ip res = ''Deletion is blocked: close returned status='' @
     go_quote ip (cl_status res) @ '' with '' @ show_nat (length (cl_unverifiedEdgeKeys res)) @
     '' unverified edge key(s); the edges are not confirmed closed, so the finalizer is held.''"

subsection \<open>Handlers\<close>

definition seg_set_finalizers :: "string list \<Rightarrow> SegmentationPolicy \<Rightarrow> SegmentationPolicy" where
  "seg_set_finalizers fs cr = cr\<lparr>sp_meta := (sp_meta cr)\<lparr>om_finalizers := fs\<rparr>\<rparr>"

definition seg_set_conditions :: "Condition list \<Rightarrow> SegmentationPolicy \<Rightarrow> SegmentationPolicy" where
  "seg_set_conditions cs cr = cr\<lparr>sp_status := (sp_status cr)\<lparr>sst_conditions := cs\<rparr>\<rparr>"

definition seg_notReady :: "'w k8s \<Rightarrow> SegmentationPolicy \<Rightarrow> string \<Rightarrow> string \<Rightarrow> duration \<Rightarrow>
    ('w, verdict) op" where
  "seg_notReady K cr rsn msg after = do {
     conds \<leftarrow> setCondition K (sst_conditions (sp_status cr)) (om_generation (sp_meta cr))
                ConditionReady ConditionFalse rsn msg;
     u \<leftarrow> status_seg K (seg_set_conditions conds cr);
     State_Monad.return (case u of
         Inl err \<Rightarrow> (no_requeue, Some (Wrap (''updating status ('' @ rsn @ ''): '') (Foreign err) []))
       | Inr _ \<Rightarrow>
           if after > 0 then (\<lparr>requeueAfter = after\<rparr>, None)
           else (no_requeue, Some (Errorf (rsn @ '': '' @ msg))))
   }"

definition seg_reconcileError :: "'w k8s \<Rightarrow> SegmentationPolicy \<Rightarrow> gerror \<Rightarrow> ('w, verdict) op" where
  "seg_reconcileError K cr err =
     (if IsUnconfigured err then
        seg_notReady K cr ReasonAwaitingConfiguration
          (unconfiguredMessage ''Segmentation policy reconcile'' err) UnconfiguredRequeue
      else if IsPaused err then
        seg_notReady K cr ReasonPaused (seg_msg_paused err) PausedRequeue
      else (case as_api err of
          Some apiErr \<Rightarrow>
            seg_notReady K cr
              (if IsWriteNotVerified err then ReasonWriteNotVerified else ReasonReconcileFailed)
              (seg_msg_failed apiErr) 0
        | None \<Rightarrow> do {
            v \<leftarrow> seg_notReady K cr ReasonBackendUnreachable (seg_msg_unreachable err) 0;
            State_Monad.return (case snd v of
                Some uerr \<Rightarrow> (no_requeue, Some uerr)
              | None \<Rightarrow> (no_requeue, Some err))
          }))"

definition seg_release :: "'w k8s \<Rightarrow> SegmentationPolicy \<Rightarrow> string \<Rightarrow> ('w, verdict) op" where
  "seg_release K cr what = do {
     u \<leftarrow> update_seg K (seg_set_finalizers
            (removeFinalizer K (om_finalizers (sp_meta cr)) CREdgesFinalizer) cr);
     State_Monad.return (case u of
         Inl err \<Rightarrow> (no_requeue, Some (Wrap what (Foreign err) []))
       | Inr _ \<Rightarrow> (no_requeue, None))
   }"

definition seg_finalize :: "'w k8s \<Rightarrow> 'w net \<Rightarrow> SegmentationPolicyReconciler \<Rightarrow>
    SegmentationPolicy \<Rightarrow> ('w, verdict) op" where
  "seg_finalize K N r cr =
     (if \<not> containsFinalizer K (om_finalizers (sp_meta cr)) CREdgesFinalizer
      then State_Monad.return (no_requeue, None)
      else do {
        got \<leftarrow> CloseCREdges N (sr_backend r) crKindSegmentationPolicy (sr_clusterID r)
                 (om_namespace (sp_meta cr)) (om_name (sp_meta cr));
        case got of
          Inl err \<Rightarrow>
            if IsUnconfigured err then
              seg_release K cr ''removing finalizer on an unconfigured operator: ''
            else if IsPaused err then
              seg_notReady K cr ReasonPaused (msg_close_paused err) PausedRequeue
            else seg_notReady K cr ReasonCloseFailed (msg_close_failed err) 0
        | Inr res \<Rightarrow>
            if cl_status res \<noteq> ''ok'' \<or> cl_unverifiedEdgeKeys res \<noteq> [] then
              seg_notReady K cr ReasonCloseFailed (msg_close_unverified (isPrint K) res) 0
            else seg_release K cr ''removing finalizer after confirmed edge close: ''
      })"

definition seg_ensureFinalizer :: "'w k8s \<Rightarrow> SegmentationPolicy \<Rightarrow>
    ('w, gerror + SegmentationPolicy) op" where
  "seg_ensureFinalizer K cr =
     (if containsFinalizer K (om_finalizers (sp_meta cr)) CREdgesFinalizer
      then State_Monad.return (Inr cr)
      else do {
        u \<leftarrow> update_seg K (seg_set_finalizers
               (addFinalizer K (om_finalizers (sp_meta cr)) CREdgesFinalizer) cr);
        State_Monad.return (case u of
            Inl err \<Rightarrow> Inl (Wrap ''adding finalizer: '' (Foreign err) [])
          | Inr cr' \<Rightarrow> Inr cr')
      })"

definition seg_markReady :: "'w k8s \<Rightarrow> pauseGate \<Rightarrow> ReconcileResult \<Rightarrow> SegmentationPolicy \<Rightarrow>
    ('w, verdict) op" where
  "seg_markReady K gate result cr = do {
     let provider = (if sps_providerRef (sp_spec cr) = [] then pg_flowProvider gate
                     else sps_providerRef (sp_spec cr));
     conds \<leftarrow> setCondition K (sst_conditions (sp_status cr)) (om_generation (sp_meta cr))
                ConditionReady ConditionTrue ReasonReconciled (segmentationReadyMessage result);
     u \<leftarrow> status_seg K (cr\<lparr>sp_status := (sp_status cr)\<lparr>
            sst_conditions := conds,
            sst_observedGeneration := om_generation (sp_meta cr),
            sst_resolvedFlowProvider := provider\<rparr>\<rparr>);
     State_Monad.return (case u of
         Inl err \<Rightarrow>
           (no_requeue, Some (Wrap ''updating status after successful reconcile: '' (Foreign err) []))
       | Inr _ \<Rightarrow> (\<lparr>requeueAfter = ResyncInterval\<rparr>, None))
   }"

definition seg_Reconcile :: "'w k8s \<Rightarrow> 'w net \<Rightarrow> SegmentationPolicyReconciler \<Rightarrow>
    NamespacedName \<Rightarrow> ('w, verdict) op" where
  "seg_Reconcile K N r req = do {
     got \<leftarrow> get_seg K req;
     case got of
       Inl err \<Rightarrow> State_Monad.return (no_requeue, map_option Foreign (ignoreNotFound K (Some err)))
     | Inr cr \<Rightarrow>
         if \<not> time_is_zero (om_deletionTimestamp (sp_meta cr)) then seg_finalize K N r cr
         else do {
           gate \<leftarrow> checkPauseGate K (sr_platformConfigName r);
           if pg_paused gate then
             seg_notReady K cr (pg_reason gate) (pg_message gate) PausedRequeue
           else do {
             ready \<leftarrow> seg_ensureFinalizer K cr;
             case ready of
               Inl e \<Rightarrow> State_Monad.return (no_requeue, Some e)
             | Inr cr \<Rightarrow> do {
                 got \<leftarrow> ReconcileSegmentationPolicy N (sr_backend r) (sr_clusterID r)
                          (om_namespace (sp_meta cr)) (om_name (sp_meta cr)) (toWireSpec (sp_spec cr));
                 case got of
                   Inl err \<Rightarrow> seg_reconcileError K cr err
                 | Inr result \<Rightarrow>
                     let why = inconsistentSegmentationResult (isPrint K) result in
                     if why \<noteq> [] then
                       seg_notReady K cr ReasonWriteNotVerified (seg_msg_inconsistent why) 0
                     else seg_markReady K gate result cr
               }
           }
         }
   }"

subsection \<open>The reconciler as an instance of the policy protocol\<close>

definition seg_consistent :: "ReconcileResult \<Rightarrow> bool" where
  "seg_consistent res \<longleftrightarrow> rr_status res = ''ok'' \<and> rr_unverifiedEdgeKeys res = [] \<and>
     rr_edgesUpserted res = rr_matchedWorkloads res"

lemma inconsistentSegmentationResult_iff:
  "inconsistentSegmentationResult ip res = [] \<longleftrightarrow> seg_consistent res"
  by (simp add: inconsistentSegmentationResult_def seg_consistent_def)

text \<open>The reason, the message and the delay for an error of the push.\<close>

definition seg_diagnose :: "gerror \<Rightarrow> string \<times> string \<times> duration" where
  "seg_diagnose err =
     (if IsUnconfigured err then
        (ReasonAwaitingConfiguration, unconfiguredMessage ''Segmentation policy reconcile'' err,
         UnconfiguredRequeue)
      else if IsPaused err then (ReasonPaused, seg_msg_paused err, PausedRequeue)
      else (case as_api err of
          Some apiErr \<Rightarrow>
            (if IsWriteNotVerified err then ReasonWriteNotVerified else ReasonReconcileFailed,
             seg_msg_failed apiErr, 0)
        | None \<Rightarrow> (ReasonBackendUnreachable, seg_msg_unreachable err, 0)))"

text \<open>The two requests the reconciler makes for a resource.\<close>

definition seg_push_request :: "SegmentationPolicyReconciler \<Rightarrow> SegmentationPolicy \<Rightarrow> http_request" where
  "seg_push_request r cr =
     (let body = Some (SegmentationBody \<lparr>srq_clusterID = sr_clusterID r,
             srq_namespace = om_namespace (sp_meta cr), srq_name = om_name (sp_meta cr),
             srq_spec = toWireSpec (sp_spec cr)\<rparr>)
      in \<lparr>rq_method = ''POST'',
          rq_url = baseURL (sr_backend r) @ ''/internal/operator/v1/segmentation-policies/reconcile'',
          rq_header = request_header (sr_backend r) body, rq_body = body\<rparr>)"

definition seg_close_request :: "SegmentationPolicyReconciler \<Rightarrow> SegmentationPolicy \<Rightarrow> http_request" where
  "seg_close_request r cr =
     (let body = Some (CloseBody \<lparr>crq_crKind = ''SegmentationPolicy'', crq_clusterID = sr_clusterID r,
             crq_namespace = om_namespace (sp_meta cr), crq_name = om_name (sp_meta cr)\<rparr>)
      in \<lparr>rq_method = ''POST'', rq_url = baseURL (sr_backend r) @ ''/internal/operator/v1/cr-edges/close'',
          rq_header = request_header (sr_backend r) body, rq_body = body\<rparr>)"

definition seg_contract :: "SegmentationPolicyReconciler \<Rightarrow> contract" where
  "seg_contract r = \<lparr>ct_kind = SegmentationPolicyKind, ct_unset = missing (sr_backend r),
     ct_config = sr_platformConfigName r, ct_consistent = seg_consistent,
     ct_push = (\<lambda>x. case x of SegObj cr \<Rightarrow> seg_push_request r cr | _ \<Rightarrow> no_request),
     ct_close = (\<lambda>x. case x of SegObj cr \<Rightarrow> seg_close_request r cr | _ \<Rightarrow> no_request)\<rparr>"

lemma seg_contract_simps [simp]:
  "ct_kind (seg_contract r) = SegmentationPolicyKind"
  "ct_unset (seg_contract r) = missing (sr_backend r)"
  "ct_config (seg_contract r) = sr_platformConfigName r"
  "ct_consistent (seg_contract r) = seg_consistent"
  "ct_push (seg_contract r) (SegObj cr) = seg_push_request r cr"
  "ct_close (seg_contract r) (SegObj cr) = seg_close_request r cr"
  by (simp_all add: seg_contract_def)

lemma seg_contract_ok: "contract_ok (seg_contract r)"
proof -
  have "writes_edges SegmentationPolicyKind (obj_key x) (ct_push (seg_contract r) x) \<and>
      closes_edges SegmentationPolicyKind (obj_key x) (ct_close (seg_contract r) x)"
    if "obj_kind x = SegmentationPolicyKind" for x
    using that by (cases x)
      (simp_all add: seg_push_request_def seg_close_request_def Let_def writes_edges_def
        closes_edges_def obj_key_def)
  then show ?thesis by (simp add: contract_ok_def)
qed

definition seg_ops :: "'w k8s \<Rightarrow> 'w net \<Rightarrow> SegmentationPolicyReconciler \<Rightarrow>
    ('w, SegmentationPolicy) policy_ops" where
  "seg_ops K N r =
     \<lparr>po_get = get_seg K, po_update = update_seg K, po_status = status_seg K, po_obj = SegObj,
      po_setFinalizers = seg_set_finalizers, po_setConditions = seg_set_conditions,
      po_setReady = (\<lambda>conds gate result cr. cr\<lparr>sp_status := (sp_status cr)\<lparr>
            sst_conditions := conds, sst_observedGeneration := om_generation (sp_meta cr),
            sst_resolvedFlowProvider := (if sps_providerRef (sp_spec cr) = []
              then pg_flowProvider gate else sps_providerRef (sp_spec cr))\<rparr>\<rparr>),
      po_push = (\<lambda>cr. ReconcileSegmentationPolicy N (sr_backend r) (sr_clusterID r)
            (om_namespace (sp_meta cr)) (om_name (sp_meta cr)) (toWireSpec (sp_spec cr))),
      po_close = (\<lambda>cr. CloseCREdges N (sr_backend r) crKindSegmentationPolicy (sr_clusterID r)
            (om_namespace (sp_meta cr)) (om_name (sp_meta cr))),
      po_inconsistent = inconsistentSegmentationResult (isPrint K),
      po_inconsistentMessage = seg_msg_inconsistent,
      po_readyMessage = segmentationReadyMessage,
      po_diagnose = seg_diagnose,
      po_closePaused = msg_close_paused, po_closeFailed = msg_close_failed,
      po_closeUnverified = msg_close_unverified (isPrint K)\<rparr>"

lemma seg_ops_simps [simp]:
  "po_get (seg_ops K N r) = get_seg K" "po_update (seg_ops K N r) = update_seg K"
  "po_status (seg_ops K N r) = status_seg K" "po_obj (seg_ops K N r) = SegObj"
  "po_setFinalizers (seg_ops K N r) = seg_set_finalizers"
  "po_setConditions (seg_ops K N r) = seg_set_conditions"
  "po_push (seg_ops K N r) cr = ReconcileSegmentationPolicy N (sr_backend r) (sr_clusterID r)
     (om_namespace (sp_meta cr)) (om_name (sp_meta cr)) (toWireSpec (sp_spec cr))"
  "po_close (seg_ops K N r) cr = CloseCREdges N (sr_backend r) crKindSegmentationPolicy
     (sr_clusterID r) (om_namespace (sp_meta cr)) (om_name (sp_meta cr))"
  "po_inconsistent (seg_ops K N r) = inconsistentSegmentationResult (isPrint K)"
  "po_inconsistentMessage (seg_ops K N r) = seg_msg_inconsistent"
  "po_readyMessage (seg_ops K N r) = segmentationReadyMessage"
  "po_diagnose (seg_ops K N r) = seg_diagnose"
  "po_closePaused (seg_ops K N r) = msg_close_paused"
  "po_closeFailed (seg_ops K N r) = msg_close_failed"
  "po_closeUnverified (seg_ops K N r) = msg_close_unverified (isPrint K)"
  by (simp_all add: seg_ops_def)

text \<open>Handler by handler, the reconciler is the abstract one over \<open>seg_ops\<close>.\<close>

lemma seg_notReady_policy:
  "seg_notReady K cr rsn msg after = policy_notReady K (seg_ops K N r) cr rsn msg after"
  by (simp add: seg_notReady_def policy_notReady_def unready_verdict_def)

lemma seg_release_policy: "seg_release K cr what = policy_release K (seg_ops K N r) cr what"
  by (simp add: seg_release_def policy_release_def release_verdict_def obj_finalizers_def)

lemma seg_ensureFinalizer_policy:
  "seg_ensureFinalizer K cr = policy_ensureFinalizer K (seg_ops K N r) cr"
  by (simp add: seg_ensureFinalizer_def policy_ensureFinalizer_def guarded_obj_def obj_finalizers_def)

lemma seg_markReady_policy:
  "seg_markReady K gate result cr = policy_markReady K (seg_ops K N r) gate result cr"
  by (simp add: seg_markReady_def policy_markReady_def ready_verdict_def Let_def seg_ops_def)

lemma seg_finalize_policy: "seg_finalize K N r cr = policy_finalize K (seg_ops K N r) cr"
  unfolding seg_finalize_def policy_finalize_def
  by (auto simp: guarded_obj_def obj_finalizers_def policy_closed_def close_confirmed_def
      seg_notReady_policy [of K _ _ _ _ N r] seg_release_policy [of K _ _ N r]
      intro!: bind_ext split: sum.split)

text \<open>
  The transport branch returns the first error \<open>notReady\<close> gives it: with a zero delay there
  always is one, so the fallback to the original error is never taken.
\<close>

lemma seg_notReady_fails:
  "State_Monad.bind (seg_notReady K cr rsn msg 0) (\<lambda>v. State_Monad.return (case snd v of
       Some uerr \<Rightarrow> (no_requeue, Some uerr) | None \<Rightarrow> (no_requeue, Some err))) =
   seg_notReady K cr rsn msg 0"
  unfolding seg_notReady_def by (auto intro!: bind_ext split: sum.split)

lemma seg_reconcileError_policy:
  "seg_reconcileError K cr err = (case seg_diagnose err of (rsn, msg, after) \<Rightarrow>
     policy_notReady K (seg_ops K N r) cr rsn msg after)"
  unfolding seg_reconcileError_def seg_notReady_fails
  by (simp add: seg_diagnose_def seg_notReady_policy [of K _ _ _ _ N r] split: option.split)

theorem seg_Reconcile_refines:
  "seg_Reconcile K N r req = policy_reconcile K (seg_ops K N r) (sr_platformConfigName r) req"
proof -
  have pushed: "policy_pushed K (seg_ops K N r) gate cr got = (case got of
        Inl err \<Rightarrow> seg_reconcileError K cr err
      | Inr result \<Rightarrow>
          let why = inconsistentSegmentationResult (isPrint K) result in
          if why \<noteq> [] then seg_notReady K cr ReasonWriteNotVerified (seg_msg_inconsistent why) 0
          else seg_markReady K gate result cr)" for got gate cr
    by (simp add: policy_pushed_def seg_reconcileError_policy [of K _ _ N r]
        seg_notReady_policy [of K _ _ _ _ N r] seg_markReady_policy [of K _ _ _ N r] Let_def
        split: sum.split)
  have live: "policy_live K (seg_ops K N r) (sr_platformConfigName r) cr = do {
       gate \<leftarrow> checkPauseGate K (sr_platformConfigName r);
       if pg_paused gate then seg_notReady K cr (pg_reason gate) (pg_message gate) PausedRequeue
       else do {
         ready \<leftarrow> seg_ensureFinalizer K cr;
         case ready of
           Inl e \<Rightarrow> State_Monad.return (no_requeue, Some e)
         | Inr cr \<Rightarrow> do {
             got \<leftarrow> ReconcileSegmentationPolicy N (sr_backend r) (sr_clusterID r)
                      (om_namespace (sp_meta cr)) (om_name (sp_meta cr)) (toWireSpec (sp_spec cr));
             policy_pushed K (seg_ops K N r) gate cr got
           }
       }
     }" for cr
    unfolding policy_live_def
    by (auto simp: seg_notReady_policy [of K _ _ _ _ N r] seg_ensureFinalizer_policy [of K _ N r]
        intro!: bind_ext split: sum.split)
  show ?thesis
    unfolding seg_Reconcile_def policy_reconcile_def
    by (auto simp: seg_finalize_policy live pushed intro!: bind_ext split: sum.split)
qed

subsection \<open>The laws of the protocol hold of it\<close>

lemma seg_push_emits:
  assumes "missing (sr_backend r) \<noteq> [] \<Longrightarrow> Q (Inl (Unconfigured (missing (sr_backend r)))) []"
    and "\<And>e. \<lbrakk>missing (sr_backend r) = []; \<not> IsUnconfigured e\<rbrakk> \<Longrightarrow> Q (Inl e) []"
    and "\<And>e got. \<lbrakk>missing (sr_backend r) = []; \<not> IsUnconfigured e;
        \<forall>R. \<not> confirms store_ReconcileResult zero_ReconcileResult R got\<rbrakk> \<Longrightarrow>
      Q (Inl e) [EvHttp (seg_push_request r cr) got]"
    and "\<And>v got. \<lbrakk>missing (sr_backend r) = [];
        \<forall>R. confirms store_ReconcileResult zero_ReconcileResult R got = R v\<rbrakk> \<Longrightarrow>
      Q (Inr v) [EvHttp (seg_push_request r cr) got]"
  shows "emits (po_push (seg_ops K N r) cr) Q"
  using assms unfolding seg_ops_simps ReconcileSegmentationPolicy_def
  by (intro call_emits) (simp_all add: seg_push_request_def apiPrefix_def MethodPost_def Let_def)

lemma seg_close_emits:
  assumes "missing (sr_backend r) \<noteq> [] \<Longrightarrow> Q (Inl (Unconfigured (missing (sr_backend r)))) []"
    and "\<And>e. \<lbrakk>missing (sr_backend r) = []; \<not> IsUnconfigured e\<rbrakk> \<Longrightarrow> Q (Inl e) []"
    and "\<And>e got. \<lbrakk>missing (sr_backend r) = []; \<not> IsUnconfigured e;
        \<forall>R. \<not> confirms store_CloseResult zero_CloseResult R got\<rbrakk> \<Longrightarrow>
      Q (Inl e) [EvHttp (seg_close_request r cr) got]"
    and "\<And>v got. \<lbrakk>missing (sr_backend r) = [];
        \<forall>R. confirms store_CloseResult zero_CloseResult R got = R v\<rbrakk> \<Longrightarrow>
      Q (Inr v) [EvHttp (seg_close_request r cr) got]"
  shows "emits (po_close (seg_ops K N r) cr) Q"
  using assms unfolding seg_ops_simps CloseCREdges_def
  by (intro call_emits)
    (simp_all add: seg_close_request_def apiPrefix_def MethodPost_def crKindSegmentationPolicy_def
      Let_def)

interpretation seg: policy_controller K "seg_ops K N r" "seg_contract r"
  for K :: "'w k8s" and N :: "'w net" and r :: SegmentationPolicyReconciler
  by unfold_locales
    ((intro seg_push_emits seg_close_emits; simp) |
     simp add: get_seg_def update_seg_def status_seg_def emits_call
      seg_ops_def obj_finalizers_def obj_key_def seg_set_finalizers_def seg_set_conditions_def
      inconsistentSegmentationResult_iff seg_diagnose_def)+

theorem seg_runs:
  "k8s_laws K \<Longrightarrow> emits (seg_Reconcile K N r n) (\<lambda>v es. policy_run K (seg_contract r) n es v)"
  unfolding seg_Reconcile_refines using seg.reconcile_runs by simp

text \<open>What every run of the protocol guarantees, every run of the reconciler guarantees.\<close>

lemma seg_guarantee:
  "k8s_laws K \<Longrightarrow> (\<And>es v. policy_run K (seg_contract r) n es v \<Longrightarrow> Q v es) \<Longrightarrow>
   emits (seg_Reconcile K N r n) Q"
  by (rule emits_weaken [OF seg_runs])

subsection \<open>Sample runs\<close>

definition sample_sr :: SegmentationPolicyReconciler where
  "sample_sr = \<lparr>sr_backend = sample_client, sr_clusterID = 1, sr_platformConfigName = ''default''\<rparr>"

text \<open>A resource without the finalizer, with the switch off or on, and one that is deleted.\<close>

definition seg_sample_trace :: "string list \<Rightarrow> time option \<Rightarrow> bool \<Rightarrow> event list" where
  "seg_sample_trace fs deleted paused = trace (snd (run_state
     (seg_Reconcile (sample_k fs deleted paused) (sample_net 200 sample_body) sample_sr
        (''shop'', ''web'')) start))"

lemma seg_sample_holds:
  "emits (seg_Reconcile (sample_k fs deleted paused) (sample_net 200 sample_body) sample_sr
     (''shop'', ''web'')) Q \<Longrightarrow> \<exists>v. Q v (seg_sample_trace fs deleted paused)"
  unfolding seg_sample_trace_def by (rule exI, erule emits_run) (simp add: start_def)

lemmas seg_run_defs = seg_Reconcile_def seg_ensureFinalizer_def seg_finalize_def seg_markReady_def
  seg_notReady_def seg_release_def seg_set_finalizers_def op_defs checkPauseGate_def gate_of_def setCondition_def
  ReconcileSegmentationPolicy_def CloseCREdges_def client_do_def read_response_def
  inconsistentSegmentationResult_def
  run_state_call start_def time_is_zero_def

lemma seg_sample_push: "\<exists>y. seg_sample_trace [] None False =
    [EvGet SegmentationPolicyKind (''shop'', ''web'') (Inr (SegObj (sample_seg [] None))),
     EvGet PlatformConfigKind ([], ''default'') (Inr (PcObj (sample_pc ''default'' False))),
     EvUpdate (SegObj (sample_seg [CREdgesFinalizer] None)) (Inr (SegObj (sample_seg [CREdgesFinalizer] None))),
     EvHttp (seg_push_request sample_sr (sample_seg [CREdgesFinalizer] None))
       (Inr \<lparr>rs_status = 200, rs_body = Inr sample_body\<rparr>),
     EvStatusUpdate (SegObj y) (Inr (SegObj y))] \<and>
   ev_marks_ready SegmentationPolicyKind (''shop'', ''web'') (EvStatusUpdate (SegObj y) (Inr (SegObj y)))"
proof -
  have "(sample_seg [] None)\<lparr>sp_meta := (sample_meta [] None)\<lparr>om_finalizers := [CREdgesFinalizer]\<rparr>\<rparr> =
      sample_seg [CREdgesFinalizer] None"
    by (simp add: sample_seg_def sample_meta_def)
  then show ?thesis
    by (simp add: seg_sample_trace_def seg_run_defs sample_simps sample_sr_def seg_push_request_def
        apiPrefix_def MethodPost_def Let_def is_obj_def obj_key_def ready_is_def)
qed

lemma seg_sample_paused: "\<exists>y. seg_sample_trace [] None True =
    [EvGet SegmentationPolicyKind (''shop'', ''web'') (Inr (SegObj (sample_seg [] None))),
     EvGet PlatformConfigKind ([], ''default'') (Inr (PcObj (sample_pc ''default'' True))),
     EvStatusUpdate (SegObj y) (Inr (SegObj y))]"
  by (simp add: seg_sample_trace_def seg_run_defs sample_simps sample_sr_def)

lemma seg_sample_delete: "seg_sample_trace [CREdgesFinalizer] (Some 5) False =
    [EvGet SegmentationPolicyKind (''shop'', ''web'') (Inr (SegObj (sample_seg [CREdgesFinalizer] (Some 5)))),
     EvHttp (seg_close_request sample_sr (sample_seg [CREdgesFinalizer] (Some 5)))
       (Inr \<lparr>rs_status = 200, rs_body = Inr sample_body\<rparr>),
     EvUpdate (SegObj (sample_seg [] (Some 5))) (Inr (SegObj (sample_seg [] (Some 5))))]"
proof -
  have "(sample_seg [CREdgesFinalizer] (Some 5))\<lparr>sp_meta := (sample_meta [CREdgesFinalizer] (Some 5))
      \<lparr>om_finalizers := []\<rparr>\<rparr> = sample_seg [] (Some 5)"
    by (simp add: sample_seg_def sample_meta_def)
  then show ?thesis
    by (simp add: seg_sample_trace_def seg_run_defs sample_simps sample_sr_def seg_close_request_def
        apiPrefix_def MethodPost_def crKindSegmentationPolicy_def Let_def)
qed

subsection \<open>Properties\<close>

text \<open>
  C6. Whatever the API server and the control plane answer, a reconcile of a
  SegmentationPolicy makes its calls in the order of one of the eleven paths of \<open>policy_run\<close>,
  with the requests, status writes and return value that path allows.
\<close>

theorem seg_follows_protocol:
  "k8s_laws K \<Longrightarrow>
   emits (seg_Reconcile K N r n) (\<lambda>v es. policy_run K (seg_contract r) n es v)"
  by (rule seg_runs)

lemma seg_follows_protocol_witness:
  "\<exists>v. policy_run (sample_k [CREdgesFinalizer] (Some 5) False) (seg_contract sample_sr) (''shop'', ''web'')
     (seg_sample_trace [CREdgesFinalizer] (Some 5) False) v"
  by (rule seg_sample_holds [OF seg_follows_protocol [OF sample_laws]])

text \<open>
  No request that makes the control plane write edges for a resource goes out
  before the API server is known to hold the finalizer on that resource.
\<close>

lemma seg_finalizer_first:
  "k8s_laws K \<Longrightarrow>
   emits (seg_Reconcile K N r n) (\<lambda>v es.
     precedes (ev_guarded K SegmentationPolicyKind key) (ev_writes SegmentationPolicyKind key) es)"
  by (rule seg_guarantee) (auto dest: run_finalizer_first [OF _ seg_contract_ok])

text \<open>
  No request that makes the control plane write edges goes out before the
  PlatformConfig the operator is bound to was read, in the same run, with \<open>spec.paused\<close> false.
\<close>

lemma seg_switch_off_first:
  "k8s_laws K \<Longrightarrow>
   emits (seg_Reconcile K N r n) (\<lambda>v es.
     precedes (ev_switch_off (sr_platformConfigName r)) (ev_writes k key) es)"
  by (rule seg_guarantee) (auto dest: run_switch_off_first [OF _ seg_contract_ok])

text \<open>
  A configured operator takes the finalizer off a resource only after the
  control plane has answered a close request for that resource with status ok and no
  unverified edge key.
\<close>

lemma seg_release_confirmed:
  "k8s_laws K \<Longrightarrow> missing (sr_backend r) = [] \<Longrightarrow>
   emits (seg_Reconcile K N r n) (\<lambda>v es.
     precedes (ev_close_confirmed SegmentationPolicyKind key)
       (ev_releases K SegmentationPolicyKind key) es)"
  by (rule seg_guarantee) (auto dest: run_release_confirmed [OF _ seg_contract_ok])

lemma seg_release_confirmed_witness:
  "precedes (ev_close_confirmed SegmentationPolicyKind (''shop'', ''web''))
     (ev_releases (sample_k [CREdgesFinalizer] (Some 5) False) SegmentationPolicyKind (''shop'', ''web''))
     (seg_sample_trace [CREdgesFinalizer] (Some 5) False) \<and>
   (\<exists>e\<in>set (seg_sample_trace [CREdgesFinalizer] (Some 5) False).
      ev_releases (sample_k [CREdgesFinalizer] (Some 5) False) SegmentationPolicyKind (''shop'', ''web'') e)"
proof
  have "missing (sr_backend sample_sr) = []" by (simp add: sample_sr_def sample_simps)
  from seg_sample_holds [OF seg_release_confirmed [OF sample_laws this]]
  show "precedes (ev_close_confirmed SegmentationPolicyKind (''shop'', ''web''))
     (ev_releases (sample_k [CREdgesFinalizer] (Some 5) False) SegmentationPolicyKind (''shop'', ''web''))
     (seg_sample_trace [CREdgesFinalizer] (Some 5) False)"
    by simp
qed (simp add: seg_sample_delete is_obj_def guarded_obj_def obj_key_def obj_finalizers_def sample_simps)

text \<open>
  Status is written with Ready true only after a push of that very resource was
  answered with a 2xx body that reports status ok, no unverified edge and as many edges as
  matched workloads.
\<close>

lemma seg_ready_confirmed:
  "k8s_laws K \<Longrightarrow>
   emits (seg_Reconcile K N r n) (\<lambda>v es.
     precedes (ev_write_confirmed seg_consistent SegmentationPolicyKind key)
       (ev_marks_ready SegmentationPolicyKind key) es)"
  by (rule seg_guarantee) (auto dest: run_ready_confirmed [OF _ seg_contract_ok])

lemma seg_ready_confirmed_witness:
  "precedes (ev_write_confirmed seg_consistent SegmentationPolicyKind (''shop'', ''web''))
     (ev_marks_ready SegmentationPolicyKind (''shop'', ''web'')) (seg_sample_trace [] None False) \<and>
   (\<exists>e\<in>set (seg_sample_trace [] None False). ev_marks_ready SegmentationPolicyKind (''shop'', ''web'') e)"
proof
  show "precedes (ev_write_confirmed seg_consistent SegmentationPolicyKind (''shop'', ''web''))
     (ev_marks_ready SegmentationPolicyKind (''shop'', ''web'')) (seg_sample_trace [] None False)"
    using seg_sample_holds [OF seg_ready_confirmed [OF sample_laws]] by simp
qed (use seg_sample_push in auto)

text \<open>
  A run sends at most one request, none when the operator lacks a connection
  setting; the request is the push of the specification, or the close of the edges, of an
  object the API server returned in this run, and a close only of one that is being deleted
  and carries the finalizer.
\<close>

lemma seg_requests:
  "k8s_laws K \<Longrightarrow>
   emits (seg_Reconcile K N r n) (\<lambda>v es.
     length (filter is_http es) \<le> 1 \<and>
     (missing (sr_backend r) \<noteq> [] \<longrightarrow> filter is_http es = []) \<and>
     (\<forall>req a. EvHttp req a \<in> set es \<longrightarrow> (\<exists>cr. Some (SegObj cr) \<in> ev_returns ` set es \<and>
        (req = seg_push_request r cr \<or>
         req = seg_close_request r cr \<and> deleting (SegObj cr) \<and> guarded_obj K (SegObj cr)))))"
proof (rule seg_guarantee, assumption, intro conjI allI impI)
  fix es v
  assume run: "policy_run K (seg_contract r) n es v"
  from run_one_request [OF run]
  show "length (filter is_http es) \<le> 1" "missing (sr_backend r) \<noteq> [] \<Longrightarrow> filter is_http es = []"
    by (auto simp: filter_empty_conv)
  fix req a
  assume "EvHttp req a \<in> set es"
  from run_requests [OF run this] obtain x where "returned (seg_contract r) es x"
    "req = ct_push (seg_contract r) x \<or> req = ct_close (seg_contract r) x \<and> deleting x \<and> guarded_obj K x"
    by blast
  then show "\<exists>cr. Some (SegObj cr) \<in> ev_returns ` set es \<and>
        (req = seg_push_request r cr \<or>
         req = seg_close_request r cr \<and> deleting (SegObj cr) \<and> guarded_obj K (SegObj cr))"
    by (cases x) (auto simp: returned_def)
qed

lemma seg_notReady_reported:
  fixes K :: "'w k8s"
  shows "k8s_laws K \<Longrightarrow> emits (seg_notReady K cr rsn msg after)
    (reported (SegObj cr) rsn (if after > 0 then Some after else None))"
  unfolding seg_notReady_policy [of K cr rsn msg after "undefined :: 'w net" sample_sr]
  by (rule seg.notReady_reported [unfolded seg_ops_simps])

text \<open>
  C24. What is reported for a failed push: AwaitingConfiguration, again in 5 min, by an
  unconfigured operator; Paused, again in 90 s, for HTTP 423 or the category \<open>paused\<close>;
  WriteNotVerified or ReconcileFailed, as an error, for any other answer of the control plane;
  BackendUnreachable, as an error, for a failure that is no answer.
\<close>

theorem seg_error_reasons:
  assumes "k8s_laws K"
  shows "emits (seg_reconcileError K cr err)
    (if IsUnconfigured err then reported (SegObj cr) ''AwaitingConfiguration'' (Some 300000000000)
     else case as_api err of
       None \<Rightarrow> reported (SegObj cr) ''BackendUnreachable'' None
     | Some e \<Rightarrow>
         if ae_statusCode e = 423 \<or> ae_category e = ''paused''
         then reported (SegObj cr) ''Paused'' (Some 90000000000)
         else if ae_category e = ''write_not_verified''
         then reported (SegObj cr) ''WriteNotVerified'' None
         else reported (SegObj cr) ''ReconcileFailed'' None)"
proof -
  have delayed: "emits (seg_notReady K cr rsn msg d) (reported (SegObj cr) rsn (Some d))" if "0 < d"
    for rsn msg d using seg_notReady_reported [OF assms, of cr rsn msg d] that by simp
  have failed: "emits (seg_notReady K cr rsn msg 0) (reported (SegObj cr) rsn None)" for rsn msg
    using seg_notReady_reported [OF assms, of cr rsn msg 0] by simp
  show ?thesis
    unfolding seg_reconcileError_def seg_notReady_fails IsPaused_def IsWriteNotVerified_def
    by (simp add: delayed failed StatusLocked_def reason_defs cadence_values split: option.split)
qed

lemma seg_error_reasons_witness:
  "emits (seg_reconcileError (sample_k [] None False) (sample_seg [] None) (Foreign \<lparr>f_reason = [], f_text = ''EOF''\<rparr>))
     (reported (SegObj (sample_seg [] None)) ''BackendUnreachable'' None)"
  using seg_error_reasons [OF sample_laws, of "[]" None False "sample_seg [] None"
      "Foreign \<lparr>f_reason = [], f_text = ''EOF''\<rparr>"]
  by (simp add: IsUnconfigured_def)

text \<open>What a rule says, nil and empty being the same.\<close>

definition rule_content :: "SegmentationRule \<Rightarrow> 32 word list \<times> labels \<times> string" where
  "rule_content rule = (elems (ports rule), labels_of (peerSelector rule), peerNamespace rule)"

text \<open>
  The wire specification never holds a nil map or slice, and it loses nothing but the
  difference between nil and empty: two specifications have the same wire form exactly when
  they agree on the labels, the rules in order with their ports, peers and namespaces, and the
  provider reference.
\<close>

lemma toWireSpec_faithful:
  "matchLabels (ws_selector (toWireSpec s)) \<noteq> None \<and>
   (\<exists>is es. ws_ingress (toWireSpec s) = Some is \<and> ws_egress (toWireSpec s) = Some es \<and>
      list_all (\<lambda>w. w_ports w \<noteq> None \<and> w_peerSelector w \<noteq> None) (is @ es)) \<and>
   (toWireSpec s = toWireSpec s' \<longleftrightarrow>
      labels_of (matchLabels (sps_selector s)) = labels_of (matchLabels (sps_selector s')) \<and>
      map rule_content (elems (sps_ingress s)) = map rule_content (elems (sps_ingress s')) \<and>
      map rule_content (elems (sps_egress s)) = map rule_content (elems (sps_egress s')) \<and>
      sps_providerRef s = sps_providerRef s')"
proof -
  have rule_eq: "toWireRule x = toWireRule y \<longleftrightarrow> rule_content x = rule_content y" for x y
    by (simp add: toWireRule_def rule_content_def nil_to_empty)
  have rules: "map toWireRule xs = map toWireRule ys \<longleftrightarrow> map rule_content xs = map rule_content ys" for xs ys
    by (induction xs ys rule: list_induct2') (simp_all add: rule_eq)
  show ?thesis
    by (simp add: toWireSpec_def nil_to_empty rules list_all_iff) (auto simp: toWireRule_def nil_to_empty)
qed


end
