(* ===== verification/RuntimeController.thy ===== *)
theory RuntimeController
  imports Samples
begin

text \<open>
  \<open>internal/controller/runtimesecuritypolicy_controller.go\<close>: the reconciler of
  RuntimeSecurityPolicy. It is parallel to the segmentation reconciler and shares no definition
  with it, as in the source; what differs is the provider-availability branch, the stricter
  check of a 200 body and the status it writes.
\<close>

definition crKindRuntimeSecurityPolicy :: string where
  "crKindRuntimeSecurityPolicy = ''RuntimeSecurityPolicy''"

record RuntimeSecurityPolicyReconciler =
  rtr_backend :: Client
  rtr_clusterID :: int64
  rtr_platformConfigName :: string

subsection \<open>Conversion to the wire\<close>

definition toRuntimeWireSpec :: "RuntimeSecurityPolicySpec \<Rightarrow> WireRuntimeSecurityPolicySpec" where [wire_defs]:
  "toRuntimeWireSpec spec =
     \<lparr>wr_selector = \<lparr>matchLabels = (case matchLabels (rps_selector spec) of
          None \<Rightarrow> Some Map.empty | Some m \<Rightarrow> Some m)\<rparr>,
      wr_tracingPolicyRef = rps_tracingPolicyRef spec,
      wr_deniedBinaries = (case rps_deniedBinaries spec of None \<Rightarrow> Some [] | Some bs \<Rightarrow> Some bs)\<rparr>"

subsection \<open>Reading the answer\<close>

definition inconsistentRuntimeResult :: "(nat \<Rightarrow> bool) \<Rightarrow> ReconcileResult \<Rightarrow> string" where
  "inconsistentRuntimeResult ip res =
     (if rr_status res \<noteq> ''ok'' then
        ''status was '' @ go_quote ip (rr_status res) @ '', not '' @ dquote @ ''ok'' @ dquote
      else if rr_providerInstalled res = None then
        ''provider_installed was absent, so runtime provider availability is unconfirmed''
      else if rr_providerInstalled res = Some False then
        ''provider_installed was false, so no runtime evidence could have been collected''
      else if rr_unverifiedEdgeKeys res \<noteq> [] then
        show_nat (length (rr_unverifiedEdgeKeys res)) @ '' edge(s) did not verify as open after commit''
      else if rr_edgesUpserted res \<noteq> rr_matchedWorkloads res then
        ''edges_upserted='' @ show_int64 (rr_edgesUpserted res) @
        '' does not match matched_workloads='' @ show_int64 (rr_matchedWorkloads res)
      else [])"

definition runtimeReadyMessage :: "ReconcileResult \<Rightarrow> string" where
  "runtimeReadyMessage res =
     (if rr_matchedWorkloads res = 0 then
        ''Runtime provider confirmed installed, and NO workload in this namespace matches '' @
        ''spec.selector (a checked zero, not an unchecked one): correlatedEvidenceCount=0 means '' @
        ''nothing to monitor, not a failed check. '' @ show_int64 (rr_edgesClosed res) @
        '' edge(s) closed.''
      else
        ''Control plane confirmed the policy against a reachable runtime provider: '' @
        show_int64 (rr_matchedWorkloads res) @ '' workload(s) matched, '' @
        show_int64 (rr_edgesUpserted res) @ '' edge(s) upserted, '' @
        show_int64 (rr_edgesClosed res) @ '' edge(s) closed.'')"

subsection \<open>Messages\<close>

definition rt_msg_inconsistent :: "string \<Rightarrow> string" where
  "rt_msg_inconsistent why = ''runtime security policy reconcile returned 200 but the response '' @
     ''does not confirm the write: '' @ why @ ''. Not marking Ready.''"

definition rt_msg_paused :: "gerror \<Rightarrow> string" where
  "rt_msg_paused err =
     ''Control-plane API is paused server-side; no mutation was applied: '' @ error_text err"

definition rt_msg_unavailable :: "gerror \<Rightarrow> string" where
  "rt_msg_unavailable err = ''runtime security policy reconcile failed: provider_unavailable '' @
     em_dash @ '' the runtime security provider (Tetragon) is not confirmed installed on this '' @
     ''cluster, so NO runtime evidence was collected and none could be. This is not '' @ dquote @
     ''nothing to monitor'' @ dquote @ '': correlatedEvidenceCount is unknown, not zero. '' @
     ''Underlying error: '' @ error_text err"

definition rt_msg_failed :: "APIError \<Rightarrow> string" where
  "rt_msg_failed e = ''runtime security policy reconcile failed: '' @ ae_code e @ '' '' @ em_dash @
     '' '' @ ae_message e"

definition rt_msg_unreachable :: "gerror \<Rightarrow> string" where
  "rt_msg_unreachable err = ''runtime security policy reconcile could not reach the '' @
     ''control-plane API, so this policy's monitored state is unknown: '' @ error_text err"

definition rt_msg_close_paused :: "gerror \<Rightarrow> string" where
  "rt_msg_close_paused err = ''Deletion is blocked: the control-plane API is paused, so this '' @
     ''CR's graph edges cannot be closed yet. The finalizer is held until it resumes: '' @
     error_text err"

definition rt_msg_close_failed :: "gerror \<Rightarrow> string" where
  "rt_msg_close_failed err = ''Deletion is blocked: closing this CR's graph edges failed, so the '' @
     ''finalizer is held rather than orphaning them: '' @ error_text err"

definition rt_msg_close_unverified :: "(nat \<Rightarrow> bool) \<Rightarrow> CloseResult \<Rightarrow> string" where
  "rt_msg_close_unverified ip res = ''Deletion is blocked: close returned status='' @
     go_quote ip (cl_status res) @ '' with '' @ show_nat (length (cl_unverifiedEdgeKeys res)) @
     '' unverified edge key(s); the edges are not confirmed closed, so the finalizer is held.''"

subsection \<open>Handlers\<close>

definition rt_set_finalizers :: "string list \<Rightarrow> RuntimeSecurityPolicy \<Rightarrow> RuntimeSecurityPolicy" where
  "rt_set_finalizers fs cr = cr\<lparr>rp_meta := (rp_meta cr)\<lparr>om_finalizers := fs\<rparr>\<rparr>"

definition rt_set_conditions :: "Condition list \<Rightarrow> RuntimeSecurityPolicy \<Rightarrow> RuntimeSecurityPolicy" where
  "rt_set_conditions cs cr = cr\<lparr>rp_status := (rp_status cr)\<lparr>rst_conditions := cs\<rparr>\<rparr>"

definition rt_notReady :: "'w k8s \<Rightarrow> RuntimeSecurityPolicy \<Rightarrow> string \<Rightarrow> string \<Rightarrow> duration \<Rightarrow>
    ('w, verdict) op" where
  "rt_notReady K cr rsn msg after = do {
     conds \<leftarrow> setCondition K (rst_conditions (rp_status cr)) (om_generation (rp_meta cr))
                ConditionReady ConditionFalse rsn msg;
     u \<leftarrow> status_rt K (rt_set_conditions conds cr);
     State_Monad.return (case u of
         Inl err \<Rightarrow> (no_requeue, Some (Wrap (''updating status ('' @ rsn @ ''): '') (Foreign err) []))
       | Inr _ \<Rightarrow>
           if after > 0 then (\<lparr>requeueAfter = after\<rparr>, None)
           else (no_requeue, Some (Errorf (rsn @ '': '' @ msg))))
   }"

definition rt_reconcileError :: "'w k8s \<Rightarrow> RuntimeSecurityPolicy \<Rightarrow> gerror \<Rightarrow> ('w, verdict) op" where
  "rt_reconcileError K cr err =
     (if IsUnconfigured err then
        rt_notReady K cr ReasonAwaitingConfiguration
          (unconfiguredMessage ''Runtime security policy reconcile'' err) UnconfiguredRequeue
      else if IsPaused err then
        rt_notReady K cr ReasonPaused (rt_msg_paused err) PausedRequeue
      else if IsProviderUnavailable err then
        rt_notReady K cr ReasonProviderUnavailable (rt_msg_unavailable err) PausedRequeue
      else (case as_api err of
          Some apiErr \<Rightarrow>
            rt_notReady K cr
              (if IsWriteNotVerified err then ReasonWriteNotVerified else ReasonReconcileFailed)
              (rt_msg_failed apiErr) 0
        | None \<Rightarrow> do {
            v \<leftarrow> rt_notReady K cr ReasonBackendUnreachable (rt_msg_unreachable err) 0;
            State_Monad.return (case snd v of
                Some uerr \<Rightarrow> (no_requeue, Some uerr)
              | None \<Rightarrow> (no_requeue, Some err))
          }))"

definition rt_release :: "'w k8s \<Rightarrow> RuntimeSecurityPolicy \<Rightarrow> string \<Rightarrow> ('w, verdict) op" where
  "rt_release K cr what = do {
     u \<leftarrow> update_rt K (rt_set_finalizers
            (removeFinalizer K (om_finalizers (rp_meta cr)) CREdgesFinalizer) cr);
     State_Monad.return (case u of
         Inl err \<Rightarrow> (no_requeue, Some (Wrap what (Foreign err) []))
       | Inr _ \<Rightarrow> (no_requeue, None))
   }"

definition rt_finalize :: "'w k8s \<Rightarrow> 'w net \<Rightarrow> RuntimeSecurityPolicyReconciler \<Rightarrow>
    RuntimeSecurityPolicy \<Rightarrow> ('w, verdict) op" where
  "rt_finalize K N r cr =
     (if \<not> containsFinalizer K (om_finalizers (rp_meta cr)) CREdgesFinalizer
      then State_Monad.return (no_requeue, None)
      else do {
        got \<leftarrow> CloseCREdges N (rtr_backend r) crKindRuntimeSecurityPolicy (rtr_clusterID r)
                 (om_namespace (rp_meta cr)) (om_name (rp_meta cr));
        case got of
          Inl err \<Rightarrow>
            if IsUnconfigured err then
              rt_release K cr ''removing finalizer on an unconfigured operator: ''
            else if IsPaused err then
              rt_notReady K cr ReasonPaused (rt_msg_close_paused err) PausedRequeue
            else rt_notReady K cr ReasonCloseFailed (rt_msg_close_failed err) 0
        | Inr res \<Rightarrow>
            if cl_status res \<noteq> ''ok'' \<or> cl_unverifiedEdgeKeys res \<noteq> [] then
              rt_notReady K cr ReasonCloseFailed (rt_msg_close_unverified (isPrint K) res) 0
            else rt_release K cr ''removing finalizer after confirmed edge close: ''
      })"

definition rt_ensureFinalizer :: "'w k8s \<Rightarrow> RuntimeSecurityPolicy \<Rightarrow>
    ('w, gerror + RuntimeSecurityPolicy) op" where
  "rt_ensureFinalizer K cr =
     (if containsFinalizer K (om_finalizers (rp_meta cr)) CREdgesFinalizer
      then State_Monad.return (Inr cr)
      else do {
        u \<leftarrow> update_rt K (rt_set_finalizers
               (addFinalizer K (om_finalizers (rp_meta cr)) CREdgesFinalizer) cr);
        State_Monad.return (case u of
            Inl err \<Rightarrow> Inl (Wrap ''adding finalizer: '' (Foreign err) [])
          | Inr cr' \<Rightarrow> Inr cr')
      })"

definition rt_markReady :: "'w k8s \<Rightarrow> ReconcileResult \<Rightarrow> RuntimeSecurityPolicy \<Rightarrow>
    ('w, verdict) op" where
  "rt_markReady K result cr = do {
     conds \<leftarrow> setCondition K (rst_conditions (rp_status cr)) (om_generation (rp_meta cr))
                ConditionReady ConditionTrue ReasonReconciled (runtimeReadyMessage result);
     u \<leftarrow> status_rt K (cr\<lparr>rp_status := (rp_status cr)\<lparr>
            rst_conditions := conds,
            rst_observedGeneration := om_generation (rp_meta cr),
            rst_correlatedEvidenceCount := rr_edgesUpserted result\<rparr>\<rparr>);
     State_Monad.return (case u of
         Inl err \<Rightarrow>
           (no_requeue, Some (Wrap ''updating status after successful reconcile: '' (Foreign err) []))
       | Inr _ \<Rightarrow> (\<lparr>requeueAfter = ResyncInterval\<rparr>, None))
   }"

definition rt_Reconcile :: "'w k8s \<Rightarrow> 'w net \<Rightarrow> RuntimeSecurityPolicyReconciler \<Rightarrow>
    NamespacedName \<Rightarrow> ('w, verdict) op" where
  "rt_Reconcile K N r req = do {
     got \<leftarrow> get_rt K req;
     case got of
       Inl err \<Rightarrow> State_Monad.return (no_requeue, map_option Foreign (ignoreNotFound K (Some err)))
     | Inr cr \<Rightarrow>
         if \<not> time_is_zero (om_deletionTimestamp (rp_meta cr)) then rt_finalize K N r cr
         else do {
           gate \<leftarrow> checkPauseGate K (rtr_platformConfigName r);
           if pg_paused gate then
             rt_notReady K cr (pg_reason gate) (pg_message gate) PausedRequeue
           else do {
             ready \<leftarrow> rt_ensureFinalizer K cr;
             case ready of
               Inl e \<Rightarrow> State_Monad.return (no_requeue, Some e)
             | Inr cr \<Rightarrow> do {
                 got \<leftarrow> ReconcileRuntimeSecurityPolicy N (rtr_backend r) (rtr_clusterID r)
                          (om_namespace (rp_meta cr)) (om_name (rp_meta cr))
                          (toRuntimeWireSpec (rp_spec cr));
                 case got of
                   Inl err \<Rightarrow> rt_reconcileError K cr err
                 | Inr result \<Rightarrow>
                     let why = inconsistentRuntimeResult (isPrint K) result in
                     if why \<noteq> [] then
                       rt_notReady K cr ReasonWriteNotVerified (rt_msg_inconsistent why) 0
                     else rt_markReady K result cr
               }
           }
         }
   }"

subsection \<open>The reconciler as an instance of the policy protocol\<close>

definition rt_consistent :: "ReconcileResult \<Rightarrow> bool" where
  "rt_consistent res \<longleftrightarrow> rr_status res = ''ok'' \<and> rr_providerInstalled res = Some True \<and>
     rr_unverifiedEdgeKeys res = [] \<and> rr_edgesUpserted res = rr_matchedWorkloads res"

lemma inconsistentRuntimeResult_iff:
  "inconsistentRuntimeResult ip res = [] \<longleftrightarrow> rt_consistent res"
  by (cases "rr_providerInstalled res") (auto simp: inconsistentRuntimeResult_def rt_consistent_def)

text \<open>The reason, the message and the delay for an error of the push.\<close>

definition rt_diagnose :: "gerror \<Rightarrow> string \<times> string \<times> duration" where
  "rt_diagnose err =
     (if IsUnconfigured err then
        (ReasonAwaitingConfiguration, unconfiguredMessage ''Runtime security policy reconcile'' err,
         UnconfiguredRequeue)
      else if IsPaused err then (ReasonPaused, rt_msg_paused err, PausedRequeue)
      else if IsProviderUnavailable err then
        (ReasonProviderUnavailable, rt_msg_unavailable err, PausedRequeue)
      else (case as_api err of
          Some apiErr \<Rightarrow>
            (if IsWriteNotVerified err then ReasonWriteNotVerified else ReasonReconcileFailed,
             rt_msg_failed apiErr, 0)
        | None \<Rightarrow> (ReasonBackendUnreachable, rt_msg_unreachable err, 0)))"

text \<open>The two requests the reconciler makes for a resource.\<close>

definition rt_push_request :: "RuntimeSecurityPolicyReconciler \<Rightarrow> RuntimeSecurityPolicy \<Rightarrow> http_request" where
  "rt_push_request r cr =
     (let body = Some (RuntimeBody \<lparr>rrq_clusterID = rtr_clusterID r,
             rrq_namespace = om_namespace (rp_meta cr), rrq_name = om_name (rp_meta cr),
             rrq_spec = toRuntimeWireSpec (rp_spec cr)\<rparr>)
      in \<lparr>rq_method = ''POST'',
          rq_url = baseURL (rtr_backend r) @ ''/internal/operator/v1/runtime-security-policies/reconcile'',
          rq_header = request_header (rtr_backend r) body, rq_body = body\<rparr>)"

definition rt_close_request :: "RuntimeSecurityPolicyReconciler \<Rightarrow> RuntimeSecurityPolicy \<Rightarrow> http_request" where
  "rt_close_request r cr =
     (let body = Some (CloseBody \<lparr>crq_crKind = ''RuntimeSecurityPolicy'', crq_clusterID = rtr_clusterID r,
             crq_namespace = om_namespace (rp_meta cr), crq_name = om_name (rp_meta cr)\<rparr>)
      in \<lparr>rq_method = ''POST'', rq_url = baseURL (rtr_backend r) @ ''/internal/operator/v1/cr-edges/close'',
          rq_header = request_header (rtr_backend r) body, rq_body = body\<rparr>)"

definition rt_contract :: "RuntimeSecurityPolicyReconciler \<Rightarrow> contract" where
  "rt_contract r = \<lparr>ct_kind = RuntimeSecurityPolicyKind, ct_unset = missing (rtr_backend r),
     ct_config = rtr_platformConfigName r, ct_consistent = rt_consistent,
     ct_push = (\<lambda>x. case x of RtObj cr \<Rightarrow> rt_push_request r cr | _ \<Rightarrow> no_request),
     ct_close = (\<lambda>x. case x of RtObj cr \<Rightarrow> rt_close_request r cr | _ \<Rightarrow> no_request)\<rparr>"

lemma rt_contract_simps [simp]:
  "ct_kind (rt_contract r) = RuntimeSecurityPolicyKind"
  "ct_unset (rt_contract r) = missing (rtr_backend r)"
  "ct_config (rt_contract r) = rtr_platformConfigName r"
  "ct_consistent (rt_contract r) = rt_consistent"
  "ct_push (rt_contract r) (RtObj cr) = rt_push_request r cr"
  "ct_close (rt_contract r) (RtObj cr) = rt_close_request r cr"
  by (simp_all add: rt_contract_def)

lemma rt_contract_ok: "contract_ok (rt_contract r)"
proof -
  have "writes_edges RuntimeSecurityPolicyKind (obj_key x) (ct_push (rt_contract r) x) \<and>
      closes_edges RuntimeSecurityPolicyKind (obj_key x) (ct_close (rt_contract r) x)"
    if "obj_kind x = RuntimeSecurityPolicyKind" for x
    using that by (cases x)
      (simp_all add: rt_push_request_def rt_close_request_def Let_def writes_edges_def
        closes_edges_def obj_key_def)
  then show ?thesis by (simp add: contract_ok_def)
qed

definition rt_ops :: "'w k8s \<Rightarrow> 'w net \<Rightarrow> RuntimeSecurityPolicyReconciler \<Rightarrow>
    ('w, RuntimeSecurityPolicy) policy_ops" where
  "rt_ops K N r =
     \<lparr>po_get = get_rt K, po_update = update_rt K, po_status = status_rt K, po_obj = RtObj,
      po_setFinalizers = rt_set_finalizers, po_setConditions = rt_set_conditions,
      po_setReady = (\<lambda>conds gate result cr. cr\<lparr>rp_status := (rp_status cr)\<lparr>
            rst_conditions := conds, rst_observedGeneration := om_generation (rp_meta cr),
            rst_correlatedEvidenceCount := rr_edgesUpserted result\<rparr>\<rparr>),
      po_push = (\<lambda>cr. ReconcileRuntimeSecurityPolicy N (rtr_backend r) (rtr_clusterID r)
            (om_namespace (rp_meta cr)) (om_name (rp_meta cr)) (toRuntimeWireSpec (rp_spec cr))),
      po_close = (\<lambda>cr. CloseCREdges N (rtr_backend r) crKindRuntimeSecurityPolicy (rtr_clusterID r)
            (om_namespace (rp_meta cr)) (om_name (rp_meta cr))),
      po_inconsistent = inconsistentRuntimeResult (isPrint K),
      po_inconsistentMessage = rt_msg_inconsistent,
      po_readyMessage = runtimeReadyMessage,
      po_diagnose = rt_diagnose,
      po_closePaused = rt_msg_close_paused, po_closeFailed = rt_msg_close_failed,
      po_closeUnverified = rt_msg_close_unverified (isPrint K)\<rparr>"

lemma rt_ops_simps [simp]:
  "po_get (rt_ops K N r) = get_rt K" "po_update (rt_ops K N r) = update_rt K"
  "po_status (rt_ops K N r) = status_rt K" "po_obj (rt_ops K N r) = RtObj"
  "po_setFinalizers (rt_ops K N r) = rt_set_finalizers"
  "po_setConditions (rt_ops K N r) = rt_set_conditions"
  "po_push (rt_ops K N r) cr = ReconcileRuntimeSecurityPolicy N (rtr_backend r) (rtr_clusterID r)
     (om_namespace (rp_meta cr)) (om_name (rp_meta cr)) (toRuntimeWireSpec (rp_spec cr))"
  "po_close (rt_ops K N r) cr = CloseCREdges N (rtr_backend r) crKindRuntimeSecurityPolicy
     (rtr_clusterID r) (om_namespace (rp_meta cr)) (om_name (rp_meta cr))"
  "po_inconsistent (rt_ops K N r) = inconsistentRuntimeResult (isPrint K)"
  "po_inconsistentMessage (rt_ops K N r) = rt_msg_inconsistent"
  "po_readyMessage (rt_ops K N r) = runtimeReadyMessage"
  "po_diagnose (rt_ops K N r) = rt_diagnose"
  "po_closePaused (rt_ops K N r) = rt_msg_close_paused"
  "po_closeFailed (rt_ops K N r) = rt_msg_close_failed"
  "po_closeUnverified (rt_ops K N r) = rt_msg_close_unverified (isPrint K)"
  by (simp_all add: rt_ops_def)

text \<open>Handler by handler, the reconciler is the abstract one over \<open>rt_ops\<close>.\<close>

lemma rt_notReady_policy:
  "rt_notReady K cr rsn msg after = policy_notReady K (rt_ops K N r) cr rsn msg after"
  by (simp add: rt_notReady_def policy_notReady_def unready_verdict_def)

lemma rt_release_policy: "rt_release K cr what = policy_release K (rt_ops K N r) cr what"
  by (simp add: rt_release_def policy_release_def release_verdict_def obj_finalizers_def)

lemma rt_ensureFinalizer_policy:
  "rt_ensureFinalizer K cr = policy_ensureFinalizer K (rt_ops K N r) cr"
  by (simp add: rt_ensureFinalizer_def policy_ensureFinalizer_def guarded_obj_def obj_finalizers_def)

lemma rt_markReady_policy:
  "rt_markReady K result cr = policy_markReady K (rt_ops K N r) gate result cr"
  by (simp add: rt_markReady_def policy_markReady_def ready_verdict_def Let_def rt_ops_def)

lemma rt_finalize_policy: "rt_finalize K N r cr = policy_finalize K (rt_ops K N r) cr"
  unfolding rt_finalize_def policy_finalize_def
  by (auto simp: guarded_obj_def obj_finalizers_def policy_closed_def close_confirmed_def
      rt_notReady_policy [of K _ _ _ _ N r] rt_release_policy [of K _ _ N r]
      intro!: bind_ext split: sum.split)

text \<open>
  The transport branch returns the first error \<open>notReady\<close> gives it: with a zero delay there
  always is one, so the fallback to the original error is never taken.
\<close>

lemma rt_notReady_fails:
  "State_Monad.bind (rt_notReady K cr rsn msg 0) (\<lambda>v. State_Monad.return (case snd v of
       Some uerr \<Rightarrow> (no_requeue, Some uerr) | None \<Rightarrow> (no_requeue, Some err))) =
   rt_notReady K cr rsn msg 0"
  unfolding rt_notReady_def by (auto intro!: bind_ext split: sum.split)

lemma rt_reconcileError_policy:
  "rt_reconcileError K cr err = (case rt_diagnose err of (rsn, msg, after) \<Rightarrow>
     policy_notReady K (rt_ops K N r) cr rsn msg after)"
  unfolding rt_reconcileError_def rt_notReady_fails
  by (simp add: rt_diagnose_def rt_notReady_policy [of K _ _ _ _ N r] split: option.split)

theorem rt_Reconcile_refines:
  "rt_Reconcile K N r req = policy_reconcile K (rt_ops K N r) (rtr_platformConfigName r) req"
proof -
  have pushed: "policy_pushed K (rt_ops K N r) gate cr got = (case got of
        Inl err \<Rightarrow> rt_reconcileError K cr err
      | Inr result \<Rightarrow>
          let why = inconsistentRuntimeResult (isPrint K) result in
          if why \<noteq> [] then rt_notReady K cr ReasonWriteNotVerified (rt_msg_inconsistent why) 0
          else rt_markReady K result cr)" for got gate cr
    by (simp add: policy_pushed_def rt_reconcileError_policy [of K _ _ N r]
        rt_notReady_policy [of K _ _ _ _ N r] rt_markReady_policy [of K _ _ N r gate] Let_def
        split: sum.split)
  have live: "policy_live K (rt_ops K N r) (rtr_platformConfigName r) cr = do {
       gate \<leftarrow> checkPauseGate K (rtr_platformConfigName r);
       if pg_paused gate then rt_notReady K cr (pg_reason gate) (pg_message gate) PausedRequeue
       else do {
         ready \<leftarrow> rt_ensureFinalizer K cr;
         case ready of
           Inl e \<Rightarrow> State_Monad.return (no_requeue, Some e)
         | Inr cr \<Rightarrow> do {
             got \<leftarrow> ReconcileRuntimeSecurityPolicy N (rtr_backend r) (rtr_clusterID r)
                      (om_namespace (rp_meta cr)) (om_name (rp_meta cr)) (toRuntimeWireSpec (rp_spec cr));
             policy_pushed K (rt_ops K N r) gate cr got
           }
       }
     }" for cr
    unfolding policy_live_def
    by (auto simp: rt_notReady_policy [of K _ _ _ _ N r] rt_ensureFinalizer_policy [of K _ N r]
        intro!: bind_ext split: sum.split)
  show ?thesis
    unfolding rt_Reconcile_def policy_reconcile_def
    by (auto simp: rt_finalize_policy live pushed intro!: bind_ext split: sum.split)
qed

subsection \<open>The laws of the protocol hold of it\<close>

lemma rt_push_emits:
  assumes "missing (rtr_backend r) \<noteq> [] \<Longrightarrow> Q (Inl (Unconfigured (missing (rtr_backend r)))) []"
    and "\<And>e. \<lbrakk>missing (rtr_backend r) = []; \<not> IsUnconfigured e\<rbrakk> \<Longrightarrow> Q (Inl e) []"
    and "\<And>e got. \<lbrakk>missing (rtr_backend r) = []; \<not> IsUnconfigured e;
        \<forall>R. \<not> confirms store_ReconcileResult zero_ReconcileResult R got\<rbrakk> \<Longrightarrow>
      Q (Inl e) [EvHttp (rt_push_request r cr) got]"
    and "\<And>v got. \<lbrakk>missing (rtr_backend r) = [];
        \<forall>R. confirms store_ReconcileResult zero_ReconcileResult R got = R v\<rbrakk> \<Longrightarrow>
      Q (Inr v) [EvHttp (rt_push_request r cr) got]"
  shows "emits (po_push (rt_ops K N r) cr) Q"
  using assms unfolding rt_ops_simps ReconcileRuntimeSecurityPolicy_def
  by (intro call_emits) (simp_all add: rt_push_request_def apiPrefix_def MethodPost_def Let_def)

lemma rt_close_emits:
  assumes "missing (rtr_backend r) \<noteq> [] \<Longrightarrow> Q (Inl (Unconfigured (missing (rtr_backend r)))) []"
    and "\<And>e. \<lbrakk>missing (rtr_backend r) = []; \<not> IsUnconfigured e\<rbrakk> \<Longrightarrow> Q (Inl e) []"
    and "\<And>e got. \<lbrakk>missing (rtr_backend r) = []; \<not> IsUnconfigured e;
        \<forall>R. \<not> confirms store_CloseResult zero_CloseResult R got\<rbrakk> \<Longrightarrow>
      Q (Inl e) [EvHttp (rt_close_request r cr) got]"
    and "\<And>v got. \<lbrakk>missing (rtr_backend r) = [];
        \<forall>R. confirms store_CloseResult zero_CloseResult R got = R v\<rbrakk> \<Longrightarrow>
      Q (Inr v) [EvHttp (rt_close_request r cr) got]"
  shows "emits (po_close (rt_ops K N r) cr) Q"
  using assms unfolding rt_ops_simps CloseCREdges_def
  by (intro call_emits)
    (simp_all add: rt_close_request_def apiPrefix_def MethodPost_def crKindRuntimeSecurityPolicy_def
      Let_def)

interpretation rt: policy_controller K "rt_ops K N r" "rt_contract r"
  for K :: "'w k8s" and N :: "'w net" and r :: RuntimeSecurityPolicyReconciler
  by unfold_locales
    ((intro rt_push_emits rt_close_emits; simp) |
     simp add: get_rt_def update_rt_def status_rt_def emits_call
      rt_ops_def obj_finalizers_def obj_key_def rt_set_finalizers_def rt_set_conditions_def
      inconsistentRuntimeResult_iff rt_diagnose_def)+

theorem rt_runs:
  "k8s_laws K \<Longrightarrow> emits (rt_Reconcile K N r n) (\<lambda>v es. policy_run K (rt_contract r) n es v)"
  unfolding rt_Reconcile_refines using rt.reconcile_runs by simp

text \<open>What every run of the protocol guarantees, every run of the reconciler guarantees.\<close>

lemma rt_guarantee:
  "k8s_laws K \<Longrightarrow> (\<And>es v. policy_run K (rt_contract r) n es v \<Longrightarrow> Q v es) \<Longrightarrow>
   emits (rt_Reconcile K N r n) Q"
  by (rule emits_weaken [OF rt_runs])

subsection \<open>Sample runs\<close>

definition sample_rtr :: RuntimeSecurityPolicyReconciler where
  "sample_rtr = \<lparr>rtr_backend = sample_client, rtr_clusterID = 1, rtr_platformConfigName = ''default''\<rparr>"

text \<open>A resource without the finalizer, and one that is deleted.\<close>

definition rt_sample_trace :: "string list \<Rightarrow> time option \<Rightarrow> bool \<Rightarrow> event list" where
  "rt_sample_trace fs deleted paused = trace (snd (run_state
     (rt_Reconcile (sample_k fs deleted paused) (sample_net 200 sample_body) sample_rtr
        (''shop'', ''web'')) start))"

lemma rt_sample_holds:
  "emits (rt_Reconcile (sample_k fs deleted paused) (sample_net 200 sample_body) sample_rtr
     (''shop'', ''web'')) Q \<Longrightarrow> \<exists>v. Q v (rt_sample_trace fs deleted paused)"
  unfolding rt_sample_trace_def by (rule exI, erule emits_run) (simp add: start_def)

lemmas rt_run_defs = rt_Reconcile_def rt_ensureFinalizer_def rt_finalize_def rt_markReady_def
  rt_notReady_def rt_release_def rt_set_finalizers_def op_defs checkPauseGate_def gate_of_def setCondition_def
  ReconcileRuntimeSecurityPolicy_def CloseCREdges_def client_do_def read_response_def
  inconsistentRuntimeResult_def
  run_state_call start_def time_is_zero_def

lemma rt_sample_push: "\<exists>y. rt_sample_trace [] None False =
    [EvGet RuntimeSecurityPolicyKind (''shop'', ''web'') (Inr (RtObj (sample_rt [] None))),
     EvGet PlatformConfigKind ([], ''default'') (Inr (PcObj (sample_pc ''default'' False))),
     EvUpdate (RtObj (sample_rt [CREdgesFinalizer] None)) (Inr (RtObj (sample_rt [CREdgesFinalizer] None))),
     EvHttp (rt_push_request sample_rtr (sample_rt [CREdgesFinalizer] None))
       (Inr \<lparr>rs_status = 200, rs_body = Inr sample_body\<rparr>),
     EvStatusUpdate (RtObj y) (Inr (RtObj y))] \<and>
   ev_marks_ready RuntimeSecurityPolicyKind (''shop'', ''web'') (EvStatusUpdate (RtObj y) (Inr (RtObj y)))"
proof -
  have "(sample_rt [] None)\<lparr>rp_meta := (sample_meta [] None)\<lparr>om_finalizers := [CREdgesFinalizer]\<rparr>\<rparr> =
      sample_rt [CREdgesFinalizer] None"
    by (simp add: sample_rt_def sample_meta_def)
  then show ?thesis
    by (simp add: rt_sample_trace_def rt_run_defs sample_simps sample_rtr_def rt_push_request_def
        apiPrefix_def MethodPost_def Let_def is_obj_def obj_key_def ready_is_def)
qed

lemma rt_sample_delete: "rt_sample_trace [CREdgesFinalizer] (Some 5) False =
    [EvGet RuntimeSecurityPolicyKind (''shop'', ''web'') (Inr (RtObj (sample_rt [CREdgesFinalizer] (Some 5)))),
     EvHttp (rt_close_request sample_rtr (sample_rt [CREdgesFinalizer] (Some 5)))
       (Inr \<lparr>rs_status = 200, rs_body = Inr sample_body\<rparr>),
     EvUpdate (RtObj (sample_rt [] (Some 5))) (Inr (RtObj (sample_rt [] (Some 5))))]"
proof -
  have "(sample_rt [CREdgesFinalizer] (Some 5))\<lparr>rp_meta := (sample_meta [CREdgesFinalizer] (Some 5))
      \<lparr>om_finalizers := []\<rparr>\<rparr> = sample_rt [] (Some 5)"
    by (simp add: sample_rt_def sample_meta_def)
  then show ?thesis
    by (simp add: rt_sample_trace_def rt_run_defs sample_simps sample_rtr_def rt_close_request_def
        apiPrefix_def MethodPost_def crKindRuntimeSecurityPolicy_def Let_def)
qed

subsection \<open>Properties\<close>

text \<open>
  C7. Whatever the API server and the control plane answer, a reconcile of a
  RuntimeSecurityPolicy makes its calls in the order of one of the eleven paths of \<open>policy_run\<close>,
  with the requests, status writes and return value that path allows.
\<close>

theorem rt_follows_protocol:
  "k8s_laws K \<Longrightarrow>
   emits (rt_Reconcile K N r n) (\<lambda>v es. policy_run K (rt_contract r) n es v)"
  by (rule rt_runs)

lemma rt_follows_protocol_witness:
  "\<exists>v. policy_run (sample_k [CREdgesFinalizer] (Some 5) False) (rt_contract sample_rtr) (''shop'', ''web'')
     (rt_sample_trace [CREdgesFinalizer] (Some 5) False) v"
  by (rule rt_sample_holds [OF rt_follows_protocol [OF sample_laws]])

text \<open>
  No request that makes the control plane write edges for a resource goes out
  before the API server is known to hold the finalizer on that resource.
\<close>

lemma rt_finalizer_first:
  "k8s_laws K \<Longrightarrow>
   emits (rt_Reconcile K N r n) (\<lambda>v es.
     precedes (ev_guarded K RuntimeSecurityPolicyKind key) (ev_writes RuntimeSecurityPolicyKind key) es)"
  by (rule rt_guarantee) (auto dest: run_finalizer_first [OF _ rt_contract_ok])

text \<open>
  No request that makes the control plane write edges goes out before the
  PlatformConfig the operator is bound to was read, in the same run, with \<open>spec.paused\<close> false.
\<close>

lemma rt_switch_off_first:
  "k8s_laws K \<Longrightarrow>
   emits (rt_Reconcile K N r n) (\<lambda>v es.
     precedes (ev_switch_off (rtr_platformConfigName r)) (ev_writes k key) es)"
  by (rule rt_guarantee) (auto dest: run_switch_off_first [OF _ rt_contract_ok])

text \<open>
  A configured operator takes the finalizer off a resource only after the
  control plane has answered a close request for that resource with status ok and no
  unverified edge key.
\<close>

lemma rt_release_confirmed:
  "k8s_laws K \<Longrightarrow> missing (rtr_backend r) = [] \<Longrightarrow>
   emits (rt_Reconcile K N r n) (\<lambda>v es.
     precedes (ev_close_confirmed RuntimeSecurityPolicyKind key)
       (ev_releases K RuntimeSecurityPolicyKind key) es)"
  by (rule rt_guarantee) (auto dest: run_release_confirmed [OF _ rt_contract_ok])

text \<open>
  Status is written with Ready true only after a push of that very resource was
  answered with a 2xx body that reports status ok, the provider as installed, no unverified
  edge and as many edges as matched workloads.
\<close>

lemma rt_ready_confirmed:
  "k8s_laws K \<Longrightarrow>
   emits (rt_Reconcile K N r n) (\<lambda>v es.
     precedes (ev_write_confirmed rt_consistent RuntimeSecurityPolicyKind key)
       (ev_marks_ready RuntimeSecurityPolicyKind key) es)"
  by (rule rt_guarantee) (auto dest: run_ready_confirmed [OF _ rt_contract_ok])

lemma rt_ready_confirmed_witness:
  "precedes (ev_write_confirmed rt_consistent RuntimeSecurityPolicyKind (''shop'', ''web''))
     (ev_marks_ready RuntimeSecurityPolicyKind (''shop'', ''web'')) (rt_sample_trace [] None False) \<and>
   (\<exists>e\<in>set (rt_sample_trace [] None False). ev_marks_ready RuntimeSecurityPolicyKind (''shop'', ''web'') e)"
proof
  show "precedes (ev_write_confirmed rt_consistent RuntimeSecurityPolicyKind (''shop'', ''web''))
     (ev_marks_ready RuntimeSecurityPolicyKind (''shop'', ''web'')) (rt_sample_trace [] None False)"
    using rt_sample_holds [OF rt_ready_confirmed [OF sample_laws]] by simp
qed (use rt_sample_push in auto)

text \<open>
  A run sends at most one request, none when the operator lacks a connection
  setting; the request is the push of the specification, or the close of the edges, of an
  object the API server returned in this run, and a close only of one that is being deleted
  and carries the finalizer.
\<close>

lemma rt_requests:
  "k8s_laws K \<Longrightarrow>
   emits (rt_Reconcile K N r n) (\<lambda>v es.
     length (filter is_http es) \<le> 1 \<and>
     (missing (rtr_backend r) \<noteq> [] \<longrightarrow> filter is_http es = []) \<and>
     (\<forall>req a. EvHttp req a \<in> set es \<longrightarrow> (\<exists>cr. Some (RtObj cr) \<in> ev_returns ` set es \<and>
        (req = rt_push_request r cr \<or>
         req = rt_close_request r cr \<and> deleting (RtObj cr) \<and> guarded_obj K (RtObj cr)))))"
proof (rule rt_guarantee, assumption, intro conjI allI impI)
  fix es v
  assume run: "policy_run K (rt_contract r) n es v"
  from run_one_request [OF run]
  show "length (filter is_http es) \<le> 1" "missing (rtr_backend r) \<noteq> [] \<Longrightarrow> filter is_http es = []"
    by (auto simp: filter_empty_conv)
  fix req a
  assume "EvHttp req a \<in> set es"
  from run_requests [OF run this] obtain x where "returned (rt_contract r) es x"
    "req = ct_push (rt_contract r) x \<or> req = ct_close (rt_contract r) x \<and> deleting x \<and> guarded_obj K x"
    by blast
  then show "\<exists>cr. Some (RtObj cr) \<in> ev_returns ` set es \<and>
        (req = rt_push_request r cr \<or>
         req = rt_close_request r cr \<and> deleting (RtObj cr) \<and> guarded_obj K (RtObj cr))"
    by (cases x) (auto simp: returned_def)
qed

lemma rt_notReady_reported:
  fixes K :: "'w k8s"
  shows "k8s_laws K \<Longrightarrow> emits (rt_notReady K cr rsn msg after)
    (reported (RtObj cr) rsn (if after > 0 then Some after else None))"
  unfolding rt_notReady_policy [of K cr rsn msg after "undefined :: 'w net" sample_rtr]
  by (rule rt.notReady_reported [unfolded rt_ops_simps])

text \<open>
  C25. What is reported for a failed push: AwaitingConfiguration, again in 5 min, by an
  unconfigured operator; Paused, again in 90 s, for HTTP 423 or the category \<open>paused\<close>;
  ProviderUnavailable, again in 90 s, for HTTP 503 or the category \<open>provider_unavailable\<close>;
  WriteNotVerified or ReconcileFailed, as an error, for any other answer of the control plane;
  BackendUnreachable, as an error, for a failure that is no answer.
\<close>

theorem rt_error_reasons:
  assumes "k8s_laws K"
  shows "emits (rt_reconcileError K cr err)
    (if IsUnconfigured err then reported (RtObj cr) ''AwaitingConfiguration'' (Some 300000000000)
     else case as_api err of
       None \<Rightarrow> reported (RtObj cr) ''BackendUnreachable'' None
     | Some e \<Rightarrow>
         if ae_statusCode e = 423 \<or> ae_category e = ''paused''
         then reported (RtObj cr) ''Paused'' (Some 90000000000)
         else if ae_statusCode e = 503 \<or> ae_category e = ''provider_unavailable''
         then reported (RtObj cr) ''ProviderUnavailable'' (Some 90000000000)
         else if ae_category e = ''write_not_verified''
         then reported (RtObj cr) ''WriteNotVerified'' None
         else reported (RtObj cr) ''ReconcileFailed'' None)"
proof -
  have delayed: "emits (rt_notReady K cr rsn msg d) (reported (RtObj cr) rsn (Some d))" if "0 < d"
    for rsn msg d using rt_notReady_reported [OF assms, of cr rsn msg d] that by simp
  have failed: "emits (rt_notReady K cr rsn msg 0) (reported (RtObj cr) rsn None)" for rsn msg
    using rt_notReady_reported [OF assms, of cr rsn msg 0] by simp
  show ?thesis
    unfolding rt_reconcileError_def rt_notReady_fails IsPaused_def IsProviderUnavailable_def IsWriteNotVerified_def
    by (simp add: delayed failed StatusLocked_def StatusServiceUnavailable_def reason_defs cadence_values split: option.split)
qed

lemma rt_error_reasons_witness:
  "emits (rt_reconcileError (sample_k [] None False) (sample_rt [] None) (Foreign \<lparr>f_reason = [], f_text = ''EOF''\<rparr>))
     (reported (RtObj (sample_rt [] None)) ''BackendUnreachable'' None)"
  using rt_error_reasons [OF sample_laws, of "[]" None False "sample_rt [] None"
      "Foreign \<lparr>f_reason = [], f_text = ''EOF''\<rparr>"]
  by (simp add: IsUnconfigured_def)

text \<open>
  The wire specification never holds a nil map or slice, and it loses nothing
  but the difference between nil and empty: two specifications have the same wire form exactly
  when they agree on the labels, the tracing policy and the denied binaries in order.
\<close>

lemma toRuntimeWireSpec_faithful:
  "matchLabels (wr_selector (toRuntimeWireSpec s)) \<noteq> None \<and>
   wr_deniedBinaries (toRuntimeWireSpec s) \<noteq> None \<and>
   (toRuntimeWireSpec s = toRuntimeWireSpec s' \<longleftrightarrow>
      labels_of (matchLabels (rps_selector s)) = labels_of (matchLabels (rps_selector s')) \<and>
      rps_tracingPolicyRef s = rps_tracingPolicyRef s' \<and>
      elems (rps_deniedBinaries s) = elems (rps_deniedBinaries s'))"
  by (simp add: toRuntimeWireSpec_def nil_to_empty)

end
