(* ===== verification/PlatformConfigController.thy ===== *)
theory PlatformConfigController
  imports Samples
begin

text \<open>
  \<open>internal/controller/platformconfig_controller.go\<close>: the reconciler of the cluster-scoped
  PlatformConfig, which pushes \<open>spec.paused\<close> to the control plane's kill switch and reads
  the provider health back into the status.
\<close>

record PlatformConfigReconciler =
  pr_backend :: Client
  pr_clusterID :: int64
  pr_platformConfigName :: string

subsection \<open>Provider health\<close>

text \<open>Why a provider without a verdict has none.\<close>

definition undetermined_why :: "ProviderHealth \<Rightarrow> string" where
  "undetermined_why p =
     (if ph_message p \<noteq> [] then ph_message p
      else if \<not> ph_checked p then
        ''the control plane reported checked=false with no explanation''
      else ''the control plane reported checked=true but returned no healthy verdict'')"

definition query_error :: "ProviderHealth \<Rightarrow> bool \<Rightarrow> string" where
  "query_error p healthy =
     (let q = (case ph_lastQueryError p of None \<Rightarrow> [] | Some e \<Rightarrow> e) in
      if q \<noteq> [] then q
      else if \<not> healthy \<and> ph_message p \<noteq> [] then ph_message p
      else if \<not> healthy then
        ''reported unhealthy; the control plane returned no query error and no message''
      else [])"

definition with_blockers :: "string list \<Rightarrow> string \<Rightarrow> string" where
  "with_blockers bs e =
     (if bs = [] then e
      else let b = ''blockers: '' @ join '', '' bs
           in if e = [] then b else e @ '' ('' @ b @ '')'')"

definition health_entry :: "time \<Rightarrow> ProviderHealth \<Rightarrow> ProviderHealthStatus" where
  "health_entry now p =
     (if \<not> Determinate p then
        \<lparr>phs_name = ph_name p, phs_health = ProviderHealthUnknown, phs_lastQueryError = [],
         phs_reason = undetermined_why p, phs_observedAt = now\<rparr>
      else let healthy = (ph_healthy p = Some True) in
        \<lparr>phs_name = ph_name p,
         phs_health = (if healthy then ProviderHealthTrue else ProviderHealthFalse),
         phs_lastQueryError = with_blockers (ph_blockers p) (query_error p healthy),
         phs_reason = [], phs_observedAt = now\<rparr>)"

text \<open>The loop, its two accumulators being the slices the source appends to.\<close>

fun split_loop :: "time \<Rightarrow> ProviderHealth list \<Rightarrow> ProviderHealthStatus list \<Rightarrow> string list \<Rightarrow>
    ProviderHealthStatus list \<times> string list" where
  "split_loop now [] entries undetermined = (entries, undetermined)"
| "split_loop now (p # ps) entries undetermined =
     (if \<not> Determinate p then
        split_loop now ps (entries @ [health_entry now p])
          (undetermined @ [ph_name p @ '': '' @ undetermined_why p])
      else split_loop now ps (entries @ [health_entry now p]) undetermined)"

definition splitProviderHealth :: "time \<Rightarrow> ProviderHealth list \<Rightarrow>
    ProviderHealthStatus list \<times> string list" where
  "splitProviderHealth now providers = split_loop now providers [] []"

subsection \<open>Reading errors\<close>

definition pauseErrorReason :: "gerror \<Rightarrow> string" where
  "pauseErrorReason err =
     (if IsUnconfigured err then ReasonAwaitingConfiguration
      else if as_api err \<noteq> None then ReasonReconcileFailed
      else ReasonBackendUnreachable)"

definition healthErrorReason :: "gerror \<Rightarrow> string" where
  "healthErrorReason err =
     (if IsUnconfigured err then ReasonAwaitingConfiguration
      else if as_api err \<noteq> None then ReasonHealthUndetermined
      else ReasonBackendUnreachable)"

definition describeErr :: "gerror \<Rightarrow> string" where
  "describeErr err = (case as_api err of
       Some e \<Rightarrow> ae_code e @ '' '' @ em_dash @ '' '' @ ae_message e
     | None \<Rightarrow> error_text err)"

subsection \<open>Messages\<close>

definition pc_msg_push_failed :: "bool \<Rightarrow> gerror \<Rightarrow> string" where
  "pc_msg_push_failed paused err = ''could not push spec.paused='' @ show_bool paused @
     '' to the control-plane kill switch, so the server-side flag's state is unknown and may '' @
     ''not match this spec: '' @ describeErr err"

definition pc_msg_push_ignored :: "bool \<Rightarrow> bool \<Rightarrow> string" where
  "pc_msg_push_ignored got want =
     ''the control plane accepted the kill-switch write but reports paused='' @ show_bool got @
     '' while spec.paused='' @ show_bool want @ ''; the flag is not confirmed to match this spec.''"

definition pc_msg_health_unread :: "gerror \<Rightarrow> string" where
  "pc_msg_health_unread err = ''Provider health could not be read from the control-plane API, so '' @
     ''the health of every provider is UNKNOWN (not unhealthy). Any entries in '' @
     ''status.providerHealth are stale from an earlier successful read: '' @ describeErr err"

definition pc_msg_health_failed :: "bool \<Rightarrow> gerror \<Rightarrow> string" where
  "pc_msg_health_failed paused err = ''kill switch is confirmed at paused='' @ show_bool paused @
     '', but provider health could not be determined: '' @ describeErr err"

definition pc_msg_undetermined :: "string list \<Rightarrow> string" where
  "pc_msg_undetermined us = ''Health is UNKNOWN (not unhealthy) for '' @ show_nat (length us) @
     '' provider(s): '' @ join ''; '' us @ ''. These are listed in status.providerHealth with '' @
     ''health=Unknown, not as unhealthy '' @ em_dash @ '' K8Boss could not determine their health, '' @
     ''which is a different answer from determining they are unhealthy.''"

definition pc_msg_determined :: "nat \<Rightarrow> string" where
  "pc_msg_determined n = ''Health was determined for all '' @ show_nat n @ '' provider(s).''"

definition pc_msg_ready :: "bool \<Rightarrow> nat \<Rightarrow> nat \<Rightarrow> string" where
  "pc_msg_ready paused n u = ''Control plane confirmed the kill switch at paused='' @
     show_bool paused @ ''; provider health read returned '' @ show_nat n @ '' provider(s), '' @
     show_nat u @ '' of them undetermined.''"

definition pc_msg_not_singleton :: "(nat \<Rightarrow> bool) \<Rightarrow> string \<Rightarrow> string \<Rightarrow> string" where
  "pc_msg_not_singleton ip name singleton = ''This PlatformConfig is named '' @ go_quote ip name @
     '', but this operator answers only to '' @ go_quote ip singleton @ ''. It governs nothing: '' @
     ''its spec.paused is NOT pushed to the control-plane kill switch and its providers are not '' @
     ''evaluated. Rename it or delete it.''"

subsection \<open>Handlers\<close>

definition pc_set_conditions :: "Condition list \<Rightarrow> PlatformConfig \<Rightarrow> PlatformConfig" where
  "pc_set_conditions cs cr = cr\<lparr>pc_status := (pc_status cr)\<lparr>pst_conditions := cs\<rparr>\<rparr>"

definition pc_setCondition :: "'w k8s \<Rightarrow> PlatformConfig \<Rightarrow> string \<Rightarrow> ConditionStatus \<Rightarrow> string \<Rightarrow>
    string \<Rightarrow> ('w, PlatformConfig) op" where
  "pc_setCondition K cr condType status rsn msg = do {
     conds \<leftarrow> setCondition K (pst_conditions (pc_status cr)) (om_generation (pc_meta cr))
                condType status rsn msg;
     State_Monad.return (pc_set_conditions conds cr)
   }"

definition pc_notReady :: "'w k8s \<Rightarrow> PlatformConfig \<Rightarrow> string \<Rightarrow> string \<Rightarrow> ('w, verdict) op" where
  "pc_notReady K cr rsn msg = do {
     cr' \<leftarrow> pc_setCondition K cr ConditionReady ConditionFalse rsn msg;
     u \<leftarrow> status_pc K cr';
     State_Monad.return (case u of
         Inl err \<Rightarrow> (no_requeue, Some (Wrap (''updating status ('' @ rsn @ ''): '') (Foreign err) []))
       | Inr _ \<Rightarrow> (no_requeue, Some (Errorf (rsn @ '': '' @ msg))))
   }"

definition setNotSingleton :: "'w k8s \<Rightarrow> PlatformConfigReconciler \<Rightarrow> PlatformConfig \<Rightarrow>
    ('w, gerror option) op" where
  "setNotSingleton K r cr = do {
     cr' \<leftarrow> pc_setCondition K cr ConditionReady ConditionFalse ReasonNotSingleton
              (pc_msg_not_singleton (isPrint K) (om_name (pc_meta cr)) (pr_platformConfigName r));
     u \<leftarrow> status_pc K cr';
     State_Monad.return (case u of
         Inl err \<Rightarrow> Some (Wrap (''updating status ('' @ ReasonNotSingleton @ ''): '') (Foreign err) [])
       | Inr _ \<Rightarrow> None)
   }"

text \<open>
  The tail of \<open>Reconcile\<close>, once the flag is confirmed: the health read failed, it succeeded,
  and the choice between the two.
\<close>

definition pc_healthUnread :: "'w k8s \<Rightarrow> PlatformConfig \<Rightarrow> PausedState \<Rightarrow> gerror \<Rightarrow>
    ('w, verdict) op" where
  "pc_healthUnread K cr pausedState err = do {
     cr \<leftarrow> pc_setCondition K cr ConditionProviderHealthKnown ConditionFalse
             ReasonHealthUndetermined (pc_msg_health_unread err);
     pc_notReady K cr (healthErrorReason err) (pc_msg_health_failed (ps_paused pausedState) err)
   }"

definition pc_recordHealth :: "'w k8s \<Rightarrow> PlatformConfig \<Rightarrow> PausedState \<Rightarrow> ProviderHealthResponse \<Rightarrow>
    ('w, verdict) op" where
  "pc_recordHealth K cr pausedState health = do {
     now \<leftarrow> ask (timeNow K);
     let (entries, undetermined) = splitProviderHealth now (phr_providers health);
     let cr = cr\<lparr>pc_status := (pc_status cr)\<lparr>pst_providerHealth := entries\<rparr>\<rparr>;
     cr \<leftarrow> (if undetermined \<noteq> [] then
              pc_setCondition K cr ConditionProviderHealthKnown ConditionFalse
                ReasonHealthUndetermined (pc_msg_undetermined undetermined)
            else
              pc_setCondition K cr ConditionProviderHealthKnown ConditionTrue
                ReasonHealthKnown (pc_msg_determined (length entries)));
     let cr = cr\<lparr>pc_status := (pc_status cr)\<lparr>
                pst_observedGeneration := om_generation (pc_meta cr)\<rparr>\<rparr>;
     cr \<leftarrow> pc_setCondition K cr ConditionReady ConditionTrue ReasonReconciled
             (pc_msg_ready (ps_paused pausedState) (length entries) (length undetermined));
     u \<leftarrow> status_pc K cr;
     State_Monad.return (case u of
         Inl err \<Rightarrow>
           (no_requeue, Some (Wrap ''updating status after successful reconcile: '' (Foreign err) []))
       | Inr _ \<Rightarrow> (\<lparr>requeueAfter = HealthPollInterval\<rparr>, None))
   }"

definition pc_readHealth :: "'w k8s \<Rightarrow> 'w net \<Rightarrow> PlatformConfigReconciler \<Rightarrow> PlatformConfig \<Rightarrow>
    PausedState \<Rightarrow> ('w, verdict) op" where
  "pc_readHealth K N r cr pausedState = do {
     h \<leftarrow> GetProviderHealth N (pr_backend r) (pr_clusterID r);
     case h of
       Inl err \<Rightarrow> pc_healthUnread K cr pausedState err
     | Inr health \<Rightarrow> pc_recordHealth K cr pausedState health
   }"

definition pc_Reconcile :: "'w k8s \<Rightarrow> 'w net \<Rightarrow> PlatformConfigReconciler \<Rightarrow> NamespacedName \<Rightarrow>
    ('w, verdict) op" where
  "pc_Reconcile K N r req = do {
     got \<leftarrow> get_pc K req;
     case got of
       Inl err \<Rightarrow> State_Monad.return (no_requeue, map_option Foreign (ignoreNotFound K (Some err)))
     | Inr cr \<Rightarrow>
         if pr_platformConfigName r \<noteq> [] \<and> om_name (pc_meta cr) \<noteq> pr_platformConfigName r then do {
           err \<leftarrow> setNotSingleton K r cr;
           State_Monad.return (no_requeue, err)
         }
         else do {
           sp \<leftarrow> SetPaused N (pr_backend r) (pcs_paused (pc_spec cr))
                  (''k8boss-operator/PlatformConfig/'' @ om_name (pc_meta cr));
           case sp of
             Inl err \<Rightarrow> pc_notReady K cr (pauseErrorReason err)
                          (pc_msg_push_failed (pcs_paused (pc_spec cr)) err)
           | Inr pausedState \<Rightarrow>
               if ps_paused pausedState \<noteq> pcs_paused (pc_spec cr) then
                 pc_notReady K cr ReasonWriteNotVerified
                   (pc_msg_push_ignored (ps_paused pausedState) (pcs_paused (pc_spec cr)))
               else pc_readHealth K N r cr pausedState
         }
   }"

subsection \<open>The loop over the providers\<close>

text \<open>What the loop computes: one entry per provider in order, and the undetermined ones named.\<close>

definition undetermined_note :: "ProviderHealth \<Rightarrow> string" where
  "undetermined_note p = ph_name p @ '': '' @ undetermined_why p"

lemma split_loop_eq:
  "split_loop now ps es us = (es @ map (health_entry now) ps,
     us @ map undetermined_note (filter (\<lambda>p. \<not> Determinate p) ps))"
  by (induction now ps es us rule: split_loop.induct) (auto simp: undetermined_note_def)

lemma splitProviderHealth_eq:
  "splitProviderHealth now ps = (map (health_entry now) ps,
     map undetermined_note (filter (\<lambda>p. \<not> Determinate p) ps))"
  by (simp add: splitProviderHealth_def split_loop_eq)

subsection \<open>The runs of the reconciler\<close>

text \<open>The two requests it makes.\<close>

definition pc_put_request :: "PlatformConfigReconciler \<Rightarrow> PlatformConfig \<Rightarrow> http_request" where
  "pc_put_request r cr =
     (let body = Some (PausedBody (pcs_paused (pc_spec cr))
            (''k8boss-operator/PlatformConfig/'' @ om_name (pc_meta cr)))
      in \<lparr>rq_method = ''PUT'', rq_url = baseURL (pr_backend r) @ ''/internal/operator/v1/paused'',
          rq_header = request_header (pr_backend r) body, rq_body = body\<rparr>)"

definition pc_health_request :: "PlatformConfigReconciler \<Rightarrow> http_request" where
  "pc_health_request r =
     \<lparr>rq_method = ''GET'', rq_url = baseURL (pr_backend r) @
        ''/internal/operator/v1/provider-health?cluster_id='' @ show_int64 (pr_clusterID r),
      rq_header = request_header (pr_backend r) None, rq_body = None\<rparr>"

definition governs :: "PlatformConfigReconciler \<Rightarrow> PlatformConfig \<Rightarrow> bool" where
  "governs r cr \<longleftrightarrow> pr_platformConfigName r = [] \<or> om_name (pc_meta cr) = pr_platformConfigName r"

text \<open>The control plane answered that its flag is what the resource asks for.\<close>

definition switch_confirmed :: "PlatformConfig \<Rightarrow> foreign + http_response \<Rightarrow> bool" where
  "switch_confirmed cr a \<longleftrightarrow>
     confirms store_PausedState zero_PausedState (\<lambda>p. ps_paused p = pcs_paused (pc_spec cr)) a"

text \<open>A status written with Ready false, and one with the health that was read.\<close>

definition pc_unready :: "PlatformConfig \<Rightarrow> string \<Rightarrow> PlatformConfig \<Rightarrow> bool" where
  "pc_unready x rsn y \<longleftrightarrow> pc_meta y = pc_meta x \<and> pc_spec y = pc_spec x \<and>
     pst_observedGeneration (pc_status y) = pst_observedGeneration (pc_status x) \<and>
     pst_providerHealth (pc_status y) = pst_providerHealth (pc_status x) \<and>
     ready_cond (PcObj x) ConditionFalse rsn (PcObj y)"

definition pc_recorded :: "time \<Rightarrow> PlatformConfig \<Rightarrow> ProviderHealth list \<Rightarrow> PlatformConfig \<Rightarrow> bool" where
  "pc_recorded now x ps y \<longleftrightarrow> pc_meta y = pc_meta x \<and> pc_spec y = pc_spec x \<and>
     pst_observedGeneration (pc_status y) = om_generation (pc_meta x) \<and>
     pst_providerHealth (pc_status y) = map (health_entry now) ps \<and>
     ready_cond (PcObj x) ConditionTrue ReasonReconciled (PcObj y) \<and>
     (if list_all Determinate ps
      then has_condition (PcObj y) ConditionProviderHealthKnown ConditionTrue ReasonHealthKnown
      else has_condition (PcObj y) ConditionProviderHealthKnown ConditionFalse ReasonHealthUndetermined)"

text \<open>What is returned after the last status write of a successful run.\<close>

definition pc_verdict :: "foreign + 'a \<Rightarrow> verdict" where
  "pc_verdict u = (case u of
       Inl err \<Rightarrow>
         (no_requeue, Some (Wrap ''updating status after successful reconcile: '' (Foreign err) []))
     | Inr _ \<Rightarrow> (\<lparr>requeueAfter = HealthPollInterval\<rparr>, None))"

abbreviation pc_read :: "NamespacedName \<Rightarrow> PlatformConfig \<Rightarrow> event" where
  "pc_read n x \<equiv> EvGet PlatformConfigKind n (Inr (PcObj x))"

inductive pc_run :: "'w k8s \<Rightarrow> PlatformConfigReconciler \<Rightarrow> NamespacedName \<Rightarrow> event list \<Rightarrow> verdict \<Rightarrow> bool"
  for K r n where
  get_failed: "pc_run K r n [EvGet PlatformConfigKind n (Inl e)]
     (no_requeue, map_option Foreign (ignoreNotFound K (Some e)))"
| not_singleton: "\<lbrakk>\<not> governs r x; pc_unready x ReasonNotSingleton y\<rbrakk> \<Longrightarrow>
     pc_run K r n [pc_read n x, EvStatusUpdate (PcObj y) u]
       (release_verdict (''updating status ('' @ ReasonNotSingleton @ ''): '') u)"
| unsent: "\<lbrakk>governs r x; pc_unready x rsn y;
     missing (pr_backend r) \<noteq> [] \<longrightarrow> rsn = ReasonAwaitingConfiguration\<rbrakk> \<Longrightarrow>
     pc_run K r n [pc_read n x, EvStatusUpdate (PcObj y) u] (unready_verdict rsn msg 0 u)"
| refused: "\<lbrakk>governs r x; missing (pr_backend r) = []; \<not> switch_confirmed x a; pc_unready x rsn y\<rbrakk> \<Longrightarrow>
     pc_run K r n [pc_read n x, EvHttp (pc_put_request r x) a, EvStatusUpdate (PcObj y) u]
       (unready_verdict rsn msg 0 u)"
| health_unread: "\<lbrakk>governs r x; missing (pr_backend r) = []; switch_confirmed x a;
     hs = [] \<or> (\<exists>h. hs = [EvHttp (pc_health_request r) h] \<and>
       (\<forall>R. \<not> confirms store_ProviderHealthResponse zero_ProviderHealthResponse R h));
     pc_unready x rsn y;
     has_condition (PcObj y) ConditionProviderHealthKnown ConditionFalse ReasonHealthUndetermined\<rbrakk> \<Longrightarrow>
     pc_run K r n ([pc_read n x, EvHttp (pc_put_request r x) a] @ hs @ [EvStatusUpdate (PcObj y) u])
       (unready_verdict rsn msg 0 u)"
| recorded: "\<lbrakk>governs r x; missing (pr_backend r) = []; switch_confirmed x a;
     confirms store_ProviderHealthResponse zero_ProviderHealthResponse
       (\<lambda>resp. pc_recorded now x (phr_providers resp) y) h\<rbrakk> \<Longrightarrow>
     pc_run K r n [pc_read n x, EvHttp (pc_put_request r x) a, EvHttp (pc_health_request r) h,
       EvStatusUpdate (PcObj y) u] (pc_verdict u)"

lemma pc_conditions_set [simp]:
  "pc_meta (pc_set_conditions cs x) = pc_meta x" "pc_spec (pc_set_conditions cs x) = pc_spec x"
  "pst_conditions (pc_status (pc_set_conditions cs x)) = cs"
  "pst_observedGeneration (pc_status (pc_set_conditions cs x)) = pst_observedGeneration (pc_status x)"
  "pst_providerHealth (pc_status (pc_set_conditions cs x)) = pst_providerHealth (pc_status x)"
  by (simp_all add: pc_set_conditions_def)

lemma pc_setCondition_emits:
  assumes "k8s_laws K"
    and "\<And>cs. \<lbrakk>\<And>y. pst_conditions (pc_status y) = cs \<Longrightarrow>
          has_condition (PcObj y) t st rsn \<and>
          (t = ConditionReady \<longrightarrow> ready_cond (PcObj x) st rsn (PcObj y));
        \<And>t'. t' \<noteq> t \<Longrightarrow> find_condition t' cs = find_condition t' (pst_conditions (pc_status x))\<rbrakk> \<Longrightarrow>
      Q (pc_set_conditions cs x) []"
  shows "emits (pc_setCondition K x t st rsn msg) Q"
  unfolding pc_setCondition_def setCondition_def
proof (intro emits_intro, simp, rule assms(2))
  fix w and y :: PlatformConfig
  assume "pst_conditions (pc_status y) = setStatusCondition K w (pst_conditions (pc_status x))
    (newCondition (om_generation (pc_meta x)) t st rsn msg)"
  with condition_set [OF assms(1), of t w "pst_conditions (pc_status x)" "om_generation (pc_meta x)" st rsn msg]
  show "has_condition (PcObj y) t st rsn \<and>
      (t = ConditionReady \<longrightarrow> ready_cond (PcObj x) st rsn (PcObj y))"
    by (auto simp: has_condition_def ready_cond_def)
qed (simp add: condition_frame [OF assms(1)])

lemma status_pc_emits:
  "(\<And>u. Q u [EvStatusUpdate (PcObj y) (answer PcObj u)]) \<Longrightarrow> emits (status_pc K y) Q"
  unfolding status_pc_def by (rule emits_call)

lemma pc_notReady_emits:
  assumes laws: "k8s_laws K"
    and run: "\<And>y u. \<lbrakk>pc_unready x rsn y;
        \<And>t. t \<noteq> ConditionReady \<Longrightarrow> find_condition t (pst_conditions (pc_status y)) =
             find_condition t (pst_conditions (pc_status x))\<rbrakk> \<Longrightarrow>
      Q (unready_verdict rsn msg 0 u) [EvStatusUpdate (PcObj y) u]"
  shows "emits (pc_notReady K x rsn msg) Q"
  unfolding pc_notReady_def
proof (intro emits_bind pc_setCondition_emits [OF laws] status_pc_emits emits_return)
  fix cs and u :: "foreign + PlatformConfig"
  assume cond: "\<And>y. pst_conditions (pc_status y) = cs \<Longrightarrow>
      has_condition (PcObj y) ConditionReady ConditionFalse rsn \<and>
      (ConditionReady = ConditionReady \<longrightarrow> ready_cond (PcObj x) ConditionFalse rsn (PcObj y))"
    and frame: "\<And>t'. t' \<noteq> ConditionReady \<Longrightarrow> find_condition t' cs =
      find_condition t' (pst_conditions (pc_status x))"
  let ?y = "pc_set_conditions cs x"
  have "pc_unready x rsn ?y" using cond [of ?y] by (simp add: pc_unready_def)
  from run [OF this, of "answer PcObj u"] frame
  show "Q (case u of
         Inl err \<Rightarrow> (no_requeue, Some (Wrap (''updating status ('' @ rsn @ ''): '') (Foreign err) []))
       | Inr _ \<Rightarrow> (no_requeue, Some (Errorf (rsn @ '': '' @ msg))))
     ([] @ [EvStatusUpdate (PcObj ?y) (answer PcObj u)] @ [])"
    by (cases u) (simp_all add: unready_verdict_def)
qed

lemma setNotSingleton_emits:
  assumes laws: "k8s_laws K"
    and run: "\<And>y u. pc_unready x ReasonNotSingleton y \<Longrightarrow>
      Q (snd (release_verdict (''updating status ('' @ ReasonNotSingleton @ ''): '') u))
        [EvStatusUpdate (PcObj y) u]"
  shows "emits (setNotSingleton K r x) Q"
  unfolding setNotSingleton_def
proof (intro emits_bind pc_setCondition_emits [OF laws] status_pc_emits emits_return)
  fix cs and u :: "foreign + PlatformConfig"
  assume cond: "\<And>y. pst_conditions (pc_status y) = cs \<Longrightarrow>
      has_condition (PcObj y) ConditionReady ConditionFalse ReasonNotSingleton \<and>
      (ConditionReady = ConditionReady \<longrightarrow>
       ready_cond (PcObj x) ConditionFalse ReasonNotSingleton (PcObj y))"
  have "pc_unready x ReasonNotSingleton (pc_set_conditions cs x)"
    using cond [of "pc_set_conditions cs x"] by (simp add: pc_unready_def)
  from run [OF this, of "answer PcObj u"]
  show "Q (case u of
         Inl err \<Rightarrow> Some (Wrap (''updating status ('' @ ReasonNotSingleton @ ''): '') (Foreign err) [])
       | Inr _ \<Rightarrow> None)
     ([] @ [EvStatusUpdate (PcObj (pc_set_conditions cs x)) (answer PcObj u)] @ [])"
    by (cases u) (simp_all add: release_verdict_def)
qed

lemma health_condition_emits:
  assumes laws: "k8s_laws K"
    and run: "\<And>cs. (\<And>y. pst_conditions (pc_status y) = cs \<Longrightarrow>
        if list_all Determinate ps
        then has_condition (PcObj y) ConditionProviderHealthKnown ConditionTrue ReasonHealthKnown
        else has_condition (PcObj y) ConditionProviderHealthKnown ConditionFalse
               ReasonHealthUndetermined) \<Longrightarrow> Q (pc_set_conditions cs x) []"
  shows "emits
    (if map undetermined_note (filter (\<lambda>p. \<not> Determinate p) ps) \<noteq> [] then
       pc_setCondition K x ConditionProviderHealthKnown ConditionFalse ReasonHealthUndetermined m1
     else pc_setCondition K x ConditionProviderHealthKnown ConditionTrue ReasonHealthKnown m2) Q"
proof (cases "list_all Determinate ps")
  case True
  then have "filter (\<lambda>p. \<not> Determinate p) ps = []" by (auto simp: filter_empty_conv list_all_iff)
  with True show ?thesis by (auto intro!: pc_setCondition_emits [OF laws] run)
next
  case False
  then have "filter (\<lambda>p. \<not> Determinate p) ps \<noteq> []" by (auto simp: filter_empty_conv list_all_iff)
  with False show ?thesis by (auto intro!: pc_setCondition_emits [OF laws] run)
qed

lemma recordHealth_emits:
  assumes laws: "k8s_laws K"
    and run: "\<And>now y u. pc_recorded now x (phr_providers h) y \<Longrightarrow>
      Q (pc_verdict u) [EvStatusUpdate (PcObj y) u]"
  shows "emits (pc_recordHealth K x st h) Q"
  unfolding pc_recordHealth_def splitProviderHealth_eq Let_def prod.case
proof (intro emits_bind emits_ask emits_return health_condition_emits [OF laws]
    pc_setCondition_emits [OF laws] status_pc_emits)
  fix w cs1 cs2 and u :: "foreign + PlatformConfig"
  let ?entries = "map (health_entry (timeNow K w)) (phr_providers h)"
  let ?x1 = "pc_set_conditions cs1 (x\<lparr>pc_status := (pc_status x)\<lparr>pst_providerHealth := ?entries\<rparr>\<rparr>)"
  let ?x2 = "?x1\<lparr>pc_status := (pc_status ?x1)\<lparr>pst_observedGeneration := om_generation (pc_meta ?x1)\<rparr>\<rparr>"
  let ?y = "pc_set_conditions cs2 ?x2"
  assume known: "\<And>y. pst_conditions (pc_status y) = cs1 \<Longrightarrow>
        if list_all Determinate (phr_providers h)
        then has_condition (PcObj y) ConditionProviderHealthKnown ConditionTrue ReasonHealthKnown
        else has_condition (PcObj y) ConditionProviderHealthKnown ConditionFalse
               ReasonHealthUndetermined"
    and ready: "\<And>y. pst_conditions (pc_status y) = cs2 \<Longrightarrow>
        has_condition (PcObj y) ConditionReady ConditionTrue ReasonReconciled \<and>
        (ConditionReady = ConditionReady \<longrightarrow>
         ready_cond (PcObj ?x2) ConditionTrue ReasonReconciled (PcObj y))"
    and frame: "\<And>t'. t' \<noteq> ConditionReady \<Longrightarrow> find_condition t' cs2 =
        find_condition t' (pst_conditions (pc_status ?x2))"
  have "pc_recorded (timeNow K w) x (phr_providers h) ?y"
    using known [of ?x1] ready [of ?y] frame [of ConditionProviderHealthKnown]
    by (auto simp: pc_recorded_def ready_cond_def has_condition_def split: if_splits)
  from run [OF this, of "answer PcObj u"]
  show "Q (case u of
         Inl err \<Rightarrow>
           (no_requeue, Some (Wrap ''updating status after successful reconcile: '' (Foreign err) []))
       | Inr _ \<Rightarrow> (\<lparr>requeueAfter = HealthPollInterval\<rparr>, None))
     ([] @ [] @ [] @ [EvStatusUpdate (PcObj ?y) (answer PcObj u)] @ [])"
    by (cases u) (simp_all add: pc_verdict_def)
qed

lemma SetPaused_emits:
  assumes "missing (pr_backend r) \<noteq> [] \<Longrightarrow> Q (Inl (Unconfigured (missing (pr_backend r)))) []"
    and "\<And>e. \<lbrakk>missing (pr_backend r) = []; \<not> IsUnconfigured e\<rbrakk> \<Longrightarrow> Q (Inl e) []"
    and "\<And>e a. \<lbrakk>missing (pr_backend r) = []; \<not> IsUnconfigured e; \<not> switch_confirmed x a\<rbrakk> \<Longrightarrow>
      Q (Inl e) [EvHttp (pc_put_request r x) a]"
    and "\<And>v a. \<lbrakk>missing (pr_backend r) = [];
        switch_confirmed x a \<longleftrightarrow> ps_paused v = pcs_paused (pc_spec x)\<rbrakk> \<Longrightarrow>
      Q (Inr v) [EvHttp (pc_put_request r x) a]"
  shows "emits (SetPaused N (pr_backend r) (pcs_paused (pc_spec x))
     (''k8boss-operator/PlatformConfig/'' @ om_name (pc_meta x))) Q"
  using assms unfolding SetPaused_def
  by (intro call_emits) (simp_all add: pc_put_request_def switch_confirmed_def apiPrefix_def
      MethodPut_def Let_def)

lemma GetProviderHealth_emits:
  assumes "missing (pr_backend r) = []"
    and "\<And>e. Q (Inl e) []"
    and "\<And>e h. \<forall>R. \<not> confirms store_ProviderHealthResponse zero_ProviderHealthResponse R h \<Longrightarrow>
      Q (Inl e) [EvHttp (pc_health_request r) h]"
    and "\<And>v h. \<forall>R. confirms store_ProviderHealthResponse zero_ProviderHealthResponse R h = R v \<Longrightarrow>
      Q (Inr v) [EvHttp (pc_health_request r) h]"
  shows "emits (GetProviderHealth N (pr_backend r) (pr_clusterID r)) Q"
  using assms unfolding GetProviderHealth_def
  by (intro call_emits) (simp_all add: pc_health_request_def apiPrefix_def MethodGet_def)

lemma healthUnread_emits:
  assumes laws: "k8s_laws K"
    and run: "\<And>rsn msg y u. \<lbrakk>pc_unready x rsn y;
        has_condition (PcObj y) ConditionProviderHealthKnown ConditionFalse ReasonHealthUndetermined\<rbrakk> \<Longrightarrow>
      Q (unready_verdict rsn msg 0 u) [EvStatusUpdate (PcObj y) u]"
  shows "emits (pc_healthUnread K x st err) Q"
  unfolding pc_healthUnread_def
proof (intro emits_bind pc_setCondition_emits [OF laws] pc_notReady_emits [OF laws])
  fix cs y and u :: "foreign + k8s_object"
  let ?x = "pc_set_conditions cs x"
  assume known: "\<And>y. pst_conditions (pc_status y) = cs \<Longrightarrow>
      has_condition (PcObj y) ConditionProviderHealthKnown ConditionFalse ReasonHealthUndetermined \<and>
      (ConditionProviderHealthKnown = ConditionReady \<longrightarrow>
       ready_cond (PcObj x) ConditionFalse ReasonHealthUndetermined (PcObj y))"
    and unready: "pc_unready ?x (healthErrorReason err) y"
    and frame: "\<And>t. t \<noteq> ConditionReady \<Longrightarrow> find_condition t (pst_conditions (pc_status y)) =
      find_condition t (pst_conditions (pc_status ?x))"
  have "pc_unready x (healthErrorReason err) y"
    using unready by (simp add: pc_unready_def ready_cond_def)
  moreover have "has_condition (PcObj y) ConditionProviderHealthKnown ConditionFalse
      ReasonHealthUndetermined"
    using known [of ?x] frame [of ConditionProviderHealthKnown] by (simp add: has_condition_def)
  ultimately show "Q (unready_verdict (healthErrorReason err)
      (pc_msg_health_failed (ps_paused st) err) 0 u) ([] @ [EvStatusUpdate (PcObj y) u])"
    by (simp add: run)
qed

lemma readHealth_emits:
  assumes laws: "k8s_laws K" and gov: "governs r x" and set: "missing (pr_backend r) = []"
    and conf: "switch_confirmed x a"
  shows "emits (pc_readHealth K N r x st)
    (\<lambda>v es. pc_run K r n (pc_read n x # EvHttp (pc_put_request r x) a # es) v)"
  unfolding pc_readHealth_def
proof (intro emits_bind GetProviderHealth_emits [OF set], simp_all only: sum.case)
  note path = gov set conf
  have unread: "emits (pc_healthUnread K x st err)
      (\<lambda>v es. pc_run K r n (pc_read n x # EvHttp (pc_put_request r x) a # hs @ es) v)"
    if "hs = [] \<or> (\<exists>h. hs = [EvHttp (pc_health_request r) h] \<and>
       (\<forall>R. \<not> confirms store_ProviderHealthResponse zero_ProviderHealthResponse R h))" for err hs
    using pc_run.health_unread [OF path that] by (intro healthUnread_emits [OF laws]) simp
  fix e h
  show "emits (pc_healthUnread K x st e)
      (\<lambda>v es. pc_run K r n (pc_read n x # EvHttp (pc_put_request r x) a # [] @ es) v)"
    by (rule unread) simp
  show "emits (pc_healthUnread K x st e) (\<lambda>v es. pc_run K r n
      (pc_read n x # EvHttp (pc_put_request r x) a # [EvHttp (pc_health_request r) h] @ es) v)"
    if "\<forall>R. \<not> confirms store_ProviderHealthResponse zero_ProviderHealthResponse R h"
    by (rule unread) (use that in simp)
  show "emits (pc_recordHealth K x st resp) (\<lambda>v es. pc_run K r n
      (pc_read n x # EvHttp (pc_put_request r x) a # [EvHttp (pc_health_request r) h] @ es) v)"
    if "\<forall>R. confirms store_ProviderHealthResponse zero_ProviderHealthResponse R h = R resp" for resp
    using that by (intro recordHealth_emits [OF laws]) (auto intro!: pc_run.recorded [OF path])
qed

text \<open>What \<open>Reconcile\<close> does with the answer to its kill-switch request.\<close>

definition pc_switched :: "'w k8s \<Rightarrow> 'w net \<Rightarrow> PlatformConfigReconciler \<Rightarrow> PlatformConfig \<Rightarrow>
    gerror + PausedState \<Rightarrow> ('w, verdict) op" where
  "pc_switched K N r cr sp = (case sp of
       Inl err \<Rightarrow> pc_notReady K cr (pauseErrorReason err)
                    (pc_msg_push_failed (pcs_paused (pc_spec cr)) err)
     | Inr pausedState \<Rightarrow>
         if ps_paused pausedState \<noteq> pcs_paused (pc_spec cr) then
           pc_notReady K cr ReasonWriteNotVerified
             (pc_msg_push_ignored (ps_paused pausedState) (pcs_paused (pc_spec cr)))
         else pc_readHealth K N r cr pausedState)"

lemma governed_emits:
  assumes laws: "k8s_laws K" and gov: "governs r x"
  shows "emits
    (SetPaused N (pr_backend r) (pcs_paused (pc_spec x))
       (''k8boss-operator/PlatformConfig/'' @ om_name (pc_meta x)))
    (\<lambda>a e1. emits (pc_switched K N r x a) (\<lambda>v e2. pc_run K r n (pc_read n x # e1 @ e2) v))"
proof (intro SetPaused_emits)
  note failed = pc_notReady_emits [OF laws] and run = pc_run.unsent [OF gov] pc_run.refused [OF gov]
  let ?Q = "\<lambda>pre v es. pc_run K r n (pc_read n x # pre @ es) v"
  show "emits (pc_switched K N r x (Inl (Unconfigured (missing (pr_backend r))))) (?Q [])"
    by (auto simp: pc_switched_def pauseErrorReason_def IsUnconfigured_def intro!: failed run)
  show "emits (pc_switched K N r x (Inl e)) (?Q [])" if "missing (pr_backend r) = []" for e
    using that by (auto simp: pc_switched_def intro!: failed run)
  show "emits (pc_switched K N r x (Inl e)) (?Q [EvHttp (pc_put_request r x) a])"
    if "missing (pr_backend r) = []" "\<not> switch_confirmed x a" for e a
    using that by (auto simp: pc_switched_def intro!: failed run)
  show "emits (pc_switched K N r x (Inr st)) (?Q [EvHttp (pc_put_request r x) a])"
    if "missing (pr_backend r) = []"
      "switch_confirmed x a \<longleftrightarrow> ps_paused st = pcs_paused (pc_spec x)" for st a
    using that readHealth_emits [OF laws gov that(1), where a = a and n = n and N = N and st = st]
    by (auto simp: pc_switched_def intro!: failed run)
qed

lemma release_verdict_pair: "(no_requeue, snd (release_verdict what u)) = release_verdict what u"
  by (simp add: release_verdict_def split: sum.split)

lemma pc_runs:
  assumes laws: "k8s_laws K"
  shows "emits (pc_Reconcile K N r n) (\<lambda>v es. pc_run K r n es v)"
  unfolding pc_Reconcile_def get_pc_def pc_switched_def [symmetric]
proof (intro emits_bind emits_call emits_sum emits_if)
  fix got :: "foreign + PlatformConfig" and e
  assume "got = Inl e"
  then show "emits (State_Monad.return (no_requeue, map_option Foreign (ignoreNotFound K (Some e))))
     (\<lambda>b e2. pc_run K r n ([EvGet PlatformConfigKind n (answer PcObj got)] @ e2) b)"
    by (auto intro!: emits_return pc_run.get_failed)
next
  fix got :: "foreign + PlatformConfig" and x
  assume got: "got = Inr x" and "pr_platformConfigName r \<noteq> [] \<and> om_name (pc_meta x) \<noteq> pr_platformConfigName r"
  then have "\<not> governs r x" by (simp add: governs_def)
  from pc_run.not_singleton [OF this, of _ K n] got
  show "emits (setNotSingleton K r x) (\<lambda>a e1. emits (State_Monad.return (no_requeue, a))
     (\<lambda>b e2. pc_run K r n ([EvGet PlatformConfigKind n (answer PcObj got)] @ (e1 @ e2)) b))"
    by (intro setNotSingleton_emits [OF laws] emits_return) (simp add: release_verdict_pair)
next
  fix got :: "foreign + PlatformConfig" and x
  assume got: "got = Inr x" and "\<not> (pr_platformConfigName r \<noteq> [] \<and> om_name (pc_meta x) \<noteq> pr_platformConfigName r)"
  then have "governs r x" by (auto simp: governs_def)
  from governed_emits [OF laws this, of N n] got
  show "emits (SetPaused N (pr_backend r) (pcs_paused (pc_spec x))
       (''k8boss-operator/PlatformConfig/'' @ om_name (pc_meta x)))
     (\<lambda>a e1. emits (pc_switched K N r x a)
       (\<lambda>b e2. pc_run K r n ([EvGet PlatformConfigKind n (answer PcObj got)] @ (e1 @ e2)) b))"
    by simp
qed

lemma pc_guarantee:
  "k8s_laws K \<Longrightarrow> (\<And>es v. pc_run K r n es v \<Longrightarrow> Q v es) \<Longrightarrow> emits (pc_Reconcile K N r n) Q"
  by (rule emits_weaken [OF pc_runs])

subsection \<open>Sample runs\<close>

definition sample_pr :: PlatformConfigReconciler where
  "sample_pr = \<lparr>pr_backend = sample_client, pr_clusterID = 1, pr_platformConfigName = ''default''\<rparr>"

definition pc_sample_trace :: "bool \<Rightarrow> event list" where
  "pc_sample_trace paused = trace (snd (run_state (pc_Reconcile (sample_k [] None paused)
     (sample_net 423 []) sample_pr ([], ''default'')) start))"

lemma pc_sample_holds:
  "emits (pc_Reconcile (sample_k [] None paused) (sample_net 423 []) sample_pr ([], ''default'')) Q \<Longrightarrow>
   \<exists>v. Q v (pc_sample_trace paused)"
  unfolding pc_sample_trace_def by (rule exI, erule emits_run) (simp add: start_def)

lemma pc_sample_refused: "\<exists>y. pc_sample_trace paused =
    [pc_read ([], ''default'') (sample_pc ''default'' paused),
     EvHttp (pc_put_request sample_pr (sample_pc ''default'' paused)) (Inr \<lparr>rs_status = 423, rs_body = Inr []\<rparr>),
     EvStatusUpdate (PcObj y) (Inr (PcObj y))]"
  by (simp add: pc_sample_trace_def pc_Reconcile_def pc_notReady_def pc_setCondition_def
      pc_put_request_def sample_pr_def sample_simps op_defs setCondition_def SetPaused_def client_do_def
      read_response_def run_state_call start_def apiPrefix_def MethodPut_def Let_def)

subsection \<open>Properties\<close>

text \<open>
  C8. Whatever the API server and the control plane answer, a reconcile of a
  PlatformConfig makes its calls in the order of one of the six paths of \<open>pc_run\<close>, with the
  requests, status writes and return value that path allows.
\<close>

theorem pc_follows_protocol:
  "k8s_laws K \<Longrightarrow> emits (pc_Reconcile K N r n) (\<lambda>v es. pc_run K r n es v)"
  by (rule pc_runs)

lemma pc_follows_protocol_witness:
  "\<exists>v. pc_run (sample_k [] None True) sample_pr ([], ''default'') (pc_sample_trace True) v"
  by (rule pc_sample_holds [OF pc_follows_protocol [OF sample_laws]])

text \<open>
  C14. Only the PlatformConfig the operator is bound to reaches the control plane. A run
  sends at most two requests, none without a connection, first the kill-switch write carrying
  the \<open>spec.paused\<close> of the object it read, then the health read.
\<close>

theorem pc_requests:
  "k8s_laws K \<Longrightarrow>
   emits (pc_Reconcile K N r n) (\<lambda>v es.
     filter is_http es = [] \<or>
     missing (pr_backend r) = [] \<and>
     (\<exists>x a. pc_read n x \<in> set es \<and>
        (pr_platformConfigName r = [] \<or> om_name (pc_meta x) = pr_platformConfigName r) \<and>
        (filter is_http es = [EvHttp (pc_put_request r x) a] \<or>
         (\<exists>h. filter is_http es = [EvHttp (pc_put_request r x) a, EvHttp (pc_health_request r) h] \<and>
            switch_confirmed x a))))"
proof (rule pc_guarantee, assumption)
  fix es v
  assume "pc_run K r n es v"
  then show "filter is_http es = [] \<or>
     missing (pr_backend r) = [] \<and>
     (\<exists>x a. pc_read n x \<in> set es \<and>
        (pr_platformConfigName r = [] \<or> om_name (pc_meta x) = pr_platformConfigName r) \<and>
        (filter is_http es = [EvHttp (pc_put_request r x) a] \<or>
         (\<exists>h. filter is_http es = [EvHttp (pc_put_request r x) a, EvHttp (pc_health_request r) h] \<and>
            switch_confirmed x a)))"
    by cases (auto simp: governs_def)
qed

lemma pc_requests_witness:
  "filter is_http (pc_sample_trace True) \<noteq> [] \<and> missing (pr_backend sample_pr) = []"
  using pc_sample_holds [OF pc_requests [OF sample_laws], of True] pc_sample_refused [of True] by auto

text \<open>
  The control plane answered a kill-switch write of a value with that value; a status was
  written with Ready true for an object that asks for it.
\<close>

fun ev_switch_confirmed :: "bool \<Rightarrow> event \<Rightarrow> bool" where
  "ev_switch_confirmed b (EvHttp req a) = ((\<exists>by'. rq_body req = Some (PausedBody b by')) \<and>
     confirms store_PausedState zero_PausedState (\<lambda>p. ps_paused p = b) a)"
| "ev_switch_confirmed b _ = False"

fun ev_pc_ready :: "bool \<Rightarrow> event \<Rightarrow> bool" where
  "ev_pc_ready b (EvStatusUpdate (PcObj y) _) =
     (pcs_paused (pc_spec y) = b \<and> ready_is ConditionTrue (PcObj y))"
| "ev_pc_ready b _ = False"

text \<open>A control plane that answers every request with an empty object: switch off, no providers.\<close>

definition pc_sample_ready :: "event list" where
  "pc_sample_ready = trace (snd (run_state (pc_Reconcile (sample_k [] None False)
     (sample_net 200 [CHR 0x7B, CHR 0x7D]) sample_pr ([], ''default'')) start))"

lemma sample_empty:
  "unmarshal store_PausedState zero_PausedState [CHR 0x7B, CHR 0x7D] = Some zero_PausedState"
  "unmarshal store_ProviderHealthResponse zero_ProviderHealthResponse [CHR 0x7B, CHR 0x7D] =
     Some zero_ProviderHealthResponse"
  "\<not> ps_paused zero_PausedState" "phr_providers zero_ProviderHealthResponse = []"
proof -
  have parse: "json_parse [CHR 0x7B, CHR 0x7D] = Some (JObj [])" by code_simp
  show "unmarshal store_PausedState zero_PausedState [CHR 0x7B, CHR 0x7D] = Some zero_PausedState"
    "unmarshal store_ProviderHealthResponse zero_ProviderHealthResponse [CHR 0x7B, CHR 0x7D] =
       Some zero_ProviderHealthResponse"
    unfolding store_PausedState_def store_ProviderHealthResponse_def
    using parse by (simp_all add: unmarshal_empty_object)
qed (simp_all add: zero_PausedState_def zero_ProviderHealthResponse_def)

lemma pc_sample_recorded: "\<exists>y. pc_sample_ready =
    [pc_read ([], ''default'') (sample_pc ''default'' False),
     EvHttp (pc_put_request sample_pr (sample_pc ''default'' False))
       (Inr \<lparr>rs_status = 200, rs_body = Inr [CHR 0x7B, CHR 0x7D]\<rparr>),
     EvHttp (pc_health_request sample_pr) (Inr \<lparr>rs_status = 200, rs_body = Inr [CHR 0x7B, CHR 0x7D]\<rparr>),
     EvStatusUpdate (PcObj y) (Inr (PcObj y))] \<and> ev_pc_ready False (EvStatusUpdate (PcObj y) (Inr (PcObj y)))"
  by (simp add: sample_empty pc_sample_ready_def pc_Reconcile_def pc_readHealth_def pc_recordHealth_def
      pc_setCondition_def pc_put_request_def pc_health_request_def sample_pr_def sample_simps op_defs
      setCondition_def SetPaused_def GetProviderHealth_def client_do_def read_response_def
      run_state_call start_def apiPrefix_def MethodPut_def MethodGet_def Let_def
      splitProviderHealth_eq ready_is_def)

text \<open>
  C13. A PlatformConfig is reported Ready only after the control plane has answered
  a write of the kill switch with the very value of the object's \<open>spec.paused\<close>.
\<close>

theorem pc_ready_confirmed:
  "k8s_laws K \<Longrightarrow>
   emits (pc_Reconcile K N r n) (\<lambda>v es. precedes (ev_switch_confirmed b) (ev_pc_ready b) es)"
proof (rule pc_guarantee, assumption)
  fix es v
  assume "pc_run K r n es v"
  then show "precedes (ev_switch_confirmed b) (ev_pc_ready b) es"
    by cases (auto simp: pc_unready_def pc_recorded_def ready_cond_def ready_is_def
        pc_put_request_def Let_def switch_confirmed_def confirms_def split: sum.splits option.splits)
qed

lemma pc_ready_confirmed_witness:
  "precedes (ev_switch_confirmed False) (ev_pc_ready False) pc_sample_ready \<and>
   (\<exists>e\<in>set pc_sample_ready. ev_pc_ready False e)"
proof
  show "precedes (ev_switch_confirmed False) (ev_pc_ready False) pc_sample_ready"
    unfolding pc_sample_ready_def
    by (rule emits_run [OF pc_ready_confirmed [OF sample_laws]]) (simp add: start_def)
  obtain a b c e where sample: "pc_sample_ready = [a, b, c, e]" "ev_pc_ready False e"
    using pc_sample_recorded by blast
  show "\<exists>e\<in>set pc_sample_ready. ev_pc_ready False e"
    unfolding sample(1) using sample(2) by (intro bexI [of _ e]) simp_all
qed

text \<open>
  C15. The provider health in a written status is the one that was read with the object,
  untouched, unless a health read of this run was answered with 2xx; then it is one entry per
  reported provider, in order, and the ProviderHealthKnown condition is true exactly when every
  one of them has a verdict.
\<close>

theorem pc_health_kept:
  "k8s_laws K \<Longrightarrow>
   emits (pc_Reconcile K N r n) (\<lambda>v es. \<forall>y u. EvStatusUpdate (PcObj y) u \<in> set es \<longrightarrow>
     (\<exists>x. pc_read n x \<in> set es \<and> pc_meta y = pc_meta x \<and> pc_spec y = pc_spec x \<and>
        (pst_providerHealth (pc_status y) = pst_providerHealth (pc_status x) \<or>
         (\<exists>h now. EvHttp (pc_health_request r) h \<in> set es \<and>
            confirms store_ProviderHealthResponse zero_ProviderHealthResponse (\<lambda>resp.
              pst_providerHealth (pc_status y) = map (health_entry now) (phr_providers resp) \<and>
              (if list_all Determinate (phr_providers resp)
               then has_condition (PcObj y) ConditionProviderHealthKnown ConditionTrue ReasonHealthKnown
               else has_condition (PcObj y) ConditionProviderHealthKnown ConditionFalse
                      ReasonHealthUndetermined)) h))))"
proof (rule pc_guarantee, assumption, intro allI impI)
  fix es v y u
  assume "pc_run K r n es v" "EvStatusUpdate (PcObj y) u \<in> set es"
  then show "\<exists>x. pc_read n x \<in> set es \<and> pc_meta y = pc_meta x \<and> pc_spec y = pc_spec x \<and>
        (pst_providerHealth (pc_status y) = pst_providerHealth (pc_status x) \<or>
         (\<exists>h now. EvHttp (pc_health_request r) h \<in> set es \<and>
            confirms store_ProviderHealthResponse zero_ProviderHealthResponse (\<lambda>resp.
              pst_providerHealth (pc_status y) = map (health_entry now) (phr_providers resp) \<and>
              (if list_all Determinate (phr_providers resp)
               then has_condition (PcObj y) ConditionProviderHealthKnown ConditionTrue ReasonHealthKnown
               else has_condition (PcObj y) ConditionProviderHealthKnown ConditionFalse
                      ReasonHealthUndetermined)) h))"
  proof cases
    case (recorded x a now y' h u')
    from recorded(6) have "confirms store_ProviderHealthResponse zero_ProviderHealthResponse (\<lambda>resp.
        pst_providerHealth (pc_status y') = map (health_entry now) (phr_providers resp) \<and>
        (if list_all Determinate (phr_providers resp)
         then has_condition (PcObj y') ConditionProviderHealthKnown ConditionTrue ReasonHealthKnown
         else has_condition (PcObj y') ConditionProviderHealthKnown ConditionFalse
                ReasonHealthUndetermined)) h"
      by (rule confirms_mono) (simp add: pc_recorded_def)
    moreover from recorded(6) have "pc_meta y' = pc_meta x \<and> pc_spec y' = pc_spec x"
      by (auto simp: pc_recorded_def confirms_def split: sum.splits option.splits)
    moreover have "y = y'" "pc_read n x \<in> set es" "EvHttp (pc_health_request r) h \<in> set es"
      using recorded(1) \<open>EvStatusUpdate (PcObj y) u \<in> set es\<close> by auto
    ultimately show ?thesis by blast
  qed (auto simp: pc_unready_def)
qed

lemma pc_health_kept_witness:
  "\<exists>y u. EvStatusUpdate (PcObj y) u \<in> set (pc_sample_trace False) \<and>
     (\<exists>x. pc_read ([], ''default'') x \<in> set (pc_sample_trace False) \<and> pc_spec y = pc_spec x)"
proof -
  from pc_sample_refused [of False] obtain y where
    "EvStatusUpdate (PcObj y) (Inr (PcObj y)) \<in> set (pc_sample_trace False)" by fastforce
  with pc_sample_holds [OF pc_health_kept [OF sample_laws], of False] show ?thesis by blast
qed

text \<open>
  C21. A run returns neither an error nor a delay only when the object is gone, or is not the
  one the operator is bound to and the API server accepted the status that says so.
\<close>

theorem pc_settled:
  "k8s_laws K \<Longrightarrow>
   emits (pc_Reconcile K N r n) (\<lambda>v es.
     (snd v = None \<or> fst v = no_requeue) \<and>
     (v = (no_requeue, None) \<longrightarrow>
        (\<exists>e. es = [EvGet PlatformConfigKind n (Inl e)] \<and> isNotFound K (Some e)) \<or>
        (\<exists>x y z. es = [pc_read n x, EvStatusUpdate (PcObj y) (Inr z)] \<and>
           om_name (pc_meta x) \<noteq> pr_platformConfigName r \<and>
           ready_cond (PcObj x) ConditionFalse ReasonNotSingleton (PcObj y))))"
proof (rule pc_guarantee, assumption)
  fix es v
  assume "k8s_laws K" "pc_run K r n es v"
  moreover have "HealthPollInterval \<noteq> 0" by (simp add: cadence_values)
  ultimately show "(snd v = None \<or> fst v = no_requeue) \<and>
     (v = (no_requeue, None) \<longrightarrow>
        (\<exists>e. es = [EvGet PlatformConfigKind n (Inl e)] \<and> isNotFound K (Some e)) \<or>
        (\<exists>x y z. es = [pc_read n x, EvStatusUpdate (PcObj y) (Inr z)] \<and>
           om_name (pc_meta x) \<noteq> pr_platformConfigName r \<and>
           ready_cond (PcObj x) ConditionFalse ReasonNotSingleton (PcObj y)))"
    by (elim pc_run.cases) (auto simp: k8s_laws_def pc_unready_def governs_def verdict_settled
        pc_verdict_def no_requeue_def release_verdict_def unready_verdict_def split: sum.splits if_splits)
qed

text \<open>A PlatformConfig that another one, by name, takes precedence over.\<close>

lemma pc_settled_witness:
  "\<exists>x y z. trace (snd (run_state (pc_Reconcile (sample_k [] None False) (sample_net 200 [])
       (sample_pr\<lparr>pr_platformConfigName := ''main''\<rparr>) ([], ''default'')) start)) =
     [pc_read ([], ''default'') x, EvStatusUpdate (PcObj y) (Inr z)] \<and>
     ready_cond (PcObj x) ConditionFalse ReasonNotSingleton (PcObj y)"
proof -
  let ?r = "sample_pr\<lparr>pr_platformConfigName := ''main''\<rparr>"
  let ?run = "run_state (pc_Reconcile (sample_k [] None False) (sample_net 200 []) ?r ([], ''default'')) start"
  have "fst ?run = (no_requeue, None)" "length (trace (snd ?run)) = 2"
    by (simp_all add: pc_Reconcile_def setNotSingleton_def pc_setCondition_def sample_pr_def sample_simps
        op_defs setCondition_def run_state_call start_def)
  moreover have "trace start = []" by (simp add: start_def)
  ultimately show ?thesis
    using emits_run [OF pc_settled [OF sample_laws], of start "[]" None False "sample_net 200 []" ?r
        "([], ''default'')"] by auto
qed

text \<open>
  While no connection is configured, the reconcile of the PlatformConfig ends with an error: it is
  retried by back-off, not after \<open>UnconfiguredRequeue\<close>.
\<close>

lemma pc_unconfigured_fails:
  "k8s_laws K \<Longrightarrow> missing (pr_backend r) \<noteq> [] \<Longrightarrow>
   emits (pc_Reconcile K N r n) (\<lambda>v es. \<forall>x. pc_read n x \<in> set es \<and> governs r x \<longrightarrow> snd v \<noteq> None)"
  by (rule pc_guarantee, assumption, erule pc_run.cases)
    (auto simp: unready_verdict_def split: sum.splits)

text \<open>What an entry says of its provider.\<close>

lemma query_error_unhealthy: "query_error p False \<noteq> []"
  by (simp add: query_error_def Let_def)

lemma with_blockers_not_Nil: "e \<noteq> [] \<Longrightarrow> with_blockers bs e \<noteq> []"
  by (simp add: with_blockers_def Let_def)

lemma health_entry_verdict:
  "phs_name (health_entry now p) = ph_name p" "phs_observedAt (health_entry now p) = now"
  "phs_health (health_entry now p) = ''Unknown'' \<longleftrightarrow> \<not> ph_checked p \<or> ph_healthy p = None"
  "phs_health (health_entry now p) = ''True'' \<longleftrightarrow> ph_checked p \<and> ph_healthy p = Some True"
  "phs_health (health_entry now p) = ''False'' \<longleftrightarrow> ph_checked p \<and> ph_healthy p = Some False"
  "\<not> ph_checked p \<or> ph_healthy p = None \<Longrightarrow> phs_reason (health_entry now p) = undetermined_why p"
  "ph_checked p \<Longrightarrow> ph_healthy p = Some False \<Longrightarrow> phs_lastQueryError (health_entry now p) \<noteq> []"
  by (auto simp: health_entry_def Let_def Determinate_def ProviderHealthUnknown_def
      ProviderHealthTrue_def ProviderHealthFalse_def query_error_unhealthy with_blockers_not_Nil)

text \<open>
  The two texts of an entry exclude each other: one with a verdict, False included, has no reason,
  and one without has no query error.
\<close>

lemma entry_texts:
  "Determinate p \<Longrightarrow> phs_reason (health_entry now p) = []"
  "\<not> Determinate p \<Longrightarrow> phs_lastQueryError (health_entry now p) = []"
  by (simp_all add: health_entry_def Let_def)

text \<open>
  C16. The entries keep number, order and names of the providers. The verdict is
  Unknown exactly for a provider that was not checked or has no verdict, and then says why, in the
  words of the control plane if there are any; it is True or False as the control plane says, and a
  False carries a query error. The undetermined ones listed for the condition are exactly the
  Unknown entries, in order, each with its name and its reason.
\<close>

theorem provider_health_tri_state:
  "let (entries, undetermined) = splitProviderHealth now ps in
     map phs_name entries = map ph_name ps \<and>
     list_all2 (\<lambda>p e. phs_observedAt e = now \<and>
       (phs_health e = ''Unknown'' \<longleftrightarrow> \<not> ph_checked p \<or> ph_healthy p = None) \<and>
       (phs_health e = ''True'' \<longleftrightarrow> ph_checked p \<and> ph_healthy p = Some True) \<and>
       (phs_health e = ''False'' \<longleftrightarrow> ph_checked p \<and> ph_healthy p = Some False) \<and>
       (phs_health e = ''Unknown'' \<longrightarrow> phs_reason e \<noteq> [] \<and>
          (ph_message p \<noteq> [] \<longrightarrow> phs_reason e = ph_message p)) \<and>
       (phs_health e = ''False'' \<longrightarrow> phs_lastQueryError e \<noteq> [])) ps entries \<and>
     undetermined = map (\<lambda>e. phs_name e @ '': '' @ phs_reason e)
       (filter (\<lambda>e. phs_health e = ''Unknown'') entries)"
proof -
  have why: "undetermined_why p \<noteq> [] \<and> (ph_message p \<noteq> [] \<longrightarrow> undetermined_why p = ph_message p)" for p
    by (simp add: undetermined_why_def)
  have listed: "map undetermined_note (filter (\<lambda>p. \<not> Determinate p) ps) =
      map (\<lambda>e. phs_name e @ '': '' @ phs_reason e)
        (filter (\<lambda>e. phs_health e = ''Unknown'') (map (health_entry now) ps))"
    by (simp add: filter_map comp_def health_entry_verdict Determinate_def)
      (auto simp: undetermined_note_def health_entry_verdict)
  show ?thesis
    by (simp add: splitProviderHealth_eq listed list_all2_conv_all_nth health_entry_verdict why)
qed

lemma provider_health_tri_state_witness:
  "\<exists>e u. splitProviderHealth 7
     [\<lparr>ph_name = ''hubble'', ph_checked = True, ph_healthy = Some False, ph_message = [],
        ph_lastQueryError = None, ph_blockers = []\<rparr>,
      \<lparr>ph_name = ''tetragon'', ph_checked = False, ph_healthy = None, ph_message = ''no agent'',
        ph_lastQueryError = None, ph_blockers = []\<rparr>] = ([e, u], [''tetragon: no agent'']) \<and>
     phs_health e = ''False'' \<and> phs_lastQueryError e \<noteq> [] \<and> phs_reason u = ''no agent''"
  using provider_health_tri_state [of 7
     "[\<lparr>ph_name = ''hubble'', ph_checked = True, ph_healthy = Some False, ph_message = [],
        ph_lastQueryError = None, ph_blockers = []\<rparr>,
      \<lparr>ph_name = ''tetragon'', ph_checked = False, ph_healthy = None, ph_message = ''no agent'',
        ph_lastQueryError = None, ph_blockers = []\<rparr>]"]
  by (cases "splitProviderHealth 7
     [\<lparr>ph_name = ''hubble'', ph_checked = True, ph_healthy = Some False, ph_message = [],
        ph_lastQueryError = None, ph_blockers = []\<rparr>,
      \<lparr>ph_name = ''tetragon'', ph_checked = False, ph_healthy = None, ph_message = ''no agent'',
        ph_lastQueryError = None, ph_blockers = []\<rparr>]") (auto simp: list_all2_Cons1)

end
