(* ===== verification/Preflight.thy ===== *)
theory Preflight
  imports Samples
begin

text \<open>
  \<open>internal/preflight/preflight.go\<close>: the readiness check. The interface \<open>BackendProbe\<close>
  is the locale \<open>backend_probe\<close>, interpreted on the client's \<open>GetPaused\<close>; discovery is
  a parameter. The checker keeps the discovery client it builds on first use, so the check
  returns the checker.
\<close>

subsection \<open>The checker\<close>

type_synonym 'w lister = "string \<Rightarrow> ('w, foreign + string list) op"
type_synonym 'w probe = "duration \<Rightarrow> ('w, gerror + PausedState) op"

text \<open>The discovery library: a client from a configuration (opaque here), and \<open>GroupVersion.String\<close>.\<close>

record 'w discovery =
  newDiscoveryClient :: "string \<Rightarrow> foreign + (string \<Rightarrow> 'w \<Rightarrow> (foreign + string list) \<times> 'w)"
  groupVersionString :: "string \<Rightarrow> string \<Rightarrow> string"

record 'w Checker =
  ck_discovery :: "(string \<Rightarrow> 'w \<Rightarrow> (foreign + string list) \<times> 'w) option"
  ck_config :: "string option"
  ck_backend :: "'w probe option"
  ck_timeout :: duration

definition requiredResources :: "string list" where
  "requiredResources = [''platformconfigs'', ''runtimesecuritypolicies'', ''segmentationpolicies'']"

definition probeTimeout :: duration where "probeTimeout = 5 * second"

definition NewChecker :: "string \<Rightarrow> 'w probe \<Rightarrow> 'w Checker" where
  "NewChecker cfg backend = \<lparr>ck_discovery = None, ck_config = Some cfg, ck_backend = Some backend,
     ck_timeout = 0\<rparr>"

definition apiGroup :: string where "apiGroup = ''k8boss.io''"
definition apiVersion :: string where "apiVersion = ''v1alpha1''"

definition server_resources :: "(string \<Rightarrow> 'w \<Rightarrow> (foreign + string list) \<times> 'w) \<Rightarrow> 'w lister" where
  "server_resources l gv = call (l gv) (EvDiscovery gv)"

subsection \<open>The CRDs\<close>

definition served :: "string list \<Rightarrow> string list" where
  "served names = filter (\<lambda>n. CHR ''/'' \<notin> set n) names"

definition missing_resources :: "string list \<Rightarrow> string list" where
  "missing_resources names = filter (\<lambda>want. want \<notin> set (served names)) requiredResources"

definition crd_undetermined :: string where
  "crd_undetermined = ''could not determine whether the K8Boss CRDs are installed: ''"

definition crd_verdict :: "'w k8s \<Rightarrow> string \<Rightarrow> foreign + string list \<Rightarrow> gerror option" where
  "crd_verdict K gv got = (case got of
       Inl err \<Rightarrow>
         if isNotFound K (Some err) then
           Some (Errorf (''the K8Boss CRDs are NOT installed: the API server serves no '' @ gv @
             '' resources (run `make install` from operator/)''))
         else Some (Wrap (crd_undetermined @ ''discovery for '' @ gv @ '' failed: '') (Foreign err) [])
     | Inr names \<Rightarrow>
         if missing_resources names \<noteq> [] then
           Some (Errorf (''the K8Boss CRDs are incompletely installed: '' @ gv @ '' serves no '' @
             join '', '' (missing_resources names) @ '' (run `make install` from operator/)''))
         else None)"

definition checkCRDs :: "'w k8s \<Rightarrow> 'w discovery \<Rightarrow> 'w Checker \<Rightarrow>
    ('w, gerror option \<times> 'w Checker) op" where
  "checkCRDs K D ck =
     (let gv = groupVersionString D apiGroup apiVersion;
          list = (\<lambda>ck l. do {
            got \<leftarrow> server_resources l gv;
            State_Monad.return (crd_verdict K gv got, ck)
          })
      in case ck_discovery ck of
           Some l \<Rightarrow> list ck l
         | None \<Rightarrow> (case ck_config ck of
               None \<Rightarrow> State_Monad.return
                 (Some (Errorf (crd_undetermined @
                    ''no Kubernetes client config was provided to the preflight checker'')), ck)
             | Some cfg \<Rightarrow> (case newDiscoveryClient D cfg of
                   Inl err \<Rightarrow> State_Monad.return
                     (Some (Wrap (crd_undetermined @ ''building a discovery client failed: '')
                        (Foreign err) []), ck)
                 | Inr l \<Rightarrow> list (ck\<lparr>ck_discovery := Some l\<rparr>) l)))"

subsection \<open>The backend\<close>

definition msg_not_reachable :: string where
  "msg_not_reachable = ''the control-plane API is NOT confirmed reachable, so no reconcile could '' @
     ''reach the Knowledge Graph: GET /internal/operator/v1/paused failed: ''"

definition checkBackend :: "'w Checker \<Rightarrow> duration \<Rightarrow> ('w, gerror option) op" where
  "checkBackend ck timeout = (case ck_backend ck of
       None \<Rightarrow> State_Monad.return (Some (Errorf
         (''could not determine whether the control-plane API is reachable: '' @
          ''no backend client was provided to the preflight checker'')))
     | Some probe \<Rightarrow> do {
         got \<leftarrow> probe timeout;
         State_Monad.return (case got of
             Inr _ \<Rightarrow> None
           | Inl err \<Rightarrow> if IsUnconfigured err then None else Some (Wrap msg_not_reachable err []))
       })"

definition Check :: "'w k8s \<Rightarrow> 'w discovery \<Rightarrow> 'w Checker \<Rightarrow> ('w, gerror option \<times> 'w Checker) op" where
  "Check K D ck = do {
     let timeout = (if ck_timeout ck \<le> 0 then probeTimeout else ck_timeout ck);
     (err, ck) \<leftarrow> checkCRDs K D ck;
     case err of
       Some e \<Rightarrow> State_Monad.return (Some e, ck)
     | None \<Rightarrow> do {
         err \<leftarrow> checkBackend ck timeout;
         State_Monad.return (err, ck)
       }
   }"

subsection \<open>What the check relies on of a probe\<close>

text \<open>
  The interface \<open>BackendProbe\<close>: a probe of a connection that lacks settings reports the
  unconfigured error and sends nothing; any other sends at most the one request, succeeds only
  on a 2xx answer it can decode and never reports the unconfigured error.
\<close>

locale backend_probe =
  fixes probe :: "'w probe" and unset :: "string list" and req :: http_request
  assumes probe_event:
    "\<lbrakk>unset \<noteq> [] \<Longrightarrow> Q (Inl (Unconfigured unset)) [];
      \<And>e. \<lbrakk>unset = []; \<not> IsUnconfigured e\<rbrakk> \<Longrightarrow> Q (Inl e) [];
      \<And>e a. \<lbrakk>unset = []; \<not> IsUnconfigured e;
          \<forall>R. \<not> confirms store_PausedState zero_PausedState R a\<rbrakk> \<Longrightarrow> Q (Inl e) [EvHttp req a];
      \<And>v a. \<lbrakk>unset = []; \<forall>R. confirms store_PausedState zero_PausedState R a = R v\<rbrakk> \<Longrightarrow>
        Q (Inr v) [EvHttp req a]\<rbrakk> \<Longrightarrow> emits (probe t) Q"
begin

lemma checkBackend_event:
  assumes "ck_backend ck = Some probe"
    and "\<And>err es. \<lbrakk>err = None \<longleftrightarrow> unset \<noteq> [] \<or> (\<exists>a. EvHttp req a \<in> set es \<and>
          confirms store_PausedState zero_PausedState (\<lambda>_. True) a);
        es = [] \<or> (\<exists>a. es = [EvHttp req a]); unset \<noteq> [] \<Longrightarrow> es = []\<rbrakk> \<Longrightarrow> Q err es"
  shows "emits (checkBackend ck t) Q"
  unfolding checkBackend_def assms(1) option.case
  by (intro emits_bind probe_event emits_return assms(2))
    (auto simp: IsUnconfigured_def [of "Unconfigured _"])

end

definition probe_request :: "Client \<Rightarrow> http_request" where
  "probe_request c = \<lparr>rq_method = ''GET'', rq_url = baseURL c @ ''/internal/operator/v1/paused'',
     rq_header = request_header c None, rq_body = None\<rparr>"

interpretation get_paused: backend_probe "\<lambda>_. GetPaused N c" "missing c" "probe_request c"
  for N :: "'w net" and c :: Client
proof unfold_locales
  fix Q t
  assume "missing c \<noteq> [] \<Longrightarrow> Q (Inl (Unconfigured (missing c))) []"
    and "\<And>e. \<lbrakk>missing c = []; \<not> IsUnconfigured e\<rbrakk> \<Longrightarrow> Q (Inl e) []"
    and "\<And>e a. \<lbrakk>missing c = []; \<not> IsUnconfigured e;
        \<forall>R. \<not> confirms store_PausedState zero_PausedState R a\<rbrakk> \<Longrightarrow> Q (Inl e) [EvHttp (probe_request c) a]"
    and "\<And>v a. \<lbrakk>missing c = []; \<forall>R. confirms store_PausedState zero_PausedState R a = R v\<rbrakk> \<Longrightarrow>
        Q (Inr v) [EvHttp (probe_request c) a]"
  then show "emits (GetPaused N c) Q"
    unfolding GetPaused_def
    by (intro call_emits) (simp_all add: probe_request_def apiPrefix_def MethodGet_def)
qed

subsection \<open>The CRDs\<close>

text \<open>The API server listed all three resources.\<close>

definition crds_served :: "string \<Rightarrow> event list \<Rightarrow> bool" where
  "crds_served gv es \<longleftrightarrow> (\<exists>names. EvDiscovery gv (Inr names) \<in> set es \<and>
     set requiredResources \<subseteq> set names)"

lemma missing_resources_Nil_iff: "missing_resources names = [] \<longleftrightarrow> set requiredResources \<subseteq> set names"
  by (auto simp: missing_resources_def served_def filter_empty_conv requiredResources_def)

lemma crd_verdict_None_iff:
  "crd_verdict K gv got = None \<longleftrightarrow> (\<exists>names. got = Inr names \<and> set requiredResources \<subseteq> set names)"
  by (auto simp: crd_verdict_def missing_resources_Nil_iff split: sum.splits)

definition group_version :: "'w discovery \<Rightarrow> string" where
  "group_version D = groupVersionString D apiGroup apiVersion"

lemma server_resources_emits: "(\<And>got. Q got [EvDiscovery gv got]) \<Longrightarrow> emits (server_resources l gv) Q"
  unfolding server_resources_def by (rule emits_call)

lemma checkCRDs_event:
  assumes "\<And>err es ck'. \<lbrakk>err = None \<longleftrightarrow> crds_served (group_version D) es;
      es = [] \<or> (\<exists>got. es = [EvDiscovery (group_version D) got]);
      ck_backend ck' = ck_backend ck; ck_timeout ck' = ck_timeout ck; ck_config ck' = ck_config ck;
      ck_discovery ck \<noteq> None \<Longrightarrow> ck' = ck\<rbrakk> \<Longrightarrow> Q (err, ck') es"
  shows "emits (checkCRDs K D ck) Q"
  unfolding checkCRDs_def Let_def group_version_def [symmetric]
  by (intro emits_option emits_sum emits_bind server_resources_emits emits_return assms)
    (auto simp: crds_served_def crd_verdict_None_iff)

lemma Check_event:
  assumes "ck_backend ck = Some (\<lambda>_. GetPaused N c)"
    and run: "\<And>err es ck'. \<lbrakk>err = None \<longleftrightarrow> crds_served (group_version D) es \<and>
        (missing c \<noteq> [] \<or> (\<exists>a. EvHttp (probe_request c) a \<in> set es \<and>
          confirms store_PausedState zero_PausedState (\<lambda>_. True) a));
      \<exists>ds hs. es = ds @ hs \<and> (ds = [] \<or> (\<exists>got. ds = [EvDiscovery (group_version D) got])) \<and>
        (hs = [] \<or> (\<exists>a. hs = [EvHttp (probe_request c) a]) \<and> crds_served (group_version D) ds);
      ck_backend ck' = ck_backend ck; ck_timeout ck' = ck_timeout ck; ck_config ck' = ck_config ck;
      ck_discovery ck \<noteq> None \<Longrightarrow> ck' = ck\<rbrakk> \<Longrightarrow> Q (err, ck') es"
  shows "emits (Check K D ck) Q"
proof -
  have rest: "emits (case err of
       Some e \<Rightarrow> State_Monad.return (Some e, ck')
     | None \<Rightarrow> do { err \<leftarrow> checkBackend ck' t; State_Monad.return (err, ck') }) (\<lambda>b e2. Q b (es @ e2))"
    if crds: "err = None \<longleftrightarrow> crds_served (group_version D) es"
      and es: "es = [] \<or> (\<exists>got. es = [EvDiscovery (group_version D) got])"
      and same: "ck_backend ck' = ck_backend ck" "ck_timeout ck' = ck_timeout ck"
        "ck_config ck' = ck_config ck" "ck_discovery ck \<noteq> None \<Longrightarrow> ck' = ck" for err es ck' t
  proof (cases err)
    case None
    with crds have served: "crds_served (group_version D) (es @ hs)" for hs
      by (auto simp: crds_served_def)
    have no_http: "EvHttp (probe_request c) a \<notin> set es" for a using es by auto
    show ?thesis
      unfolding None option.case
    proof (intro emits_bind get_paused.checkBackend_event emits_return)
      show "ck_backend ck' = Some (\<lambda>_. GetPaused N c)" using assms(1) same(1) by simp
      fix err' :: "gerror option" and hs
      assume err': "err' = None \<longleftrightarrow> missing c \<noteq> [] \<or> (\<exists>a. EvHttp (probe_request c) a \<in> set hs \<and>
            confirms store_PausedState zero_PausedState (\<lambda>_. True) a)"
        and hs: "hs = [] \<or> (\<exists>a. hs = [EvHttp (probe_request c) a])"
      show "Q (err', ck') (es @ hs @ [])"
      proof (rule run)
        show "err' = None \<longleftrightarrow> crds_served (group_version D) (es @ hs @ []) \<and>
          (missing c \<noteq> [] \<or> (\<exists>a. EvHttp (probe_request c) a \<in> set (es @ hs @ []) \<and>
            confirms store_PausedState zero_PausedState (\<lambda>_. True) a))"
          using err' served no_http by simp
        have "crds_served (group_version D) es" using crds None by simp
        with es hs show "\<exists>ds ks. es @ hs @ [] = ds @ ks \<and>
          (ds = [] \<or> (\<exists>got. ds = [EvDiscovery (group_version D) got])) \<and>
          (ks = [] \<or> (\<exists>a. ks = [EvHttp (probe_request c) a]) \<and> crds_served (group_version D) ds)"
          by (intro exI [of _ es] exI [of _ hs]) simp
      qed (rule same; assumption)+
    qed
  next
    case (Some e)
    with crds es show ?thesis by (auto intro!: emits_return run same)
  qed
  show ?thesis
    unfolding Check_def Let_def
    by (intro emits_bind checkCRDs_event) (simp only: prod.case, rule rest, assumption+)
qed

subsection \<open>Properties\<close>

text \<open>
  C31. The readiness check of the manager's checker succeeds exactly when, in that check, the
  API server listed all three CRDs and either the control plane answered the probe with a 2xx
  body that decodes, or the operator has no connection to probe.
\<close>

theorem check_ready_iff:
  assumes "ck_backend ck = Some (\<lambda>_. GetPaused N c)"
  shows "emits (Check K D ck) (\<lambda>(err, ck') es. err = None \<longleftrightarrow>
    (\<exists>names. EvDiscovery (group_version D) (Inr names) \<in> set es \<and>
       {''platformconfigs'', ''runtimesecuritypolicies'', ''segmentationpolicies''} \<subseteq> set names) \<and>
    (missing c \<noteq> [] \<or> (\<exists>a. EvHttp (probe_request c) a \<in> set es \<and>
       confirms store_PausedState zero_PausedState (\<lambda>_. True) a)))"
  by (rule Check_event [OF assms]) (simp add: crds_served_def requiredResources_def)

definition sample_discovery :: "unit discovery" where
  "sample_discovery = \<lparr>newDiscoveryClient = (\<lambda>_. Inr (\<lambda>_ w. (Inr requiredResources, w))),
     groupVersionString = (\<lambda>g v. g @ ''/'' @ v)\<rparr>"

lemma check_ready_iff_witness:
  "fst (fst (run_state (Check (sample_k [] None True) sample_discovery
     (NewChecker ''cfg'' (\<lambda>_. GetPaused (sample_net 200 []) (NewUnconfigured [''K8BOSS_BACKEND_URL''])))) start)) = None"
proof -
  let ?c = "NewUnconfigured [''K8BOSS_BACKEND_URL'']"
  let ?ck = "NewChecker ''cfg'' (\<lambda>_. GetPaused (sample_net 200 []) ?c)"
  let ?r = "run_state (Check (sample_k [] None True) sample_discovery ?ck) start"
  have "EvDiscovery (group_version sample_discovery) (Inr requiredResources) \<in> set (trace (snd ?r))"
    by (simp add: Check_def checkCRDs_def NewChecker_def sample_discovery_def server_resources_def
        run_state_call start_def group_version_def crd_verdict_None_iff crd_verdict_def
        missing_resources_Nil_iff checkBackend_def GetPaused_def client_do_def NewUnconfigured_def Let_def)
  moreover have "missing ?c \<noteq> []" by (simp add: NewUnconfigured_def)
  moreover have "ck_backend ?ck = Some (\<lambda>_. GetPaused (sample_net 200 []) ?c)"
    by (simp add: NewChecker_def)
  from emits_run [OF check_ready_iff [OF this, of "sample_k [] None True" sample_discovery], of start]
  have "fst (fst ?r) = None \<longleftrightarrow>
    (\<exists>names. EvDiscovery (group_version sample_discovery) (Inr names) \<in> set (trace (snd ?r)) \<and>
       {''platformconfigs'', ''runtimesecuritypolicies'', ''segmentationpolicies''} \<subseteq> set names) \<and>
    (missing ?c \<noteq> [] \<or> (\<exists>a. EvHttp (probe_request ?c) a \<in> set (trace (snd ?r)) \<and>
       confirms store_PausedState zero_PausedState (\<lambda>_. True) a))"
    by (simp add: start_def split_beta)
  moreover have "{''platformconfigs'', ''runtimesecuritypolicies'', ''segmentationpolicies''} \<subseteq>
      set requiredResources" by (simp add: requiredResources_def)
  ultimately show ?thesis by blast
qed



end
