(* ===== verification/Manager.thy ===== *)
theory Manager
  imports SegmentationController RuntimeController PlatformConfigController Preflight
begin

text \<open>
  \<open>cmd/main.go\<close>: how the settings of the process become the client, the three reconcilers
  and the readiness check, and the order in which \<open>main\<close> registers them and starts the
  manager. Environment variables are a function from names to values (the empty string when
  unset, as \<open>os.Getenv\<close>), a command-line flag is \<open>Some\<close> of its value when given. What
  controller-runtime does with a registration is a parameter; \<open>main\<close> is a program over the
  calls it makes of it, whose result is the exit code of the process.
\<close>

subsection \<open>Settings\<close>

definition num_error_text :: "num_error \<Rightarrow> string" where
  "num_error_text e = (case e of ErrSyntax \<Rightarrow> ''invalid syntax'' | ErrRange \<Rightarrow> ''value out of range'')"

definition atoi_error :: "(nat \<Rightarrow> bool) \<Rightarrow> string \<Rightarrow> num_error \<Rightarrow> foreign" where
  "atoi_error ip raw e = \<lparr>f_reason = [],
     f_text = ''strconv.Atoi: parsing '' @ go_quote ip raw @ '': '' @ num_error_text e\<rparr>"

definition parseClusterID :: "(nat \<Rightarrow> bool) \<Rightarrow> string \<Rightarrow> gerror + int64" where
  "parseClusterID ip raw =
     (if raw = [] then Inl (Errorf ''not set'')
      else (case parse_int64 raw of
          Inl e \<Rightarrow> Inl (Wrap (go_quote ip raw @ '' is not an integer: '')
                       (Foreign (atoi_error ip raw e)) [])
        | Inr cid \<Rightarrow>
            if sint cid \<le> 0 then Inl (Errorf (show_int64 cid @ '' is not a positive cluster id''))
            else Inr cid))"

definition envOr :: "(string \<Rightarrow> string) \<Rightarrow> string \<Rightarrow> string \<Rightarrow> string" where
  "envOr getenv key fallback = (if getenv key \<noteq> [] then getenv key else fallback)"

record flags =
  fl_metricsAddr :: "string option"
  fl_probeAddr :: "string option"
  fl_leaderElect :: "bool option"
  fl_leaderElectionNS :: "string option"
  fl_backendURL :: "string option"
  fl_clusterID :: "string option"
  fl_platformConfigName :: "string option"

definition flagVar :: "'a option \<Rightarrow> 'a \<Rightarrow> 'a" where
  "flagVar given dflt = (case given of None \<Rightarrow> dflt | Some v \<Rightarrow> v)"

record settings =
  st_metricsAddr :: string
  st_probeAddr :: string
  st_leaderElection :: bool
  st_leaderElectionNS :: string
  st_backendURL :: string
  st_clusterID :: string
  st_platformConfigName :: string
  st_operatorToken :: string

definition read_settings :: "(string \<Rightarrow> string) \<Rightarrow> flags \<Rightarrow> settings" where
  "read_settings getenv fl =
     \<lparr>st_metricsAddr = flagVar (fl_metricsAddr fl) '':8080'',
      st_probeAddr = flagVar (fl_probeAddr fl) '':8081'',
      st_leaderElection = flagVar (fl_leaderElect fl) False,
      st_leaderElectionNS = flagVar (fl_leaderElectionNS fl) (getenv ''K8BOSS_LEADER_ELECTION_NAMESPACE''),
      st_backendURL = flagVar (fl_backendURL fl) (getenv ''K8BOSS_BACKEND_URL''),
      st_clusterID = flagVar (fl_clusterID fl) (getenv ''K8BOSS_CLUSTER_ID''),
      st_platformConfigName = flagVar (fl_platformConfigName fl)
        (envOr getenv ''K8BOSS_PLATFORMCONFIG_NAME'' ''default''),
      st_operatorToken = getenv ''K8BOSS_OPERATOR_TOKEN''\<rparr>"

subsection \<open>Wiring\<close>

definition missing_settings :: "(nat \<Rightarrow> bool) \<Rightarrow> settings \<Rightarrow> string list" where
  "missing_settings ip st =
     (if st_backendURL st = [] then [''K8BOSS_BACKEND_URL''] else []) @
     (case parseClusterID ip (st_clusterID st) of Inl _ \<Rightarrow> [''K8BOSS_CLUSTER_ID''] | Inr _ \<Rightarrow> []) @
     (if st_operatorToken st = [] then [''K8BOSS_OPERATOR_TOKEN''] else [])"

text \<open>\<open>parseClusterID\<close> returns 0 with an error, and \<open>main\<close> keeps it.\<close>

definition cluster_id :: "(nat \<Rightarrow> bool) \<Rightarrow> settings \<Rightarrow> int64" where
  "cluster_id ip st = (case parseClusterID ip (st_clusterID st) of Inl _ \<Rightarrow> 0 | Inr cid \<Rightarrow> cid)"

definition make_backend :: "(nat \<Rightarrow> bool) \<Rightarrow> settings \<Rightarrow> Client" where
  "make_backend ip st =
     (if missing_settings ip st \<noteq> [] then NewUnconfigured (missing_settings ip st)
      else NewClient (st_backendURL st) (st_operatorToken st))"

record operator =
  op_seg :: SegmentationPolicyReconciler
  op_rt :: RuntimeSecurityPolicyReconciler
  op_pc :: PlatformConfigReconciler

definition make_operator :: "(nat \<Rightarrow> bool) \<Rightarrow> settings \<Rightarrow> operator" where
  "make_operator ip st =
     \<lparr>op_seg = \<lparr>sr_backend = make_backend ip st, sr_clusterID = cluster_id ip st,
                sr_platformConfigName = st_platformConfigName st\<rparr>,
      op_rt = \<lparr>rtr_backend = make_backend ip st, rtr_clusterID = cluster_id ip st,
               rtr_platformConfigName = st_platformConfigName st\<rparr>,
      op_pc = \<lparr>pr_backend = make_backend ip st, pr_clusterID = cluster_id ip st,
               pr_platformConfigName = st_platformConfigName st\<rparr>\<rparr>"

definition make_preflight :: "'w net \<Rightarrow> (nat \<Rightarrow> bool) \<Rightarrow> string \<Rightarrow> settings \<Rightarrow> 'w Checker" where
  "make_preflight N ip cfg st = NewChecker cfg (\<lambda>_. GetPaused N (make_backend ip st))"

subsection \<open>Registration\<close>

record ManagerOptions =
  mo_metricsBindAddress :: string
  mo_healthProbeBindAddress :: string
  mo_leaderElection :: bool
  mo_leaderElectionID :: string
  mo_leaderElectionNamespace :: string

text \<open>The predicate a controller's watch is built with: none, or \<open>GenerationChangedPredicate\<close>.\<close>

datatype watch_filter = NoPredicate | GenerationChangedPredicate

text \<open>A controller as the builder is told of it: \<open>For\<close>, \<open>WithPredicates\<close>, \<open>Named\<close>, \<open>Complete\<close>.\<close>

datatype reconciler =
    SegReconciler SegmentationPolicyReconciler
  | RtReconciler RuntimeSecurityPolicyReconciler
  | PcReconciler PlatformConfigReconciler

record controller_spec =
  cs_for :: kind
  cs_filter :: watch_filter
  cs_name :: string
  cs_reconciler :: reconciler

datatype health_check = Ping | Preflight string Client

text \<open>What \<open>main\<close> calls, in the order of the source; every call answers with an error or none.\<close>

datatype boot_call =
    AddToScheme string
  | GetConfig
  | NewManager string ManagerOptions
  | Complete controller_spec
  | AddHealthzCheck string health_check
  | AddReadyzCheck string health_check
  | StartManager

datatype boot_event = Boot (boot_call: boot_call) (boot_error: "foreign option")

text \<open>The manager library; a new manager is known by the configuration it returns.\<close>

record 'w manager =
  addToScheme :: "string \<Rightarrow> 'w \<Rightarrow> foreign option \<times> 'w"
  getConfig :: "'w \<Rightarrow> (foreign + string) \<times> 'w"
  newManager :: "string \<Rightarrow> ManagerOptions \<Rightarrow> 'w \<Rightarrow> (foreign + string) \<times> 'w"
  completeController :: "controller_spec \<Rightarrow> 'w \<Rightarrow> foreign option \<times> 'w"
  addHealthz :: "string \<Rightarrow> health_check \<Rightarrow> 'w \<Rightarrow> foreign option \<times> 'w"
  addReadyz :: "string \<Rightarrow> health_check \<Rightarrow> 'w \<Rightarrow> foreign option \<times> 'w"
  startManager :: "'w \<Rightarrow> foreign option \<times> 'w"

definition seg_SetupWithManager :: "'w manager \<Rightarrow> SegmentationPolicyReconciler \<Rightarrow>
    (boot_event, 'w, foreign option) io" where
  "seg_SetupWithManager B r =
     (let c = \<lparr>cs_for = SegmentationPolicyKind, cs_filter = NoPredicate,
        cs_name = ''segmentationpolicy'', cs_reconciler = SegReconciler r\<rparr>
      in call (completeController B c) (Boot (Complete c)))"

definition rt_SetupWithManager :: "'w manager \<Rightarrow> RuntimeSecurityPolicyReconciler \<Rightarrow>
    (boot_event, 'w, foreign option) io" where
  "rt_SetupWithManager B r =
     (let c = \<lparr>cs_for = RuntimeSecurityPolicyKind, cs_filter = NoPredicate,
        cs_name = ''runtimesecuritypolicy'', cs_reconciler = RtReconciler r\<rparr>
      in call (completeController B c) (Boot (Complete c)))"

definition pc_SetupWithManager :: "'w manager \<Rightarrow> PlatformConfigReconciler \<Rightarrow>
    (boot_event, 'w, foreign option) io" where
  "pc_SetupWithManager B r =
     (let c = \<lparr>cs_for = PlatformConfigKind, cs_filter = GenerationChangedPredicate,
        cs_name = ''platformconfig'', cs_reconciler = PcReconciler r\<rparr>
      in call (completeController B c) (Boot (Complete c)))"

definition manager_options :: "settings \<Rightarrow> ManagerOptions" where
  "manager_options st =
     \<lparr>mo_metricsBindAddress = st_metricsAddr st, mo_healthProbeBindAddress = st_probeAddr st,
      mo_leaderElection = st_leaderElection st, mo_leaderElectionID = ''k8boss-operator.k8boss.io'',
      mo_leaderElectionNamespace = st_leaderElectionNS st\<rparr>"

text \<open>\<open>if err := m; err != nil { os.Exit(1) }\<close>, and the statements after it.\<close>

definition or_exit :: "('e, 'w, foreign option) io \<Rightarrow> ('e, 'w, nat) io \<Rightarrow> ('e, 'w, nat) io" where
  "or_exit m rest = do {
     err \<leftarrow> m;
     case err of Some _ \<Rightarrow> State_Monad.return 1 | None \<Rightarrow> rest
   }"

text \<open>\<open>utilRuntimeMust\<close>: an error panics, and the process ends with status 2.\<close>

definition utilRuntimeMust :: "('e, 'w, foreign option) io \<Rightarrow> ('e, 'w, nat) io \<Rightarrow> ('e, 'w, nat) io" where
  "utilRuntimeMust m rest = do {
     err \<leftarrow> m;
     case err of Some _ \<Rightarrow> State_Monad.return 2 | None \<Rightarrow> rest
   }"

definition register_all :: "'w manager \<Rightarrow> operator \<Rightarrow> string \<Rightarrow> Client \<Rightarrow> (boot_event, 'w, nat) io" where
  "register_all B op mcfg backend =
     or_exit (seg_SetupWithManager B (op_seg op))
     (or_exit (rt_SetupWithManager B (op_rt op))
     (or_exit (pc_SetupWithManager B (op_pc op))
     (or_exit (call (addHealthz B ''healthz'' Ping) (Boot (AddHealthzCheck ''healthz'' Ping)))
     (or_exit (call (addReadyz B ''readyz'' Ping) (Boot (AddReadyzCheck ''readyz'' Ping)))
     (or_exit (call (addReadyz B ''preflight'' (Preflight mcfg backend))
        (Boot (AddReadyzCheck ''preflight'' (Preflight mcfg backend))))
     (or_exit (call (startManager B) (Boot StartManager))
     (State_Monad.return 0)))))))"

definition main :: "'w manager \<Rightarrow> (nat \<Rightarrow> bool) \<Rightarrow> (string \<Rightarrow> string) \<Rightarrow> flags \<Rightarrow>
    (boot_event, 'w, nat) io" where
  "main B ip getenv fl = do {
     let st = read_settings getenv fl;
     cfg \<leftarrow> call (getConfig B) (\<lambda>r. Boot GetConfig (err_of r));
     case cfg of
       Inl _ \<Rightarrow> State_Monad.return 1
     | Inr cfg \<Rightarrow> do {
         m \<leftarrow> call (newManager B cfg (manager_options st))
                (\<lambda>r. Boot (NewManager cfg (manager_options st)) (err_of r));
         case m of
           Inl _ \<Rightarrow> State_Monad.return 1
         | Inr mcfg \<Rightarrow> register_all B (make_operator ip st) mcfg (make_backend ip st)
       }
   }"

text \<open>The program: \<open>init\<close> registers the two schemes, then \<open>main\<close> runs.\<close>

definition init_main :: "'w manager \<Rightarrow> (nat \<Rightarrow> bool) \<Rightarrow> (string \<Rightarrow> string) \<Rightarrow> flags \<Rightarrow>
    (boot_event, 'w, nat) io" where
  "init_main B ip getenv fl =
     utilRuntimeMust (call (addToScheme B ''clientgoscheme'') (Boot (AddToScheme ''clientgoscheme'')))
     (utilRuntimeMust (call (addToScheme B ''v1alpha1'') (Boot (AddToScheme ''v1alpha1'')))
     (main B ip getenv fl))"

subsection \<open>What the settings decide\<close>

text \<open>
  C35. The decimal text of any 64-bit integer is read back as that integer when it is
  positive, and refused by its value when it is not; no value is changed on the way.
\<close>

theorem cluster_id_roundtrip:
  "parseClusterID ip (show_int64 c) =
     (if 0 < sint c then Inr c else Inl (Errorf (show_int64 c @ '' is not a positive cluster id'')))"
proof -
  have "show_int64 c \<noteq> []" by (simp add: show_int64_def show_int_def show_nat_not_Nil)
  then show ?thesis by (simp add: parseClusterID_def parse_int64_show)
qed

lemma parseClusterID_positive: "parseClusterID ip raw = Inr c \<Longrightarrow> 0 < sint c"
  by (auto simp: parseClusterID_def split: if_splits sum.splits)

lemma missing_backend: "missing (make_backend ip st) = missing_settings ip st"
  by (simp add: make_backend_def NewClient_def NewUnconfigured_def)

text \<open>
  C34. The operator has a connection exactly when the URL and the token are non-empty
  and the cluster id is a positive 64-bit integer; otherwise the settings at fault are named, in
  a fixed order. A connection carries that URL less its trailing slashes, that token and that
  id, and the three reconcilers share it and the name of the one PlatformConfig.
\<close>

theorem settings_decide:
  "let b = make_backend ip st; op = make_operator ip st;
       id_ok = (\<exists>c. parseClusterID ip (st_clusterID st) = Inr c) in
   missing b = filter (\<lambda>s. s = ''K8BOSS_BACKEND_URL'' \<and> st_backendURL st = [] \<or>
       s = ''K8BOSS_CLUSTER_ID'' \<and> \<not> id_ok \<or> s = ''K8BOSS_OPERATOR_TOKEN'' \<and> st_operatorToken st = [])
     [''K8BOSS_BACKEND_URL'', ''K8BOSS_CLUSTER_ID'', ''K8BOSS_OPERATOR_TOKEN''] \<and>
   (missing b = [] \<longrightarrow> token b = st_operatorToken st \<and> token b \<noteq> [] \<and>
      baseURL b = trim_right_char CHR ''/'' (st_backendURL st) \<and>
      parseClusterID ip (st_clusterID st) = Inr (cluster_id ip st) \<and> 0 < sint (cluster_id ip st)) \<and>
   sr_backend (op_seg op) = b \<and> rtr_backend (op_rt op) = b \<and> pr_backend (op_pc op) = b \<and>
   sr_clusterID (op_seg op) = cluster_id ip st \<and> rtr_clusterID (op_rt op) = cluster_id ip st \<and>
   pr_clusterID (op_pc op) = cluster_id ip st \<and>
   sr_platformConfigName (op_seg op) = st_platformConfigName st \<and>
   rtr_platformConfigName (op_rt op) = st_platformConfigName st \<and>
   pr_platformConfigName (op_pc op) = st_platformConfigName st"
  unfolding Let_def missing_backend
  by (auto simp: missing_settings_def cluster_id_def make_operator_def make_backend_def
      NewClient_def parseClusterID_positive split: sum.splits)

definition sample_settings :: settings where
  "sample_settings = read_settings (\<lambda>k. if k = ''K8BOSS_OPERATOR_TOKEN'' then ''secret''
      else if k = ''K8BOSS_BACKEND_URL'' then ''https://cp.example/'' else [])
     \<lparr>fl_metricsAddr = None, fl_probeAddr = None, fl_leaderElect = Some True,
      fl_leaderElectionNS = None, fl_backendURL = None, fl_clusterID = Some ''42'',
      fl_platformConfigName = None\<rparr>"

lemma sample_settings_simps:
  "st_backendURL sample_settings = ''https://cp.example/''" "st_clusterID sample_settings = ''42''"
  "st_operatorToken sample_settings = ''secret''" "st_platformConfigName sample_settings = ''default''"
  by (simp_all add: sample_settings_def read_settings_def flagVar_def envOr_def)

lemma settings_decide_witness:
  "missing (make_backend is_ascii_print sample_settings) = [] \<and>
   sint (cluster_id is_ascii_print sample_settings) = 42 \<and>
   baseURL (make_backend is_ascii_print sample_settings) = ''https://cp.example''"
proof -
  have "show_int64 42 = ''42''"
    by (simp add: show_int64_def show_int_def show_nat.simps [of 42]
        show_nat.simps [of 4] char_of_def bit_Suc_0_iff)
  then have id: "parseClusterID is_ascii_print ''42'' = Inr 42"
    using parse_int64_show [of 42] by (simp add: parseClusterID_def)
  from settings_decide [of is_ascii_print sample_settings]
  show ?thesis
    by (simp add: Let_def sample_settings_simps id cluster_id_def trim_right_char_def)
qed

subsection \<open>Starting up\<close>

text \<open>
  The calls of a plan in order, up to and including the first that fails: the exit code is then
  2 for the registration of a scheme, which panics, and 1 for any other; it is 0 when none fails.
\<close>

fun runs_plan :: "boot_call list \<Rightarrow> nat \<Rightarrow> boot_event list \<Rightarrow> bool" where
  "runs_plan [] rc es = (es = [] \<and> rc = 0)"
| "runs_plan (c # cs) rc [] = False"
| "runs_plan (c # cs) rc (Boot b err # es) = (b = c \<and>
     (case err of
        Some _ \<Rightarrow> es = [] \<and> rc = (case c of AddToScheme _ \<Rightarrow> 2 | _ \<Rightarrow> 1)
      | None \<Rightarrow> runs_plan cs rc es))"

lemma emits_or_exit:
  assumes "\<And>e. Q 1 [ev (Some e)]" and "emits rest (\<lambda>c es. Q c (ev None # es))"
  shows "emits (or_exit (call f ev) rest) Q"
proof -
  have "emits (case err of None \<Rightarrow> rest | Some _ \<Rightarrow> State_Monad.return 1) (\<lambda>c es. Q c ([ev err] @ es))" for err
    using assms by (cases err) (auto intro: emits_return)
  then show ?thesis unfolding or_exit_def by (intro emits_bind emits_call)
qed

lemma emits_must:
  assumes "\<And>e. Q 2 [ev (Some e)]" and "emits rest (\<lambda>c es. Q c (ev None # es))"
  shows "emits (utilRuntimeMust (call f ev) rest) Q"
proof -
  have "emits (case err of None \<Rightarrow> rest | Some _ \<Rightarrow> State_Monad.return 2) (\<lambda>c es. Q c ([ev err] @ es))" for err
    using assms by (cases err) (auto intro: emits_return)
  then show ?thesis unfolding utilRuntimeMust_def by (intro emits_bind emits_call)
qed

text \<open>The controllers, with the predicate each watches its resource with, and the checks.\<close>

definition boot_plan :: "(nat \<Rightarrow> bool) \<Rightarrow> settings \<Rightarrow> string \<Rightarrow> string \<Rightarrow> boot_call list" where
  "boot_plan ip st cfg mcfg =
     [AddToScheme ''clientgoscheme'', AddToScheme ''v1alpha1'', GetConfig, NewManager cfg (manager_options st),
      Complete \<lparr>cs_for = SegmentationPolicyKind, cs_filter = NoPredicate,
        cs_name = ''segmentationpolicy'', cs_reconciler = SegReconciler (op_seg (make_operator ip st))\<rparr>,
      Complete \<lparr>cs_for = RuntimeSecurityPolicyKind, cs_filter = NoPredicate,
        cs_name = ''runtimesecuritypolicy'', cs_reconciler = RtReconciler (op_rt (make_operator ip st))\<rparr>,
      Complete \<lparr>cs_for = PlatformConfigKind, cs_filter = GenerationChangedPredicate,
        cs_name = ''platformconfig'', cs_reconciler = PcReconciler (op_pc (make_operator ip st))\<rparr>,
      AddHealthzCheck ''healthz'' Ping, AddReadyzCheck ''readyz'' Ping,
      AddReadyzCheck ''preflight'' (Preflight mcfg (make_backend ip st)), StartManager]"

lemma register_all_emits:
  "emits (register_all B (make_operator ip st) mcfg (make_backend ip st))
     (runs_plan (drop 4 (boot_plan ip st cfg mcfg)))"
  unfolding register_all_def seg_SetupWithManager_def rt_SetupWithManager_def
    pc_SetupWithManager_def Let_def boot_plan_def
  by (intro emits_or_exit emits_return) simp_all

lemma main_emits:
  "emits (main B ip getenv fl) (\<lambda>rc es. \<exists>cfg mcfg.
     runs_plan (drop 2 (boot_plan ip (read_settings getenv fl) cfg mcfg)) rc es)"
  unfolding main_def Let_def
proof (intro emits_bind emits_call emits_sum emits_return)
  fix got :: "foreign + string" and e
  assume "got = Inl e"
  then show "\<exists>cfg mcfg. runs_plan (drop 2 (boot_plan ip (read_settings getenv fl) cfg mcfg)) 1
      ([Boot GetConfig (err_of got)] @ [])"
    by (simp add: boot_plan_def)
next
  fix got m :: "foreign + string" and cfg e
  assume "got = Inr cfg" "m = Inl e"
  then show "\<exists>cfg' mcfg. runs_plan (drop 2 (boot_plan ip (read_settings getenv fl) cfg' mcfg)) 1
      ([Boot GetConfig (err_of got)] @
       [Boot (NewManager cfg (manager_options (read_settings getenv fl))) (err_of m)] @ [])"
    by (auto simp: boot_plan_def)
next
  fix got m :: "foreign + string" and cfg mcfg
  let ?st = "read_settings getenv fl"
  assume got: "got = Inr cfg" "m = Inr mcfg"
  have "runs_plan (drop 2 (boot_plan ip ?st cfg mcfg)) rc
      (Boot GetConfig None # Boot (NewManager cfg (manager_options ?st)) None # es) \<longleftrightarrow>
      runs_plan (drop 4 (boot_plan ip ?st cfg mcfg)) rc es" for rc es
    by (simp add: boot_plan_def)
  with got show "emits (register_all B (make_operator ip ?st) mcfg (make_backend ip ?st))
     (\<lambda>rc es. \<exists>cfg' mcfg. runs_plan (drop 2 (boot_plan ip ?st cfg' mcfg)) rc
      ([Boot GetConfig (err_of got)] @ ([Boot (NewManager cfg (manager_options ?st)) (err_of m)] @ es)))"
    by (intro emits_weaken [OF register_all_emits [where cfg = cfg]]) auto
qed

subsection \<open>The types of the scheme\<close>

text \<open>
  The package \<open>v1alpha1\<close> registers its types when it is initialized: one builder for its group
  version, which the \<open>init\<close> of each file adds a resource and its list to, in the order of the
  file names. \<open>AddToScheme\<close> is a method of that builder, bound to it before anything was added.
  The builder is the library's, a parameter with what it has registered.
\<close>

datatype scheme_type = Object kind | ObjectList kind

record 'b scheme_lib =
  new_builder :: "string \<Rightarrow> string \<Rightarrow> 'b"
  register_types :: "scheme_type list \<Rightarrow> 'b \<Rightarrow> 'b"
  registered :: "'b \<Rightarrow> scheme_type list"

definition scheme_laws :: "'b scheme_lib \<Rightarrow> bool" where
  "scheme_laws Q \<longleftrightarrow> (\<forall>g v. registered Q (new_builder Q g v) = []) \<and>
     (\<forall>ts b. registered Q (register_types Q ts b) = registered Q b @ ts)"

definition SchemeBuilder :: "'b scheme_lib \<Rightarrow> 'b" where
  "SchemeBuilder Q = new_builder Q apiGroup apiVersion"

definition init_platformconfig :: "'b scheme_lib \<Rightarrow> 'b \<Rightarrow> 'b" where
  "init_platformconfig Q = register_types Q [Object PlatformConfigKind, ObjectList PlatformConfigKind]"

definition init_runtimesecuritypolicy :: "'b scheme_lib \<Rightarrow> 'b \<Rightarrow> 'b" where
  "init_runtimesecuritypolicy Q =
     register_types Q [Object RuntimeSecurityPolicyKind, ObjectList RuntimeSecurityPolicyKind]"

definition init_segmentationpolicy :: "'b scheme_lib \<Rightarrow> 'b \<Rightarrow> 'b" where
  "init_segmentationpolicy Q =
     register_types Q [Object SegmentationPolicyKind, ObjectList SegmentationPolicyKind]"

definition init_v1alpha1 :: "'b scheme_lib \<Rightarrow> 'b" where
  "init_v1alpha1 Q =
     init_segmentationpolicy Q (init_runtimesecuritypolicy Q (init_platformconfig Q (SchemeBuilder Q)))"

text \<open>Whatever resource a controller is registered for, the scheme knows it and its list.\<close>

lemma reconciled_kinds_registered:
  assumes "scheme_laws Q" and "Complete c \<in> set (boot_plan ip st cfg mcfg)"
  shows "{Object (cs_for c), ObjectList (cs_for c)} \<subseteq> set (registered Q (init_v1alpha1 Q))"
  using assms
  by (auto simp: scheme_laws_def init_v1alpha1_def init_segmentationpolicy_def
      init_runtimesecuritypolicy_def init_platformconfig_def SchemeBuilder_def boot_plan_def)

subsection \<open>The program\<close>

text \<open>
  C33. Whatever settings are missing, the program makes the same eleven calls in the same order (the
  two schemes, configuration, manager, the three controllers, the three checks, start), with the
  watch of PlatformConfig alone restricted to changed generations and readiness alone depending on
  the control plane; it stops at the first call that fails, with exit code 2 for a scheme and 1
  for any other, and exits with 0 when none does.
\<close>

theorem main_boots:
  "emits (init_main B ip getenv fl) (\<lambda>rc es. \<exists>cfg mcfg.
     runs_plan (boot_plan ip (read_settings getenv fl) cfg mcfg) rc es)"
  unfolding init_main_def
proof (intro emits_must emits_weaken [OF main_emits])
  fix rc es
  assume "\<exists>cfg mcfg. runs_plan (drop 2 (boot_plan ip (read_settings getenv fl) cfg mcfg)) rc es"
  then show "\<exists>cfg mcfg. runs_plan (boot_plan ip (read_settings getenv fl) cfg mcfg) rc
      (Boot (AddToScheme ''clientgoscheme'') None # Boot (AddToScheme ''v1alpha1'') None # es)"
    by (simp add: boot_plan_def)
qed (simp_all add: boot_plan_def)

end
