(* ===== verification/Workers.thy ===== *)
theory Workers
  imports Prelude
begin

text \<open>
  Traces of more than one run. A controller works off one request at a time, so its trace is a
  sequence of runs, any of which may be cut short where the process is killed; the controllers
  of a process run concurrently, so the trace of the process is an interleaving of theirs. The
  environment of a run is arbitrary, so it can be one that answers as the other controllers'
  calls make it answer. \<open>trace_property\<close> is the interface of the properties that pass from
  single runs to such traces.
\<close>

subsection \<open>A worker\<close>

inductive worker :: "('n \<Rightarrow> ('e, 'w, 'a) io) \<Rightarrow> 'e list \<Rightarrow> bool" for m where
  idle: "worker m []"
| run: "\<lbrakk>worker m tr; trace (snd (run_state (m n) s)) = trace s @ es\<rbrakk> \<Longrightarrow> worker m (tr @ take i es)"

lemma worker_once:
  assumes "trace s = []"
  shows "worker m (trace (snd (run_state (m n) s)))"
proof -
  let ?es = "trace (snd (run_state (m n) s))"
  have "?es = trace s @ ?es" using assms by simp
  from worker.run [of m "[]" n s ?es "length ?es", OF worker.idle this] show ?thesis by simp
qed

lemma emits_events:
  "emits m (\<lambda>v es. P es) \<Longrightarrow> trace (snd (run_state m s)) = trace s @ es \<Longrightarrow> P es"
  unfolding emits_def by (metis append_same_eq same_append_eq)

locale trace_property =
  fixes P :: "'e list \<Rightarrow> bool"
  assumes empty: "P []"
    and append: "P xs \<Longrightarrow> P ys \<Longrightarrow> P (xs @ ys)"
    and cut: "P xs \<Longrightarrow> P (take i xs)"
begin

lemma of_worker:
  assumes "\<And>n. emits (m n) (\<lambda>v es. P es)" and "worker m tr"
  shows "P tr"
  using assms(2)
proof (induction rule: worker.induct)
  case idle
  show ?case by (rule empty)
next
  case (run tr n s es i)
  from emits_events [OF assms(1) run.hyps(2)] have "P (take i es)" by (rule cut)
  with run.IH show ?case by (rule append)
qed

end

subsection \<open>Permissions\<close>

text \<open>
  \<open>held G R W h es\<close>: every event of \<open>es\<close> that needs the permission (\<open>W\<close>) happens while it
  is held, events of \<open>G\<close> granting and events of \<open>R\<close> revoking it, and \<open>h\<close> saying whether
  it is held at the start.
\<close>

fun held :: "('e \<Rightarrow> bool) \<Rightarrow> ('e \<Rightarrow> bool) \<Rightarrow> ('e \<Rightarrow> bool) \<Rightarrow> bool \<Rightarrow> 'e list \<Rightarrow> bool" where
  "held G R W h [] = True"
| "held G R W h (e # es) = ((W e \<longrightarrow> h) \<and> held G R W (G e \<or> h \<and> \<not> R e) es)"

lemma held_mono: "held G R W h es \<Longrightarrow> (h \<Longrightarrow> h') \<Longrightarrow> held G R W h' es"
proof (induction es arbitrary: h h')
  case (Cons e es)
  from Cons.prems(1) have "held G R W (G e \<or> h \<and> \<not> R e) es" by simp
  then have "held G R W (G e \<or> h' \<and> \<not> R e) es"
    by (rule Cons.IH) (use Cons.prems(2) in blast)
  with Cons.prems show ?case by simp
qed simp

lemma held_append: "held G R W h xs \<Longrightarrow> held G R W False ys \<Longrightarrow> held G R W h (xs @ ys)"
proof (induction xs arbitrary: h)
  case Nil
  then show ?case using held_mono [of G R W False ys h] by simp
qed simp

lemma held_take: "held G R W h xs \<Longrightarrow> held G R W h (take i xs)"
proof (induction xs arbitrary: h i)
  case (Cons e es)
  then show ?case by (cases i) auto
qed simp

text \<open>What it means at a position of the trace.\<close>

lemma held_nth:
  assumes "held G R W h es" and "i < length es" and "W (es ! i)"
  shows "(h \<and> (\<forall>k<i. \<not> R (es ! k))) \<or> (\<exists>j<i. G (es ! j) \<and> (\<forall>k. j < k \<and> k < i \<longrightarrow> \<not> R (es ! k)))"
  using assms
proof (induction es arbitrary: h i)
  case (Cons e es)
  show ?case
  proof (cases i)
    case 0
    with Cons.prems show ?thesis by simp
  next
    case (Suc l)
    from Cons.IH [of "G e \<or> h \<and> \<not> R e" l] Cons.prems Suc consider
      (start) "G e \<or> h \<and> \<not> R e" "\<forall>k<l. \<not> R (es ! k)"
      | (later) j where "j < l" "G (es ! j)" "\<forall>k. j < k \<and> k < l \<longrightarrow> \<not> R (es ! k)" by auto
    then show ?thesis
    proof cases
      case start
      show ?thesis
      proof (cases "G e")
        case True
        with start Suc show ?thesis
          by (intro disjI2 exI [of _ 0]) (auto simp: nth_Cons split: nat.split)
      next
        case False
        with start Suc show ?thesis
          by (intro disjI1) (auto simp: nth_Cons split: nat.split)
      qed
    next
      case later
      with Suc show ?thesis
        by (intro disjI2 exI [of _ "Suc j"]) (auto simp: nth_Cons split: nat.split)
    qed
  qed
qed simp

interpretation held: trace_property "held G R W False" for G R W :: "'e \<Rightarrow> bool"
  by unfold_locales (simp_all add: held_append held_take)

interpretation always: trace_property "list_all P" for P :: "'e \<Rightarrow> bool"
  by unfold_locales (auto simp: list_all_iff dest: in_set_takeD)

lemma precedes_take: "precedes P Q es \<Longrightarrow> precedes P Q (take i es)"
proof (induction es arbitrary: i)
  case (Cons e es)
  then show ?case by (cases i) auto
qed simp

interpretation ordered: trace_property "precedes P Q" for P Q :: "'e \<Rightarrow> bool"
  by unfold_locales (simp_all add: precedes_append precedes_take)

subsection \<open>Interleaving\<close>

definition interleaves :: "'e list \<Rightarrow> 'e list \<Rightarrow> 'e list \<Rightarrow> 'e list \<Rightarrow> bool" where
  "interleaves xs ys zs tr \<longleftrightarrow> (\<exists>us. us \<in> shuffles xs ys \<and> tr \<in> shuffles us zs)"

lemma interleaves_set: "interleaves xs ys zs tr \<Longrightarrow> set tr = set xs \<union> set ys \<union> set zs"
  by (auto simp: interleaves_def dest!: set_shuffles)

lemma interleaves_alone: "interleaves xs [] [] xs"
  by (simp add: interleaves_def)

lemma interleaves_all:
  "interleaves xs ys zs tr \<Longrightarrow> list_all P xs \<Longrightarrow> list_all P ys \<Longrightarrow> list_all P zs \<Longrightarrow> list_all P tr"
  by (auto simp: list_all_iff interleaves_set)

text \<open>Events the others never make: their order is the one in which their maker makes them.\<close>

lemma filter_shuffle: "us \<in> shuffles xs ys \<Longrightarrow> \<forall>e\<in>set ys. \<not> P e \<Longrightarrow> filter P us = filter P xs"
proof -
  assume "us \<in> shuffles xs ys" "\<forall>e\<in>set ys. \<not> P e"
  then have "filter P us \<in> shuffles (filter P xs) (filter P ys)" and "filter P ys = []"
    unfolding filter_shuffles [symmetric] by (blast, simp add: filter_empty_conv)
  then show "filter P us = filter P xs" by simp
qed

lemma interleaves_filter:
  assumes "interleaves xs ys zs tr"
  shows "\<forall>e\<in>set ys \<union> set zs. \<not> P e \<Longrightarrow> filter P tr = filter P xs"
    and "\<forall>e\<in>set xs \<union> set zs. \<not> P e \<Longrightarrow> filter P tr = filter P ys"
proof -
  from assms obtain us where us: "us \<in> shuffles xs ys" "us \<in> shuffles ys xs" "tr \<in> shuffles us zs"
    unfolding interleaves_def by (metis shuffles_commutes)
  show "filter P tr = filter P xs" if "\<forall>e\<in>set ys \<union> set zs. \<not> P e"
    using filter_shuffle [OF us(1)] filter_shuffle [OF us(3)] that by simp
  show "filter P tr = filter P ys" if "\<forall>e\<in>set xs \<union> set zs. \<not> P e"
    using filter_shuffle [OF us(2)] filter_shuffle [OF us(3)] that by simp
qed

lemma held_filter: "held G R W h (filter (\<lambda>e. G e \<or> R e \<or> W e) es) = held G R W h es"
  by (induction es arbitrary: h) auto

lemma held_same: "filter (\<lambda>e. G e \<or> R e \<or> W e) tr = filter (\<lambda>e. G e \<or> R e \<or> W e) xs \<Longrightarrow>
    held G R W h xs \<Longrightarrow> held G R W h tr"
  by (metis held_filter)

lemma precedes_shuffle:
  "zs \<in> shuffles xs ys \<Longrightarrow> precedes P Q xs \<Longrightarrow> precedes P Q ys \<Longrightarrow> precedes P Q zs"
proof (induction xs ys arbitrary: zs rule: shuffles.induct)
  case (3 x xs y ys)
  from "3.prems"(1) consider (left) us where "zs = x # us" "us \<in> shuffles xs (y # ys)"
    | (right) us where "zs = y # us" "us \<in> shuffles (x # xs) ys" by auto
  then show ?case
  proof cases
    case left
    with "3.prems" "3.IH"(1) [OF left(2)] show ?thesis by auto
  next
    case right
    with "3.prems" "3.IH"(2) [OF right(2)] show ?thesis by auto
  qed
qed auto

lemma interleaves_precedes:
  "interleaves xs ys zs tr \<Longrightarrow> precedes P Q xs \<Longrightarrow> precedes P Q ys \<Longrightarrow> precedes P Q zs \<Longrightarrow>
   precedes P Q tr"
  by (auto simp: interleaves_def intro: precedes_shuffle)

end
