(* ===== verification/PolicyRuns.thy ===== *)
theory PolicyRuns
  imports SegmentationController RuntimeController
begin

text \<open>
  What single runs of the two policy reconcilers guarantee: consequences of the paths of
  \<open>policy_run\<close>, each stated of both reconcilers.
\<close>

text \<open>
  C12. No request that makes the control plane write edges goes out of a policy reconciler before
  the PlatformConfig it is bound to was read, in the same run, with \<open>spec.paused\<close> false.
\<close>

theorem switch_off_first:
  assumes "k8s_laws K"
  shows "emits (seg_Reconcile K N s n) (\<lambda>v es.
       precedes (ev_switch_off (sr_platformConfigName s)) (ev_writes k key) es) \<and>
     emits (rt_Reconcile K N t n) (\<lambda>v es.
       precedes (ev_switch_off (rtr_platformConfigName t)) (ev_writes k key) es)"
  by (simp add: seg_switch_off_first [OF assms] rt_switch_off_first [OF assms])

lemma switch_off_first_witness:
  "(precedes (ev_switch_off ''default'') (ev_writes SegmentationPolicyKind (''shop'', ''web''))
      (seg_sample_trace [] None False) \<and>
    (\<exists>e\<in>set (seg_sample_trace [] None False). ev_writes SegmentationPolicyKind (''shop'', ''web'') e)) \<and>
   precedes (ev_switch_off ''default'') (ev_writes RuntimeSecurityPolicyKind (''shop'', ''web''))
      (rt_sample_trace [] None False) \<and>
   (\<exists>e\<in>set (rt_sample_trace [] None False). ev_writes RuntimeSecurityPolicyKind (''shop'', ''web'') e)"
  using seg_sample_holds [OF conjunct1 [OF switch_off_first [OF sample_laws]]]
    rt_sample_holds [OF conjunct2 [OF switch_off_first [OF sample_laws]]]
    seg_sample_push rt_sample_push
  by (auto simp: sample_sr_def sample_rtr_def seg_push_request_def rt_push_request_def writes_edges_def
      sample_simps Let_def)

text \<open>
  C18. A run of a policy reconciler sends at most one request, none when the operator lacks a
  connection setting; the request is the push of the specification, or the close of the edges, of
  an object the API server returned in this run, and a close only of one that is being deleted
  and carries the finalizer.
\<close>

theorem policy_requests:
  assumes "k8s_laws K"
  shows "emits (seg_Reconcile K N s n) (\<lambda>v es.
       length (filter is_http es) \<le> 1 \<and>
       (missing (sr_backend s) \<noteq> [] \<longrightarrow> filter is_http es = []) \<and>
       (\<forall>req a. EvHttp req a \<in> set es \<longrightarrow> (\<exists>cr. Some (SegObj cr) \<in> ev_returns ` set es \<and>
          (req = seg_push_request s cr \<or>
           req = seg_close_request s cr \<and> deleting (SegObj cr) \<and> guarded_obj K (SegObj cr))))) \<and>
     emits (rt_Reconcile K N t n) (\<lambda>v es.
       length (filter is_http es) \<le> 1 \<and>
       (missing (rtr_backend t) \<noteq> [] \<longrightarrow> filter is_http es = []) \<and>
       (\<forall>req a. EvHttp req a \<in> set es \<longrightarrow> (\<exists>cr. Some (RtObj cr) \<in> ev_returns ` set es \<and>
          (req = rt_push_request t cr \<or>
           req = rt_close_request t cr \<and> deleting (RtObj cr) \<and> guarded_obj K (RtObj cr)))))"
  by (intro conjI seg_requests [OF assms] rt_requests [OF assms])

lemma policy_requests_witness:
  "(\<exists>req a cr. EvHttp req a \<in> set (seg_sample_trace [CREdgesFinalizer] (Some 5) False) \<and>
      (req = seg_push_request sample_sr cr \<or> req = seg_close_request sample_sr cr)) \<and>
   (\<exists>req a cr. EvHttp req a \<in> set (rt_sample_trace [CREdgesFinalizer] (Some 5) False) \<and>
      (req = rt_push_request sample_rtr cr \<or> req = rt_close_request sample_rtr cr))"
proof -
  let ?a = "Inr \<lparr>rs_status = 200, rs_body = Inr sample_body\<rparr>"
  have "EvHttp (seg_close_request sample_sr (sample_seg [CREdgesFinalizer] (Some 5))) ?a
      \<in> set (seg_sample_trace [CREdgesFinalizer] (Some 5) False)"
    "EvHttp (rt_close_request sample_rtr (sample_rt [CREdgesFinalizer] (Some 5))) ?a
      \<in> set (rt_sample_trace [CREdgesFinalizer] (Some 5) False)"
    by (simp_all add: seg_sample_delete rt_sample_delete)
  with seg_sample_holds [OF conjunct1 [OF policy_requests [OF sample_laws]]]
    rt_sample_holds [OF conjunct2 [OF policy_requests [OF sample_laws]]]
  show ?thesis by metis
qed

text \<open>
  A policy reconciler that finds the pause gate closed (the PlatformConfig is missing, unreadable
  or paused) turns the policy away before it asks whether there is a connection at all, so an
  operator that is not configured gives the gate's reason too.
\<close>

lemma gate_turns_away:
  assumes "k8s_laws K"
  shows "emits (seg_Reconcile K N s n) (\<lambda>v es. gate_closed_in K (sr_platformConfigName s) es \<longrightarrow>
       turned_away K (seg_contract s) n es v)"
    and "emits (rt_Reconcile K N t n) (\<lambda>v es. gate_closed_in K (rtr_platformConfigName t) es \<longrightarrow>
       turned_away K (rt_contract t) n es v)"
  by (intro seg_guarantee [OF assms] rt_guarantee [OF assms] impI
      run_turned_away [OF _ seg_contract_ok] run_turned_away [OF _ rt_contract_ok]; simp)+

text \<open>
  C17. When a policy reconciler that has a connection finds the pause gate closed, its run consists
  of the two reads and one status write saying why; nothing is sent, the object is not updated, and
  once that write is accepted the run asks for a retry in 90 s.
\<close>

theorem gate_closed:
  assumes "k8s_laws K" and "missing (sr_backend s) = []" and "missing (rtr_backend t) = []"
  shows "emits (seg_Reconcile K N s n) (\<lambda>v es. gate_closed_in K (sr_platformConfigName s) es \<longrightarrow>
       turned_away K (seg_contract s) n es v) \<and>
     emits (rt_Reconcile K N t n) (\<lambda>v es. gate_closed_in K (rtr_platformConfigName t) es \<longrightarrow>
       turned_away K (rt_contract t) n es v)"
  by (intro conjI gate_turns_away [OF assms(1)])

lemma gate_closed_witness:
  "gate_closed_in (sample_k [] None True) ''default'' (seg_sample_trace [] None True) \<and>
   (\<exists>v. turned_away (sample_k [] None True) (seg_contract sample_sr) (''shop'', ''web'')
      (seg_sample_trace [] None True) v)"
proof -
  have online: "missing (sr_backend sample_sr) = []" "missing (rtr_backend sample_rtr) = []"
    by (simp_all add: sample_sr_def sample_rtr_def sample_simps)
  have closed: "gate_closed_in (sample_k [] None True) (sr_platformConfigName sample_sr)
      (seg_sample_trace [] None True)"
    using seg_sample_paused
    by (auto simp: gate_closed_in_def sample_sr_def gate_of_def sample_simps
        intro!: exI [of _ "Inr (sample_pc ''default'' True)"])
  from seg_sample_holds [OF conjunct1 [OF gate_closed [OF sample_laws online]]] closed
  show ?thesis by (simp add: sample_sr_def)
qed

text \<open>
  C19. Every status a policy reconciler writes belongs to an object the API server returned in
  this run, with its metadata unchanged: either Ready is true, stamped with the object's
  generation, and the observed generation is moved there; or Ready is false, stamped with that
  generation, and the observed generation stays.
\<close>

theorem status_of_returned:
  assumes "k8s_laws K"
  shows "emits (seg_Reconcile K N s n) (\<lambda>v es. \<forall>y u. EvStatusUpdate y u \<in> set es \<longrightarrow>
       status_written (seg_contract s) es y) \<and>
     emits (rt_Reconcile K N t n) (\<lambda>v es. \<forall>y u. EvStatusUpdate y u \<in> set es \<longrightarrow>
       status_written (rt_contract t) es y)"
  by (intro conjI seg_guarantee [OF assms] rt_guarantee [OF assms]) (blast intro: run_status_written)+

lemma status_of_returned_witness:
  "(\<exists>y. status_written (seg_contract sample_sr) (seg_sample_trace [] None True) y) \<and>
   (\<exists>y. status_written (rt_contract sample_rtr) (rt_sample_trace [] None False) y)"
proof -
  from seg_sample_paused obtain y where
    "EvStatusUpdate (SegObj y) (Inr (SegObj y)) \<in> set (seg_sample_trace [] None True)" by fastforce
  moreover from rt_sample_push obtain z where
    "EvStatusUpdate (RtObj z) (Inr (RtObj z)) \<in> set (rt_sample_trace [] None False)" by fastforce
  ultimately show ?thesis
    using seg_sample_holds [OF conjunct1 [OF status_of_returned [OF sample_laws]]]
      rt_sample_holds [OF conjunct2 [OF status_of_returned [OF sample_laws]]] by blast
qed

text \<open>
  C20. A run of a policy reconciler returns neither an error nor a delay only when there is
  nothing left to do: the resource is gone, it is being deleted without the finalizer, or the API
  server accepted the update that takes the finalizer off. It never returns both.
\<close>

theorem settled:
  assumes "k8s_laws K"
  shows "emits (seg_Reconcile K N s n) (\<lambda>v es.
       (v = (no_requeue, None) \<longrightarrow> finished K (seg_contract s) n es) \<and>
       (snd v = None \<or> fst v = no_requeue)) \<and>
     emits (rt_Reconcile K N t n) (\<lambda>v es.
       (v = (no_requeue, None) \<longrightarrow> finished K (rt_contract t) n es) \<and>
       (snd v = None \<or> fst v = no_requeue))"
  using run_settled [OF _ assms] run_verdict
  by (intro conjI seg_guarantee [OF assms] rt_guarantee [OF assms]) blast+

lemma settled_witness:
  "let (v, s) = run_state (seg_Reconcile (sample_k [] (Some 5) False) (sample_net 200 sample_body)
     sample_sr (''shop'', ''web'')) start
   in v = (no_requeue, None) \<and> finished (sample_k [] (Some 5) False) (seg_contract sample_sr)
        (''shop'', ''web'') (trace s)"
proof -
  have "fst (run_state (seg_Reconcile (sample_k [] (Some 5) False) (sample_net 200 sample_body)
     sample_sr (''shop'', ''web'')) start) = (no_requeue, None)"
    by (simp add: seg_run_defs sample_simps)
  with emits_run [OF conjunct1 [OF settled [OF sample_laws]], of start]
  show ?thesis by (simp add: start_def split_beta)
qed

text \<open>
  C39. A wire specification never holds a nil map or slice, and it loses nothing but the
  difference between nil and empty: two segmentation specifications have the same wire form
  exactly when they agree on the labels, the rules in order with their ports, peers and
  namespaces, and the provider reference; two runtime specifications exactly when they agree on
  the labels, the tracing policy and the denied binaries in order.
\<close>

theorem wire_specs_faithful:
  "matchLabels (ws_selector (toWireSpec s)) \<noteq> None \<and>
   (\<exists>is es. ws_ingress (toWireSpec s) = Some is \<and> ws_egress (toWireSpec s) = Some es \<and>
      list_all (\<lambda>w. w_ports w \<noteq> None \<and> w_peerSelector w \<noteq> None) (is @ es)) \<and>
   (toWireSpec s = toWireSpec s' \<longleftrightarrow>
      labels_of (matchLabels (sps_selector s)) = labels_of (matchLabels (sps_selector s')) \<and>
      map rule_content (elems (sps_ingress s)) = map rule_content (elems (sps_ingress s')) \<and>
      map rule_content (elems (sps_egress s)) = map rule_content (elems (sps_egress s')) \<and>
      sps_providerRef s = sps_providerRef s') \<and>
   matchLabels (wr_selector (toRuntimeWireSpec t)) \<noteq> None \<and>
   wr_deniedBinaries (toRuntimeWireSpec t) \<noteq> None \<and>
   (toRuntimeWireSpec t = toRuntimeWireSpec t' \<longleftrightarrow>
      labels_of (matchLabels (rps_selector t)) = labels_of (matchLabels (rps_selector t')) \<and>
      rps_tracingPolicyRef t = rps_tracingPolicyRef t' \<and>
      elems (rps_deniedBinaries t) = elems (rps_deniedBinaries t'))"
  using toWireSpec_faithful [of s s'] toRuntimeWireSpec_faithful [of t t'] by blast

end
