(* ===== verification/Operator.thy ===== *)
theory Operator
  imports Manager Workers PolicyRuns
begin

text \<open>
  The reconcilers together: the three controllers \<open>main\<close> starts, each working off one request
  at a time, their calls interleaved in any way, runs cut short where the process is killed and
  resumed by later ones. The safety properties of single runs are carried over to such traces,
  and strengthened: a permission is not only obtained before it is used but still holds then. The
  readiness check and leader election, which run beside the controllers, are not in these traces:
  the first sends reads only (\<open>Preflight\<close>), the second none of the calls modelled.
\<close>

subsection \<open>Traces of the operator\<close>

definition operator_trace :: "'w k8s \<Rightarrow> 'w net \<Rightarrow> operator \<Rightarrow> event list \<Rightarrow> bool" where
  "operator_trace K N op tr \<longleftrightarrow> (\<exists>xs ys zs.
     worker (seg_Reconcile K N (op_seg op)) xs \<and> worker (rt_Reconcile K N (op_rt op)) ys \<and>
     worker (pc_Reconcile K N (op_pc op)) zs \<and> interleaves xs ys zs tr)"

lemma operator_traceE:
  assumes "operator_trace K N op tr"
  obtains xs ys zs where "worker (seg_Reconcile K N (op_seg op)) xs"
    "worker (rt_Reconcile K N (op_rt op)) ys" "worker (pc_Reconcile K N (op_pc op)) zs"
    "interleaves xs ys zs tr"
  using assms unfolding operator_trace_def by blast

subsection \<open>Single runs\<close>

text \<open>A request to close the edges of a resource, whatever the answer.\<close>

fun ev_closes :: "kind \<Rightarrow> NamespacedName \<Rightarrow> event \<Rightarrow> bool" where
  "ev_closes k key (EvHttp req _) = closes_edges k key req"
| "ev_closes k key _ = False"

lemma run_held_finalizer:
  assumes "policy_run K S n es v" and "contract_ok S"
  shows "held (ev_guarded K (ct_kind S) key) (ev_releases K (ct_kind S) key)
    (ev_writes (ct_kind S) key) False es"
  using assms
  by cases (auto simp: contract_requests answer_def is_obj_def ensured_kind
      elim!: ensured_cases split: sum.splits)

lemma run_held_closed:
  assumes "policy_run K S n es v" and "contract_ok S" and "ct_unset S = []"
  shows "held (ev_close_confirmed (ct_kind S) key) (ev_writes (ct_kind S) key)
    (ev_releases K (ct_kind S) key) False es"
  using assms
  by cases (auto simp: contract_requests is_obj_def elim!: ensured_cases)

lemma run_held_ready:
  assumes "policy_run K S n es v" and "contract_ok S"
  shows "held (ev_write_confirmed (ct_consistent S) (ct_kind S) key) (ev_closes (ct_kind S) key)
    (ev_marks_ready (ct_kind S) key) False es"
  using assms
  by cases (auto simp: contract_requests is_obj_def ensured_kind elim!: ensured_cases dest: readied_ready)

text \<open>Nothing in a run is about a policy of another kind.\<close>

definition about :: "'w k8s \<Rightarrow> kind \<Rightarrow> NamespacedName \<Rightarrow> event \<Rightarrow> bool" where
  "about K k key e \<longleftrightarrow> ev_guarded K k key e \<or> ev_releases K k key e \<or> ev_writes k key e \<or>
     ev_closes k key e \<or> ev_marks_ready k key e"

lemma about_events:
  "ev_guarded K k key e \<Longrightarrow> about K k key e" "ev_releases K k key e \<Longrightarrow> about K k key e"
  "ev_writes k key e \<Longrightarrow> about K k key e" "ev_closes k key e \<Longrightarrow> about K k key e"
  "ev_marks_ready k key e \<Longrightarrow> about K k key e"
  "ev_close_confirmed k key e \<Longrightarrow> about K k key e" "ev_write_confirmed P k key e \<Longrightarrow> about K k key e"
  by (auto simp: about_def elim: ev_close_confirmed.elims ev_write_confirmed.elims)

lemma ev_guarded_update: "ev_guarded K k key (EvUpdate y u) \<Longrightarrow> guarded_obj K y"
  by (cases u) simp_all

lemma run_other_kind:
  assumes "policy_run K S n es v" and "contract_ok S" and "k \<noteq> ct_kind S" and "k \<noteq> PlatformConfigKind"
  shows "list_all (\<lambda>e. \<not> about K k key e) es"
  using assms
  by cases (auto simp: about_def contract_requests answer_def is_obj_def ensured_kind unready_def readied_def
      elim!: ensured_cases dest: ev_guarded_update split: sum.splits)

lemma pc_run_other_kind:
  assumes "pc_run K r n es v" and "k \<noteq> PlatformConfigKind"
  shows "list_all (\<lambda>e. \<not> about K k key e) es"
  using assms
  by cases (auto simp: about_def is_obj_def pc_put_request_def pc_health_request_def Let_def
      writes_edges_def closes_edges_def)

subsection \<open>The controllers as workers\<close>

text \<open>What holds of every run of a controller holds of its trace.\<close>

lemma seg_worker_held:
  assumes "k8s_laws K" and "worker (seg_Reconcile K N r) xs"
    and "\<And>n es v. policy_run K (seg_contract r) n es v \<Longrightarrow> held G R W False es"
  shows "held G R W False xs"
  by (rule held.of_worker [OF seg_guarantee [OF assms(1)] assms(2)]) (rule assms(3))

lemma rt_worker_held:
  assumes "k8s_laws K" and "worker (rt_Reconcile K N r) ys"
    and "\<And>n es v. policy_run K (rt_contract r) n es v \<Longrightarrow> held G R W False es"
  shows "held G R W False ys"
  by (rule held.of_worker [OF rt_guarantee [OF assms(1)] assms(2)]) (rule assms(3))

lemma seg_worker_all:
  assumes "k8s_laws K" and "worker (seg_Reconcile K N r) xs"
    and "\<And>n es v. policy_run K (seg_contract r) n es v \<Longrightarrow> list_all P es"
  shows "list_all P xs"
  by (rule always.of_worker [OF seg_guarantee [OF assms(1)] assms(2)]) (rule assms(3))

lemma rt_worker_all:
  assumes "k8s_laws K" and "worker (rt_Reconcile K N r) ys"
    and "\<And>n es v. policy_run K (rt_contract r) n es v \<Longrightarrow> list_all P es"
  shows "list_all P ys"
  by (rule always.of_worker [OF rt_guarantee [OF assms(1)] assms(2)]) (rule assms(3))

lemma pc_worker_all:
  assumes "k8s_laws K" and "worker (pc_Reconcile K N r) zs"
    and "\<And>n es v. pc_run K r n es v \<Longrightarrow> list_all P es"
  shows "list_all P zs"
  by (rule always.of_worker [OF pc_guarantee [OF assms(1)] assms(2)]) (rule assms(3))

text \<open>The contract of the controller that reconciles a kind of policy.\<close>

definition contract_of :: "operator \<Rightarrow> kind \<Rightarrow> contract" where
  "contract_of op k = (if k = SegmentationPolicyKind then seg_contract (op_seg op)
     else rt_contract (op_rt op))"

lemma contract_of_simps [simp]:
  "k \<noteq> PlatformConfigKind \<Longrightarrow> ct_kind (contract_of op k) = k"
  "contract_ok (contract_of op k)"
  by (cases k) (simp_all add: contract_of_def seg_contract_ok rt_contract_ok)

text \<open>
  A permission about a resource of one kind is only touched by the controller of that kind, so
  its order in the trace of the operator is its order in that controller's trace.
\<close>

lemma operator_held:
  assumes laws: "k8s_laws K" and tr: "operator_trace K N op tr" and k: "k \<noteq> PlatformConfigKind"
    and run: "\<And>n es v. policy_run K (contract_of op k) n es v \<Longrightarrow> held G R W False es"
    and about: "\<And>e. G e \<or> R e \<or> W e \<Longrightarrow> about K k key e"
  shows "held G R W False tr"
proof -
  let ?P = "\<lambda>e. G e \<or> R e \<or> W e"
  from tr obtain xs ys zs where
    workers: "worker (seg_Reconcile K N (op_seg op)) xs" "worker (rt_Reconcile K N (op_rt op)) ys"
      "worker (pc_Reconcile K N (op_pc op)) zs" and tr: "interleaves xs ys zs tr"
    by (rule operator_traceE)
  have "list_all (\<lambda>e. \<not> about K k key e) zs"
    by (rule pc_worker_all [OF laws workers(3)]) (rule pc_run_other_kind [OF _ k])
  then have zs: "\<forall>e\<in>set zs. \<not> ?P e" using about by (auto simp: list_all_iff)
  show ?thesis
  proof (cases "k = SegmentationPolicyKind")
    case True
    have "list_all (\<lambda>e. \<not> about K k key e) ys"
      using True by (intro rt_worker_all [OF laws workers(2)] run_other_kind [OF _ rt_contract_ok]) simp_all
    then have "\<forall>e\<in>set ys \<union> set zs. \<not> ?P e" using zs about by (auto simp: list_all_iff)
    from interleaves_filter(1) [OF tr this] show ?thesis
      by (rule held_same) (use run True in \<open>auto simp: contract_of_def intro: seg_worker_held [OF laws workers(1)]\<close>)
  next
    case False
    with k have k: "k = RuntimeSecurityPolicyKind" by (cases k) simp_all
    have "list_all (\<lambda>e. \<not> about K k key e) xs"
      using k by (intro seg_worker_all [OF laws workers(1)] run_other_kind [OF _ seg_contract_ok]) simp_all
    then have "\<forall>e\<in>set xs \<union> set zs. \<not> ?P e" using zs about by (auto simp: list_all_iff)
    from interleaves_filter(2) [OF tr this] show ?thesis
      by (rule held_same) (use run k in \<open>auto simp: contract_of_def intro: rt_worker_held [OF laws workers(2)]\<close>)
  qed
qed

text \<open>The kill switch: a write of a value, and a read of the object that asks for it.\<close>

fun ev_sets_switch :: "bool \<Rightarrow> event \<Rightarrow> bool" where
  "ev_sets_switch b (EvHttp req _) =
     (case rq_body req of Some (PausedBody b' _) \<Rightarrow> b' = b | _ \<Rightarrow> False)"
| "ev_sets_switch b _ = False"

fun ev_reads_config :: "string \<Rightarrow> bool \<Rightarrow> event \<Rightarrow> bool" where
  "ev_reads_config name b (EvGet k n (Inr (PcObj x))) = (k = PlatformConfigKind \<and>
     (name = [] \<or> om_name (pc_meta x) = name) \<and> pcs_paused (pc_spec x) = b)"
| "ev_reads_config name b _ = False"

lemma request_bodies:
  assumes "writes_edges k key req \<or> closes_edges k key req"
  shows "\<not> ev_sets_switch b (EvHttp req a)"
  using assms by (auto simp: writes_edges_def closes_edges_def split: option.splits request_body.splits)

lemma run_no_switch:
  assumes "policy_run K S n es v" and "contract_ok S"
  shows "list_all (\<lambda>e. \<not> ev_sets_switch b e) es"
proof -
  have requests: "\<not> ev_sets_switch b (EvHttp (ct_push S x) a)" "\<not> ev_sets_switch b (EvHttp (ct_close S x) a)"
    if "obj_kind x = ct_kind S" for x a
    using contract_requests(1,2) [OF assms(2) that] request_bodies by blast+
  from assms(1) show ?thesis
    by cases (auto simp: requests ensured_kind simp del: ev_sets_switch.simps(1) elim!: ensured_cases)
qed

lemma pc_run_switch:
  assumes "pc_run K r n es v"
  shows "precedes (ev_reads_config (pr_platformConfigName r) b) (ev_sets_switch b) es"
  using assms
  by cases (auto simp: governs_def pc_put_request_def pc_health_request_def Let_def)

text \<open>Without a connection, nothing is sent and nothing is Ready.\<close>

lemma run_silent:
  assumes "policy_run K S n es v" and "contract_ok S" and "ct_unset S \<noteq> []"
  shows "list_all (\<lambda>e. \<not> is_http e \<and> \<not> ev_marks_ready k key e) es"
  using assms by cases (auto simp: is_obj_def elim!: ensured_cases)

lemma pc_run_silent:
  assumes "pc_run K r n es v" and "missing (pr_backend r) \<noteq> []"
  shows "list_all (\<lambda>e. \<not> is_http e \<and> \<not> ev_marks_ready k key e) es"
  using assms by cases (auto simp: pc_unready_def ready_cond_def ready_is_def)

subsection \<open>A sample\<close>

definition sample_operator :: "operator" where
  "sample_operator = \<lparr>op_seg = sample_sr, op_rt = sample_rtr, op_pc = sample_pr\<rparr>"

text \<open>Both policy controllers ran once, one after the other; the third has not run.\<close>

definition sample_trace :: "string list \<Rightarrow> time option \<Rightarrow> event list" where
  "sample_trace fs deleted = seg_sample_trace fs deleted False @ rt_sample_trace fs deleted False"

lemma shuffles_append: "xs @ ys \<in> shuffles xs ys"
proof (induction xs)
  case (Cons x xs)
  then show ?case using Cons_in_shuffles_leftI by simp
qed simp

lemma sample_operator_trace:
  "operator_trace (sample_k fs deleted False) (sample_net 200 sample_body) sample_operator
     (sample_trace fs deleted)"
proof -
  let ?K = "sample_k fs deleted False" and ?N = "sample_net 200 sample_body"
  have "worker (seg_Reconcile ?K ?N sample_sr) (seg_sample_trace fs deleted False)"
    unfolding seg_sample_trace_def by (rule worker_once) (simp add: start_def)
  moreover have "worker (rt_Reconcile ?K ?N sample_rtr) (rt_sample_trace fs deleted False)"
    unfolding rt_sample_trace_def by (rule worker_once) (simp add: start_def)
  moreover have "interleaves (seg_sample_trace fs deleted False) (rt_sample_trace fs deleted False) []
      (sample_trace fs deleted)"
    unfolding interleaves_def sample_trace_def using shuffles_append by auto
  ultimately show ?thesis
    unfolding operator_trace_def sample_operator_def by (auto intro!: exI worker.idle)
qed

lemma sample_pc_operator_trace:
  "operator_trace (sample_k [] None True) (sample_net 423 []) sample_operator (pc_sample_trace True)"
proof -
  have "worker (pc_Reconcile (sample_k [] None True) (sample_net 423 []) sample_pr) (pc_sample_trace True)"
    unfolding pc_sample_trace_def by (rule worker_once) (simp add: start_def)
  moreover have "interleaves [] [] (pc_sample_trace True) (pc_sample_trace True)"
    by (simp add: interleaves_def)
  ultimately show ?thesis
    unfolding operator_trace_def sample_operator_def by (auto intro!: exI worker.idle)
qed

lemma sample_contract [simp]:
  "ct_unset (contract_of sample_operator k) = []"
  by (simp add: contract_of_def sample_operator_def sample_sr_def sample_rtr_def sample_client_simps)

subsection \<open>Properties\<close>

text \<open>
  C1. Whenever the operator makes the control plane write edges for a policy, the finalizer
  is on that policy as far as the operator knows: it saw or put it there before, and has not
  taken it off since. This is so for any number of runs of the three controllers, interleaved
  and cut short in any way.
\<close>

theorem finalizer_held:
  assumes "k8s_laws K" and "operator_trace K N op tr" and "k \<noteq> PlatformConfigKind"
    and "i < length tr" and "ev_writes k key (tr ! i)"
  shows "\<exists>j<i. ev_guarded K k key (tr ! j) \<and> (\<forall>l. j < l \<and> l < i \<longrightarrow> \<not> ev_releases K k key (tr ! l))"
proof -
  have "held (ev_guarded K k key) (ev_releases K k key) (ev_writes k key) False tr"
    using run_held_finalizer [of K "contract_of op k"] assms(3)
    by (intro operator_held [OF assms(1-3)]) (auto dest: about_events)
  from held_nth [OF this assms(4,5)] show ?thesis by simp
qed

lemma finalizer_held_witness:
  "ev_writes RuntimeSecurityPolicyKind (''shop'', ''web'') (sample_trace [] None ! 8) \<and>
   (\<exists>j<8. ev_guarded (sample_k [] None False) RuntimeSecurityPolicyKind (''shop'', ''web'')
      (sample_trace [] None ! j))"
proof -
  have 8: "8 < length (sample_trace [] None)"
    "ev_writes RuntimeSecurityPolicyKind (''shop'', ''web'') (sample_trace [] None ! 8)"
    using seg_sample_push rt_sample_push
    by (auto simp: sample_trace_def rt_push_request_def writes_edges_def sample_simps Let_def)
  from finalizer_held [OF sample_laws sample_operator_trace _ 8] 8(2) show ?thesis by blast
qed

text \<open>
  C2. When a configured operator takes the finalizer off a policy, the control plane has
  confirmed that the policy's edges are closed, and the operator has not asked for new ones
  since.
\<close>

theorem edges_never_orphaned:
  assumes "k8s_laws K" and "operator_trace K N op tr" and "k \<noteq> PlatformConfigKind"
    and "ct_unset (contract_of op k) = []"
    and "i < length tr" and "ev_releases K k key (tr ! i)"
  shows "\<exists>j<i. ev_close_confirmed k key (tr ! j) \<and> (\<forall>l. j < l \<and> l < i \<longrightarrow> \<not> ev_writes k key (tr ! l))"
proof -
  have "held (ev_close_confirmed k key) (ev_writes k key) (ev_releases K k key) False tr"
    using run_held_closed [of K "contract_of op k"] assms(3,4)
    by (intro operator_held [OF assms(1-3)]) (auto dest: about_events)
  from held_nth [OF this assms(5,6)] show ?thesis by simp
qed

lemma edges_never_orphaned_witness:
  "ev_releases (sample_k [CREdgesFinalizer] (Some 5) False) RuntimeSecurityPolicyKind (''shop'', ''web'')
     (sample_trace [CREdgesFinalizer] (Some 5) ! 5) \<and>
   (\<exists>j<5. ev_close_confirmed RuntimeSecurityPolicyKind (''shop'', ''web'')
      (sample_trace [CREdgesFinalizer] (Some 5) ! j))"
proof -
  let ?tr = "sample_trace [CREdgesFinalizer] (Some 5)"
  have 5: "5 < length ?tr"
    "ev_releases (sample_k [CREdgesFinalizer] (Some 5) False) RuntimeSecurityPolicyKind
       (''shop'', ''web'') (?tr ! 5)"
    by (simp_all add: sample_trace_def seg_sample_delete rt_sample_delete is_obj_def guarded_obj_def
        obj_key_def obj_finalizers_def sample_simps)
  from edges_never_orphaned [OF sample_laws sample_operator_trace _ sample_contract 5] 5(2)
  show ?thesis by blast
qed

text \<open>
  C3. When the operator writes a status with Ready true for a policy, the control plane has
  confirmed a consistent push of that policy, and the operator has not asked to close its edges
  since.
\<close>

theorem ready_is_earned:
  assumes "k8s_laws K" and "operator_trace K N op tr" and "k \<noteq> PlatformConfigKind"
    and "i < length tr" and "ev_marks_ready k key (tr ! i)"
  shows "\<exists>j<i. ev_write_confirmed (ct_consistent (contract_of op k)) k key (tr ! j) \<and>
    (\<forall>l. j < l \<and> l < i \<longrightarrow> \<not> ev_closes k key (tr ! l))"
proof -
  have "held (ev_write_confirmed (ct_consistent (contract_of op k)) k key) (ev_closes k key)
      (ev_marks_ready k key) False tr"
    using run_held_ready [of K "contract_of op k"] assms(3)
    by (intro operator_held [OF assms(1-3)]) (auto dest: about_events)
  from held_nth [OF this assms(4,5)] show ?thesis by simp
qed

lemma ready_is_earned_witness:
  "ev_marks_ready RuntimeSecurityPolicyKind (''shop'', ''web'') (sample_trace [] None ! 9) \<and>
   (\<exists>j<9. ev_write_confirmed (ct_consistent (contract_of sample_operator RuntimeSecurityPolicyKind))
      RuntimeSecurityPolicyKind (''shop'', ''web'') (sample_trace [] None ! j))"
proof -
  have 9: "9 < length (sample_trace [] None)"
    "ev_marks_ready RuntimeSecurityPolicyKind (''shop'', ''web'') (sample_trace [] None ! 9)"
    using seg_sample_push rt_sample_push by (auto simp: sample_trace_def)
  from ready_is_earned [OF sample_laws sample_operator_trace _ 9] 9(2) show ?thesis by blast
qed

text \<open>
  C4. The operator writes a value to the kill switch of the control plane only after it
  has read that value as \<open>spec.paused\<close> of the PlatformConfig it is bound to.
\<close>

theorem kill_switch_bound:
  assumes "k8s_laws K" and "operator_trace K N op tr"
  shows "precedes (ev_reads_config (pr_platformConfigName (op_pc op)) b) (ev_sets_switch b) tr"
proof -
  from assms(2) obtain xs ys zs where
    workers: "worker (seg_Reconcile K N (op_seg op)) xs" "worker (rt_Reconcile K N (op_rt op)) ys"
      "worker (pc_Reconcile K N (op_pc op)) zs" and tr: "interleaves xs ys zs tr"
    by (rule operator_traceE)
  have "list_all (\<lambda>e. \<not> ev_sets_switch b e) xs"
    by (rule seg_worker_all [OF assms(1) workers(1)]) (rule run_no_switch [OF _ seg_contract_ok])
  moreover have "list_all (\<lambda>e. \<not> ev_sets_switch b e) ys"
    by (rule rt_worker_all [OF assms(1) workers(2)]) (rule run_no_switch [OF _ rt_contract_ok])
  moreover have "precedes (ev_reads_config (pr_platformConfigName (op_pc op)) b) (ev_sets_switch b) zs"
    by (rule ordered.of_worker [OF pc_guarantee [OF assms(1) pc_run_switch] workers(3)])
  ultimately show ?thesis
    by (intro interleaves_precedes [OF tr]) (auto simp: list_all_iff intro: precedes_never)
qed

lemma kill_switch_bound_witness:
  "precedes (ev_reads_config ''default'' True) (ev_sets_switch True) (pc_sample_trace True) \<and>
   (\<exists>e\<in>set (pc_sample_trace True). ev_sets_switch True e)"
proof
  from kill_switch_bound [OF sample_laws sample_pc_operator_trace, of True]
  show "precedes (ev_reads_config ''default'' True) (ev_sets_switch True) (pc_sample_trace True)"
    by (simp add: sample_operator_def sample_pr_def)
  show "\<exists>e\<in>set (pc_sample_trace True). ev_sets_switch True e"
    using pc_sample_refused [of True] by (auto simp: pc_put_request_def sample_simps Let_def)
qed

text \<open>
  C5. An operator that lacks one of its settings never sends a request, and never
  writes a status with Ready true.
\<close>

theorem unconfigured_is_silent:
  assumes "k8s_laws K" and "operator_trace K N (make_operator ip st) tr"
    and "st_backendURL st = [] \<or> st_operatorToken st = [] \<or> (\<exists>e. parseClusterID ip (st_clusterID st) = Inl e)"
  shows "\<forall>e\<in>set tr. \<not> is_http e \<and> \<not> ev_marks_ready k key e"
proof -
  let ?op = "make_operator ip st" and ?P = "\<lambda>e. \<not> is_http e \<and> \<not> ev_marks_ready k key e"
  have "missing_settings ip st \<noteq> []" using assms(3) by (auto simp: missing_settings_def)
  then have unset: "ct_unset (seg_contract (op_seg ?op)) \<noteq> []" "ct_unset (rt_contract (op_rt ?op)) \<noteq> []"
      "missing (pr_backend (op_pc ?op)) \<noteq> []"
    by (simp_all add: make_operator_def missing_backend)
  from assms(2) obtain xs ys zs where
    workers: "worker (seg_Reconcile K N (op_seg ?op)) xs" "worker (rt_Reconcile K N (op_rt ?op)) ys"
      "worker (pc_Reconcile K N (op_pc ?op)) zs" and tr: "interleaves xs ys zs tr"
    by (rule operator_traceE)
  have "list_all ?P xs"
    by (rule seg_worker_all [OF assms(1) workers(1)]) (rule run_silent [OF _ seg_contract_ok unset(1)])
  moreover have "list_all ?P ys"
    by (rule rt_worker_all [OF assms(1) workers(2)]) (rule run_silent [OF _ rt_contract_ok unset(2)])
  moreover have "list_all ?P zs"
    by (rule pc_worker_all [OF assms(1) workers(3)]) (rule pc_run_silent [OF _ unset(3)])
  ultimately have "list_all ?P tr" by (rule interleaves_all [OF tr])
  then show ?thesis by (simp add: list_all_iff)
qed

lemma unconfigured_is_silent_witness:
  "let op = make_operator is_ascii_print (sample_settings\<lparr>st_operatorToken := []\<rparr>);
       tr = trace (snd (run_state (seg_Reconcile (sample_k [] None False) (sample_net 200 sample_body)
         (op_seg op) (''shop'', ''web'')) start))
   in filter is_http tr = [] \<and> filter is_status tr \<noteq> []"
proof -
  let ?op = "make_operator is_ascii_print (sample_settings\<lparr>st_operatorToken := []\<rparr>)"
  let ?m = "seg_Reconcile (sample_k [] None False) (sample_net 200 sample_body) (op_seg ?op)"
  let ?tr = "trace (snd (run_state (?m (''shop'', ''web'')) start))"
  have "worker ?m ?tr" by (rule worker_once) (simp add: start_def)
  then have tr: "operator_trace (sample_k [] None False) (sample_net 200 sample_body) ?op ?tr"
    unfolding operator_trace_def using worker.idle interleaves_alone by blast
  have "filter is_http ?tr = []"
    using unconfigured_is_silent [OF sample_laws tr] by (simp add: filter_empty_conv)
  moreover have "missing (make_backend is_ascii_print (sample_settings\<lparr>st_operatorToken := []\<rparr>)) \<noteq> []"
    by (simp add: missing_backend missing_settings_def)
  then have "filter is_status ?tr \<noteq> []"
    by (simp add: seg_run_defs seg_reconcileError_def IsUnconfigured_def sample_simps make_operator_def
        sample_settings_simps)
  ultimately show ?thesis by simp
qed

text \<open>
  C22. Every reconcile ends, and makes at most five calls to the API server and the control
  plane on the way; that of a PlatformConfig makes at most four and never updates the object
  itself.
\<close>

theorem runs_are_bounded:
  "k8s_laws K \<Longrightarrow>
   emits (seg_Reconcile K N r n) (\<lambda>v es. es \<noteq> [] \<and> length es \<le> 5) \<and>
   emits (rt_Reconcile K N r' n) (\<lambda>v es. es \<noteq> [] \<and> length es \<le> 5) \<and>
   emits (pc_Reconcile K N r'' n)
     (\<lambda>v es. es \<noteq> [] \<and> length es \<le> 4 \<and> list_all (\<lambda>e. \<not> is_update e) es)"
proof (intro conjI)
  assume laws: "k8s_laws K"
  have policy: "es \<noteq> [] \<and> length es \<le> 5" if "policy_run K S n es v" for S es v
    using that by cases (auto elim!: ensured_cases)
  have config: "es \<noteq> [] \<and> length es \<le> 4 \<and> list_all (\<lambda>e. \<not> is_update e) es"
    if "pc_run K r'' n es v" for es v
    using that by cases auto
  show "emits (seg_Reconcile K N r n) (\<lambda>v es. es \<noteq> [] \<and> length es \<le> 5)"
    by (rule seg_guarantee [OF laws]) (rule policy)
  show "emits (rt_Reconcile K N r' n) (\<lambda>v es. es \<noteq> [] \<and> length es \<le> 5)"
    by (rule rt_guarantee [OF laws]) (rule policy)
  show "emits (pc_Reconcile K N r'' n)
      (\<lambda>v es. es \<noteq> [] \<and> length es \<le> 4 \<and> list_all (\<lambda>e. \<not> is_update e) es)"
    by (rule pc_guarantee [OF laws]) (rule config)
qed

lemma runs_are_bounded_witness:
  "length (seg_sample_trace [] None False) \<le> 5 \<and> seg_sample_trace [] None False \<noteq> []"
  using seg_sample_holds [OF runs_are_bounded [OF sample_laws, THEN conjunct1]] by blast

end
