(* ===== verification/Access.thy ===== *)
theory Access
  imports Operator
begin

text \<open>
  What the reconcilers need of the API server against what the install grants them: the
  ClusterRole of \<open>config/rbac/role.yaml\<close>, which is generated from the markers above the
  reconcilers, and the permissions their calls take. The API server allows a call when some rule
  of the role names its group, its resource and its verb. Two things the process does beside the
  reconcilers are granted elsewhere: the Leases of leader election by
  \<open>config/rbac/leader_election_role.yaml\<close>, discovery for the readiness check by a role that
  Kubernetes gives to every user.
\<close>

subsection \<open>The role\<close>

record policy_rule =
  pol_apiGroups :: "string list"
  pol_resources :: "string list"
  pol_verbs :: "string list"


text \<open>A permission is a group, a resource and a verb; for a non-resource path the group is empty.\<close>

type_synonym permission = "string \<times> string \<times> string"

definition grants :: "policy_rule list \<Rightarrow> permission \<Rightarrow> bool" where
  "grants role p = (case p of (g, res, v) \<Rightarrow>
     list_ex (\<lambda>r. g \<in> set (pol_apiGroups r) \<and> res \<in> set (pol_resources r) \<and> v \<in> set (pol_verbs r)) role)"

subsection \<open>What calls need\<close>

text \<open>The name the API server serves a resource under.\<close>

fun resource_name :: "kind \<Rightarrow> string" where
  "resource_name SegmentationPolicyKind = ''segmentationpolicies''"
| "resource_name RuntimeSecurityPolicyKind = ''runtimesecuritypolicies''"
| "resource_name PlatformConfigKind = ''platformconfigs''"



text \<open>What is left of the role when everything no reconciler needs is taken out of it.\<close>

definition used_role :: "policy_rule list" where
  "used_role =
     [\<lparr>pol_apiGroups = [apiGroup], pol_resources = map resource_name
         [PlatformConfigKind, RuntimeSecurityPolicyKind, SegmentationPolicyKind],
       pol_verbs = [''get'', ''list'', ''watch'']\<rparr>,
      \<lparr>pol_apiGroups = [apiGroup], pol_resources = map resource_name
         [RuntimeSecurityPolicyKind, SegmentationPolicyKind],
       pol_verbs = [''update'']\<rparr>,
      \<lparr>pol_apiGroups = [apiGroup], pol_resources = map (\<lambda>k. resource_name k @ ''/status'')
         [PlatformConfigKind, RuntimeSecurityPolicyKind, SegmentationPolicyKind],
       pol_verbs = [''update'']\<rparr>]"



lemma not_used:
  "\<not> grants used_role (apiGroup, ''platformconfigs'', ''update'')"
  "\<not> grants used_role (apiGroup, resource_name k @ ''/status'', ''get'')"
  "\<not> grants used_role (apiGroup, resource_name k @ ''/finalizers'', v)"
  by (cases k; simp add: grants_def used_role_def)+





subsection \<open>Properties\<close>










end
