(* ===== verification/Progress.thy ===== *)
theory Progress
  imports Operator
begin

text \<open>
  Progress of single runs. The safety properties say what a run may do; here it is shown what it
  does when nothing stands in its way: if every call is answered well, one run brings the resource
  to where the specification wants it, whatever state it was found in. The locale
  \<open>policy_sender\<close> adds to the interface of the policy reconcilers that a connected operator sends.
\<close>

subsection \<open>Good answers\<close>

text \<open>
  An API server that does what it is asked, and a control plane that confirms what it is asked
  for: a push by a consistent result, a close by an empty list of unverified edges, a switch by
  its value, a health read by a response of that shape.
\<close>

fun good_answer :: "event \<Rightarrow> bool" where
  "good_answer (EvGet _ _ got) = (\<exists>x. got = Inr x)"
| "good_answer (EvUpdate _ got) = (\<exists>x. got = Inr x)"
| "good_answer (EvStatusUpdate _ got) = (\<exists>x. got = Inr x)"
| "good_answer (EvHttp req got) = (case rq_body req of
     Some (SegmentationBody _) \<Rightarrow> confirms store_ReconcileResult zero_ReconcileResult seg_consistent got
   | Some (RuntimeBody _) \<Rightarrow> confirms store_ReconcileResult zero_ReconcileResult rt_consistent got
   | Some (CloseBody _) \<Rightarrow> confirms store_CloseResult zero_CloseResult close_confirmed got
   | Some (PausedBody b _) \<Rightarrow> confirms store_PausedState zero_PausedState (\<lambda>p. ps_paused p = b) got
   | None \<Rightarrow> confirms store_ProviderHealthResponse zero_ProviderHealthResponse (\<lambda>_. True) got)"
| "good_answer (EvDiscovery _ got) = (\<exists>x. got = Inr x)"

text \<open>A client that has its settings, and whose URLs \<open>net/http\<close> accepts.\<close>

definition connected :: "'w net \<Rightarrow> Client \<Rightarrow> bool" where
  "connected N c \<longleftrightarrow> missing c = [] \<and> (\<forall>meth path. newRequest N meth (baseURL c @ path) = None)"

lemma connected_sends:
  "connected N c \<Longrightarrow> emits (client_do N c meth path body out st) (\<lambda>_ es. \<exists>req a. es = [EvHttp req a])"
  by (rule emits_weaken [OF client_do_emits]) (auto simp: connected_def)

text \<open>The requests of a contract are answered well when they are confirmed as it wants them.\<close>

definition answers_fit :: "contract \<Rightarrow> bool" where
  "answers_fit S \<longleftrightarrow> (\<forall>x a. obj_kind x = ct_kind S \<longrightarrow>
     good_answer (EvHttp (ct_push S x) a) =
       confirms store_ReconcileResult zero_ReconcileResult (ct_consistent S) a \<and>
     good_answer (EvHttp (ct_close S x) a) =
       confirms store_CloseResult zero_CloseResult close_confirmed a)"

lemma seg_answers_fit: "answers_fit (seg_contract r)"
proof -
  have "good_answer (EvHttp (ct_push (seg_contract r) x) a) =
       confirms store_ReconcileResult zero_ReconcileResult seg_consistent a \<and>
     good_answer (EvHttp (ct_close (seg_contract r) x) a) =
       confirms store_CloseResult zero_CloseResult close_confirmed a"
    if "obj_kind x = SegmentationPolicyKind" for x a
    using that by (cases x) (simp_all add: seg_push_request_def seg_close_request_def Let_def)
  then show ?thesis by (simp add: answers_fit_def)
qed

lemma rt_answers_fit: "answers_fit (rt_contract r)"
proof -
  have "good_answer (EvHttp (ct_push (rt_contract r) x) a) =
       confirms store_ReconcileResult zero_ReconcileResult rt_consistent a \<and>
     good_answer (EvHttp (ct_close (rt_contract r) x) a) =
       confirms store_CloseResult zero_CloseResult close_confirmed a"
    if "obj_kind x = RuntimeSecurityPolicyKind" for x a
    using that by (cases x) (simp_all add: rt_push_request_def rt_close_request_def Let_def)
  then show ?thesis by (simp add: answers_fit_def)
qed

subsection \<open>A run that is not hindered sends its request\<close>

definition unhindered :: "'w k8s \<Rightarrow> string \<Rightarrow> event list \<Rightarrow> bool" where
  "unhindered K config es \<longleftrightarrow> list_all good_answer es \<and> \<not> gate_closed_in K config es"

definition sent :: "event list \<Rightarrow> bool" where
  "sent es \<longleftrightarrow> (\<exists>e\<in>set es. is_http e)"

lemma unhindered_Cons:
  "unhindered K config (e # es) \<Longrightarrow> unhindered K config [e] \<and> unhindered K config es"
  by (auto simp: unhindered_def gate_closed_in_def)

lemma sent_append: "sent (xs @ ys) \<longleftrightarrow> sent xs \<or> sent ys" "sent (EvHttp req a # ys)"
  by (auto simp: sent_def)

lemma unhindered_gate:
  "unhindered K config [EvGet PlatformConfigKind ([], config) (answer PcObj g)] \<Longrightarrow>
   \<not> pg_paused (gate_of K config g)"
  by (auto simp: unhindered_def gate_closed_in_def)

locale policy_sender = policy_controller K P S
  for K :: "'w k8s" and P :: "('w, 'cr) policy_ops" and S :: contract +
  fixes online :: bool
  assumes push_sends: "online \<Longrightarrow> emits (po_push P cr) (\<lambda>_ es. \<exists>req a. es = [EvHttp req a])"
    and close_sends: "online \<Longrightarrow> emits (po_close P cr) (\<lambda>_ es. \<exists>req a. es = [EvHttp req a])"
begin

lemma pushed_ends: "k8s_laws K \<Longrightarrow> emits (policy_pushed K P gate cr got) (\<lambda>_ _. True)"
  by (cases got) (auto intro!: refused_event pushed_event)

lemma closed_ends: "k8s_laws K \<Longrightarrow> emits (policy_closed K P cr got) (\<lambda>_ _. True)"
  unfolding policy_closed_def by (auto intro!: release_event notReady_event split: sum.split)

lemma live_sends:
  assumes "online" and laws: "k8s_laws K"
  shows "emits (policy_live K P (ct_config S) cr) (\<lambda>_ es. unhindered K (ct_config S) es \<longrightarrow> sent es)"
  unfolding policy_live_def checkPauseGate_def get_pc_def
proof (intro emits_bind emits_call emits_return emits_if ensureFinalizer_event [OF laws];
    (simp only: append_Nil append_Nil2 sum.case)?)
  fix g
  let ?pre = "[EvGet PlatformConfigKind ([], ct_config S) (answer PcObj g)]"
  let ?Q = "\<lambda>es. unhindered K (ct_config S) es \<longrightarrow> sent es"
  {
    assume paused: "pg_paused (gate_of K (ct_config S) g)"
    have "\<not> unhindered K (ct_config S) (?pre @ es)" for es
      using paused unhindered_gate by (auto dest: unhindered_Cons)
    then show "emits (policy_notReady K P cr (pg_reason (gate_of K (ct_config S) g))
        (pg_message (gate_of K (ct_config S) g)) PausedRequeue) (\<lambda>b e2. ?Q (?pre @ e2))"
      by (intro notReady_event [OF laws]) simp
  next
    fix es cr'
    show "emits (do { got \<leftarrow> po_push P cr'; policy_pushed K P (gate_of K (ct_config S) g) cr' got })
        (\<lambda>b e2. ?Q (?pre @ es @ e2))"
      by (intro emits_bind emits_weaken [OF push_sends [OF assms(1)]] emits_weaken [OF pushed_ends [OF laws]])
        (auto simp: sent_def)
  next
    fix y e
    show "emits (State_Monad.return (no_requeue, Some (Wrap ''adding finalizer: '' (Foreign e) [])))
        (\<lambda>b e2. ?Q (?pre @ [EvUpdate y (Inl e)] @ e2))"
      by (auto simp: unhindered_def intro: emits_return)
  }
qed

lemma finalize_sends:
  assumes "online" and laws: "k8s_laws K" and "guarded_obj K (po_obj P cr)"
  shows "emits (policy_finalize K P cr) (\<lambda>_ es. sent es)"
  unfolding policy_finalize_def using assms(3)
  by (auto simp: sent_append intro!: emits_bind emits_weaken [OF close_sends [OF assms(1)]]
      emits_weaken [OF closed_ends [OF laws]])

text \<open>Only a resource that is being deleted without the finalizer needs no request.\<close>

lemma reconcile_sends:
  assumes "online" and laws: "k8s_laws K"
  shows "emits (policy_reconcile K P (ct_config S) n) (\<lambda>_ es. unhindered K (ct_config S) es \<longrightarrow>
     sent es \<or> (\<exists>x. es = [read_ev S n x] \<and> deleting x \<and> \<not> guarded_obj K x))"
  unfolding policy_reconcile_def
proof (intro emits_bind get_event emits_sum emits_if)
  fix got :: "foreign + 'cr" and e
  assume "got = Inl e"
  then show "emits (State_Monad.return (no_requeue, map_option Foreign (ignoreNotFound K (Some e))))
     (\<lambda>b e2. unhindered K (ct_config S) ([EvGet (ct_kind S) n (answer (po_obj P) got)] @ e2) \<longrightarrow>
        sent ([EvGet (ct_kind S) n (answer (po_obj P) got)] @ e2) \<or>
        (\<exists>x. [EvGet (ct_kind S) n (answer (po_obj P) got)] @ e2 = [read_ev S n x] \<and> deleting x \<and>
             \<not> guarded_obj K x))"
    by (auto simp: unhindered_def intro: emits_return)
next
  fix got :: "foreign + 'cr" and cr
  assume got: "got = Inr cr" and deleted: "\<not> time_is_zero (om_deletionTimestamp (obj_meta (po_obj P cr)))"
  show "emits (policy_finalize K P cr)
     (\<lambda>b e2. unhindered K (ct_config S) ([EvGet (ct_kind S) n (answer (po_obj P) got)] @ e2) \<longrightarrow>
        sent ([EvGet (ct_kind S) n (answer (po_obj P) got)] @ e2) \<or>
        (\<exists>x. [EvGet (ct_kind S) n (answer (po_obj P) got)] @ e2 = [read_ev S n x] \<and> deleting x \<and>
             \<not> guarded_obj K x))"
  proof (cases "guarded_obj K (po_obj P cr)")
    case True
    show ?thesis
      by (rule emits_weaken [OF finalize_sends [OF assms True]]) (simp add: sent_def)
  next
    case False
    with got deleted show ?thesis
      unfolding policy_finalize_def by (auto simp: deleting_def intro: emits_return)
  qed
next
  fix got :: "foreign + 'cr" and cr
  show "emits (policy_live K P (ct_config S) cr)
     (\<lambda>b e2. unhindered K (ct_config S) ([EvGet (ct_kind S) n (answer (po_obj P) got)] @ e2) \<longrightarrow>
        sent ([EvGet (ct_kind S) n (answer (po_obj P) got)] @ e2) \<or>
        (\<exists>x. [EvGet (ct_kind S) n (answer (po_obj P) got)] @ e2 = [read_ev S n x] \<and> deleting x \<and>
             \<not> guarded_obj K x))"
    by (rule emits_weaken [OF live_sends [OF assms]]) (auto simp: sent_def dest: unhindered_Cons)
qed

end

interpretation seg_sender: policy_sender K "seg_ops K N r" "seg_contract r" "connected N (sr_backend r)"
  for K :: "'w k8s" and N :: "'w net" and r :: SegmentationPolicyReconciler
  by unfold_locales (simp_all add: ReconcileSegmentationPolicy_def CloseCREdges_def connected_sends)

interpretation rt_sender: policy_sender K "rt_ops K N r" "rt_contract r" "connected N (rtr_backend r)"
  for K :: "'w k8s" and N :: "'w net" and r :: RuntimeSecurityPolicyReconciler
  by unfold_locales (simp_all add: ReconcileRuntimeSecurityPolicy_def CloseCREdges_def connected_sends)

subsection \<open>What such a run reaches\<close>

text \<open>
  A live resource carries the finalizer, its edges are written as the resource asks, and its
  status says so; one that is being deleted has its edges closed and then loses the finalizer, or
  had none. Nothing is updated that was as it should be.
\<close>

definition converged :: "'w k8s \<Rightarrow> contract \<Rightarrow> NamespacedName \<Rightarrow> event list \<Rightarrow> verdict \<Rightarrow> bool" where
  "converged K S n es v \<longleftrightarrow>
     (\<exists>x y z a x' fs g. obj_kind x = ct_kind S \<and> \<not> deleting x \<and> v = (\<lparr>requeueAfter = ResyncInterval\<rparr>, None) \<and>
        es = [read_ev S n x, gate_ev S g] @ fs @ [EvHttp (ct_push S x') a, EvStatusUpdate y (Inr z)] \<and>
        ensured K (ct_kind S) x fs x' \<and>
        confirms store_ReconcileResult zero_ReconcileResult (ct_consistent S) a \<and> readied x' y) \<or>
     (\<exists>x y z a. obj_kind x = ct_kind S \<and> deleting x \<and> guarded_obj K x \<and> v = (no_requeue, None) \<and>
        es = [read_ev S n x, EvHttp (ct_close S x) a, EvUpdate y (Inr z)] \<and>
        confirms store_CloseResult zero_CloseResult close_confirmed a \<and>
        is_obj (ct_kind S) (obj_key x) y \<and> \<not> guarded_obj K y) \<or>
     (\<exists>x. obj_kind x = ct_kind S \<and> deleting x \<and> \<not> guarded_obj K x \<and> v = (no_requeue, None) \<and>
        es = [read_ev S n x])"

lemma run_converges:
  assumes "policy_run K S n es v" and "contract_ok S" and "answers_fit S" and "ct_unset S = []"
    and "unhindered K (ct_config S) es"
    and "sent es \<or> (\<exists>x. es = [read_ev S n x] \<and> deleting x \<and> \<not> guarded_obj K x)"
  shows "converged K S n es v"
  using assms(1)
proof cases
  case (unguarded_deletion x)
  then show ?thesis by (auto simp: converged_def)
next
  case (closed x a y u)
  moreover from closed(1) assms(5) obtain z where "u = Inr z" by (auto simp: unhindered_def)
  ultimately show ?thesis
    unfolding converged_def by (intro disjI2 disjI1) (auto simp: release_verdict_def)
next
  case (pushed x g fs x' a y u)
  moreover from pushed(1) assms(5) obtain z where "u = Inr z" by (auto simp: unhindered_def)
  ultimately show ?thesis
    unfolding converged_def by (intro disjI1) (auto simp: ready_verdict_def)
next
  case (close_refused x a rsn after y msg u)
  with assms(3,5) show ?thesis by (simp add: answers_fit_def unhindered_def)
next
  case (push_refused x g fs x' a rsn y u msg after)
  with assms(3,5) show ?thesis by (simp add: answers_fit_def unhindered_def ensured_kind)
next
  case (gate_closed x g y u)
  with assms(5) have "gate_closed_in K (ct_config S) es" by (auto simp: gate_closed_in_def)
  with assms(5) show ?thesis by (simp add: unhindered_def)
qed (use assms(4-6) in \<open>auto simp: unhindered_def sent_def elim!: ensured_cases\<close>)

subsection \<open>The PlatformConfig reconciler\<close>

text \<open>Its handlers end whatever they are answered; the first request is the switch, as read.\<close>

lemma pc_readHealth_sends:
  assumes "connected N (pr_backend r)"
  shows "emits (pc_readHealth K N r x st) (\<lambda>_ es. sent es)"
  unfolding pc_readHealth_def GetProviderHealth_def
  by (intro emits_bind emits_weaken [OF connected_sends [OF assms]] emits_sum)
    (auto simp: pc_healthUnread_def pc_recordHealth_def pc_notReady_def pc_setCondition_def
      setCondition_def status_pc_def sent_def intro!: emits_intro split: sum.splits)

lemma SetPaused_sends:
  assumes "connected N (pr_backend r)"
  shows "emits (SetPaused N (pr_backend r) (pcs_paused (pc_spec x))
     (''k8boss-operator/PlatformConfig/'' @ om_name (pc_meta x)))
     (\<lambda>res es. \<exists>a. es = [EvHttp (pc_put_request r x) a] \<and>
        (switch_confirmed x a \<longrightarrow> (\<exists>st. res = Inr st \<and> ps_paused st = pcs_paused (pc_spec x))))"
proof (rule emits_weaken [OF emits_conj])
  show "emits (SetPaused N (pr_backend r) (pcs_paused (pc_spec x))
     (''k8boss-operator/PlatformConfig/'' @ om_name (pc_meta x))) (\<lambda>_ es. \<exists>req a. es = [EvHttp req a])"
    unfolding SetPaused_def by (rule connected_sends [OF assms])
  show "emits (SetPaused N (pr_backend r) (pcs_paused (pc_spec x))
     (''k8boss-operator/PlatformConfig/'' @ om_name (pc_meta x)))
     (\<lambda>res es. es = [] \<or> (\<exists>a. es = [EvHttp (pc_put_request r x) a] \<and>
        (switch_confirmed x a \<longrightarrow> (\<exists>st. res = Inr st \<and> ps_paused st = pcs_paused (pc_spec x)))))"
    by (rule SetPaused_emits) auto
qed auto

lemmas pc_status_defs = pc_setCondition_def setCondition_def status_pc_def

lemma pc_ends:
  "emits (pc_notReady K x rsn msg) (\<lambda>_ _. True)" "emits (setNotSingleton K r x) (\<lambda>_ _. True)"
  by (simp_all add: pc_notReady_def setNotSingleton_def pc_status_defs emits_intro)

lemma pc_answers:
  "good_answer (EvHttp (pc_put_request r x) a) = switch_confirmed x a"
  "good_answer (EvHttp (pc_health_request r) h) =
     confirms store_ProviderHealthResponse zero_ProviderHealthResponse (\<lambda>_. True) h"
  by (simp_all add: pc_put_request_def pc_health_request_def switch_confirmed_def Let_def)

text \<open>Two requests at least, unless an answer was bad or another PlatformConfig is the one that governs.\<close>

lemma pc_sends:
  assumes "connected N (pr_backend r)"
  shows "emits (pc_Reconcile K N r n) (\<lambda>_ es. list_all good_answer es \<longrightarrow>
     2 \<le> length (filter is_http es) \<or> (\<exists>x. pc_read n x \<in> set es \<and> \<not> governs r x))"
proof -
  let ?Q = "\<lambda>es. list_all good_answer es \<longrightarrow>
     2 \<le> length (filter is_http es) \<or> (\<exists>x. pc_read n x \<in> set es \<and> \<not> governs r x)"
  have switched: "emits (pc_switched K N r x res) (\<lambda>_ es. switch_confirmed x a \<longrightarrow> sent es)"
    if "switch_confirmed x a \<longrightarrow> (\<exists>st. res = Inr st \<and> ps_paused st = pcs_paused (pc_spec x))" for x res a
    using that
    by (cases "switch_confirmed x a")
      (auto simp: pc_switched_def pc_readHealth_sends [OF assms] emits_weaken [OF pc_ends(1)]
         emits_weaken [OF pc_readHealth_sends [OF assms]] split: sum.split)
  have count: "2 \<le> length (filter is_http (pc_read n x # EvHttp q a # es))" if "sent es" for x q a es
    using that by (cases "filter is_http es") (auto simp: sent_def filter_empty_conv)
  show ?thesis
    unfolding pc_Reconcile_def get_pc_def pc_switched_def [symmetric]
  proof (intro emits_bind emits_call emits_sum emits_if)
    fix got :: "foreign + PlatformConfig" and e
    assume "got = Inl e"
    then show "emits (State_Monad.return (no_requeue, map_option Foreign (ignoreNotFound K (Some e))))
       (\<lambda>b e2. ?Q ([EvGet PlatformConfigKind n (answer PcObj got)] @ e2))"
      by (auto intro: emits_return)
  next
    fix got :: "foreign + PlatformConfig" and x
    assume got: "got = Inr x"
      and "pr_platformConfigName r \<noteq> [] \<and> om_name (pc_meta x) \<noteq> pr_platformConfigName r"
    then have "\<not> governs r x" by (simp add: governs_def)
    with got show "emits (setNotSingleton K r x) (\<lambda>a e1. emits (State_Monad.return (no_requeue, a))
       (\<lambda>b e2. ?Q ([EvGet PlatformConfigKind n (answer PcObj got)] @ (e1 @ e2))))"
      by (intro emits_weaken [OF pc_ends(2)] emits_return) auto
  next
    fix got :: "foreign + PlatformConfig" and x
    assume "got = Inr x"
    then show "emits (SetPaused N (pr_backend r) (pcs_paused (pc_spec x))
         (''k8boss-operator/PlatformConfig/'' @ om_name (pc_meta x)))
       (\<lambda>a e1. emits (pc_switched K N r x a)
         (\<lambda>b e2. ?Q ([EvGet PlatformConfigKind n (answer PcObj got)] @ (e1 @ e2))))"
      by (intro emits_weaken [OF SetPaused_sends [OF assms]])
        (auto simp: pc_answers simp del: good_answer.simps(4) intro!: emits_weaken [OF switched] dest: count)
  qed
qed

subsection \<open>Properties\<close>

text \<open>
  C9. Whatever state a policy is found in, one run of a connected operator whose calls are
  answered well, with the switch off, brings it there: a live one gets the finalizer if it has
  none, is pushed, confirmed, marked Ready for its generation and looked at again after the
  resync interval; one that is being deleted has its edges closed and then loses the finalizer.
\<close>

theorem policies_converge:
  assumes "k8s_laws K"
  shows "(connected N (sr_backend s) \<longrightarrow> emits (seg_Reconcile K N s n) (\<lambda>v es.
       unhindered K (sr_platformConfigName s) es \<longrightarrow> converged K (seg_contract s) n es v)) \<and>
     (connected N (rtr_backend t) \<longrightarrow> emits (rt_Reconcile K N t n) (\<lambda>v es.
       unhindered K (rtr_platformConfigName t) es \<longrightarrow> converged K (rt_contract t) n es v))"
proof (intro conjI impI)
  assume online: "connected N (sr_backend s)"
  have sends: "emits (seg_Reconcile K N s n) (\<lambda>_ es. unhindered K (sr_platformConfigName s) es \<longrightarrow> sent es \<or>
      (\<exists>x. es = [read_ev (seg_contract s) n x] \<and> deleting x \<and> \<not> guarded_obj K x))"
    unfolding seg_Reconcile_refines using seg_sender.reconcile_sends [OF online assms] by simp
  show "emits (seg_Reconcile K N s n) (\<lambda>v es.
      unhindered K (sr_platformConfigName s) es \<longrightarrow> converged K (seg_contract s) n es v)"
    using online
    by (intro emits_weaken [OF emits_conj [OF seg_runs [OF assms] sends]] impI)
      (auto simp: connected_def intro!: run_converges [OF _ seg_contract_ok seg_answers_fit])
next
  assume online: "connected N (rtr_backend t)"
  have sends: "emits (rt_Reconcile K N t n) (\<lambda>_ es. unhindered K (rtr_platformConfigName t) es \<longrightarrow> sent es \<or>
      (\<exists>x. es = [read_ev (rt_contract t) n x] \<and> deleting x \<and> \<not> guarded_obj K x))"
    unfolding rt_Reconcile_refines using rt_sender.reconcile_sends [OF online assms] by simp
  show "emits (rt_Reconcile K N t n) (\<lambda>v es.
      unhindered K (rtr_platformConfigName t) es \<longrightarrow> converged K (rt_contract t) n es v)"
    using online
    by (intro emits_weaken [OF emits_conj [OF rt_runs [OF assms] sends]] impI)
      (auto simp: connected_def intro!: run_converges [OF _ rt_contract_ok rt_answers_fit])
qed

lemma sample_connected: "connected (sample_net st body) sample_client"
  by (simp add: connected_def sample_simps)

lemma seg_sample_unhindered: "unhindered (sample_k [] None False) ''default'' (seg_sample_trace [] None False)"
proof -
  obtain y where "seg_sample_trace [] None False =
    [EvGet SegmentationPolicyKind (''shop'', ''web'') (Inr (SegObj (sample_seg [] None))),
     EvGet PlatformConfigKind ([], ''default'') (Inr (PcObj (sample_pc ''default'' False))),
     EvUpdate (SegObj (sample_seg [CREdgesFinalizer] None)) (Inr (SegObj (sample_seg [CREdgesFinalizer] None))),
     EvHttp (seg_push_request sample_sr (sample_seg [CREdgesFinalizer] None))
       (Inr \<lparr>rs_status = 200, rs_body = Inr sample_body\<rparr>),
     EvStatusUpdate (SegObj y) (Inr (SegObj y))]" using seg_sample_push by blast
  then show ?thesis
    by (auto simp: unhindered_def gate_closed_in_def gate_of_def answer_def seg_push_request_def Let_def
        confirms_def sample_simps seg_consistent_def split: sum.splits)
qed

lemma rt_sample_unhindered: "unhindered (sample_k [CREdgesFinalizer] (Some 5) False) ''default''
    (rt_sample_trace [CREdgesFinalizer] (Some 5) False)"
  by (auto simp: rt_sample_delete unhindered_def gate_closed_in_def rt_close_request_def Let_def
      confirms_def sample_simps close_confirmed_def)

lemma policies_converge_witness:
  "(\<exists>v. converged (sample_k [] None False) (seg_contract sample_sr) (''shop'', ''web'')
     (seg_sample_trace [] None False) v) \<and>
   (\<exists>v. converged (sample_k [CREdgesFinalizer] (Some 5) False) (rt_contract sample_rtr) (''shop'', ''web'')
     (rt_sample_trace [CREdgesFinalizer] (Some 5) False) v)"
proof -
  have online: "connected (sample_net 200 sample_body) (sr_backend sample_sr)"
    "connected (sample_net 200 sample_body) (rtr_backend sample_rtr)"
    by (simp_all add: sample_sr_def sample_rtr_def sample_connected)
  note conv = policies_converge [OF sample_laws, where N = "sample_net 200 sample_body"
      and s = sample_sr and t = sample_rtr and n = "(''shop'', ''web'')"]
  from seg_sample_holds [OF mp [OF conjunct1 [OF conv] online(1)]]
    rt_sample_holds [OF mp [OF conjunct2 [OF conv] online(2)]]
    seg_sample_unhindered rt_sample_unhindered
  show ?thesis by (simp add: sample_sr_def sample_rtr_def)
qed

text \<open>
  C10. One run of a connected operator whose calls are answered well brings the PlatformConfig it
  is bound to there: the switch is confirmed at \<open>spec.paused\<close>, then the health of the providers is
  read and recorded with Ready true, and the run is repeated after the poll interval. Any other
  PlatformConfig is told that it governs nothing, and left alone.
\<close>

theorem platform_config_converges:
  assumes "k8s_laws K" and "connected N (pr_backend r)"
  shows "emits (pc_Reconcile K N r n) (\<lambda>v es. list_all good_answer es \<longrightarrow>
     (\<exists>x y z. if governs r x
       then v = (\<lparr>requeueAfter = HealthPollInterval\<rparr>, None) \<and>
         (\<exists>a h now. es = [pc_read n x, EvHttp (pc_put_request r x) a, EvHttp (pc_health_request r) h,
              EvStatusUpdate (PcObj y) (Inr z)] \<and> switch_confirmed x a \<and>
            confirms store_ProviderHealthResponse zero_ProviderHealthResponse
              (\<lambda>resp. pc_recorded now x (phr_providers resp) y) h)
       else v = (no_requeue, None) \<and> es = [pc_read n x, EvStatusUpdate (PcObj y) (Inr z)] \<and>
         pc_unready x ReasonNotSingleton y))"
proof (rule emits_weaken [OF emits_conj [OF pc_runs [OF assms(1)] pc_sends [OF assms(2)]]],
    elim conjE, rule impI)
  let ?done = "\<lambda>v es. \<exists>x y z. if governs r x
       then v = (\<lparr>requeueAfter = HealthPollInterval\<rparr>, None) \<and>
         (\<exists>a h now. es = [pc_read n x, EvHttp (pc_put_request r x) a, EvHttp (pc_health_request r) h,
              EvStatusUpdate (PcObj y) (Inr z)] \<and> switch_confirmed x a \<and>
            confirms store_ProviderHealthResponse zero_ProviderHealthResponse
              (\<lambda>resp. pc_recorded now x (phr_providers resp) y) h)
       else v = (no_requeue, None) \<and> es = [pc_read n x, EvStatusUpdate (PcObj y) (Inr z)] \<and>
         pc_unready x ReasonNotSingleton y"
  fix v es
  assume run: "pc_run K r n es v" and good: "list_all good_answer es"
    and sends: "list_all good_answer es \<longrightarrow>
      2 \<le> length (filter is_http es) \<or> (\<exists>x. pc_read n x \<in> set es \<and> \<not> governs r x)"
  note pc_answers [simp] and good_answer.simps(4) [simp del]
  from run show "?done v es"
  proof cases
    case (not_singleton x y u)
    with good obtain z where "u = Inr z" by auto
    with not_singleton show ?thesis
      by (intro exI [of _ x] exI [of _ y] exI [of _ z]) (simp add: release_verdict_def)
  next
    case (recorded x a now y h u)
    with good obtain z where "u = Inr z" by auto
    with recorded show ?thesis
      by (intro exI [of _ x] exI [of _ y] exI [of _ z]) (auto simp: pc_verdict_def)
  next
    case (health_unread x a hs rsn y u msg)
    with good sends show ?thesis by auto
  qed (use good sends in auto)
qed

lemma pc_sample_good: "list_all good_answer pc_sample_ready" "length pc_sample_ready = 4"
proof -
  obtain y where sample: "pc_sample_ready =
    [pc_read ([], ''default'') (sample_pc ''default'' False),
     EvHttp (pc_put_request sample_pr (sample_pc ''default'' False))
       (Inr \<lparr>rs_status = 200, rs_body = Inr [CHR 0x7B, CHR 0x7D]\<rparr>),
     EvHttp (pc_health_request sample_pr) (Inr \<lparr>rs_status = 200, rs_body = Inr [CHR 0x7B, CHR 0x7D]\<rparr>),
     EvStatusUpdate (PcObj y) (Inr (PcObj y))]" using pc_sample_recorded by blast
  show "list_all good_answer pc_sample_ready" unfolding sample
    by (simp add: pc_answers switch_confirmed_def confirms_def sample_simps sample_empty
        del: good_answer.simps(4))
  show "length pc_sample_ready = 4" unfolding sample by simp
qed

lemma platform_config_converges_witness:
  "fst (run_state (pc_Reconcile (sample_k [] None False) (sample_net 200 [CHR 0x7B, CHR 0x7D]) sample_pr
     ([], ''default'')) start) = (\<lparr>requeueAfter = HealthPollInterval\<rparr>, None)"
proof -
  have online: "connected (sample_net 200 [CHR 0x7B, CHR 0x7D]) (pr_backend sample_pr)"
    by (simp add: sample_pr_def sample_connected)
  have "trace start = []" by (simp add: start_def)
  from mp [OF emits_run [OF platform_config_converges [OF sample_laws online] this]
      pc_sample_good(1) [unfolded pc_sample_ready_def]] pc_sample_good(2)
  show ?thesis by (auto simp: pc_sample_ready_def split: if_splits)
qed

subsection \<open>Without a connection\<close>

text \<open>
  What a run of a policy reconciler without a connection does: a live policy is told that it waits
  for the configuration, one that is being deleted is let go.
\<close>

definition idle :: "'w k8s \<Rightarrow> contract \<Rightarrow> NamespacedName \<Rightarrow> event list \<Rightarrow> verdict \<Rightarrow> bool" where
  "idle K S n es v \<longleftrightarrow>
     (\<exists>x g fs x' y z. obj_kind x = ct_kind S \<and> \<not> deleting x \<and> v = (\<lparr>requeueAfter = 300000000000\<rparr>, None) \<and>
        es = [read_ev S n x, gate_ev S g] @ fs @ [EvStatusUpdate y (Inr z)] \<and>
        ensured K (ct_kind S) x fs x' \<and> unready x' ''AwaitingConfiguration'' y) \<or>
     (\<exists>x y z. obj_kind x = ct_kind S \<and> deleting x \<and> guarded_obj K x \<and> v = (no_requeue, None) \<and>
        es = [read_ev S n x, EvUpdate y (Inr z)] \<and> is_obj (ct_kind S) (obj_key x) y \<and> \<not> guarded_obj K y) \<or>
     (\<exists>x. obj_kind x = ct_kind S \<and> deleting x \<and> \<not> guarded_obj K x \<and> v = (no_requeue, None) \<and>
        es = [read_ev S n x])"

lemma run_idle:
  assumes "policy_run K S n es v" and "ct_unset S \<noteq> []" and "unhindered K (ct_config S) es"
  shows "idle K S n es v"
  using assms(1)
proof cases
  case (unguarded_deletion x)
  then show ?thesis by (auto simp: idle_def)
next
  case (release_unconfigured x y u)
  moreover from release_unconfigured(1) assms(3) obtain z where "u = Inr z" by (auto simp: unhindered_def)
  ultimately show ?thesis
    unfolding idle_def by (intro disjI2 disjI1) (auto simp: release_verdict_def)
next
  case (push_unsent x g fs x' rsn y after u msg)
  moreover from push_unsent(1) assms(3) obtain z where "u = Inr z" by (auto simp: unhindered_def)
  ultimately show ?thesis
    using assms(2) unfolding idle_def
    by (intro disjI1) (auto simp: unready_verdict_def ReasonAwaitingConfiguration_def cadence_values)
next
  case (gate_closed x g y u)
  with assms(3) have "gate_closed_in K (ct_config S) es" by (auto simp: gate_closed_in_def)
  with assms(3) show ?thesis by (simp add: unhindered_def)
qed (use assms(2,3) in \<open>auto simp: unhindered_def elim!: ensured_cases\<close>)

text \<open>
  C11. An operator without a connection sends nothing and says so: in a run whose calls are
  answered well, with the switch off, a live policy is reported not Ready for the reason
  AwaitingConfiguration, to be looked at again in 5 min, and one that is being deleted loses the
  finalizer; the PlatformConfig it is bound to is reported not Ready for the same reason.
\<close>

theorem awaiting_configuration:
  assumes "k8s_laws K" and "missing (sr_backend s) \<noteq> []" and "missing (rtr_backend t) \<noteq> []"
    and "missing (pr_backend r) \<noteq> []"
  shows "emits (seg_Reconcile K N s n) (\<lambda>v es.
       unhindered K (sr_platformConfigName s) es \<longrightarrow> idle K (seg_contract s) n es v) \<and>
     emits (rt_Reconcile K N t n) (\<lambda>v es.
       unhindered K (rtr_platformConfigName t) es \<longrightarrow> idle K (rt_contract t) n es v) \<and>
     emits (pc_Reconcile K N r n) (\<lambda>v es. list_all good_answer es \<longrightarrow>
       (\<forall>x. pc_read n x \<in> set es \<and> governs r x \<longrightarrow>
          (\<exists>y z. es = [pc_read n x, EvStatusUpdate (PcObj y) (Inr z)] \<and>
             pc_unready x ''AwaitingConfiguration'' y)))"
proof (intro conjI)
  show "emits (seg_Reconcile K N s n) (\<lambda>v es.
      unhindered K (sr_platformConfigName s) es \<longrightarrow> idle K (seg_contract s) n es v)"
    using assms(2) by (intro seg_guarantee [OF assms(1)] impI run_idle) simp_all
  show "emits (rt_Reconcile K N t n) (\<lambda>v es.
      unhindered K (rtr_platformConfigName t) es \<longrightarrow> idle K (rt_contract t) n es v)"
    using assms(3) by (intro rt_guarantee [OF assms(1)] impI run_idle) simp_all
  show "emits (pc_Reconcile K N r n) (\<lambda>v es. list_all good_answer es \<longrightarrow>
       (\<forall>x. pc_read n x \<in> set es \<and> governs r x \<longrightarrow>
          (\<exists>y z. es = [pc_read n x, EvStatusUpdate (PcObj y) (Inr z)] \<and>
             pc_unready x ''AwaitingConfiguration'' y)))"
    using assms(4)
    by (intro pc_guarantee [OF assms(1)], elim pc_run.cases)
      (auto simp: ReasonAwaitingConfiguration_def)
qed

definition sample_offline :: SegmentationPolicyReconciler where
  "sample_offline = sample_sr\<lparr>sr_backend := NewUnconfigured [''K8BOSS_OPERATOR_TOKEN'']\<rparr>"

lemma awaiting_configuration_witness:
  "\<exists>y. trace (snd (run_state (seg_Reconcile (sample_k [CREdgesFinalizer] None False) (sample_net 200 [])
       sample_offline (''shop'', ''web'')) start)) =
     [EvGet SegmentationPolicyKind (''shop'', ''web'') (Inr (SegObj (sample_seg [CREdgesFinalizer] None))),
      EvGet PlatformConfigKind ([], ''default'') (Inr (PcObj (sample_pc ''default'' False))),
      EvStatusUpdate (SegObj y) (Inr (SegObj y))] \<and>
     unready (SegObj (sample_seg [CREdgesFinalizer] None)) ''AwaitingConfiguration'' (SegObj y)"
proof -
  let ?K = "sample_k [CREdgesFinalizer] None False"
  let ?run = "run_state (seg_Reconcile ?K (sample_net 200 []) sample_offline (''shop'', ''web'')) start"
  have "\<exists>y. trace (snd ?run) =
     [EvGet SegmentationPolicyKind (''shop'', ''web'') (Inr (SegObj (sample_seg [CREdgesFinalizer] None))),
      EvGet PlatformConfigKind ([], ''default'') (Inr (PcObj (sample_pc ''default'' False))),
      EvStatusUpdate (SegObj y) (Inr (SegObj y))]"
    by (simp add: seg_run_defs seg_reconcileError_def IsUnconfigured_def sample_simps sample_offline_def
        sample_sr_def NewUnconfigured_def)
  then obtain y where tr: "trace (snd ?run) =
     [EvGet SegmentationPolicyKind (''shop'', ''web'') (Inr (SegObj (sample_seg [CREdgesFinalizer] None))),
      EvGet PlatformConfigKind ([], ''default'') (Inr (PcObj (sample_pc ''default'' False))),
      EvStatusUpdate (SegObj y) (Inr (SegObj y))]" ..
  have off: "missing (sr_backend sample_offline) \<noteq> []"
    "missing (rtr_backend (sample_rtr\<lparr>rtr_backend := sr_backend sample_offline\<rparr>)) \<noteq> []"
    "missing (pr_backend (sample_pr\<lparr>pr_backend := sr_backend sample_offline\<rparr>)) \<noteq> []"
    by (simp_all add: sample_offline_def NewUnconfigured_def)
  have config: "sr_platformConfigName sample_offline = ''default''"
    by (simp add: sample_offline_def sample_sr_def)
  have well: "unhindered ?K (sr_platformConfigName sample_offline) (trace (snd ?run))"
    unfolding tr config
    by (auto simp: unhindered_def gate_closed_in_def gate_of_def answer_def sample_simps split: sum.splits)
  have "trace start = []" by (simp add: start_def)
  from mp [OF emits_run [OF conjunct1 [OF awaiting_configuration [OF sample_laws off]] this] well]
  have "idle ?K (seg_contract sample_offline) (''shop'', ''web'') (trace (snd ?run)) (fst ?run)" .
  then show ?thesis
    unfolding idle_def tr by (auto simp: deleting_def sample_simps time_is_zero_def
        elim!: ensured_cases)
qed

end
