(* ===== verification/ClientContract.thy ===== *)
theory ClientContract
  imports Samples
begin

text \<open>
  What the client of \<open>internal/backendclient/client.go\<close> guarantees its callers: the requests
  each exported call can make, what an answer of a given status becomes, how the two error
  shapes of the control plane are read, and the bound on quoted bodies.
\<close>

subsection \<open>Answers\<close>




text \<open>
  C30. The two documented shapes of an error body are read into the same three keys: a
  structured detail gives its category, code and message; a plain detail gives its message, the
  reason as code, and the category \<open>cluster\<close> when there is a reason. A body that is no JSON
  is quoted.
\<close>

theorem error_shapes:
  "(json_parse body = Some (JObj [(''detail'', JObj [(''category'', JStr c), (''code'', JStr k),
        (''message'', JStr m)])]) \<and> (c \<noteq> [] \<or> k \<noteq> []) \<longrightarrow>
      parseAPIError s body =
        \<lparr>ae_statusCode = s, ae_category = c, ae_code = k, ae_message = m\<rparr>) \<and>
   (json_parse body = Some (JObj [(''detail'', JStr m), (''reason'', JStr k)]) \<longrightarrow>
      parseAPIError s body = \<lparr>ae_statusCode = s,
        ae_category = (if k \<noteq> [] then ''cluster'' else []), ae_code = k, ae_message = m\<rparr>) \<and>
   (json_parse body = None \<longrightarrow> parseAPIError s body =
        \<lparr>ae_statusCode = s, ae_category = [], ae_code = [], ae_message = truncateBody body\<rparr>)"
proof -
  have names: "fold_name ''detail'' = ''detail''" "fold_name ''reason'' = ''reason''"
    "fold_name ''category'' = ''category''" "fold_name ''code'' = ''code''"
    "fold_name ''message'' = ''message''"
    by (rule fold_name_plain, simp add: plain_name_def)+
  note defs = parseAPIError_def parse_plain_def raw_error_def unmarshal_def store_errorDetail_def
    store_structuredDetail_def zero_errorDetail_def zero_structuredDetail_def store_struct_def
    find_field_def field_def store_raw_def names
  show ?thesis by (intro conjI impI) (auto simp: defs)
qed

definition sample_error :: string where
  "sample_error = [CHR 0x7B] @ dquote @ ''detail'' @ dquote @ '':'' @ dquote @ ''no'' @ dquote @ '','' @
     dquote @ ''reason'' @ dquote @ '':'' @ dquote @ ''gone'' @ dquote @ [CHR 0x7D]"

lemma error_shapes_witness:
  "parseAPIError 404 sample_error = \<lparr>ae_statusCode = 404, ae_category = ''cluster'',
     ae_code = ''gone'', ae_message = ''no''\<rparr>"
proof -
  have "json_parse sample_error = Some (JObj [(''detail'', JStr ''no''), (''reason'', JStr ''gone'')])"
    by code_simp
  with error_shapes [of sample_error _ "''gone''" "''no''" 404] show ?thesis by simp
qed

text \<open>
  C40. A quoted body is never empty and at most 515 bytes long; one that fits
  is quoted as it is, up to the white space around it.
\<close>

theorem truncateBody_bounds:
  "truncateBody s \<noteq> [] \<and> length (truncateBody s) \<le> 515 \<and>
   (trim_space s \<noteq> [] \<and> length s \<le> 512 \<longrightarrow> truncateBody s = trim_space s)"
  using trim_space_length [of s]
  by (auto simp: truncateBody_def Let_def maxMessage_def ellipsis_def)

lemma truncateBody_bounds_witness: "truncateBody '' no such route '' = ''no such route''"
proof -
  have "trim_space '' no such route '' = ''no such route''" by code_simp
  with truncateBody_bounds [of "'' no such route ''"] show ?thesis by simp
qed

text \<open>
  The base URL of a client is the configured one less the slashes at its end, and
  nothing else.
\<close>

lemma base_url:
  "(\<exists>n. url = baseURL (NewClient url tok) @ replicate n CHR ''/'') \<and>
   (baseURL (NewClient url tok) = [] \<or> last (baseURL (NewClient url tok)) \<noteq> CHR ''/'') \<and>
   missing (NewClient url tok) = [] \<and> token (NewClient url tok) = tok"
proof -
  let ?P = "\<lambda>x. x = CHR ''/''"
  have "takeWhile ?P (rev url) = replicate (length (takeWhile ?P (rev url))) CHR ''/''"
    by (rule replicate_eqI) (auto dest: set_takeWhileD)
  then have "rev (takeWhile ?P (rev url)) = replicate (length (takeWhile ?P (rev url))) CHR ''/''"
    by (metis rev_replicate)
  moreover have "url = rev (dropWhile ?P (rev url)) @ rev (takeWhile ?P (rev url))"
    by (metis rev_append rev_rev_ident takeWhile_dropWhile_id)
  ultimately have "\<exists>n. url = baseURL (NewClient url tok) @ replicate n CHR ''/''"
    by (auto simp: NewClient_def trim_right_char_def)
  moreover have "baseURL (NewClient url tok) = [] \<or> last (baseURL (NewClient url tok)) \<noteq> CHR ''/''"
    using trim_right_char_last by (auto simp: NewClient_def)
  ultimately show ?thesis by (simp add: NewClient_def)
qed

subsection \<open>Requests\<close>

text \<open>At most one request, of the given method, path and body, with the client's headers.\<close>

definition sends_only :: "Client \<Rightarrow> string \<Rightarrow> string \<Rightarrow> request_body option \<Rightarrow> gerror + 'r \<Rightarrow> event list \<Rightarrow> bool" where
  "sends_only c meth path body r es \<longleftrightarrow>
     (if missing c \<noteq> [] then es = [] \<and> r = Inl (Unconfigured (missing c))
      else (es = [] \<and> (\<exists>e. r = Inl e \<and> \<not> IsUnconfigured e)) \<or>
        (\<exists>a. es = [EvHttp \<lparr>rq_method = meth, rq_url = baseURL c @ ''/internal/operator/v1'' @ path,
           rq_header = (if body = None then [] else [(''Content-Type'', ''application/json'')]) @
             [(''Accept'', ''application/json'')] @
             (if token c = [] then [] else [(''Authorization'', ''Bearer '' @ token c)]),
           rq_body = body\<rparr> a] \<and> (\<forall>e. r = Inl e \<longrightarrow> \<not> IsUnconfigured e)))"

lemma client_do_sends:
  "emits (client_do N c meth (apiPrefix @ path) body out (Some st)) (sends_only c meth path body)"
  by (rule call_emits) (simp_all add: sends_only_def request_header_def apiPrefix_def)

text \<open>
  C26. Each exported call of a configured client makes at most one request, with its own
  method, path and body and with the bearer token when there is one; a client that lacks a
  setting makes none and answers with the unconfigured error, which no other failure is.
\<close>

theorem client_requests:
  "emits (ReconcileSegmentationPolicy N c i ns nm seg) (sends_only c ''POST'' ''/segmentation-policies/reconcile''
     (Some (SegmentationBody \<lparr>srq_clusterID = i, srq_namespace = ns, srq_name = nm, srq_spec = seg\<rparr>)))
   \<and> emits (ReconcileRuntimeSecurityPolicy N c i ns nm rt) (sends_only c ''POST'' ''/runtime-security-policies/reconcile''
     (Some (RuntimeBody \<lparr>rrq_clusterID = i, rrq_namespace = ns, rrq_name = nm, rrq_spec = rt\<rparr>)))
   \<and> emits (CloseCREdges N c k i ns nm) (sends_only c ''POST'' ''/cr-edges/close''
     (Some (CloseBody \<lparr>crq_crKind = k, crq_clusterID = i, crq_namespace = ns, crq_name = nm\<rparr>)))
   \<and> emits (SetPaused N c b who) (sends_only c ''PUT'' ''/paused'' (Some (PausedBody b who)))
   \<and> emits (GetPaused N c) (sends_only c ''GET'' ''/paused'' None)
   \<and> emits (GetProviderHealth N c i) (sends_only c ''GET'' (''/provider-health?cluster_id='' @ show_int64 i) None)"
  unfolding ReconcileSegmentationPolicy_def ReconcileRuntimeSecurityPolicy_def CloseCREdges_def
    SetPaused_def GetPaused_def GetProviderHealth_def MethodPost_def MethodPut_def MethodGet_def
  by (intro conjI client_do_sends)

end
