(* ===== verification/Utf8.thy ===== *)
theory Utf8
  imports GoStd
begin

text \<open>
  UTF-8 as \<open>unicode/utf8\<close> decodes it: every code point is decoded from its encoding, and what
  is decoded without an error is an encoding. The texts of JSON strings rest on it.
\<close>

subsection \<open>Code points\<close>

text \<open>Code points that have an encoding.\<close>

definition scalar :: "nat \<Rightarrow> bool" where
  "scalar r \<longleftrightarrow> r < 55296 \<or> 57344 \<le> r \<and> r < 1114112"

lemma scalar_rune_error [simp]: "scalar rune_error"
  by (simp add: scalar_def rune_error_def)

lemma cont_digit: "n < 64 \<Longrightarrow> cont (128 + n)"
  by (simp add: cont_def)

lemma base64_digits:
  fixes r :: nat
  shows "r div 64 * 64 + r mod 64 = r"
    and "r div 4096 * 4096 + r div 64 mod 64 * 64 + r mod 64 = r"
    and "r div 262144 * 262144 + r div 4096 mod 64 * 4096 + r div 64 mod 64 * 64 + r mod 64 = r"
proof -
  have two: "r div 4096 = r div 64 div 64" and three: "r div 262144 = r div 64 div 64 div 64"
    by (simp_all add: div_mult2_eq [symmetric])
  have r: "r div 64 * 64 + r mod 64 = r" and q: "r div 64 div 64 * 64 + r div 64 mod 64 = r div 64"
    and p: "r div 64 div 64 div 64 * 64 + r div 64 div 64 mod 64 = r div 64 div 64"
    by (rule div_mult_mod_eq)+
  show "r div 64 * 64 + r mod 64 = r" by (rule r)
  show "r div 4096 * 4096 + r div 64 mod 64 * 64 + r mod 64 = r"
    using r q unfolding two by linarith
  show "r div 262144 * 262144 + r div 4096 mod 64 * 4096 + r div 64 mod 64 * 64 + r mod 64 = r"
    using r q p unfolding two three by linarith
qed

lemma decode_encode:
  assumes "scalar r"
  shows "decode_rune (encode_rune r @ t) = (r, length (encode_rune r))"
proof -
  consider (one) "r < 128" | (two) "128 \<le> r" "r < 2048" | (three) "2048 \<le> r" "r < 65536"
    | (four) "65536 \<le> r" by linarith
  then show ?thesis
  proof cases
    case one
    then show ?thesis by (simp add: encode_rune_def decode_rune_def)
  next
    case two
    let ?a = "r div 64" and ?b = "r mod 64"
    have r: "?a * 64 + ?b = r" by (rule base64_digits)
    have "?b < 64" by simp
    with r two have "2 \<le> ?a" "?a < 32" "\<not> r < 128" by linarith+
    with two(2) r show ?thesis
      by (simp add: encode_rune_def decode_rune_def cont_digit)
  next
    case three
    let ?a = "r div 4096" and ?b = "r div 64 mod 64" and ?c = "r mod 64"
    have r: "?a * 4096 + ?b * 64 + ?c = r" by (rule base64_digits)
    have "?b < 64" "?c < 64" by simp_all
    with r three assms have "224 + ?a < 240" "?a = 0 \<longrightarrow> 32 \<le> ?b" "?a = 13 \<longrightarrow> ?b < 32"
      unfolding scalar_def by linarith+
    with three r show ?thesis
      by (simp add: encode_rune_def decode_rune_def cont_digit)
  next
    case four
    let ?a = "r div 262144" and ?b = "r div 4096 mod 64" and ?c = "r div 64 mod 64" and ?d = "r mod 64"
    have r: "?a * 262144 + ?b * 4096 + ?c * 64 + ?d = r" by (rule base64_digits)
    have "?b < 64" "?c < 64" "?d < 64" by simp_all
    with r four assms have "240 + ?a < 245" "?a = 0 \<longrightarrow> 16 \<le> ?b" "?a = 4 \<longrightarrow> ?b < 16"
      unfolding scalar_def by linarith+
    with four r show ?thesis
      by (simp add: encode_rune_def decode_rune_def cont_digit)
  qed
qed

lemma base64_unique:
  fixes a b c d :: nat
  assumes "b < 64" and "c < 64" and "d < 64"
  shows "(a * 64 + b) div 64 = a" "(a * 64 + b) mod 64 = b"
    "(a * 4096 + b * 64 + c) div 4096 = a" "(a * 4096 + b * 64 + c) div 64 mod 64 = b"
    "(a * 4096 + b * 64 + c) mod 64 = c"
    "(a * 262144 + b * 4096 + c * 64 + d) div 262144 = a"
    "(a * 262144 + b * 4096 + c * 64 + d) div 4096 mod 64 = b"
    "(a * 262144 + b * 4096 + c * 64 + d) div 64 mod 64 = c"
    "(a * 262144 + b * 4096 + c * 64 + d) mod 64 = d"
proof -
  have one: "(x * 64 + y) div 64 = x" "(x * 64 + y) mod 64 = y" if "y < 64" for x y :: nat
    using that by simp_all
  show "(a * 64 + b) div 64 = a" "(a * 64 + b) mod 64 = b" using one [OF assms(1)] by blast+
  have two: "a * 4096 + b * 64 + c = (a * 64 + b) * 64 + c" by simp
  have "x div 4096 = x div 64 div 64" for x :: nat by (simp add: div_mult2_eq [symmetric])
  then show "(a * 4096 + b * 64 + c) div 4096 = a" "(a * 4096 + b * 64 + c) div 64 mod 64 = b"
    "(a * 4096 + b * 64 + c) mod 64 = c"
    unfolding two by (simp_all only: one [OF assms(1)] one [OF assms(2)])
  have three: "a * 262144 + b * 4096 + c * 64 + d = ((a * 64 + b) * 64 + c) * 64 + d" by simp
  have "x div 262144 = x div 64 div 64 div 64" "x div 4096 = x div 64 div 64" for x :: nat
    by (simp_all add: div_mult2_eq [symmetric])
  then show "(a * 262144 + b * 4096 + c * 64 + d) div 262144 = a"
    "(a * 262144 + b * 4096 + c * 64 + d) div 4096 mod 64 = b"
    "(a * 262144 + b * 4096 + c * 64 + d) div 64 mod 64 = c"
    "(a * 262144 + b * 4096 + c * 64 + d) mod 64 = d"
    unfolding three
    by (simp_all only: one [OF assms(1)] one [OF assms(2)] one [OF assms(3)])
qed

text \<open>Conversely, what is decoded without an error is an encoding.\<close>

lemma contD: "cont b \<Longrightarrow> \<exists>n<64. b = 128 + n"
  by (intro exI [of _ "b - 128"]) (auto simp: cont_def)

lemma decode_two:
  assumes "194 \<le> b0" and "b0 < 224" and "cont b1" and "r = (b0 - 192) * 64 + (b1 - 128)"
  shows "scalar r \<and> encode_rune r = map byte [b0, b1]"
proof -
  obtain y where y: "b1 = 128 + y" "y < 64" using contD [OF assms(3)] by blast
  obtain x where x: "b0 = 192 + x" "2 \<le> x" "x < 32" using assms(1,2) by (intro that [of "b0 - 192"]) auto
  have r: "r = x * 64 + y" using assms(4) x y by simp
  have "128 \<le> r" "r < 2048" using r x y by linarith+
  moreover have "r div 64 = x" "r mod 64 = y" unfolding r using base64_unique(1,2) y(2) by blast+
  ultimately show ?thesis using x y by (simp add: encode_rune_def scalar_def)
qed

lemma decode_three:
  assumes "224 \<le> b0" and "b0 < 240" and "cont b1" and "cont b2"
    and "b0 = 224 \<longrightarrow> 160 \<le> b1" and "b0 = 237 \<longrightarrow> b1 < 160"
    and "r = (b0 - 224) * 4096 + (b1 - 128) * 64 + (b2 - 128)"
  shows "scalar r \<and> encode_rune r = map byte [b0, b1, b2]"
proof -
  obtain y where y: "b1 = 128 + y" "y < 64" using contD [OF assms(3)] by blast
  obtain z where z: "b2 = 128 + z" "z < 64" using contD [OF assms(4)] by blast
  obtain x where x: "b0 = 224 + x" "x < 16" using assms(1,2) by (intro that [of "b0 - 224"]) auto
  have r: "r = x * 4096 + y * 64 + z" using assms(7) x y z by simp
  have "x = 0 \<longrightarrow> 32 \<le> y" "x = 13 \<longrightarrow> y < 32" using assms(5,6) x(1) y(1) by auto
  with r x y z have "2048 \<le> r" "r < 65536" "x \<le> 13 \<longrightarrow> r < 55296" "14 \<le> x \<longrightarrow> 57344 \<le> r"
    by linarith+
  then have "2048 \<le> r" "r < 65536" "r < 55296 \<or> 57344 \<le> r" by linarith+
  moreover have "r div 4096 = x" "r div 64 mod 64 = y" "r mod 64 = z"
    unfolding r using base64_unique(3-5) y(2) z(2) by blast+
  ultimately show ?thesis using x y z by (simp add: encode_rune_def scalar_def)
qed

lemma decode_four:
  assumes "240 \<le> b0" and "b0 < 245" and "cont b1" and "cont b2" and "cont b3"
    and "b0 = 240 \<longrightarrow> 144 \<le> b1" and "b0 = 244 \<longrightarrow> b1 < 144"
    and "r = (b0 - 240) * 262144 + (b1 - 128) * 4096 + (b2 - 128) * 64 + (b3 - 128)"
  shows "scalar r \<and> encode_rune r = map byte [b0, b1, b2, b3]"
proof -
  obtain y where y: "b1 = 128 + y" "y < 64" using contD [OF assms(3)] by blast
  obtain z where z: "b2 = 128 + z" "z < 64" using contD [OF assms(4)] by blast
  obtain u where u: "b3 = 128 + u" "u < 64" using contD [OF assms(5)] by blast
  obtain x where x: "b0 = 240 + x" "x < 5" using assms(1,2) by (intro that [of "b0 - 240"]) auto
  have r: "r = x * 262144 + y * 4096 + z * 64 + u" using assms(8) x y z u by simp
  have "65536 \<le> r" "r < 1114112" using r x y z u assms(6,7) by linarith+
  moreover have "r div 262144 = x" "r div 4096 mod 64 = y" "r div 64 mod 64 = z" "r mod 64 = u"
    unfolding r using base64_unique(6-9) y(2) z(2) u(2) by blast+
  ultimately show ?thesis using x y z u by (simp add: encode_rune_def scalar_def)
qed

lemma decode_valid:
  assumes "decode_rune (c # s) = (r, w)" and "\<not> (w = 1 \<and> r = rune_error)"
  shows "scalar r \<and> take w (c # s) = encode_rune r \<and> 0 < w"
proof -
  let ?b0 = "code c"
  have ok: "decode_rune (c # s) \<noteq> (rune_error, 1)" using assms by auto
  consider (one) "?b0 < 128" | (two) "194 \<le> ?b0" "?b0 < 224" | (three) "224 \<le> ?b0" "?b0 < 240"
    | (four) "240 \<le> ?b0" "?b0 < 245" | (bad) "128 \<le> ?b0" "?b0 < 194 \<or> 245 \<le> ?b0" by linarith
  then show ?thesis
  proof cases
    case one
    with assms(1) show ?thesis by (auto simp: decode_rune_def encode_rune_def scalar_def)
  next
    case two
    with ok obtain c1 t where s: "s = c1 # t" "cont (code c1)"
      by (cases s) (auto simp: decode_rune_def split: if_splits)
    with two assms(1) decode_two [OF two s(2) refl] show ?thesis by (auto simp: decode_rune_def)
  next
    case three
    with ok obtain c1 c2 t where s: "s = c1 # c2 # t" and lead: "cont (code c1)" "cont (code c2)"
        "?b0 = 224 \<longrightarrow> 160 \<le> code c1" "?b0 = 237 \<longrightarrow> code c1 < 160"
      by (cases s rule: remdups_adj.cases) (auto simp: decode_rune_def split: if_splits)
    with three assms(1) decode_three [OF three lead refl] show ?thesis by (auto simp: decode_rune_def)
  next
    case four
    with ok obtain c1 c2 c3 t where s: "s = c1 # c2 # c3 # t"
      and lead: "cont (code c1)" "cont (code c2)" "cont (code c3)"
        "?b0 = 240 \<longrightarrow> 144 \<le> code c1" "?b0 = 244 \<longrightarrow> code c1 < 144"
      by (cases s rule: remdups_adj.cases; cases "drop 2 s")
        (auto simp: decode_rune_def split: if_splits)
    with four assms(1) decode_four [OF four lead refl] show ?thesis by (auto simp: decode_rune_def)
  next
    case bad
    then have "\<not> ?b0 < 128" "\<not> (194 \<le> ?b0 \<and> ?b0 < 224)" "\<not> (224 \<le> ?b0 \<and> ?b0 < 240)"
      "\<not> (240 \<le> ?b0 \<and> ?b0 < 245)" by linarith+
    then have "decode_rune (c # s) = (rune_error, 1)" unfolding decode_rune_def by auto
    with ok show ?thesis by simp
  qed
qed

end
