(* ===== verification/Marshal.thy ===== *)
theory Marshal
  imports Wire Utf8 "HOL-Library.Char_ord" "HOL-Library.List_Lexorder"
begin

text \<open>
  The writing half of \<open>encoding/json\<close> on the request bodies of
  \<open>internal/backendclient/client.go\<close>: \<open>json.Marshal\<close> of the four body types with the keys of
  their tags, and the round trip: what the text parses to.
\<close>

subsection \<open>Strings\<close>

text \<open>
  \<open>appendString\<close> with HTML escaping on, as \<open>json.Marshal\<close> calls it: one code point, and a
  string, where a byte that is not UTF-8 is written as the replacement character.
\<close>

definition json_rune :: "nat \<Rightarrow> string" where
  "json_rune r =
     (if r = 34 \<or> r = 92 then [byte 92, byte r]
      else if r = 8 then [byte 92, CHR ''b'']
      else if r = 12 then [byte 92, CHR ''f'']
      else if r = 10 then [byte 92, CHR ''n'']
      else if r = 13 then [byte 92, CHR ''r'']
      else if r = 9 then [byte 92, CHR ''t'']
      else if r < 32 \<or> r \<in> {60, 62, 38, 8232, 8233} then [byte 92, CHR ''u''] @ show_hex 4 r
      else encode_rune r)"

function json_chars :: "string \<Rightarrow> string" where
  "json_chars s = (case s of [] \<Rightarrow> []
     | c # _ \<Rightarrow> (case decode_rune s of (r, w) \<Rightarrow>
         if w = 1 \<and> r = rune_error
         then [byte 92, CHR ''u''] @ show_hex 4 rune_error @ json_chars (drop 1 s)
         else json_rune r @ json_chars (drop (max 1 w) s)))"
  by pat_completeness auto
termination
  by (relation "measure length") auto

declare json_chars.simps [simp del]

definition json_string :: "string \<Rightarrow> string" where
  "json_string s = dquote @ json_chars s @ dquote"

text \<open>What is left of a string: every byte that is not UTF-8 replaced.\<close>

function to_valid :: "string \<Rightarrow> string" where
  "to_valid s = (case s of [] \<Rightarrow> []
     | c # _ \<Rightarrow> (case decode_rune s of (r, w) \<Rightarrow>
         if w = 1 \<and> r = rune_error then encode_rune rune_error @ to_valid (drop 1 s)
         else take w s @ to_valid (drop (max 1 w) s)))"
  by pat_completeness auto
termination
  by (relation "measure length") auto

declare to_valid.simps [simp del]

text \<open>Hexadecimal digits are read back.\<close>

lemma hex_val_digit: "n < 16 \<Longrightarrow> hex_val (hex_digit n) = Some n"
  by (simp add: hex_digit_def hex_val_def Let_def)

lemma hex4_show: "r < 65536 \<Longrightarrow> hex4 (show_hex 4 r @ t) = Some (r, t)"
proof -
  assume r: "r < 65536"
  have four: "(4::nat) = Suc (Suc (Suc (Suc 0)))" by simp
  have "r div 16 div 16 div 16 mod 16 * 4096 + r div 16 div 16 mod 16 * 256 + r div 16 mod 16 * 16 + r mod 16 = r"
  proof -
    have "r div 16 * 16 + r mod 16 = r" "r div 16 div 16 * 16 + r div 16 mod 16 = r div 16"
      "r div 16 div 16 div 16 * 16 + r div 16 div 16 mod 16 = r div 16 div 16"
      by (rule div_mult_mod_eq)+
    moreover have "r div 16 div 16 div 16 mod 16 = r div 16 div 16 div 16"
      using r by (simp add: div_mult2_eq [symmetric] mod_less)
    ultimately show ?thesis by linarith
  qed
  then show ?thesis by (simp add: four hex_val_digit)
qed

lemma unicode_escape_show:
  "r < 55296 \<or> 57344 \<le> r \<and> r < 65536 \<Longrightarrow> unicode_escape (show_hex 4 r @ t) = Some (encode_rune r, t)"
  by (auto simp: unicode_escape_def hex4_show)

text \<open>Every written code point is read back.\<close>

lemma json_bytes:
  "CHR 0x5C = byte 92" "CHR 0x22 = byte 34" "CHR ''u'' = byte 117" "CHR ''b'' = byte 98"
  "CHR ''f'' = byte 102" "CHR ''n'' = byte 110" "CHR ''r'' = byte 114" "CHR ''t'' = byte 116"
  "CHR ''/'' = byte 47"
  by code_simp+

lemma byte_eq_iff: "m < 256 \<Longrightarrow> n < 256 \<Longrightarrow> byte m = byte n \<longleftrightarrow> m = n"
  by (metis code_byte)

lemma encode_rune_head:
  assumes "scalar r"
  obtains c u where "encode_rune r = c # u" and "code c = r \<and> r < 128 \<or> 128 \<le> r \<and> 194 \<le> code c"
proof -
  have "encode_rune r \<noteq> []" by (simp add: encode_rune_def)
  then obtain c u where cu: "encode_rune r = c # u" by (cases "encode_rune r") auto
  have "code c = r" if "r < 128" using that cu by (auto simp: encode_rune_def)
  moreover have "194 \<le> code c" if "128 \<le> r"
  proof -
    have "2 \<le> r div 64" using that by simp
    moreover have "r div 64 < 32" if "r < 2048" using that by auto
    moreover have "r div 4096 < 16" if "r < 65536" using that by auto
    moreover have "r div 262144 < 5" using assms unfolding scalar_def by auto
    ultimately show ?thesis using that cu
      by (auto simp: encode_rune_def split: if_splits)
  qed
  ultimately show thesis using that [OF cu] by (cases "r < 128") auto
qed

lemma string_piece_rune:
  assumes "scalar r"
  shows "string_piece (json_rune r @ t) = Some (encode_rune r, t)"
proof -
  have simple: "string_piece (byte 92 # byte e # t) = Some ([byte n], t)"
    if "simple_escape (byte e) = Some n" "e < 256" "e \<noteq> 117" for e n
    using that by (simp add: string_piece_def json_bytes byte_eq_iff)
  have escaped: "string_piece (byte 92 # byte 117 # show_hex 4 r @ t) = Some (encode_rune r, t)"
    if "r < 55296"
    using that by (simp add: string_piece_def json_bytes unicode_escape_show)
  have one: "encode_rune n = [byte n]" if "n < 128" for n using that by (simp add: encode_rune_def)
  have escapes: "simple_escape (byte 34) = Some 34" "simple_escape (byte 92) = Some 92"
    "simple_escape (byte 98) = Some 8" "simple_escape (byte 102) = Some 12"
    "simple_escape (byte 110) = Some 10" "simple_escape (byte 114) = Some 13"
    "simple_escape (byte 116) = Some 9"
    by (simp_all add: simple_escape_def json_bytes byte_eq_iff)
  consider (esc) "r \<in> {34, 92, 8, 12, 10, 13, 9}"
    | (hex) "r \<notin> {34, 92, 8, 12, 10, 13, 9}" "r < 32 \<or> r \<in> {60, 62, 38, 8232, 8233}"
    | (raw) "r \<notin> {34, 92, 8, 12, 10, 13, 9}" "\<not> (r < 32 \<or> r \<in> {60, 62, 38, 8232, 8233})" by blast
  then show ?thesis
  proof cases
    case esc
    then show ?thesis by (auto simp: json_rune_def json_bytes simple escapes one)
  next
    case hex
    then have "r < 55296" by auto
    with hex show ?thesis by (simp add: json_rune_def json_bytes escaped)
  next
    case raw
    then have rune: "json_rune r = encode_rune r" by (simp add: json_rune_def)
    obtain c u where c: "encode_rune r = c # u" "code c = r \<and> r < 128 \<or> 128 \<le> r \<and> 194 \<le> code c"
      by (rule encode_rune_head [OF assms])
    with raw have "\<not> code c < 32" "c \<noteq> byte 92" by auto
    moreover have "decode_rune (c # u @ t) = (r, length (encode_rune r))"
      using decode_encode [OF assms, of t] c(1) by simp
    ultimately show ?thesis
      unfolding rune by (simp add: string_piece_def json_bytes c(1))
  qed
qed

lemma json_rune_head:
  assumes "scalar r"
  shows "\<exists>c u. json_rune r = c # u \<and> c \<noteq> byte 34"
proof -
  obtain c u where "encode_rune r = c # u" "code c = r \<and> r < 128 \<or> 128 \<le> r \<and> 194 \<le> code c"
    by (rule encode_rune_head [OF assms])
  moreover from this have "r \<noteq> 34 \<Longrightarrow> c \<noteq> byte 34" by auto
  ultimately show ?thesis unfolding json_rune_def by (simp add: byte_eq_iff)
qed

lemma parse_string_step:
  "string_piece s = Some (p, t) \<Longrightarrow> s = c # u \<Longrightarrow> c \<noteq> byte 34 \<Longrightarrow>
   parse_string s = map_option (\<lambda>(q, v). (p @ q, v)) (parse_string t)"
  by (subst parse_string.simps) (simp add: json_bytes)

lemma parse_string_chars: "parse_string (json_chars s @ byte 34 # t) = Some (to_valid s, t)"
proof (induction s rule: json_chars.induct)
  case (1 s)
  show ?case
  proof (cases s)
    case Nil
    then show ?thesis
      by (simp add: json_chars.simps [of "[]"] to_valid.simps [of "[]"] parse_string.simps [of "_ # _"] json_bytes)
  next
    case (Cons c cs)
    obtain r w where rw: "decode_rune s = (r, w)" by (cases "decode_rune s")
    show ?thesis
    proof (cases "w = 1 \<and> r = rune_error")
      case True
      let ?rest = "json_chars (drop 1 s) @ byte 34 # t"
      have "string_piece (byte 92 # byte 117 # show_hex 4 rune_error @ ?rest) =
          Some (encode_rune rune_error, ?rest)"
        by (simp add: string_piece_def json_bytes unicode_escape_show rune_error_def)
      moreover have "json_chars s = byte 92 # byte 117 # show_hex 4 rune_error @ json_chars (drop 1 s)"
        using Cons rw True by (subst json_chars.simps) (simp add: json_bytes)
      moreover have "to_valid s = encode_rune rune_error @ to_valid (drop 1 s)"
        using Cons rw True by (subst to_valid.simps) simp
      ultimately show ?thesis
        using parse_string_step [OF _ refl, of "byte 92" _ _ ?rest] "1.IH"(1) [OF Cons rw [symmetric] True]
        by (simp add: byte_eq_iff)
    next
      case False
      let ?rest = "json_chars (drop (max 1 w) s) @ byte 34 # t"
      have valid: "scalar r" "take w s = encode_rune r" using decode_valid [of c cs r w] rw Cons False by auto
      obtain d u where "json_rune r = d # u" "d \<noteq> byte 34" using json_rune_head [OF valid(1)] by blast
      moreover have "json_chars s = json_rune r @ json_chars (drop (max 1 w) s)"
        using Cons rw False by (subst json_chars.simps) auto
      moreover have "to_valid s = encode_rune r @ to_valid (drop (max 1 w) s)"
        using Cons rw False valid(2) by (subst to_valid.simps) auto
      ultimately show ?thesis
        using parse_string_step [OF string_piece_rune [OF valid(1)], of ?rest d "u @ ?rest"]
          "1.IH"(2) [OF Cons rw [symmetric] False]
        by simp
    qed
  qed
qed

subsection \<open>Values\<close>

text \<open>The text of a value, without white space, members in the order given.\<close>

fun json_text :: "json \<Rightarrow> string" and elems_text :: "json list \<Rightarrow> string"
  and members_text :: "(string \<times> json) list \<Rightarrow> string" where
  "json_text JNull = ''null''"
| "json_text (JBool b) = show_bool b"
| "json_text (JNum l) = l"
| "json_text (JStr s) = json_string s"
| "json_text (JArr vs) = CHR ''['' # elems_text vs @ '']''"
| "json_text (JObj ms) = CHR 0x7B # members_text ms @ [CHR 0x7D]"
| "elems_text [] = []"
| "elems_text [v] = json_text v"
| "elems_text (v # w # vs) = json_text v @ '','' @ elems_text (w # vs)"
| "members_text [] = []"
| "members_text [(k, v)] = json_string k @ '':'' @ json_text v"
| "members_text ((k, v) # m # ms) = json_string k @ '':'' @ json_text v @ '','' @ members_text (m # ms)"

text \<open>What is read back: the same value, its strings made valid.\<close>

fun cleaned :: "json \<Rightarrow> json" and cleaned_elems :: "json list \<Rightarrow> json list"
  and cleaned_members :: "(string \<times> json) list \<Rightarrow> (string \<times> json) list" where
  "cleaned (JStr s) = JStr (to_valid s)"
| "cleaned (JArr vs) = JArr (cleaned_elems vs)"
| "cleaned (JObj ms) = JObj (cleaned_members ms)"
| "cleaned v = v"
| "cleaned_elems [] = []"
| "cleaned_elems (v # vs) = cleaned v # cleaned_elems vs"
| "cleaned_members [] = []"
| "cleaned_members ((k, v) # ms) = (to_valid k, cleaned v) # cleaned_members ms"

text \<open>How deep a value is nested, and that its numbers are integers.\<close>

fun depth :: "json \<Rightarrow> nat" and depth_elems :: "json list \<Rightarrow> nat"
  and depth_members :: "(string \<times> json) list \<Rightarrow> nat" where
  "depth (JArr vs) = Suc (depth_elems vs)"
| "depth (JObj ms) = Suc (depth_members ms)"
| "depth v = 0"
| "depth_elems [] = 0"
| "depth_elems (v # vs) = max (depth v) (depth_elems vs)"
| "depth_members [] = 0"
| "depth_members ((k, v) # ms) = max (depth v) (depth_members ms)"

fun integral :: "json \<Rightarrow> bool" and integral_elems :: "json list \<Rightarrow> bool"
  and integral_members :: "(string \<times> json) list \<Rightarrow> bool" where
  "integral (JNum l) = (\<exists>i. l = show_int i)"
| "integral (JArr vs) = integral_elems vs"
| "integral (JObj ms) = integral_members ms"
| "integral v = True"
| "integral_elems [] = True"
| "integral_elems (v # vs) = (integral v \<and> integral_elems vs)"
| "integral_members [] = True"
| "integral_members ((k, v) # ms) = (integral v \<and> integral_members ms)"

definition delimited :: "string \<Rightarrow> bool" where
  "delimited s \<longleftrightarrow> (case s of [] \<Rightarrow> True | c # _ \<Rightarrow> c \<in> {CHR '','', CHR '']'', CHR 0x7D})"

lemma json_codes:
  "code CHR ''['' = 91" "code CHR '']'' = 93" "code CHR 0x7B = 123" "code CHR 0x7D = 125"
  "code CHR '','' = 44" "code CHR '':'' = 58" "code CHR ''n'' = 110" "code CHR ''t'' = 116"
  "code CHR ''f'' = 102" "code CHR ''-'' = 45" "code CHR 0x22 = 34" "code CHR ''0'' = 48"
  by code_simp+

lemma expect_head: "code c \<notin> {32, 9, 13, 10} \<Longrightarrow> expect x (c # u) = (if c = x then Some u else None)"
  by (simp add: expect_def)

lemma take_digits_all: "list_all is_digit ds \<Longrightarrow> delimited t \<Longrightarrow> take_digits (ds @ t) = (ds, t)"
proof (induction ds)
  case Nil
  then show ?case by (cases t) (auto simp: delimited_def is_digit_def json_codes)
qed simp

lemma show_nat_digits: "list_all is_digit (show_nat n)"
proof (induction n rule: show_nat.induct)
  case (1 n)
  then show ?case by (subst show_nat.simps) (auto simp: list_all_iff is_digit_def)
qed

lemma show_nat_leading: "0 < n \<Longrightarrow> hd (show_nat n) \<noteq> CHR ''0''"
proof (induction n rule: show_nat.induct)
  case (1 n)
  have "hd (show_nat n) = (if n < 10 then byte (48 + n) else hd (show_nat (n div 10)))"
    by (subst show_nat.simps) (simp add: show_nat_not_Nil)
  moreover have "code (byte (48 + n)) \<noteq> 48" if "n < 10" using that 1 by simp
  then have "byte (48 + n) \<noteq> CHR ''0''" if "n < 10" using that json_codes(12) by metis
  ultimately show ?case using 1 by (cases "n < 10") auto
qed

lemma parse_number_int:
  assumes "delimited t"
  shows "parse_number (show_int i @ t) = Some (show_int i, t)"
proof -
  let ?n = "nat \<bar>i\<bar>" and ?sg = "if i < 0 then [byte 45] else []"
  have minus: "byte 45 = CHR ''-''" by code_simp
  obtain c cs where hd: "show_nat ?n = c # cs" "48 \<le> code c" using show_nat_hd by blast
  then have "c \<noteq> CHR ''-''" using json_codes(10) by auto
  then have sign: "parse_sign (show_int i @ t) = (?sg, show_nat ?n @ t)"
    using hd(1) by (simp add: parse_sign_def show_int_def minus)
  have digits: "take_digits (show_nat ?n @ t) = (show_nat ?n, t)"
    by (rule take_digits_all [OF show_nat_digits assms])
  have "\<not> (hd (show_nat ?n) = CHR ''0'' \<and> tl (show_nat ?n) \<noteq> [])"
  proof (cases "?n = 0")
    case True
    then show ?thesis by (simp add: show_nat.simps [of 0])
  qed (use show_nat_leading [of ?n] in blast)
  moreover have "parse_frac t = Some ([], t)" "parse_exp t = Some ([], t)"
    using assms by (auto simp: parse_frac_def parse_exp_def delimited_def split: list.split)
  ultimately show ?thesis
    unfolding parse_number_def sign prod.case digits
    by (simp add: show_nat_not_Nil show_int_def)
qed

text \<open>How the text of a value begins: no white space, no closing bracket, no comma.\<close>

definition opens :: "char \<Rightarrow> bool" where
  "opens c \<longleftrightarrow> code c \<in> {91, 123, 34, 110, 116, 102, 45} \<or> is_digit c"

lemma opens_expect: "opens c \<Longrightarrow> expect x (c # u) = (if c = x then Some u else None)"
  by (rule expect_head) (auto simp: opens_def is_digit_def)

lemma opens_not: "opens c \<Longrightarrow> c \<noteq> CHR '']'' \<and> c \<noteq> CHR 0x7D \<and> c \<noteq> CHR '',''"
  using json_codes by (auto simp: opens_def is_digit_def)

lemma show_int_head: "\<exists>c u. show_int i = c # u \<and> (code c = 45 \<or> is_digit c)"
proof -
  obtain c cs where "show_nat (nat \<bar>i\<bar>) = c # cs" "48 \<le> code c" "code c \<le> 57" using show_nat_hd by blast
  then show ?thesis by (auto simp: show_int_def is_digit_def)
qed

lemma json_text_head: "integral v \<Longrightarrow> \<exists>c u. json_text v = c # u \<and> opens c"
proof (cases v)
  case (JNum l)
  assume "integral v"
  with JNum obtain i where "l = show_int i" by auto
  with JNum show_int_head [of i] show ?thesis by (auto simp: opens_def)
qed (auto simp: opens_def json_codes show_bool_def json_string_def dquote_def)

lemma scalar_text:
  assumes "delimited t" and "integral v" and "depth v = 0"
  shows "parse_scalar (json_text v @ t) = Some (cleaned v, t)"
proof (cases v)
  case JNull
  then show ?thesis by (simp add: parse_scalar_def json_codes literal_def)
next
  case (JBool b)
  then show ?thesis by (simp add: parse_scalar_def json_codes literal_def show_bool_def)
next
  case (JNum l)
  with assms(2) obtain i where l: "l = show_int i" by auto
  obtain c u where c: "show_int i = c # u" "code c = 45 \<or> is_digit c" using show_int_head by blast
  then have "code c \<notin> {32, 9, 13, 10}" "c \<noteq> CHR 0x22" "c \<noteq> CHR ''n''" "c \<noteq> CHR ''t''" "c \<noteq> CHR ''f''"
    using json_codes by (auto simp: is_digit_def)
  with parse_number_int [OF assms(1), of i] c JNum l show ?thesis
    by (simp add: parse_scalar_def)
next
  case (JStr s)
  then show ?thesis
    using parse_string_chars [of s t]
    by (simp add: parse_scalar_def json_string_def dquote_def json_bytes)
qed (use assms(3) in simp_all)

lemma parse_key_text: "parse_key (json_string k @ '':'' @ t) = Some (to_valid k, t)"
proof -
  have q: "expect CHR 0x22 (byte 34 # u) = Some u" for u
    by (simp add: expect_head json_bytes)
  have colon: "expect CHR '':'' (CHR '':'' # t) = Some t" by (simp add: expect_head json_codes)
  show ?thesis
    using parse_string_chars [of k "CHR '':'' # t"]
    by (simp add: parse_key_def json_string_def dquote_def q colon)
qed

subsection \<open>The round trip\<close>

text \<open>
  \<open>reads p s x t\<close>: with enough fuel the parser \<open>p\<close> reads \<open>x\<close> off \<open>s\<close> and leaves \<open>t\<close>.
\<close>

definition reads :: "(nat \<Rightarrow> string \<Rightarrow> ('a \<times> string) option) \<Rightarrow> string \<Rightarrow> 'a \<Rightarrow> string \<Rightarrow> bool" where
  "reads p s x t \<longleftrightarrow> (\<exists>N. \<forall>n\<ge>N. p n s = Some (x, t))"

lemma reads_Suc: "(\<And>n. N \<le> n \<Longrightarrow> p (Suc n) s = Some (x, t)) \<Longrightarrow> reads p s x t"
  unfolding reads_def by (rule exI [of _ "Suc N"]) (metis Suc_le_D Suc_le_mono)

lemma reads_array:
  assumes "vs \<noteq> []" and "integral_elems vs"
    and "reads (parse_elems d) (elems_text vs @ CHR '']'' # t) xs t"
  shows "reads (parse_value (Suc d)) (json_text (JArr vs) @ t) (JArr xs) t"
proof -
  from assms(1) obtain v ws where vs: "vs = v # ws" by (cases vs) auto
  with json_text_head [of v] assms(2) obtain c u where c: "elems_text vs = c # u" "opens c"
    by (cases ws) auto
  from assms(3) obtain N where N: "\<forall>n\<ge>N. parse_elems d n (elems_text vs @ CHR '']'' # t) = Some (xs, t)"
    unfolding reads_def by blast
  have "expect CHR '']'' (elems_text vs @ CHR '']'' # t) = None"
    using c opens_not by (simp add: opens_expect)
  then show ?thesis
    by (intro reads_Suc [of N]) (simp add: expect_head json_codes N)
qed

lemma reads_object:
  assumes "ms \<noteq> []"
    and "reads (parse_members d) (members_text ms @ CHR 0x7D # t) xs t"
  shows "reads (parse_value (Suc d)) (json_text (JObj ms) @ t) (JObj xs) t"
proof -
  from assms(1) obtain k v ws where ms: "ms = (k, v) # ws" by (cases ms) auto
  then obtain u where u: "members_text ms = byte 34 # u"
    by (cases ws) (auto simp: json_string_def dquote_def)
  from assms(2) obtain N where N: "\<forall>n\<ge>N. parse_members d n (members_text ms @ CHR 0x7D # t) = Some (xs, t)"
    unfolding reads_def by blast
  have "CHR 0x7D \<noteq> byte 34" by code_simp
  then have "expect CHR 0x7D (members_text ms @ CHR 0x7D # t) = None"
    by (auto simp: u expect_head)
  then show ?thesis
    by (intro reads_Suc [of N]) (simp add: expect_head json_codes N)
qed

lemma reads_scalar:
  assumes "delimited t" and "integral v" and "depth v = 0"
  shows "reads (parse_value d) (json_text v @ t) (cleaned v) t"
proof -
  obtain c u where c: "json_text v = c # u" "opens c" using json_text_head [OF assms(2)] by blast
  have "c \<noteq> CHR ''['' \<and> c \<noteq> CHR 0x7B"
  proof (cases v)
    case (JNum l)
    with assms(2) obtain i where "l = show_int i" by auto
    with JNum c(1) show_int_head [of i] have "code c = 45 \<or> is_digit c" by auto
    then show ?thesis using json_codes by (auto simp: is_digit_def)
  next
    case (JStr s)
    with c(1) have "code c = 34" by (auto simp: json_string_def dquote_def)
    then show ?thesis using json_codes by auto
  qed (use c(1) assms(3) in \<open>auto simp: show_bool_def split: if_splits\<close>)
  then show ?thesis
    using scalar_text [OF assms] c
    by (intro reads_Suc [of 0]) (simp add: opens_expect)
qed

lemma reads_elems:
  assumes "reads (parse_value d) (json_text v @ s) x s"
    and "expect CHR '']'' s = Some t \<and> xs = [] \<or>
      expect CHR '']'' s = None \<and> expect CHR '','' s = Some u \<and> reads (parse_elems d) u xs t"
  shows "reads (parse_elems d) (json_text v @ s) (x # xs) t"
proof -
  from assms(1) obtain N where N: "\<forall>n\<ge>N. parse_value d n (json_text v @ s) = Some (x, s)"
    unfolding reads_def by blast
  from assms(2) show ?thesis
  proof
    assume "expect CHR '']'' s = Some t \<and> xs = []"
    with N show ?thesis by (intro reads_Suc [of N]) simp
  next
    assume more: "expect CHR '']'' s = None \<and> expect CHR '','' s = Some u \<and> reads (parse_elems d) u xs t"
    then obtain M where "\<forall>n\<ge>M. parse_elems d n u = Some (xs, t)" unfolding reads_def by blast
    with more N show ?thesis by (intro reads_Suc [of "max N M"]) simp
  qed
qed

lemma reads_members:
  assumes "reads (parse_value d) (json_text v @ s) x s"
    and "expect CHR 0x7D s = Some t \<and> xs = [] \<or>
      expect CHR 0x7D s = None \<and> expect CHR '','' s = Some u \<and> reads (parse_members d) u xs t"
  shows "reads (parse_members d) (json_string k @ '':'' @ json_text v @ s) ((to_valid k, x) # xs) t"
proof -
  from assms(1) obtain N where N: "\<forall>n\<ge>N. parse_value d n (json_text v @ s) = Some (x, s)"
    unfolding reads_def by blast
  note key = parse_key_text [of k "json_text v @ s", simplified]
  from assms(2) show ?thesis
  proof
    assume "expect CHR 0x7D s = Some t \<and> xs = []"
    with N key show ?thesis by (intro reads_Suc [of N]) simp
  next
    assume more: "expect CHR 0x7D s = None \<and> expect CHR '','' s = Some u \<and> reads (parse_members d) u xs t"
    then obtain M where "\<forall>n\<ge>M. parse_members d n u = Some (xs, t)" unfolding reads_def by blast
    with more N key show ?thesis by (intro reads_Suc [of "max N M"]) simp
  qed
qed

lemma json_text_reads:
  shows "integral v \<Longrightarrow> depth v \<le> d \<Longrightarrow> delimited t \<Longrightarrow>
      reads (parse_value d) (json_text v @ t) (cleaned v) t"
    and "integral_elems vs \<Longrightarrow> depth_elems vs \<le> d \<Longrightarrow> vs \<noteq> [] \<Longrightarrow>
      reads (parse_elems d) (elems_text vs @ CHR '']'' # t) (cleaned_elems vs) t"
    and "integral_members ms \<Longrightarrow> depth_members ms \<le> d \<Longrightarrow> ms \<noteq> [] \<Longrightarrow>
      reads (parse_members d) (members_text ms @ CHR 0x7D # t) (cleaned_members ms) t"
proof (induction v and vs and ms arbitrary: d t and d t and d t
    rule: json_text_elems_text_members_text.induct)
  case (5 vs)
  from "5.prems"(2) obtain e where e: "d = Suc e" "depth_elems vs \<le> e" by (cases d) auto
  show ?case
  proof (cases "vs = []")
    case True
    then show ?thesis
      by (intro reads_Suc [of 0]) (simp add: e(1) expect_head json_codes)
  next
    case False
    with "5.IH" [of e t] "5.prems" e reads_array [OF False] show ?thesis by simp
  qed
next
  case (6 ms)
  from "6.prems"(2) obtain e where e: "d = Suc e" "depth_members ms \<le> e" by (cases d) auto
  show ?case
  proof (cases "ms = []")
    case True
    then show ?thesis
      by (intro reads_Suc [of 0]) (simp add: e(1) expect_head json_codes)
  next
    case False
    with "6.IH" [of e t] "6.prems" e reads_object [OF False] show ?thesis by simp
  qed
next
  case (8 v)
  have "reads (parse_value d) (json_text v @ CHR '']'' # t) (cleaned v) (CHR '']'' # t)"
    using 8 by (intro "8.IH") (simp_all add: delimited_def)
  from reads_elems [OF this] show ?case by (simp add: expect_head json_codes)
next
  case (9 v w vs)
  let ?s = "CHR '','' # elems_text (w # vs) @ CHR '']'' # t"
  have "reads (parse_value d) (json_text v @ ?s) (cleaned v) ?s"
    using 9 by (intro "9.IH"(1)) (simp_all add: delimited_def)
  moreover have "reads (parse_elems d) (elems_text (w # vs) @ CHR '']'' # t) (cleaned_elems (w # vs)) t"
    using 9 by (intro "9.IH"(2)) simp_all
  ultimately show ?case using reads_elems [of d v ?s "cleaned v"] by (simp add: expect_head json_codes)
next
  case (11 k v)
  have "reads (parse_value d) (json_text v @ CHR 0x7D # t) (cleaned v) (CHR 0x7D # t)"
    using 11 by (intro "11.IH") (simp_all add: delimited_def)
  from reads_members [OF this] show ?case by (simp add: expect_head json_codes)
next
  case (12 k v m ms)
  let ?s = "CHR '','' # members_text (m # ms) @ CHR 0x7D # t"
  have "reads (parse_value d) (json_text v @ ?s) (cleaned v) ?s"
    using 12 by (intro "12.IH"(1)) (simp_all add: delimited_def)
  moreover have "reads (parse_members d) (members_text (m # ms) @ CHR 0x7D # t) (cleaned_members (m # ms)) t"
    using 12 by (intro "12.IH"(2)) simp_all
  ultimately show ?case using reads_members [of d v ?s "cleaned v"] by (simp add: expect_head json_codes)
qed (simp_all only: reads_scalar depth.simps json_text.simps [symmetric], simp_all)

lemma json_parse_text:
  assumes "integral v" and "depth v \<le> 10000"
  shows "json_parse (json_text v) = Some (cleaned v)"
proof -
  have "delimited []" by (simp add: delimited_def)
  from json_text_reads(1) [OF assms this] obtain N where
    N: "\<forall>n\<ge>N. parse_value 10000 n (json_text v) = Some (cleaned v, [])"
    unfolding reads_def by auto
  let ?enough = "2 * length (json_text v) + 1"
  have "parse_value 10000 ?enough (json_text v) = parse_value 10000 (max N ?enough) (json_text v)"
    by (rule parse_fuel_enough [symmetric]) simp
  with N have "parse_value 10000 ?enough (json_text v) = Some (cleaned v, [])" by simp
  then show ?thesis by (simp add: json_parse_def)
qed

subsection \<open>The request bodies\<close>

text \<open>
  The values of the body types, member by member with the names of their tags: a nil map or
  slice is null, and the keys of a map are sorted by their bytes. (A Go map is finite; the keys
  of an infinite one would be taken for none.)
\<close>

definition int64_json :: "int64 \<Rightarrow> json" where "int64_json w = JNum (show_int (sint w))"

definition ports_json :: "32 word list option \<Rightarrow> json" where
  "ports_json ps = (case ps of None \<Rightarrow> JNull | Some xs \<Rightarrow> JArr (map (\<lambda>p. JNum (show_int (sint p))) xs))"

definition strings_json :: "string list option \<Rightarrow> json" where
  "strings_json ss = (case ss of None \<Rightarrow> JNull | Some xs \<Rightarrow> JArr (map JStr xs))"

definition labels_json :: "labels option \<Rightarrow> json" where
  "labels_json ls = (case ls of None \<Rightarrow> JNull
     | Some m \<Rightarrow> JObj (map (\<lambda>k. (k, JStr (the (m k)))) (sorted_list_of_set (dom m))))"

definition selector_json :: "WorkloadSelector \<Rightarrow> json" where
  "selector_json s = JObj [(''matchLabels'', labels_json (matchLabels s))]"

definition rule_json :: "WireSegmentationRule \<Rightarrow> json" where
  "rule_json r = JObj [(''ports'', ports_json (w_ports r)),
     (''peerSelector'', labels_json (w_peerSelector r)), (''peerNamespace'', JStr (w_peerNamespace r))]"

definition rules_json :: "WireSegmentationRule list option \<Rightarrow> json" where
  "rules_json rs = (case rs of None \<Rightarrow> JNull | Some xs \<Rightarrow> JArr (map rule_json xs))"

definition seg_spec_json :: "WireSegmentationPolicySpec \<Rightarrow> json" where
  "seg_spec_json s = JObj [(''selector'', selector_json (ws_selector s)),
     (''ingress'', rules_json (ws_ingress s)), (''egress'', rules_json (ws_egress s)),
     (''providerRef'', JStr (ws_providerRef s))]"

definition rt_spec_json :: "WireRuntimeSecurityPolicySpec \<Rightarrow> json" where
  "rt_spec_json s = JObj [(''selector'', selector_json (wr_selector s)),
     (''tracingPolicyRef'', JStr (wr_tracingPolicyRef s)),
     (''deniedBinaries'', strings_json (wr_deniedBinaries s))]"

fun body_json :: "request_body \<Rightarrow> json" where
  "body_json (SegmentationBody b) = JObj [(''cluster_id'', int64_json (srq_clusterID b)),
     (''namespace'', JStr (srq_namespace b)), (''name'', JStr (srq_name b)),
     (''spec'', seg_spec_json (srq_spec b))]"
| "body_json (RuntimeBody b) = JObj [(''cluster_id'', int64_json (rrq_clusterID b)),
     (''namespace'', JStr (rrq_namespace b)), (''name'', JStr (rrq_name b)),
     (''spec'', rt_spec_json (rrq_spec b))]"
| "body_json (CloseBody b) = JObj [(''cr_kind'', JStr (crq_crKind b)),
     (''cluster_id'', int64_json (crq_clusterID b)), (''namespace'', JStr (crq_namespace b)),
     (''name'', JStr (crq_name b))]"
| "body_json (PausedBody paused by') = JObj [(''paused'', JBool paused), (''by'', JStr by')]"

text \<open>\<open>json.Marshal\<close> of a body: the text that is sent.\<close>

definition marshal_body :: "request_body \<Rightarrow> string" where
  "marshal_body b = json_text (body_json b)"

lemma elems_of_scalars:
  "(\<And>x. integral (f x)) \<Longrightarrow> integral_elems (map f xs)"
  "(\<And>x. depth (f x) \<le> d) \<Longrightarrow> depth_elems (map f xs) \<le> d"
  "integral_members (map (\<lambda>k. (k, JStr (g k))) ks)" "depth_members (map (\<lambda>k. (k, JStr (g k))) ks) = 0"
  by (induction xs; simp)+ (induction ks; simp)+

lemma integral_int [simp]: "integral (JNum (show_int i))"
  by auto

declare integral.simps(1) [simp del]

lemma body_parts:
  "integral (int64_json w)" "depth (int64_json w) = 0"
  "integral (ports_json ps)" "depth (ports_json ps) \<le> 1"
  "integral (strings_json ss)" "depth (strings_json ss) \<le> 1"
  "integral (labels_json ls)" "depth (labels_json ls) \<le> 1"
  using elems_of_scalars(2) [of "\<lambda>p. JNum (show_int (sint p))" 0] elems_of_scalars(2) [of JStr 0]
  by (auto simp: int64_json_def ports_json_def strings_json_def labels_json_def elems_of_scalars
      split: option.split)

lemma rule_parts: "integral (rule_json r)" "depth (rule_json r) \<le> 2"
  using body_parts(4) [of "w_ports r"] body_parts(8) [of "w_peerSelector r"]
  by (simp_all add: rule_json_def body_parts)

lemma rules_parts: "integral (rules_json rs)" "depth (rules_json rs) \<le> 3"
  using elems_of_scalars(2) [of rule_json 2]
  by (auto simp: rules_json_def elems_of_scalars rule_parts split: option.split)

lemma spec_parts:
  "integral (seg_spec_json s)" "depth (seg_spec_json s) \<le> 4"
  "integral (rt_spec_json t)" "depth (rt_spec_json t) \<le> 4"
  using rules_parts(2) [of "ws_ingress s"] rules_parts(2) [of "ws_egress s"]
    body_parts(8) [of "matchLabels (ws_selector s)"] body_parts(8) [of "matchLabels (wr_selector t)"]
    body_parts(6) [of "wr_deniedBinaries t"]
  by (simp_all add: seg_spec_json_def rt_spec_json_def selector_json_def body_parts rules_parts)

lemma body_shape: "integral (body_json b)" "depth (body_json b) \<le> 5"
proof -
  show "integral (body_json b)" by (cases b) (simp_all add: body_parts spec_parts)
  show "depth (body_json b) \<le> 5"
  proof (cases b)
    case (SegmentationBody x)
    with spec_parts(2) [of "srq_spec x"] show ?thesis by (simp add: body_parts)
  next
    case (RuntimeBody x)
    with spec_parts(4) [of "rrq_spec x"] show ?thesis by (simp add: body_parts)
  qed (simp_all add: body_parts)
qed

lemma marshal_parse: "json_parse (marshal_body b) = Some (cleaned (body_json b))"
  unfolding marshal_body_def using body_shape [of b] by (intro json_parse_text) simp_all

end
