(* ===== verification/RequestBodies.thy ===== *)
theory RequestBodies
  imports Marshal Common
begin

text \<open>
  The requests as the control plane gets them. A decoder of the bodies, written from the interface
  alone (the names of the members, their types, null for nil), reads back from the text of a
  request body exactly the body that was sent. Every member is needed for that, under its own name.
\<close>

subsection \<open>A decoder of the request bodies\<close>

definition at_member :: "string \<Rightarrow> (json \<Rightarrow> 'a option) \<Rightarrow> json \<Rightarrow> 'a option" where
  "at_member k f v = (case v of JObj ms \<Rightarrow> Option.bind (map_of ms k) f | _ \<Rightarrow> None)"

fun read_string :: "json \<Rightarrow> string option" where
  "read_string (JStr s) = Some s"
| "read_string _ = None"

fun read_bool :: "json \<Rightarrow> bool option" where
  "read_bool (JBool b) = Some b"
| "read_bool _ = None"

fun read_int64 :: "json \<Rightarrow> int64 option" where
  "read_int64 (JNum l) = (case parse_int64 l of Inl _ \<Rightarrow> None | Inr n \<Rightarrow> Some n)"
| "read_int64 _ = None"

definition read_int32 :: "json \<Rightarrow> 32 word option" where
  "read_int32 v = Option.bind (read_int64 v) (\<lambda>n.
     if - (2 ^ 31) \<le> sint n \<and> sint n < 2 ^ 31 then Some (word_of_int (sint n)) else None)"

text \<open>Slices and maps: null is nil.\<close>

definition read_slice :: "(json \<Rightarrow> 'a option) \<Rightarrow> json \<Rightarrow> 'a list option option" where
  "read_slice f v = (case v of JNull \<Rightarrow> Some None | JArr vs \<Rightarrow> map_option Some (those (map f vs)) | _ \<Rightarrow> None)"

definition read_labels :: "json \<Rightarrow> labels option option" where
  "read_labels v = (case v of
       JNull \<Rightarrow> Some None
     | JObj ms \<Rightarrow> map_option (\<lambda>kvs. Some (map_of kvs))
         (those (map (\<lambda>(k, x). map_option (Pair k) (read_string x)) ms))
     | _ \<Rightarrow> None)"

definition read_selector :: "json \<Rightarrow> WorkloadSelector option" where
  "read_selector v = do {
     m \<leftarrow> at_member ''matchLabels'' read_labels v;
     Some \<lparr>matchLabels = m\<rparr>
   }"

definition read_rule :: "json \<Rightarrow> WireSegmentationRule option" where
  "read_rule v = do {
     ps \<leftarrow> at_member ''ports'' (read_slice read_int32) v;
     peers \<leftarrow> at_member ''peerSelector'' read_labels v;
     ns \<leftarrow> at_member ''peerNamespace'' read_string v;
     Some \<lparr>w_ports = ps, w_peerSelector = peers, w_peerNamespace = ns\<rparr>
   }"

definition read_seg_spec :: "json \<Rightarrow> WireSegmentationPolicySpec option" where
  "read_seg_spec v = do {
     sel \<leftarrow> at_member ''selector'' read_selector v;
     ins \<leftarrow> at_member ''ingress'' (read_slice read_rule) v;
     outs \<leftarrow> at_member ''egress'' (read_slice read_rule) v;
     prov \<leftarrow> at_member ''providerRef'' read_string v;
     Some \<lparr>ws_selector = sel, ws_ingress = ins, ws_egress = outs, ws_providerRef = prov\<rparr>
   }"

definition read_rt_spec :: "json \<Rightarrow> WireRuntimeSecurityPolicySpec option" where
  "read_rt_spec v = do {
     sel \<leftarrow> at_member ''selector'' read_selector v;
     tp \<leftarrow> at_member ''tracingPolicyRef'' read_string v;
     denied \<leftarrow> at_member ''deniedBinaries'' (read_slice read_string) v;
     Some \<lparr>wr_selector = sel, wr_tracingPolicyRef = tp, wr_deniedBinaries = denied\<rparr>
   }"

definition read_segmentation :: "json \<Rightarrow> segmentationReconcileRequest option" where
  "read_segmentation v = do {
     i \<leftarrow> at_member ''cluster_id'' read_int64 v;
     ns \<leftarrow> at_member ''namespace'' read_string v;
     nm \<leftarrow> at_member ''name'' read_string v;
     sp \<leftarrow> at_member ''spec'' read_seg_spec v;
     Some \<lparr>srq_clusterID = i, srq_namespace = ns, srq_name = nm, srq_spec = sp\<rparr>
   }"

definition read_runtime :: "json \<Rightarrow> runtimeSecurityReconcileRequest option" where
  "read_runtime v = do {
     i \<leftarrow> at_member ''cluster_id'' read_int64 v;
     ns \<leftarrow> at_member ''namespace'' read_string v;
     nm \<leftarrow> at_member ''name'' read_string v;
     sp \<leftarrow> at_member ''spec'' read_rt_spec v;
     Some \<lparr>rrq_clusterID = i, rrq_namespace = ns, rrq_name = nm, rrq_spec = sp\<rparr>
   }"

definition read_close :: "json \<Rightarrow> closeRequest option" where
  "read_close v = do {
     k \<leftarrow> at_member ''cr_kind'' read_string v;
     i \<leftarrow> at_member ''cluster_id'' read_int64 v;
     ns \<leftarrow> at_member ''namespace'' read_string v;
     nm \<leftarrow> at_member ''name'' read_string v;
     Some \<lparr>crq_crKind = k, crq_clusterID = i, crq_namespace = ns, crq_name = nm\<rparr>
   }"

definition read_paused :: "json \<Rightarrow> (bool \<times> string) option" where
  "read_paused v = do {
     p \<leftarrow> at_member ''paused'' read_bool v;
     who \<leftarrow> at_member ''by'' read_string v;
     Some (p, who)
   }"

subsection \<open>Bodies of UTF-8\<close>

text \<open>
  \<open>json.Marshal\<close> replaces bytes that are not UTF-8. The strings of a Kubernetes object have none,
  as they were read from JSON; and a Go map is finite.
\<close>

definition utf8 :: "string \<Rightarrow> bool" where "utf8 s \<longleftrightarrow> to_valid s = s"

definition utf8_labels :: "labels option \<Rightarrow> bool" where
  "utf8_labels ls = (case ls of None \<Rightarrow> True | Some m \<Rightarrow>
     finite (dom m) \<and> (\<forall>k v. m k = Some v \<longrightarrow> utf8 k \<and> utf8 v))"

definition utf8_rule :: "WireSegmentationRule \<Rightarrow> bool" where
  "utf8_rule r \<longleftrightarrow> utf8_labels (w_peerSelector r) \<and> utf8 (w_peerNamespace r)"

definition utf8_seg_spec :: "WireSegmentationPolicySpec \<Rightarrow> bool" where
  "utf8_seg_spec s \<longleftrightarrow> utf8_labels (matchLabels (ws_selector s)) \<and> utf8 (ws_providerRef s) \<and>
     list_all utf8_rule (elems (ws_ingress s)) \<and> list_all utf8_rule (elems (ws_egress s))"

definition utf8_rt_spec :: "WireRuntimeSecurityPolicySpec \<Rightarrow> bool" where
  "utf8_rt_spec s \<longleftrightarrow> utf8_labels (matchLabels (wr_selector s)) \<and> utf8 (wr_tracingPolicyRef s) \<and>
     list_all utf8 (elems (wr_deniedBinaries s))"

fun utf8_body :: "request_body \<Rightarrow> bool" where
  "utf8_body (SegmentationBody b) =
     (utf8 (srq_namespace b) \<and> utf8 (srq_name b) \<and> utf8_seg_spec (srq_spec b))"
| "utf8_body (RuntimeBody b) =
     (utf8 (rrq_namespace b) \<and> utf8 (rrq_name b) \<and> utf8_rt_spec (rrq_spec b))"
| "utf8_body (CloseBody b) = (utf8 (crq_crKind b) \<and> utf8 (crq_namespace b) \<and> utf8 (crq_name b))"
| "utf8_body (PausedBody p who) = utf8 who"

lemma to_valid_Nil: "to_valid [] = []"
  by (simp add: to_valid.simps [of "[]"])

lemma to_valid_ascii: "list_all (\<lambda>c. code c < 128) s \<Longrightarrow> to_valid s = s"
proof (induction s)
  case (Cons c s)
  then have "decode_rune (c # s) = (code c, 1)" and "code c \<noteq> rune_error"
    by (simp_all add: decode_rune_def rune_error_def)
  with Cons show ?case by (simp add: to_valid.simps [of "c # s"])
qed (rule to_valid_Nil)

lemma member_names:
  "to_valid ''cluster_id'' = ''cluster_id''" "to_valid ''namespace'' = ''namespace''"
  "to_valid ''name'' = ''name''" "to_valid ''spec'' = ''spec''" "to_valid ''cr_kind'' = ''cr_kind''"
  "to_valid ''paused'' = ''paused''" "to_valid ''by'' = ''by''" "to_valid ''selector'' = ''selector''"
  "to_valid ''ingress'' = ''ingress''" "to_valid ''egress'' = ''egress''"
  "to_valid ''providerRef'' = ''providerRef''" "to_valid ''tracingPolicyRef'' = ''tracingPolicyRef''"
  "to_valid ''deniedBinaries'' = ''deniedBinaries''" "to_valid ''matchLabels'' = ''matchLabels''"
  "to_valid ''ports'' = ''ports''" "to_valid ''peerSelector'' = ''peerSelector''"
  "to_valid ''peerNamespace'' = ''peerNamespace''"
  by (rule to_valid_ascii, simp)+

subsection \<open>Reading back, part by part\<close>

text \<open>\<open>reads_back f v x\<close>: the reader \<open>f\<close> takes \<open>x\<close> from the value \<open>v\<close> as it arrives.\<close>

definition reads_back :: "(json \<Rightarrow> 'a option) \<Rightarrow> json \<Rightarrow> 'a \<Rightarrow> bool" where
  "reads_back f v x \<longleftrightarrow> f (cleaned v) = Some x"

lemma cleaned_maps:
  "cleaned_elems vs = map cleaned vs" "cleaned_members ms = map (\<lambda>(k, v). (to_valid k, cleaned v)) ms"
  by (induction vs; simp) (induction ms; auto)

lemma those_map: "(\<And>x. x \<in> set xs \<Longrightarrow> f x = Some (g x)) \<Longrightarrow> those (map f xs) = Some (map g xs)"
  by (induction xs) auto

lemma read_string_back: "utf8 s \<Longrightarrow> reads_back read_string (JStr s) s"
  by (simp add: reads_back_def utf8_def)

lemma read_bool_back: "reads_back read_bool (JBool b) b"
  by (simp add: reads_back_def)

lemma read_int64_back: "reads_back read_int64 (int64_json w) w"
  using parse_int64_show [of w] by (simp add: reads_back_def int64_json_def show_int64_def)

lemma read_int32_back: "reads_back read_int32 (JNum (show_int (sint p))) p" for p :: "32 word"
proof -
  have bounds: "- (2 ^ 31) \<le> sint p" "sint p < 2 ^ 31"
    using sint_greater_eq [of p] sint_less [of p] by simp_all
  then have wide: "sint (word_of_int (sint p) :: int64) = sint p"
    unfolding sint_sbintrunc' by (intro signed_take_bit_int_eq_self) simp_all
  then have "read_int64 (JNum (show_int (sint p))) = Some (word_of_int (sint p))"
    using read_int64_back [of "word_of_int (sint p)"] by (simp add: reads_back_def int64_json_def)
  with bounds wide show ?thesis by (simp add: reads_back_def read_int32_def)
qed

lemma read_slice_back:
  assumes "\<And>x. x \<in> set (elems xs) \<Longrightarrow> reads_back f (j x) x"
  shows "reads_back (read_slice f) (case xs of None \<Rightarrow> JNull | Some ys \<Rightarrow> JArr (map j ys)) xs"
  using assms those_map [of "elems xs" "\<lambda>x. f (cleaned (j x))" id]
  by (auto simp: reads_back_def read_slice_def cleaned_maps elems_def comp_def split: option.split)

lemma read_labels_back:
  assumes "utf8_labels ls"
  shows "reads_back read_labels (labels_json ls) ls"
proof (cases ls)
  case None
  then show ?thesis by (simp add: reads_back_def labels_json_def read_labels_def)
next
  case (Some m)
  let ?ks = "sorted_list_of_set (dom m)"
  have fin: "finite (dom m)" and ok: "\<And>k. k \<in> dom m \<Longrightarrow> utf8 k \<and> utf8 (the (m k))"
    using assms Some by (auto simp: utf8_labels_def)
  have "those (map ((\<lambda>(k, x). map_option (Pair k) (read_string x)) \<circ> (\<lambda>(k, v). (to_valid k, cleaned v)) \<circ>
      (\<lambda>k. (k, JStr (the (m k))))) ?ks) = Some (map (\<lambda>k. (k, the (m k))) ?ks)"
    using ok fin by (intro those_map) (auto simp: utf8_def)
  moreover have "map_of (map (\<lambda>k. (k, the (m k))) ?ks) = m"
    using fin by (auto simp: map_of_map_restrict restrict_map_def fun_eq_iff dom_def)
  ultimately show ?thesis
    using Some by (simp add: reads_back_def labels_json_def read_labels_def cleaned_maps comp_assoc)
qed

lemmas read_backs = read_string_back read_bool_back read_int64_back read_int32_back read_slice_back
  read_labels_back

lemma at_member_back:
  "map_of (map (\<lambda>(k, v). (to_valid k, cleaned v)) ms) k = Some (cleaned v) \<Longrightarrow> reads_back f v x \<Longrightarrow>
   at_member k f (cleaned (JObj ms)) = Some x"
  by (simp add: at_member_def cleaned_maps reads_back_def)

lemma read_selector_back:
  "utf8_labels (matchLabels s) \<Longrightarrow> reads_back read_selector (selector_json s) s"
  using read_labels_back [of "matchLabels s"]
  by (simp add: reads_back_def read_selector_def selector_json_def at_member_def member_names)

lemma read_rule_back: "utf8_rule r \<Longrightarrow> reads_back read_rule (rule_json r) r"
  using read_labels_back [of "w_peerSelector r"] read_string_back [of "w_peerNamespace r"]
    read_slice_back [of "w_ports r" read_int32 "\<lambda>p. JNum (show_int (sint p))", OF read_int32_back]
  by (simp add: reads_back_def read_rule_def rule_json_def ports_json_def at_member_def member_names
      utf8_rule_def)

lemma read_rules_back:
  "list_all utf8_rule (elems rs) \<Longrightarrow> reads_back (read_slice read_rule) (rules_json rs) rs"
  unfolding rules_json_def by (rule read_slice_back) (auto simp: list_all_iff read_rule_back)

lemma read_strings_back:
  "list_all utf8 (elems ss) \<Longrightarrow> reads_back (read_slice read_string) (strings_json ss) ss"
  unfolding strings_json_def by (rule read_slice_back) (auto simp: list_all_iff read_string_back)

lemma read_seg_spec_back: "utf8_seg_spec s \<Longrightarrow> reads_back read_seg_spec (seg_spec_json s) s"
  using read_selector_back [of "ws_selector s"] read_rules_back [of "ws_ingress s"]
    read_rules_back [of "ws_egress s"] read_string_back [of "ws_providerRef s"]
  by (simp add: reads_back_def read_seg_spec_def seg_spec_json_def at_member_def member_names
      utf8_seg_spec_def)

lemma read_rt_spec_back: "utf8_rt_spec s \<Longrightarrow> reads_back read_rt_spec (rt_spec_json s) s"
  using read_selector_back [of "wr_selector s"] read_strings_back [of "wr_deniedBinaries s"]
    read_string_back [of "wr_tracingPolicyRef s"]
  by (simp add: reads_back_def read_rt_spec_def rt_spec_json_def at_member_def member_names
      utf8_rt_spec_def)

lemma read_body_back:
  "utf8_body (SegmentationBody b) \<Longrightarrow> reads_back read_segmentation (body_json (SegmentationBody b)) b"
  "utf8_body (RuntimeBody c) \<Longrightarrow> reads_back read_runtime (body_json (RuntimeBody c)) c"
  "utf8_body (CloseBody d) \<Longrightarrow> reads_back read_close (body_json (CloseBody d)) d"
  "utf8_body (PausedBody p who) \<Longrightarrow> reads_back read_paused (body_json (PausedBody p who)) (p, who)"
  using read_seg_spec_back [of "srq_spec b"] read_rt_spec_back [of "rrq_spec c"] read_int64_back
  by (simp_all add: reads_back_def read_segmentation_def read_runtime_def read_close_def
      read_paused_def at_member_def member_names utf8_def)

subsection \<open>Properties\<close>

text \<open>
  C28. From the text of every request body whose strings are UTF-8, the decoder reads back the
  body that was sent: the cluster, the namespace and the name, the kind of a close, the rules with
  their ports and peers in order, the labels, nil and empty told apart.
\<close>

theorem request_body_roundtrip:
  assumes "utf8_body b"
  shows "\<exists>v. json_parse (marshal_body b) = Some v \<and> (case b of
       SegmentationBody q \<Rightarrow> read_segmentation v = Some q
     | RuntimeBody q \<Rightarrow> read_runtime v = Some q
     | CloseBody q \<Rightarrow> read_close v = Some q
     | PausedBody paused who \<Rightarrow> read_paused v = Some (paused, who))"
proof (intro exI conjI, rule marshal_parse)
  show "case b of
       SegmentationBody q \<Rightarrow> read_segmentation (cleaned (body_json b)) = Some q
     | RuntimeBody q \<Rightarrow> read_runtime (cleaned (body_json b)) = Some q
     | CloseBody q \<Rightarrow> read_close (cleaned (body_json b)) = Some q
     | PausedBody paused who \<Rightarrow> read_paused (cleaned (body_json b)) = Some (paused, who)"
    using assms read_body_back unfolding reads_back_def
    by (cases b) (simp_all del: body_json.simps utf8_body.simps cleaned.simps)
qed

definition sample_bodies :: "request_body list" where
  "sample_bodies =
     [SegmentationBody \<lparr>srq_clusterID = 7, srq_namespace = ''shop'', srq_name = ''web'',
        srq_spec = \<lparr>ws_selector = \<lparr>matchLabels = Some [''app'' \<mapsto> ''web'']\<rparr>,
          ws_ingress = Some [\<lparr>w_ports = Some [443, 80], w_peerSelector = None, w_peerNamespace = ''db''\<rparr>],
          ws_egress = Some [], ws_providerRef = ''hubble''\<rparr>\<rparr>,
      CloseBody \<lparr>crq_crKind = ''SegmentationPolicy'', crq_clusterID = 7, crq_namespace = ''shop'',
        crq_name = ''web''\<rparr>]"

lemma request_body_roundtrip_witness:
  "\<exists>v w. map (\<lambda>b. json_parse (marshal_body b)) sample_bodies = [Some v, Some w] \<and>
     [SegmentationBody (the (read_segmentation v)), CloseBody (the (read_close w))] = sample_bodies"
proof -
  have "utf8_body (sample_bodies ! 0)" "utf8_body (sample_bodies ! 1)"
    by (simp_all add: sample_bodies_def utf8_seg_spec_def utf8_rule_def utf8_labels_def elems_def utf8_def
        to_valid_ascii)
  from request_body_roundtrip [OF this(1)] request_body_roundtrip [OF this(2)]
  show ?thesis by (auto simp: sample_bodies_def)
qed

end
