(* ===== verification/Copies.thy ===== *)
theory Copies
  imports Memory
begin

text \<open>
  The contract of a deep copy and its calculus. A description says of the values of a type what
  they denote, which objects they reach and when they are well formed. A deep copy into a
  variable leaves memory as it was but for that variable and for new objects, and what it puts
  there denotes the same and reaches new objects only.
\<close>

subsection \<open>Pointers that behave\<close>

definition writable :: "('c, 'a) ptr \<Rightarrow> 'c mem \<Rightarrow> bool" where
  "writable q s \<longleftrightarrow> base q < length s \<and>
     (\<forall>x. peek q (poke q x (s ! base q)) = x) \<and>
     (\<forall>x y. poke q x (poke q y (s ! base q)) = poke q x (s ! base q)) \<and>
     poke q (peek q (s ! base q)) (s ! base q) = s ! base q"

text \<open>Writing through \<open>q\<close> does not change what \<open>p\<close> points at.\<close>

definition apart :: "('c, 'a) ptr \<Rightarrow> ('c, 'b) ptr \<Rightarrow> 'c mem \<Rightarrow> bool" where
  "apart p q s \<longleftrightarrow> (\<forall>x. deref p (assign q x s) = deref p s)"

definition lens :: "('a \<Rightarrow> 'b) \<Rightarrow> (('b \<Rightarrow> 'b) \<Rightarrow> 'a \<Rightarrow> 'a) \<Rightarrow> bool" where
  "lens g u \<longleftrightarrow> (\<forall>x y. g (u (\<lambda>_. x) y) = x) \<and>
     (\<forall>x x' y. u (\<lambda>_. x) (u (\<lambda>_. x') y) = u (\<lambda>_. x) y) \<and> (\<forall>y. u (\<lambda>_. g y) y = y)"

lemma base_simps [simp]:
  "base (fld g u p) = base p" "base (cell_at r a i) = a" "length (assign p x s) = length s"
  by (simp_all add: fld_def cell_at_def assign_def)

lemma deref_append [simp]: "base p < length s \<Longrightarrow> deref p (s @ n) = deref p s"
  by (simp add: deref_def nth_append)

lemma assign_append [simp]: "base p < length s \<Longrightarrow> assign p x (s @ n) = assign p x s @ n"
  by (simp add: assign_def nth_append list_update_append1)

lemma deref_assign [simp]: "writable q s \<Longrightarrow> deref q (assign q x s) = x"
  by (simp add: writable_def deref_def assign_def)

lemma assign_assign [simp]: "writable q s \<Longrightarrow> assign q x (assign q y s) = assign q x s"
  by (simp add: writable_def assign_def)

lemma assign_deref [simp]: "writable q s \<Longrightarrow> assign q (deref q s) s = s"
  by (simp add: writable_def assign_def deref_def)

lemma writable_base: "writable q s \<Longrightarrow> base q < length s"
  by (simp add: writable_def)

lemma writable_after [simp]: "writable q s \<Longrightarrow> writable q (assign q x s)"
  by (simp add: writable_def assign_def)

lemma writable_append [simp]: "writable q s \<Longrightarrow> writable q (s @ n)"
  by (simp add: writable_def nth_append)

lemma apart_append: "apart p q s \<Longrightarrow> base p < length s \<Longrightarrow> writable q s \<Longrightarrow> apart p q (s @ n)"
  by (simp add: apart_def writable_base)

lemma apart_after: "apart p q s \<Longrightarrow> writable q s \<Longrightarrow> apart p q (assign q x s)"
  by (simp add: apart_def)

lemma apart_base: "base p \<noteq> base q \<Longrightarrow> apart p q s"
  by (simp add: apart_def deref_def assign_def)

lemma deref_fld [simp]: "deref (fld g u p) s = g (deref p s)"
  by (simp add: deref_def fld_def)

lemma assign_fld [simp]: "assign (fld g u q) x s = assign q (u (\<lambda>_. x) (deref q s)) s"
  by (simp add: assign_def fld_def deref_def)

lemma writable_fld [simp]: "lens g u \<Longrightarrow> writable q s \<Longrightarrow> writable (fld g u q) s"
  by (simp add: writable_def lens_def fld_def)

lemma apart_fld: "apart p q s \<Longrightarrow> apart (fld g u p) (fld g' u' q) s"
  by (simp add: apart_def)

lemma writable_cell:
  "rep_ok r \<Longrightarrow> a < length s \<Longrightarrow> i < length (s ! a) \<Longrightarrow> typed r (s ! a ! i) \<Longrightarrow> writable (cell_at r a i) s"
  by (simp add: writable_def cell_at_def rep_ok_def typed_def)

lemma typed_wrap [simp]: "rep_ok r \<Longrightarrow> typed r (wrap r x)"
  by (simp add: typed_def rep_ok_def)

subsection \<open>Descriptions\<close>

record ('c, 'a, 'v) desc =
  val :: "'c mem \<Rightarrow> 'a \<Rightarrow> 'v"
  reach :: "'c mem \<Rightarrow> 'a \<Rightarrow> addr set"
  sound :: "'c mem \<Rightarrow> 'a \<Rightarrow> bool"

definition same_on :: "addr set \<Rightarrow> 'c mem \<Rightarrow> 'c mem \<Rightarrow> bool" where
  "same_on A s t \<longleftrightarrow> (\<forall>a\<in>A. a < length t \<and> t ! a = s ! a)"

locale described =
  fixes D :: "('c, 'a, 'v) desc"
  assumes allocated: "sound D s x \<Longrightarrow> reach D s x \<subseteq> {..<length s}"
    and local: "\<lbrakk>sound D s x; same_on (reach D s x) s t\<rbrakk> \<Longrightarrow>
      sound D t x \<and> val D t x = val D s x \<and> reach D t x = reach D s x"

lemma same_on_Un: "same_on (A \<union> B) s t \<longleftrightarrow> same_on A s t \<and> same_on B s t"
  by (auto simp: same_on_def)

lemma same_on_append: "A \<subseteq> {..<length s} \<Longrightarrow> same_on A s (s @ n)"
  by (auto simp: same_on_def nth_append)

lemma same_on_assign: "A \<subseteq> {..<length s} \<Longrightarrow> base q \<notin> A \<Longrightarrow> same_on A s (assign q x s)"
  by (auto simp: same_on_def assign_def intro: nth_list_update_neq)

lemma same_on_trans: "same_on A s t \<Longrightarrow> same_on A t u \<Longrightarrow> same_on A s u"
  by (auto simp: same_on_def)

definition fresh_copy :: "('c, 'a, 'v) desc \<Rightarrow> 'c mem \<Rightarrow> 'a \<Rightarrow> 'c mem \<Rightarrow> 'a \<Rightarrow> bool" where
  "fresh_copy D s w n x \<longleftrightarrow> sound D (s @ n) x \<and> val D (s @ n) x = val D s w \<and>
     reach D (s @ n) x \<subseteq> {length s..<length (s @ n)}"

context described
begin

lemma sound_in: "\<lbrakk>sound D s x; same_on (reach D s x) s t\<rbrakk> \<Longrightarrow> sound D t x"
  and val_in: "\<lbrakk>sound D s x; same_on (reach D s x) s t\<rbrakk> \<Longrightarrow> val D t x = val D s x"
  and reach_in: "\<lbrakk>sound D s x; same_on (reach D s x) s t\<rbrakk> \<Longrightarrow> reach D t x = reach D s x"
  using local by blast+

lemma unchanged:
  assumes "sound D s x" and "base q \<notin> reach D s x"
  shows "same_on (reach D s x) s (assign q y (s @ n))"
proof (rule same_on_trans [OF same_on_append])
  show "reach D s x \<subseteq> {..<length s}" using assms(1) by (rule allocated)
  then show "same_on (reach D s x) (s @ n) (assign q y (s @ n))"
    using assms(2) by (intro same_on_assign) auto
qed

lemma fresh_copy_grow:
  assumes "fresh_copy D s w n x"
  shows "fresh_copy D s w (n @ m) x"
proof -
  from assms have "sound D (s @ n) x" by (simp add: fresh_copy_def)
  moreover from this have "same_on (reach D (s @ n) x) (s @ n) ((s @ n) @ m)"
    by (intro same_on_append allocated)
  ultimately show ?thesis
    using assms local [of "s @ n" x "(s @ n) @ m"] by (auto simp: fresh_copy_def)
qed

end

subsection \<open>The contract\<close>

text \<open>
  \<open>nested_copy\<close> is the contract of the block that copies one field: it is run after the whole
  struct was copied shallowly, so the two fields already hold the same.
\<close>

locale nested_copy = described D for D :: "('c, 'a, 'v) desc" +
  fixes into :: "('c, 'a) ptr \<Rightarrow> ('c, 'a) ptr \<Rightarrow> 'c mem \<Rightarrow> 'c mem"
  assumes nested: "\<lbrakk>writable q s; base p < length s; apart p q s; deref q s = deref p s;
      sound D s (deref p s); base q \<notin> reach D s (deref p s)\<rbrakk> \<Longrightarrow>
      \<exists>x n. into p q s = assign q x (s @ n) \<and> fresh_copy D s (deref p s) n x"

locale deep_copy = described D for D :: "('c, 'a, 'v) desc" +
  fixes into :: "('c, 'a) ptr \<Rightarrow> ('c, 'a) ptr \<Rightarrow> 'c mem \<Rightarrow> 'c mem"
  assumes copies: "\<lbrakk>writable q s; base p < length s; apart p q s;
      sound D s (deref p s); base q \<notin> reach D s (deref p s)\<rbrakk> \<Longrightarrow>
      \<exists>x n. into p q s = assign q x (s @ n) \<and> fresh_copy D s (deref p s) n x"

sublocale deep_copy \<subseteq> nested_copy
  by unfold_locales (rule copies)

text \<open>The contract of a block between two structs, seen at one of their fields.\<close>

definition fills :: "(('c, 'a) ptr \<Rightarrow> ('c, 'a) ptr \<Rightarrow> 'c mem \<Rightarrow> 'c mem) \<Rightarrow> ('c, 'b, 'v) desc \<Rightarrow>
    ('a \<Rightarrow> 'b) \<Rightarrow> ('b \<Rightarrow> 'a \<Rightarrow> 'a) \<Rightarrow> bool" where
  "fills k D g u \<longleftrightarrow> (\<forall>p q s n y. writable q s \<and> base p < length s \<and> apart p q s \<and>
     sound D s (g (deref p s)) \<and> base q \<notin> reach D s (g (deref p s)) \<and> g y = g (deref p s) \<longrightarrow>
     (\<exists>x m. k p q (assign q y (s @ n)) = assign q (u x y) (s @ n @ m) \<and>
            fresh_copy D s (g (deref p s)) (n @ m) x))"


lemma fillsD:
  assumes "fills k D g u" and "writable q s" "base p < length s" "apart p q s"
    and "sound D s (g (deref p s))" "base q \<notin> reach D s (g (deref p s))" "g y = g (deref p s)"
  obtains x m where "k p q (assign q y (s @ n)) = assign q (u x y) (s @ n @ m)"
    and "fresh_copy D s (g (deref p s)) (n @ m) x"
  using assms unfolding fills_def by blast

context nested_copy
begin

lemma fills_field:
  assumes l: "lens g u"
  shows "fills (at_field g u into) D g (\<lambda>x. u (\<lambda>_. x))"
  unfolding fills_def at_field_def
proof (intro allI impI, elim conjE)
  fix p q :: "('c, 'b) ptr" and s n y
  let ?S = "assign q y (s @ n)" and ?v = "g (deref p s)"
  assume q: "writable q s" and p: "base p < length s" and pq: "apart p q s"
    and v: "sound D s ?v" "base q \<notin> reach D s ?v" and y: "g y = ?v"
  from q p pq have dp: "deref p ?S = deref p s"
    by (simp add: apart_def writable_base)
  have same: "same_on (reach D s ?v) s ?S" using v by (rule unchanged)
  then have S: "sound D ?S ?v" "val D ?S ?v = val D s ?v" "reach D ?S ?v = reach D s ?v"
    using local [OF v(1)] by blast+
  have "apart (fld g u p) (fld g u q) ?S"
    using q p pq by (intro apart_fld apart_after apart_append) (auto simp: writable_base)
  with nested [of "fld g u q" ?S "fld g u p"] q p l S v(2) y dp obtain x m where
    x: "into (fld g u p) (fld g u q) ?S = assign (fld g u q) x (?S @ m)" "fresh_copy D ?S ?v m x"
    by (auto simp: writable_base)
  have Sm: "?S @ m = assign q y (s @ n @ m)"
    using q by (simp add: writable_base)
  have fresh: "reach D (?S @ m) x \<subseteq> {length (s @ n)..<length (s @ n @ m)}"
    and ok: "sound D (?S @ m) x" and eq: "val D (?S @ m) x = val D s ?v"
    using x(2) S by (auto simp: fresh_copy_def)
  have "same_on (reach D (?S @ m) x) (?S @ m) (s @ n @ m)"
    using fresh writable_base [OF q] unfolding Sm
    by (auto simp: same_on_def assign_def intro: nth_list_update_neq [symmetric])
  from local [OF ok this] eq fresh have "fresh_copy D s ?v (n @ m) x"
    by (auto simp: fresh_copy_def)
  moreover have "into (fld g u p) (fld g u q) ?S = assign q (u (\<lambda>_. x) y) (s @ n @ m)"
    unfolding x(1) unfolding Sm using q by simp
  ultimately show "\<exists>x m. into (fld g u p) (fld g u q) ?S = assign q (u (\<lambda>_. x) y) (s @ n @ m) \<and>
      fresh_copy D s ?v (n @ m) x" by blast
qed

end

text \<open>Two blocks in a row, for two fields that do not overlap.\<close>

definition pair_desc :: "('c, 'a, 'v) desc \<Rightarrow> ('c, 'b, 'w) desc \<Rightarrow> ('c, 'a \<times> 'b, 'v \<times> 'w) desc" where
  "pair_desc D E = \<lparr>val = (\<lambda>s (a, b). (val D s a, val E s b)),
     reach = (\<lambda>s (a, b). reach D s a \<union> reach E s b), sound = (\<lambda>s (a, b). sound D s a \<and> sound E s b)\<rparr>"

lemma described_pair:
  assumes "described D" and "described E"
  shows "described (pair_desc D E)"
proof (unfold_locales, goal_cases)
  case (1 s x)
  then show ?case
    using described.allocated [OF assms(1)] described.allocated [OF assms(2)]
    by (cases x) (auto simp: pair_desc_def)
next
  case (2 s x t)
  then show ?case
    using described.local [OF assms(1), of s "fst x" t] described.local [OF assms(2), of s "snd x" t]
    by (simp add: pair_desc_def same_on_Un split_beta)
qed

lemma fills_pair:
  assumes k: "fills k D g u" and k': "fills k' E h w" and D: "described D"
    and apart: "\<And>x y. h (u x y) = h y"
  shows "fills (\<lambda>p q s. k' p q (k p q s)) (pair_desc D E) (\<lambda>x. (g x, h x))
     (\<lambda>x y. w (snd x) (u (fst x) y))"
  unfolding fills_def
proof (intro allI impI, elim conjE)
  fix p q :: "('a, 'b) ptr" and s n y
  let ?v = "deref p s"
  assume q: "writable q s" and p: "base p < length s" and pq: "apart p q s"
    and v: "sound (pair_desc D E) s (g ?v, h ?v)" "base q \<notin> reach (pair_desc D E) s (g ?v, h ?v)"
    and y: "(g y, h y) = (g ?v, h ?v)"
  from fillsD [OF k q p pq, of y n] v y obtain x m where
    x: "k p q (assign q y (s @ n)) = assign q (u x y) (s @ n @ m)" "fresh_copy D s (g ?v) (n @ m) x"
    by (auto simp: pair_desc_def)
  from fillsD [OF k' q p pq, of "u x y" "n @ m"] v y obtain x' m' where
    x': "k' p q (assign q (u x y) (s @ n @ m)) = assign q (w x' (u x y)) (s @ n @ m @ m')"
      "fresh_copy E s (h ?v) (n @ m @ m') x'"
    by (auto simp: pair_desc_def apart)
  from described.fresh_copy_grow [OF D x(2), of m'] x'(2)
  have "fresh_copy (pair_desc D E) s (g ?v, h ?v) (n @ m @ m') (x, x')"
    by (simp add: fresh_copy_def pair_desc_def)
  with x x' show "\<exists>x m. k' p q (k p q (assign q y (s @ n))) = assign q (w (snd x) (u (fst x) y)) (s @ n @ m) \<and>
      fresh_copy (pair_desc D E) s (g ?v, h ?v) (n @ m) x"
    by (intro exI [of _ "(x, x')"] exI [of _ "m @ m'"]) simp
qed

text \<open>A struct, described by what its copied fields are and what is made of them and of the rest.\<close>

definition via :: "('a \<Rightarrow> 'b) \<Rightarrow> ('a \<Rightarrow> 'v \<Rightarrow> 'w) \<Rightarrow> ('c, 'b, 'v) desc \<Rightarrow> ('c, 'a, 'w) desc" where
  "via g F D = \<lparr>val = (\<lambda>s x. F x (val D s (g x))), reach = (\<lambda>s x. reach D s (g x)),
     sound = (\<lambda>s x. sound D s (g x))\<rparr>"

lemma described_via:
  assumes "described D"
  shows "described (via g F D)"
proof (unfold_locales, goal_cases)
  case (1 s x)
  then show ?case using described.allocated [OF assms] by (simp add: via_def)
next
  case (2 s x t)
  then show ?case using described.local [OF assms, of s "g x" t] by (simp add: via_def)
qed

lemma struct_copy:
  assumes k: "fills k D g u" and D: "described D"
    and get: "\<And>x v. g (u x v) = x" and rest: "\<And>x v w. F (u x v) w = F v w"
  shows "deep_copy (via g F D) (\<lambda>p q s. k p q (copy_plain p q s))"
proof (intro deep_copy.intro deep_copy_axioms.intro described_via D)
  fix p q :: "('a, 'b) ptr" and s
  let ?v = "deref p s"
  assume q: "writable q s" and p: "base p < length s" and pq: "apart p q s"
    and v: "sound (via g F D) s ?v" "base q \<notin> reach (via g F D) s ?v"
  from fillsD [OF k q p pq, of ?v "[]"] v obtain x m where
    "k p q (assign q ?v s) = assign q (u x ?v) (s @ m)" "fresh_copy D s (g ?v) m x"
    by (auto simp: via_def)
  then show "\<exists>x n. k p q (copy_plain p q s) = assign q x (s @ n) \<and> fresh_copy (via g F D) s ?v n x"
    by (intro exI [of _ "u x ?v"] exI [of _ m]) (simp add: copy_plain_def fresh_copy_def via_def get rest)
qed

subsection \<open>Slices and maps\<close>

definition plain_desc :: "('c, 'a, 'a) desc" where
  "plain_desc = \<lparr>val = (\<lambda>s x. x), reach = (\<lambda>s x. {}), sound = (\<lambda>s x. True)\<rparr>"

definition slice_desc :: "('c, 'a) rep \<Rightarrow> ('c, 'a, 'v) desc \<Rightarrow> ('c, slice, 'v list option) desc" where
  "slice_desc r D =
     \<lparr>val = (\<lambda>s sl. case sl of NilSlice \<Rightarrow> None
        | Slice a off n \<Rightarrow> Some (map (\<lambda>i. val D s (unwrap r (s ! a ! (off + i)))) [0..<n])),
      reach = (\<lambda>s sl. case sl of NilSlice \<Rightarrow> {}
        | Slice a off n \<Rightarrow> insert a (\<Union>i<n. reach D s (unwrap r (s ! a ! (off + i))))),
      sound = (\<lambda>s sl. case sl of NilSlice \<Rightarrow> True
        | Slice a off n \<Rightarrow> a < length s \<and> off + n \<le> length (s ! a) \<and>
            (\<forall>i<n. typed r (s ! a ! (off + i)) \<and> sound D s (unwrap r (s ! a ! (off + i)))))\<rparr>"

definition map_desc :: "('c, entries) rep \<Rightarrow> ('c, addr option, labels option) desc" where
  "map_desc r =
     \<lparr>val = (\<lambda>s m. case m of None \<Rightarrow> None | Some a \<Rightarrow> Some (map_of (unwrap r (s ! a ! 0)))),
      reach = (\<lambda>s m. case m of None \<Rightarrow> {} | Some a \<Rightarrow> {a}),
      sound = (\<lambda>s m. case m of None \<Rightarrow> True
        | Some a \<Rightarrow> a < length s \<and> s ! a \<noteq> [] \<and> typed r (s ! a ! 0) \<and>
            distinct (map fst (unwrap r (s ! a ! 0))))\<rparr>"

lemma described_plain: "described plain_desc"
  by unfold_locales (simp_all add: plain_desc_def)

lemma described_map: "described (map_desc r)"
  by unfold_locales (auto simp: map_desc_def same_on_def split: option.splits)

lemma described_slice:
  assumes "described D"
  shows "described (slice_desc r D)"
proof (unfold_locales, goal_cases)
  case (1 s sl)
  then show ?case using described.allocated [OF assms]
    by (cases sl) (fastforce simp: slice_desc_def)+
next
  case (2 s sl t)
  show ?case
  proof (cases sl)
    case (Slice a off n)
    let ?e = "\<lambda>i. unwrap r (s ! a ! (off + i))"
    from 2 Slice have a: "a < length t" "t ! a = s ! a" by (auto simp: slice_desc_def same_on_def)
    have "sound D t (?e i) \<and> val D t (?e i) = val D s (?e i) \<and> reach D t (?e i) = reach D s (?e i)"
      if "i < n" for i
      using 2 Slice that by (intro described.local [OF assms]) (auto simp: slice_desc_def same_on_def)
    with 2 Slice a show ?thesis by (simp add: slice_desc_def)
  qed (simp add: slice_desc_def)
qed

text \<open>The loop over the elements, after \<open>k\<close> of them.\<close>

definition copied_so_far :: "('c, 'a, 'v) desc \<Rightarrow> ('c, 'a) rep \<Rightarrow> 'c mem \<Rightarrow> 'c list \<Rightarrow> 'a list \<Rightarrow> 'c list \<Rightarrow> 'c mem \<Rightarrow> bool" where
  "copied_so_far D r s src xs ar ns \<longleftrightarrow> length ar = length src \<and> length xs \<le> length src \<and>
     (\<forall>i<length ar. typed r (ar ! i)) \<and> take (length xs) ar = map (wrap r) xs \<and>
     (\<forall>i<length xs. sound D (s @ ar # ns) (xs ! i) \<and>
        val D (s @ ar # ns) (xs ! i) = val D s (unwrap r (src ! i)) \<and>
        reach D (s @ ar # ns) (xs ! i) \<subseteq> {Suc (length s)..<length (s @ ar # ns)})"

text \<open>One element is copied into the new array \<open>ar\<close>, while \<open>q\<close>, in older memory, holds \<open>y\<close>.\<close>

context deep_copy
begin

lemma as_nested: "nested_copy D into"
  by unfold_locales

lemma copy_element:
  assumes r: "rep_ok r" and q: "writable q s" and a: "a < length s" "base q \<noteq> a"
    and e: "sound D s e" "base q \<notin> reach D s e" "e = unwrap r (s ! a ! j)"
    and i: "i < length ar" "typed r (ar ! i)"
  obtains x m where
    "into (cell_at r a j) (cell_at r (length s) i) (assign q y (s @ ar # ns)) =
       assign q y (s @ ar[i := wrap r x] # ns @ m)"
    and "sound D (s @ ar[i := wrap r x] # ns @ m) x"
    and "val D (s @ ar[i := wrap r x] # ns @ m) x = val D s e"
    and "reach D (s @ ar[i := wrap r x] # ns @ m) x \<subseteq> {Suc (length s)..<length (s @ ar # ns @ m)}"
proof -
  let ?S = "assign q y (s @ ar # ns)" and ?in = "cell_at r a j" and ?out = "cell_at r (length s) i"
  have bq: "base q < length s" using q by (rule writable_base)
  have same: "same_on (reach D s e) s ?S" using e by (intro unchanged)
  note S = local [OF e(1) same]
  have d: "deref ?in ?S = e"
    using a bq e(3) by (simp add: deref_def cell_at_def nth_append assign_def)
  have "writable ?out ?S"
    using r i bq by (intro writable_cell) (simp_all add: nth_append assign_def)
  moreover have "apart ?in ?out ?S" using a by (intro apart_base) simp
  moreover have "length s \<notin> reach D ?S e" using S allocated [OF e(1)] by auto
  ultimately obtain x m where x: "into ?in ?out ?S = assign ?out x (?S @ m)" "fresh_copy D ?S e m x"
    using copies [of ?out ?S ?in] S a by (auto simp: d)
  let ?T = "s @ ar[i := wrap r x] # ns @ m"
  have "assign ?out x (?S @ m) = assign q y ?T"
    using bq by (simp add: assign_def cell_at_def nth_append list_update_append)
  moreover have fresh: "reach D (?S @ m) x \<subseteq> {length (s @ ar # ns)..<length (s @ ar # ns @ m)}"
    and ok: "sound D (?S @ m) x" and eq: "val D (?S @ m) x = val D s e"
    using x(2) S by (auto simp: fresh_copy_def)
  moreover have "same_on (reach D (?S @ m) x) (?S @ m) ?T"
    unfolding same_on_def
  proof
    fix b assume "b \<in> reach D (?S @ m) x"
    with fresh have "length s < b" "b < length ?T" by auto
    with bq show "b < length ?T \<and> ?T ! b = (?S @ m) ! b"
      by (simp add: assign_def nth_append nth_Cons' list_update_append)
  qed
  ultimately show thesis using x(1) local [OF ok] by (intro that [of x m]) auto
qed

lemma copied_more:
  assumes "copied_so_far D r s src xs ar ns" and "rep_ok r" and "length xs < length src"
    and T: "T = s @ ar[length xs := wrap r x] # ns @ m"
    and "sound D T x" "val D T x = val D s (unwrap r (src ! length xs))"
    and "reach D T x \<subseteq> {Suc (length s)..<length (s @ ar # ns @ m)}"
  shows "copied_so_far D r s src (xs @ [x]) (ar[length xs := wrap r x]) (ns @ m)"
proof -
  have old: "sound D T (xs ! i) \<and> val D T (xs ! i) = val D s (unwrap r (src ! i)) \<and>
      reach D T (xs ! i) \<subseteq> {Suc (length s)..<length T}" if "i < length xs" for i
  proof -
    let ?S = "s @ ar # ns"
    from assms(1) that have i: "sound D ?S (xs ! i)" "val D ?S (xs ! i) = val D s (unwrap r (src ! i))"
        "reach D ?S (xs ! i) \<subseteq> {Suc (length s)..<length ?S}"
      unfolding copied_so_far_def by blast+
    have "same_on (reach D ?S (xs ! i)) ?S T"
      unfolding same_on_def
    proof
      fix b assume "b \<in> reach D ?S (xs ! i)"
      with i(3) have "length s < b" "b < length ?S" by auto
      then show "b < length T \<and> T ! b = ?S ! b" by (auto simp: T nth_append nth_Cons')
    qed
    from local [OF i(1) this] i show ?thesis by (auto simp: T)
  qed
  have "take (Suc (length xs)) (ar[length xs := wrap r x]) = map (wrap r) (xs @ [x])"
    using assms(1,3) by (simp add: copied_so_far_def take_Suc_conv_app_nth)
  moreover have "typed r (ar[length xs := wrap r x] ! i)" if "i < length ar" for i
    using assms(1,2) that by (cases "i = length xs") (auto simp: copied_so_far_def)
  ultimately show ?thesis
    using assms old by (auto simp: copied_so_far_def nth_append less_Suc_eq)
qed

lemma copy_loop:
  assumes r: "rep_ok r" and q: "writable q s" and p: "base p < length s" and pq: "apart p q s"
    and sl: "deref p s = Slice a off n" "sound (slice_desc r D) s (deref p s)"
    and bq: "base q \<notin> reach (slice_desc r D) s (deref p s)" and k: "k \<le> n"
  defines "new \<equiv> Slice (length s) 0 n" and "src \<equiv> take n (drop off (s ! a))"
  shows "\<exists>xs ar ns. fold (\<lambda>i s. into (slice_elem r (deref p s) i) (slice_elem r (deref q s) i) s) [0..<k]
      (assign q new (s @ [replicate n (wrap r z)])) = assign q new (s @ ar # ns) \<and> length xs = k \<and>
      copied_so_far D r s src xs ar ns"
  using k
proof (induction k)
  case 0
  from sl have "length src = n" by (auto simp: src_def slice_desc_def)
  then show ?case using r
    by (intro exI [of _ "[]"] exI [of _ "replicate n (wrap r z)"]) (simp add: copied_so_far_def)
next
  case (Suc k)
  then obtain xs ar ns where IH: "fold (\<lambda>i s. into (slice_elem r (deref p s) i) (slice_elem r (deref q s) i) s) [0..<k]
      (assign q new (s @ [replicate n (wrap r z)])) = assign q new (s @ ar # ns)" "length xs = k"
      "copied_so_far D r s src xs ar ns" by auto
  let ?S = "assign q new (s @ ar # ns)" and ?e = "unwrap r (s ! a ! (off + k))"
  have S: "deref p ?S = Slice a off n" "deref q ?S = new"
    using q p pq sl(1) by (simp_all add: apart_def writable_base)
  have src: "length src = n" "src ! k = s ! a ! (off + k)"
    using sl Suc.prems by (auto simp: src_def slice_desc_def)
  have "a < length s" "base q \<noteq> a" "sound D s ?e" "base q \<notin> reach D s ?e" "k < length ar" "typed r (ar ! k)"
    using sl bq IH Suc.prems src by (auto simp: slice_desc_def copied_so_far_def)
  from copy_element [OF r q this(1-4) refl this(5,6), of new ns] obtain x m where
    x: "into (cell_at r a (off + k)) (cell_at r (length s) k) ?S =
        assign q new (s @ ar[k := wrap r x] # ns @ m)"
      "sound D (s @ ar[k := wrap r x] # ns @ m) x" "val D (s @ ar[k := wrap r x] # ns @ m) x = val D s ?e"
      "reach D (s @ ar[k := wrap r x] # ns @ m) x \<subseteq> {Suc (length s)..<length (s @ ar # ns @ m)}" .
  from copied_more [OF IH(3) r _ refl, of x m] x IH(2) src Suc.prems
  have "copied_so_far D r s src (xs @ [x]) (ar[k := wrap r x]) (ns @ m)" by simp
  moreover have "fold (\<lambda>i s. into (slice_elem r (deref p s) i) (slice_elem r (deref q s) i) s) [0..<Suc k]
      (assign q new (s @ [replicate n (wrap r z)])) = assign q new (s @ ar[k := wrap r x] # ns @ m)"
    using IH(1) S x(1) by (simp add: new_def)
  ultimately show ?case using IH(2) by (intro exI [of _ "xs @ [x]"] exI) auto
qed

lemma all_copied:
  assumes r: "rep_ok r" and c: "copied_so_far D r s (take n (drop off (s ! a))) xs ar ns"
    and n: "length xs = n" "off + n \<le> length (s ! a)"
  shows "fresh_copy (slice_desc r D) s (Slice a off n) (ar # ns) (Slice (length s) 0 n)"
proof -
  from n have len: "length (take n (drop off (s ! a))) = n" by auto
  with c n have "length ar = n" "take n ar = map (wrap r) xs" by (auto simp: copied_so_far_def)
  then have ar: "ar = map (wrap r) xs" by simp
  have "sound D (s @ ar # ns) (xs ! i)"
    "val D (s @ ar # ns) (xs ! i) = val D s (unwrap r (s ! a ! (off + i)))"
    "reach D (s @ ar # ns) (xs ! i) \<subseteq> {Suc (length s)..<length (s @ ar # ns)}" if "i < n" for i
    using c n that unfolding copied_so_far_def by auto
  with r n ar show ?thesis
    by (fastforce simp: fresh_copy_def slice_desc_def rep_ok_def typed_wrap nth_append)
qed

lemma slice_copies:
  assumes r: "rep_ok r"
  shows "nested_copy (slice_desc r D) (copy_structs r z into)"
proof (intro nested_copy.intro nested_copy_axioms.intro described_slice described_axioms)
  fix p q :: "('c, slice) ptr" and s :: "'c mem"
  assume q: "writable q s" and p: "base p < length s" and pq: "apart p q s"
    and pre: "deref q s = deref p s" "sound (slice_desc r D) s (deref p s)"
      "base q \<notin> reach (slice_desc r D) s (deref p s)"
  show "\<exists>x n. copy_structs r z into p q s = assign q x (s @ n) \<and>
      fresh_copy (slice_desc r D) s (deref p s) n x"
  proof (cases "deref p s")
    case NilSlice
    with assign_deref [OF q] pre(1) have "assign q NilSlice s = s" by metis
    with NilSlice show ?thesis
      by (intro exI [of _ NilSlice] exI [of _ "[]"])
        (simp add: copy_structs_def fresh_copy_def slice_desc_def)
  next
    case (Slice a off n)
    let ?new = "Slice (length s) 0 n"
    from copy_loop [OF r q p pq Slice pre(2,3) order_refl, of z] obtain xs ar ns where
      loop: "fold (\<lambda>i s. into (slice_elem r (deref p s) i) (slice_elem r (deref q s) i) s) [0..<n]
        (assign q ?new (s @ [replicate n (wrap r z)])) = assign q ?new (s @ ar # ns)"
      and "length xs = n" "copied_so_far D r s (take n (drop off (s ! a))) xs ar ns" by auto
    with all_copied [OF r] pre(2) Slice
    have "fresh_copy (slice_desc r D) s (deref p s) (ar # ns) ?new" by (simp add: slice_desc_def)
    moreover have "copy_structs r z into p q s = assign q ?new (s @ ar # ns)"
      using loop Slice q p pq
      by (simp add: copy_structs_def make_slice_def for_range_def apart_def writable_base)
    ultimately show ?thesis by blast
  qed
qed

text \<open>\<open>DeepCopy\<close> of a pointer.\<close>

lemma duplicates:
  assumes r: "rep_ok r" and p: "base p < length s" and v: "sound D s (deref p s)"
    and run: "deep_copy_of r z into (Some p) s = (res, s')"
  obtains q where "res = Some q" and "take (length s) s' = s" and "base q = length s"
    and "length s < length s'" and "sound D s' (deref q s')"
    and "val D s' (deref q s') = val D s (deref p s)"
    and "reach D s' (deref q s') \<subseteq> {Suc (length s)..<length s'}"
proof -
  let ?q = "cell_at r (length s) 0" and ?S = "s @ [[wrap r z]]"
  have q: "writable ?q ?S" using r by (intro writable_cell) simp_all
  have same: "same_on (reach D s (deref p s)) s ?S"
    using allocated [OF v] by (rule same_on_append)
  note S = local [OF v same]
  have pS: "deref p ?S = deref p s" using p by simp
  have "length s \<notin> reach D s (deref p s)" using allocated [OF v] by auto
  moreover have "apart p ?q ?S" using p by (intro apart_base) simp
  ultimately obtain x n where
    x: "into p ?q ?S = assign ?q x (?S @ n)" "fresh_copy D ?S (deref p s) n x"
    using copies [OF q, of p] S p by (auto simp: pS)
  have S': "assign ?q x (?S @ n) = s @ [wrap r x] # n"
    by (simp add: assign_def cell_at_def nth_append)
  have d: "deref ?q (s @ [wrap r x] # n) = x"
    using r by (simp add: deref_def cell_at_def rep_ok_def)
  have "same_on (reach D (?S @ n) x) (?S @ n) (s @ [wrap r x] # n)"
    using x(2) by (auto simp: fresh_copy_def same_on_def nth_append nth_Cons')
  from local [OF _ this] x(2) S
  have "sound D (s @ [wrap r x] # n) x \<and> val D (s @ [wrap r x] # n) x = val D s (deref p s) \<and>
      reach D (s @ [wrap r x] # n) x \<subseteq> {Suc (length s)..<length (s @ [wrap r x] # n)}"
    by (auto simp: fresh_copy_def)
  moreover have "res = Some ?q" "s' = s @ [wrap r x] # n"
    using run x(1) S' by (simp_all add: deep_copy_of_def go_new_def)
  ultimately show thesis using d by (intro that [of ?q]) simp_all
qed

end

subsection \<open>Plain fields, numbers and strings, maps\<close>

lemma plain_copies: "deep_copy plain_desc copy_plain"
proof (intro deep_copy.intro deep_copy_axioms.intro described_plain)
  fix p q :: "('a, 'b) ptr" and s :: "'a mem"
  show "\<exists>x n. copy_plain p q s = assign q x (s @ n) \<and> fresh_copy plain_desc s (deref p s) n x"
    by (intro exI [of _ "deref p s"] exI [of _ "[]"]) (simp add: copy_plain_def fresh_copy_def plain_desc_def)
qed

lemma scalars_copy:
  assumes r: "rep_ok r"
  shows "nested_copy (slice_desc r plain_desc) (copy_scalars r z)"
proof (intro nested_copy.intro nested_copy_axioms.intro described_slice described_plain)
  fix p q :: "('a, slice) ptr" and s :: "'a mem"
  assume q: "writable q s" and p: "base p < length s" and pq: "apart p q s"
    and pre: "deref q s = deref p s" "sound (slice_desc r plain_desc) s (deref p s)"
      "base q \<notin> reach (slice_desc r plain_desc) s (deref p s)"
  show "\<exists>x n. copy_scalars r z p q s = assign q x (s @ n) \<and>
      fresh_copy (slice_desc r plain_desc) s (deref p s) n x"
  proof (cases "deref p s")
    case NilSlice
    with assign_deref [OF q] pre(1) have "assign q NilSlice s = s" by metis
    with NilSlice show ?thesis
      by (intro exI [of _ NilSlice] exI [of _ "[]"])
        (simp add: copy_scalars_def fresh_copy_def slice_desc_def)
  next
    case (Slice a off n)
    let ?new = "Slice (length s) 0 n" and ?ar = "take n (drop off (s ! a))"
    from pre Slice have a: "a < length s" "off + n \<le> length (s ! a)" "base q \<noteq> a"
      "\<forall>i<n. typed r (s ! a ! (off + i))" by (auto simp: slice_desc_def)
    then have "fresh_copy (slice_desc r plain_desc) s (deref p s) [?ar] ?new"
      by (auto simp: Slice fresh_copy_def slice_desc_def plain_desc_def nth_append)
    moreover have "deref p (assign q ?new (s @ [replicate n (wrap r z)])) = Slice a off n"
      using q p pq Slice by (simp add: apart_def writable_base)
    moreover have "go_copy ?new (Slice a off n) (assign q ?new (s @ [replicate n (wrap r z)])) =
        assign q ?new (s @ [?ar])"
      using a writable_base [OF q] by (auto simp: assign_def nth_append list_update_append)
    ultimately have "fresh_copy (slice_desc r plain_desc) s (deref p s) [?ar] ?new"
      "copy_scalars r z p q s = assign q ?new (s @ [?ar])"
      using Slice q by (simp_all add: copy_scalars_def make_slice_def)
    then show ?thesis by blast
  qed
qed

lemma update_new: "k \<notin> fst ` set es \<Longrightarrow> AList.update k v es = es @ [(k, v)]"
  by (induction es) auto

lemma fold_update:
  assumes "distinct (map fst es)" and "set (map fst es) \<inter> set (map fst acc) = {}"
  shows "fold (\<lambda>(k, v). AList.update k v) es acc = acc @ es"
  using assms
proof (induction es arbitrary: acc)
  case (Cons e es)
  then show ?case by (cases e) (auto simp: update_new)
qed simp

text \<open>The insertions into the new map, which \<open>q\<close> holds.\<close>

lemma insert_loop:
  assumes r: "rep_ok r" and q: "writable q s"
  shows "fold (\<lambda>(key, val) s. map_insert r (deref q s) key val s) es (assign q (Some (length s)) (s @ [[wrap r acc]]))
    = assign q (Some (length s)) (s @ [[wrap r (fold (\<lambda>(k, v). AList.update k v) es acc)]])"
proof (induction es arbitrary: acc)
  case (Cons e es)
  obtain k v where e: "e = (k, v)" by (cases e)
  have bq: "base q < length s" using q by (rule writable_base)
  let ?S = "assign q (Some (length s)) (s @ [[wrap r acc]])"
  have "map_insert r (deref q ?S) k v ?S = assign q (Some (length s)) (s @ [[wrap r (AList.update k v acc)]])"
    using r q bq by (simp add: map_insert_def)
      (simp add: deref_def assign_def cell_at_def rep_ok_def nth_append list_update_append)
  with Cons show ?case by (simp add: e)
qed simp

lemma map_copies:
  assumes r: "rep_ok r"
  shows "nested_copy (map_desc r) (copy_map r)"
proof (intro nested_copy.intro nested_copy_axioms.intro described_map)
  fix p q :: "('a, addr option) ptr" and s :: "'a mem"
  assume q: "writable q s" and p: "base p < length s" and pq: "apart p q s"
    and pre: "deref q s = deref p s" "sound (map_desc r) s (deref p s)"
      "base q \<notin> reach (map_desc r) s (deref p s)"
  show "\<exists>x n. copy_map r p q s = assign q x (s @ n) \<and> fresh_copy (map_desc r) s (deref p s) n x"
  proof (cases "deref p s")
    case None
    with assign_deref [OF q] pre(1) have "assign q None s = s" by metis
    with None show ?thesis
      by (intro exI [of _ None] exI [of _ "[]"]) (simp add: copy_map_def fresh_copy_def map_desc_def)
  next
    case (Some a)
    let ?es = "unwrap r (s ! a ! 0)" and ?S = "assign q (Some (length s)) (s @ [[wrap r []]])"
    from pre Some have a: "a < length s" "base q \<noteq> a" "distinct (map fst ?es)"
      by (auto simp: map_desc_def)
    have bq: "base q < length s" using q by (rule writable_base)
    have "fresh_copy (map_desc r) s (deref p s) [[wrap r ?es]] (Some (length s))"
      using r a Some by (simp add: fresh_copy_def map_desc_def rep_ok_def nth_append)
    moreover have "deref p ?S = Some a" using p pq bq Some by (simp add: apart_def)
    moreover have "map_entries r ?S (Some a) = ?es"
      using a bq by (simp add: map_entries_def deref_def cell_at_def nth_append assign_def)
    ultimately show ?thesis
      using insert_loop [OF r q, of ?es "[]"] fold_update [of ?es "[]"] Some a
      by (intro exI [of _ "Some (length s)"] exI [of _ "[[wrap r ?es]]"])
        (simp add: copy_map_def make_map_def)
  qed
qed

end
