(* ===== verification/GoStructs.thy ===== *)
theory GoStructs
  imports Copies
begin

text \<open>
  The types of \<open>api/v1alpha1\<close> as they lie in memory: the structs with slice headers and map
  addresses where \<open>ApiTypes\<close> has the values, their zero values, and the cells of memory, one
  constructor for each type an array or a variable is made of.
\<close>

subsection \<open>Structs in memory\<close>

type_synonym cell_ref = "(addr \<times> nat) option" \<comment> \<open>a pointer to a variable of a plain type, or nil\<close>

record TypeMeta =
  tm_kind :: string
  tm_apiVersion :: string

record gObjectMeta =
  gm_name :: string
  gm_namespace :: string
  gm_resourceVersion :: string
  gm_generation :: int64
  gm_deletionTimestamp :: cell_ref
  gm_finalizers :: slice

record gListMeta =
  glm_resourceVersion :: string
  glm_continue :: string
  glm_remainingItemCount :: cell_ref

record gWorkloadSelector =
  gw_matchLabels :: "addr option"

record gSegmentationRule =
  gr_ports :: slice
  gr_peerSelector :: "addr option"
  gr_peerNamespace :: string

record gSegmentationPolicySpec =
  gss_selector :: gWorkloadSelector
  gss_ingress :: slice
  gss_egress :: slice
  gss_providerRef :: string

record gSegmentationPolicyStatus =
  gst_conditions :: slice
  gst_observedGeneration :: int64
  gst_resolvedFlowProvider :: string

record gSegmentationPolicy =
  gsp_TypeMeta :: TypeMeta
  gsp_ObjectMeta :: gObjectMeta
  gsp_spec :: gSegmentationPolicySpec
  gsp_status :: gSegmentationPolicyStatus

record gSegmentationPolicyList =
  gspl_TypeMeta :: TypeMeta
  gspl_ListMeta :: gListMeta
  gspl_items :: slice

record gRuntimeSecurityPolicySpec =
  grs_selector :: gWorkloadSelector
  grs_tracingPolicyRef :: string
  grs_deniedBinaries :: slice

record gRuntimeSecurityPolicyStatus =
  grt_conditions :: slice
  grt_observedGeneration :: int64
  grt_correlatedEvidenceCount :: int64

record gRuntimeSecurityPolicy =
  grp_TypeMeta :: TypeMeta
  grp_ObjectMeta :: gObjectMeta
  grp_spec :: gRuntimeSecurityPolicySpec
  grp_status :: gRuntimeSecurityPolicyStatus

record gRuntimeSecurityPolicyList =
  grpl_TypeMeta :: TypeMeta
  grpl_ListMeta :: gListMeta
  grpl_items :: slice

record gPlatformConfigStatus =
  gpt_conditions :: slice
  gpt_observedGeneration :: int64
  gpt_providerHealth :: slice

record gPlatformConfig =
  gpc_TypeMeta :: TypeMeta
  gpc_ObjectMeta :: gObjectMeta
  gpc_spec :: PlatformConfigSpec
  gpc_status :: gPlatformConfigStatus

record gPlatformConfigList =
  gpcl_TypeMeta :: TypeMeta
  gpcl_ListMeta :: gListMeta
  gpcl_items :: slice

subsection \<open>Zero values\<close>

definition zero_TypeMeta :: TypeMeta where
  "zero_TypeMeta = \<lparr>tm_kind = [], tm_apiVersion = []\<rparr>"

definition zero_gObjectMeta :: gObjectMeta where
  "zero_gObjectMeta = \<lparr>gm_name = [], gm_namespace = [], gm_resourceVersion = [], gm_generation = 0,
     gm_deletionTimestamp = None, gm_finalizers = NilSlice\<rparr>"

definition zero_gListMeta :: gListMeta where
  "zero_gListMeta = \<lparr>glm_resourceVersion = [], glm_continue = [], glm_remainingItemCount = None\<rparr>"

text \<open>The status of a fresh condition is the empty string in Go, which is none of the three values
  of \<open>ConditionStatus\<close>; it is overwritten before anything can read it, so any of them stands for it.\<close>

definition zero_Condition :: Condition where
  "zero_Condition = \<lparr>c_type = [], c_status = ConditionUnknown, c_observedGeneration = 0,
     c_lastTransitionTime = 0, c_reason = [], c_message = []\<rparr>"

definition zero_gWorkloadSelector :: gWorkloadSelector where
  "zero_gWorkloadSelector = \<lparr>gw_matchLabels = None\<rparr>"

definition zero_gSegmentationRule :: gSegmentationRule where
  "zero_gSegmentationRule = \<lparr>gr_ports = NilSlice, gr_peerSelector = None, gr_peerNamespace = []\<rparr>"

definition zero_gSegmentationPolicySpec :: gSegmentationPolicySpec where
  "zero_gSegmentationPolicySpec = \<lparr>gss_selector = zero_gWorkloadSelector, gss_ingress = NilSlice,
     gss_egress = NilSlice, gss_providerRef = []\<rparr>"

definition zero_gSegmentationPolicyStatus :: gSegmentationPolicyStatus where
  "zero_gSegmentationPolicyStatus =
     \<lparr>gst_conditions = NilSlice, gst_observedGeneration = 0, gst_resolvedFlowProvider = []\<rparr>"

definition zero_gSegmentationPolicy :: gSegmentationPolicy where
  "zero_gSegmentationPolicy = \<lparr>gsp_TypeMeta = zero_TypeMeta, gsp_ObjectMeta = zero_gObjectMeta,
     gsp_spec = zero_gSegmentationPolicySpec, gsp_status = zero_gSegmentationPolicyStatus\<rparr>"

definition zero_gSegmentationPolicyList :: gSegmentationPolicyList where
  "zero_gSegmentationPolicyList =
     \<lparr>gspl_TypeMeta = zero_TypeMeta, gspl_ListMeta = zero_gListMeta, gspl_items = NilSlice\<rparr>"

definition zero_gRuntimeSecurityPolicySpec :: gRuntimeSecurityPolicySpec where
  "zero_gRuntimeSecurityPolicySpec = \<lparr>grs_selector = zero_gWorkloadSelector,
     grs_tracingPolicyRef = [], grs_deniedBinaries = NilSlice\<rparr>"

definition zero_gRuntimeSecurityPolicyStatus :: gRuntimeSecurityPolicyStatus where
  "zero_gRuntimeSecurityPolicyStatus =
     \<lparr>grt_conditions = NilSlice, grt_observedGeneration = 0, grt_correlatedEvidenceCount = 0\<rparr>"

definition zero_gRuntimeSecurityPolicy :: gRuntimeSecurityPolicy where
  "zero_gRuntimeSecurityPolicy = \<lparr>grp_TypeMeta = zero_TypeMeta, grp_ObjectMeta = zero_gObjectMeta,
     grp_spec = zero_gRuntimeSecurityPolicySpec, grp_status = zero_gRuntimeSecurityPolicyStatus\<rparr>"

definition zero_gRuntimeSecurityPolicyList :: gRuntimeSecurityPolicyList where
  "zero_gRuntimeSecurityPolicyList =
     \<lparr>grpl_TypeMeta = zero_TypeMeta, grpl_ListMeta = zero_gListMeta, grpl_items = NilSlice\<rparr>"

definition zero_PlatformConfigSpec :: PlatformConfigSpec where
  "zero_PlatformConfigSpec = \<lparr>pcs_flowProvider = [], pcs_paused = False\<rparr>"

definition zero_gPlatformConfigStatus :: gPlatformConfigStatus where
  "zero_gPlatformConfigStatus =
     \<lparr>gpt_conditions = NilSlice, gpt_observedGeneration = 0, gpt_providerHealth = NilSlice\<rparr>"

definition zero_gPlatformConfig :: gPlatformConfig where
  "zero_gPlatformConfig = \<lparr>gpc_TypeMeta = zero_TypeMeta, gpc_ObjectMeta = zero_gObjectMeta,
     gpc_spec = zero_PlatformConfigSpec, gpc_status = zero_gPlatformConfigStatus\<rparr>"

definition zero_gPlatformConfigList :: gPlatformConfigList where
  "zero_gPlatformConfigList =
     \<lparr>gpcl_TypeMeta = zero_TypeMeta, gpcl_ListMeta = zero_gListMeta, gpcl_items = NilSlice\<rparr>"

subsection \<open>Cells\<close>

datatype cell =
    Int32Cell "32 word"
  | Int64Cell int64
  | StringCell string
  | TimeCell time
  | MapCell entries
  | ConditionCell Condition
  | SelectorCell gWorkloadSelector
  | RuleCell gSegmentationRule
  | SegSpecCell gSegmentationPolicySpec
  | SegStatusCell gSegmentationPolicyStatus
  | SegCell gSegmentationPolicy
  | SegListCell gSegmentationPolicyList
  | RtSpecCell gRuntimeSecurityPolicySpec
  | RtStatusCell gRuntimeSecurityPolicyStatus
  | RtCell gRuntimeSecurityPolicy
  | RtListCell gRuntimeSecurityPolicyList
  | HealthCell ProviderHealthStatus
  | PcSpecCell PlatformConfigSpec
  | PcStatusCell gPlatformConfigStatus
  | PcCell gPlatformConfig
  | PcListCell gPlatformConfigList

definition int32_rep :: "(cell, 32 word) rep" where
  "int32_rep = \<lparr>wrap = Int32Cell, unwrap = (\<lambda>c. case c of Int32Cell x \<Rightarrow> x | _ \<Rightarrow> 0)\<rparr>"

definition int64_rep :: "(cell, int64) rep" where
  "int64_rep = \<lparr>wrap = Int64Cell, unwrap = (\<lambda>c. case c of Int64Cell x \<Rightarrow> x | _ \<Rightarrow> 0)\<rparr>"

definition string_rep :: "(cell, string) rep" where
  "string_rep = \<lparr>wrap = StringCell, unwrap = (\<lambda>c. case c of StringCell x \<Rightarrow> x | _ \<Rightarrow> [])\<rparr>"

definition time_rep :: "(cell, time) rep" where
  "time_rep = \<lparr>wrap = TimeCell, unwrap = (\<lambda>c. case c of TimeCell x \<Rightarrow> x | _ \<Rightarrow> 0)\<rparr>"

definition map_rep :: "(cell, entries) rep" where
  "map_rep = \<lparr>wrap = MapCell, unwrap = (\<lambda>c. case c of MapCell x \<Rightarrow> x | _ \<Rightarrow> [])\<rparr>"

definition condition_rep :: "(cell, Condition) rep" where
  "condition_rep = \<lparr>wrap = ConditionCell, unwrap = (\<lambda>c. case c of ConditionCell x \<Rightarrow> x | _ \<Rightarrow> zero_Condition)\<rparr>"

definition selector_rep :: "(cell, gWorkloadSelector) rep" where
  "selector_rep = \<lparr>wrap = SelectorCell, unwrap = (\<lambda>c. case c of SelectorCell x \<Rightarrow> x | _ \<Rightarrow> zero_gWorkloadSelector)\<rparr>"

definition rule_rep :: "(cell, gSegmentationRule) rep" where
  "rule_rep = \<lparr>wrap = RuleCell, unwrap = (\<lambda>c. case c of RuleCell x \<Rightarrow> x | _ \<Rightarrow> zero_gSegmentationRule)\<rparr>"

definition segSpec_rep :: "(cell, gSegmentationPolicySpec) rep" where
  "segSpec_rep = \<lparr>wrap = SegSpecCell, unwrap = (\<lambda>c. case c of SegSpecCell x \<Rightarrow> x | _ \<Rightarrow> zero_gSegmentationPolicySpec)\<rparr>"

definition segStatus_rep :: "(cell, gSegmentationPolicyStatus) rep" where
  "segStatus_rep = \<lparr>wrap = SegStatusCell, unwrap = (\<lambda>c. case c of SegStatusCell x \<Rightarrow> x | _ \<Rightarrow> zero_gSegmentationPolicyStatus)\<rparr>"

definition seg_rep :: "(cell, gSegmentationPolicy) rep" where
  "seg_rep = \<lparr>wrap = SegCell, unwrap = (\<lambda>c. case c of SegCell x \<Rightarrow> x | _ \<Rightarrow> zero_gSegmentationPolicy)\<rparr>"

definition segList_rep :: "(cell, gSegmentationPolicyList) rep" where
  "segList_rep = \<lparr>wrap = SegListCell, unwrap = (\<lambda>c. case c of SegListCell x \<Rightarrow> x | _ \<Rightarrow> zero_gSegmentationPolicyList)\<rparr>"

definition rtSpec_rep :: "(cell, gRuntimeSecurityPolicySpec) rep" where
  "rtSpec_rep = \<lparr>wrap = RtSpecCell, unwrap = (\<lambda>c. case c of RtSpecCell x \<Rightarrow> x | _ \<Rightarrow> zero_gRuntimeSecurityPolicySpec)\<rparr>"

definition rtStatus_rep :: "(cell, gRuntimeSecurityPolicyStatus) rep" where
  "rtStatus_rep = \<lparr>wrap = RtStatusCell, unwrap = (\<lambda>c. case c of RtStatusCell x \<Rightarrow> x | _ \<Rightarrow> zero_gRuntimeSecurityPolicyStatus)\<rparr>"

definition rt_rep :: "(cell, gRuntimeSecurityPolicy) rep" where
  "rt_rep = \<lparr>wrap = RtCell, unwrap = (\<lambda>c. case c of RtCell x \<Rightarrow> x | _ \<Rightarrow> zero_gRuntimeSecurityPolicy)\<rparr>"

definition rtList_rep :: "(cell, gRuntimeSecurityPolicyList) rep" where
  "rtList_rep = \<lparr>wrap = RtListCell, unwrap = (\<lambda>c. case c of RtListCell x \<Rightarrow> x | _ \<Rightarrow> zero_gRuntimeSecurityPolicyList)\<rparr>"

definition health_rep :: "(cell, ProviderHealthStatus) rep" where
  "health_rep = \<lparr>wrap = HealthCell, unwrap = (\<lambda>c. case c of HealthCell x \<Rightarrow> x | _ \<Rightarrow> zero_ProviderHealthStatus)\<rparr>"

definition pcSpec_rep :: "(cell, PlatformConfigSpec) rep" where
  "pcSpec_rep = \<lparr>wrap = PcSpecCell, unwrap = (\<lambda>c. case c of PcSpecCell x \<Rightarrow> x | _ \<Rightarrow> zero_PlatformConfigSpec)\<rparr>"

definition pcStatus_rep :: "(cell, gPlatformConfigStatus) rep" where
  "pcStatus_rep = \<lparr>wrap = PcStatusCell, unwrap = (\<lambda>c. case c of PcStatusCell x \<Rightarrow> x | _ \<Rightarrow> zero_gPlatformConfigStatus)\<rparr>"

definition pc_rep :: "(cell, gPlatformConfig) rep" where
  "pc_rep = \<lparr>wrap = PcCell, unwrap = (\<lambda>c. case c of PcCell x \<Rightarrow> x | _ \<Rightarrow> zero_gPlatformConfig)\<rparr>"

definition pcList_rep :: "(cell, gPlatformConfigList) rep" where
  "pcList_rep = \<lparr>wrap = PcListCell, unwrap = (\<lambda>c. case c of PcListCell x \<Rightarrow> x | _ \<Rightarrow> zero_gPlatformConfigList)\<rparr>"

lemmas rep_defs = int32_rep_def int64_rep_def string_rep_def time_rep_def map_rep_def condition_rep_def selector_rep_def rule_rep_def segSpec_rep_def segStatus_rep_def seg_rep_def segList_rep_def rtSpec_rep_def rtStatus_rep_def rt_rep_def rtList_rep_def health_rep_def pcSpec_rep_def pcStatus_rep_def pc_rep_def pcList_rep_def

lemma reps [simp]:
  "rep_ok int32_rep" "rep_ok int64_rep" "rep_ok string_rep" "rep_ok time_rep"
  "rep_ok map_rep" "rep_ok condition_rep" "rep_ok selector_rep" "rep_ok rule_rep"
  "rep_ok segSpec_rep" "rep_ok segStatus_rep" "rep_ok seg_rep" "rep_ok segList_rep"
  "rep_ok rtSpec_rep" "rep_ok rtStatus_rep" "rep_ok rt_rep" "rep_ok rtList_rep"
  "rep_ok health_rep" "rep_ok pcSpec_rep" "rep_ok pcStatus_rep" "rep_ok pc_rep"
  "rep_ok pcList_rep"
  by (simp_all add: rep_ok_def rep_defs)

end
