(* ===== verification/DeepCopy.thy ===== *)
theory DeepCopy
  imports GoStructs
begin

text \<open>
  \<open>api/v1alpha1/zz_generated.deepcopy.go\<close>, function by function, on the memory of \<open>Memory\<close>. The
  descriptions say which value of \<open>ApiTypes\<close> a struct in memory stands for, beside its
  \<open>TypeMeta\<close> and which of its slices are nil where \<open>ApiTypes\<close> does not tell. The deep copies of
  the Kubernetes library (\<open>ObjectMeta\<close>, \<open>ListMeta\<close>, \<open>Condition\<close>, \<open>Time\<close>) are parameters;
  \<open>lib_laws\<close> is what their documentation promises of each, that it is a deep copy.
\<close>

subsection \<open>The deep copies of the library\<close>

type_synonym 'a copier = "(cell, 'a) ptr \<Rightarrow> (cell, 'a) ptr \<Rightarrow> cell mem \<Rightarrow> cell mem"

record golib =
  Time_DeepCopyInto :: "time copier"
  Condition_DeepCopyInto :: "Condition copier"
  ObjectMeta_DeepCopyInto :: "gObjectMeta copier"
  ListMeta_DeepCopyInto :: "gListMeta copier"

subsection \<open>The generated functions\<close>

definition WorkloadSelector_DeepCopyInto :: "gWorkloadSelector copier" where
  "WorkloadSelector_DeepCopyInto inp out s =
    (let s = copy_plain inp out s;
     s = at_field gw_matchLabels gw_matchLabels_update (copy_map map_rep) inp out s
     in s)"

definition SegmentationRule_DeepCopyInto :: "gSegmentationRule copier" where
  "SegmentationRule_DeepCopyInto inp out s =
    (let s = copy_plain inp out s;
     s = at_field gr_ports gr_ports_update (copy_scalars int32_rep 0) inp out s;
     s = at_field gr_peerSelector gr_peerSelector_update (copy_map map_rep) inp out s
     in s)"

definition SegmentationPolicySpec_DeepCopyInto :: "gSegmentationPolicySpec copier" where
  "SegmentationPolicySpec_DeepCopyInto inp out s =
    (let s = copy_plain inp out s;
     s = at_field gss_selector gss_selector_update WorkloadSelector_DeepCopyInto inp out s;
     s = at_field gss_ingress gss_ingress_update
       (copy_structs rule_rep zero_gSegmentationRule SegmentationRule_DeepCopyInto) inp out s;
     s = at_field gss_egress gss_egress_update
       (copy_structs rule_rep zero_gSegmentationRule SegmentationRule_DeepCopyInto) inp out s
     in s)"

definition SegmentationPolicyStatus_DeepCopyInto :: "golib \<Rightarrow> gSegmentationPolicyStatus copier" where
  "SegmentationPolicyStatus_DeepCopyInto L inp out s =
    (let s = copy_plain inp out s;
     s = at_field gst_conditions gst_conditions_update
       (copy_structs condition_rep zero_Condition (Condition_DeepCopyInto L)) inp out s
     in s)"

definition SegmentationPolicy_DeepCopyInto :: "golib \<Rightarrow> gSegmentationPolicy copier" where
  "SegmentationPolicy_DeepCopyInto L inp out s =
    (let s = copy_plain inp out s;
     s = at_field gsp_TypeMeta gsp_TypeMeta_update copy_plain inp out s;
     s = at_field gsp_ObjectMeta gsp_ObjectMeta_update (ObjectMeta_DeepCopyInto L) inp out s;
     s = at_field gsp_spec gsp_spec_update SegmentationPolicySpec_DeepCopyInto inp out s;
     s = at_field gsp_status gsp_status_update (SegmentationPolicyStatus_DeepCopyInto L) inp out s
     in s)"

definition SegmentationPolicyList_DeepCopyInto :: "golib \<Rightarrow> gSegmentationPolicyList copier" where
  "SegmentationPolicyList_DeepCopyInto L inp out s =
    (let s = copy_plain inp out s;
     s = at_field gspl_TypeMeta gspl_TypeMeta_update copy_plain inp out s;
     s = at_field gspl_ListMeta gspl_ListMeta_update (ListMeta_DeepCopyInto L) inp out s;
     s = at_field gspl_items gspl_items_update
       (copy_structs seg_rep zero_gSegmentationPolicy (SegmentationPolicy_DeepCopyInto L)) inp out s
     in s)"

definition RuntimeSecurityPolicySpec_DeepCopyInto :: "gRuntimeSecurityPolicySpec copier" where
  "RuntimeSecurityPolicySpec_DeepCopyInto inp out s =
    (let s = copy_plain inp out s;
     s = at_field grs_selector grs_selector_update WorkloadSelector_DeepCopyInto inp out s;
     s = at_field grs_deniedBinaries grs_deniedBinaries_update
       (copy_scalars string_rep []) inp out s
     in s)"

definition RuntimeSecurityPolicyStatus_DeepCopyInto :: "golib \<Rightarrow> gRuntimeSecurityPolicyStatus copier" where
  "RuntimeSecurityPolicyStatus_DeepCopyInto L inp out s =
    (let s = copy_plain inp out s;
     s = at_field grt_conditions grt_conditions_update
       (copy_structs condition_rep zero_Condition (Condition_DeepCopyInto L)) inp out s
     in s)"

definition RuntimeSecurityPolicy_DeepCopyInto :: "golib \<Rightarrow> gRuntimeSecurityPolicy copier" where
  "RuntimeSecurityPolicy_DeepCopyInto L inp out s =
    (let s = copy_plain inp out s;
     s = at_field grp_TypeMeta grp_TypeMeta_update copy_plain inp out s;
     s = at_field grp_ObjectMeta grp_ObjectMeta_update (ObjectMeta_DeepCopyInto L) inp out s;
     s = at_field grp_spec grp_spec_update RuntimeSecurityPolicySpec_DeepCopyInto inp out s;
     s = at_field grp_status grp_status_update
       (RuntimeSecurityPolicyStatus_DeepCopyInto L) inp out s
     in s)"

definition RuntimeSecurityPolicyList_DeepCopyInto :: "golib \<Rightarrow> gRuntimeSecurityPolicyList copier" where
  "RuntimeSecurityPolicyList_DeepCopyInto L inp out s =
    (let s = copy_plain inp out s;
     s = at_field grpl_TypeMeta grpl_TypeMeta_update copy_plain inp out s;
     s = at_field grpl_ListMeta grpl_ListMeta_update (ListMeta_DeepCopyInto L) inp out s;
     s = at_field grpl_items grpl_items_update
       (copy_structs rt_rep zero_gRuntimeSecurityPolicy (RuntimeSecurityPolicy_DeepCopyInto L)) inp out s
     in s)"

definition PlatformConfigSpec_DeepCopyInto :: "PlatformConfigSpec copier" where
  "PlatformConfigSpec_DeepCopyInto inp out s =
    (let s = copy_plain inp out s in s)"

definition ProviderHealthStatus_DeepCopyInto :: "golib \<Rightarrow> ProviderHealthStatus copier" where
  "ProviderHealthStatus_DeepCopyInto L inp out s =
    (let s = copy_plain inp out s;
     s = at_field phs_observedAt phs_observedAt_update (Time_DeepCopyInto L) inp out s
     in s)"

definition PlatformConfigStatus_DeepCopyInto :: "golib \<Rightarrow> gPlatformConfigStatus copier" where
  "PlatformConfigStatus_DeepCopyInto L inp out s =
    (let s = copy_plain inp out s;
     s = at_field gpt_conditions gpt_conditions_update
       (copy_structs condition_rep zero_Condition (Condition_DeepCopyInto L)) inp out s;
     s = at_field gpt_providerHealth gpt_providerHealth_update
       (copy_structs health_rep zero_ProviderHealthStatus (ProviderHealthStatus_DeepCopyInto L)) inp out s
     in s)"

definition PlatformConfig_DeepCopyInto :: "golib \<Rightarrow> gPlatformConfig copier" where
  "PlatformConfig_DeepCopyInto L inp out s =
    (let s = copy_plain inp out s;
     s = at_field gpc_TypeMeta gpc_TypeMeta_update copy_plain inp out s;
     s = at_field gpc_ObjectMeta gpc_ObjectMeta_update (ObjectMeta_DeepCopyInto L) inp out s;
     s = at_field gpc_spec gpc_spec_update copy_plain inp out s;
     s = at_field gpc_status gpc_status_update (PlatformConfigStatus_DeepCopyInto L) inp out s
     in s)"

definition PlatformConfigList_DeepCopyInto :: "golib \<Rightarrow> gPlatformConfigList copier" where
  "PlatformConfigList_DeepCopyInto L inp out s =
    (let s = copy_plain inp out s;
     s = at_field gpcl_TypeMeta gpcl_TypeMeta_update copy_plain inp out s;
     s = at_field gpcl_ListMeta gpcl_ListMeta_update (ListMeta_DeepCopyInto L) inp out s;
     s = at_field gpcl_items gpcl_items_update
       (copy_structs pc_rep zero_gPlatformConfig (PlatformConfig_DeepCopyInto L)) inp out s
     in s)"

text \<open>\<open>DeepCopy\<close>, nil for nil.\<close>

definition WorkloadSelector_DeepCopy :: "(cell, gWorkloadSelector) ptr option \<Rightarrow> cell mem \<Rightarrow>
    (cell, gWorkloadSelector) ptr option \<times> cell mem" where
  "WorkloadSelector_DeepCopy = deep_copy_of selector_rep zero_gWorkloadSelector WorkloadSelector_DeepCopyInto"

definition SegmentationRule_DeepCopy :: "(cell, gSegmentationRule) ptr option \<Rightarrow> cell mem \<Rightarrow>
    (cell, gSegmentationRule) ptr option \<times> cell mem" where
  "SegmentationRule_DeepCopy = deep_copy_of rule_rep zero_gSegmentationRule SegmentationRule_DeepCopyInto"

definition SegmentationPolicySpec_DeepCopy :: "(cell, gSegmentationPolicySpec) ptr option \<Rightarrow> cell mem \<Rightarrow>
    (cell, gSegmentationPolicySpec) ptr option \<times> cell mem" where
  "SegmentationPolicySpec_DeepCopy = deep_copy_of segSpec_rep zero_gSegmentationPolicySpec SegmentationPolicySpec_DeepCopyInto"

definition SegmentationPolicyStatus_DeepCopy :: "golib \<Rightarrow> (cell, gSegmentationPolicyStatus) ptr option \<Rightarrow> cell mem \<Rightarrow>
    (cell, gSegmentationPolicyStatus) ptr option \<times> cell mem" where
  "SegmentationPolicyStatus_DeepCopy L = deep_copy_of segStatus_rep zero_gSegmentationPolicyStatus (SegmentationPolicyStatus_DeepCopyInto L)"

definition SegmentationPolicy_DeepCopy :: "golib \<Rightarrow> (cell, gSegmentationPolicy) ptr option \<Rightarrow> cell mem \<Rightarrow>
    (cell, gSegmentationPolicy) ptr option \<times> cell mem" where
  "SegmentationPolicy_DeepCopy L = deep_copy_of seg_rep zero_gSegmentationPolicy (SegmentationPolicy_DeepCopyInto L)"

definition SegmentationPolicyList_DeepCopy :: "golib \<Rightarrow> (cell, gSegmentationPolicyList) ptr option \<Rightarrow> cell mem \<Rightarrow>
    (cell, gSegmentationPolicyList) ptr option \<times> cell mem" where
  "SegmentationPolicyList_DeepCopy L = deep_copy_of segList_rep zero_gSegmentationPolicyList (SegmentationPolicyList_DeepCopyInto L)"

definition RuntimeSecurityPolicySpec_DeepCopy :: "(cell, gRuntimeSecurityPolicySpec) ptr option \<Rightarrow> cell mem \<Rightarrow>
    (cell, gRuntimeSecurityPolicySpec) ptr option \<times> cell mem" where
  "RuntimeSecurityPolicySpec_DeepCopy = deep_copy_of rtSpec_rep zero_gRuntimeSecurityPolicySpec RuntimeSecurityPolicySpec_DeepCopyInto"

definition RuntimeSecurityPolicyStatus_DeepCopy :: "golib \<Rightarrow> (cell, gRuntimeSecurityPolicyStatus) ptr option \<Rightarrow> cell mem \<Rightarrow>
    (cell, gRuntimeSecurityPolicyStatus) ptr option \<times> cell mem" where
  "RuntimeSecurityPolicyStatus_DeepCopy L = deep_copy_of rtStatus_rep zero_gRuntimeSecurityPolicyStatus (RuntimeSecurityPolicyStatus_DeepCopyInto L)"

definition RuntimeSecurityPolicy_DeepCopy :: "golib \<Rightarrow> (cell, gRuntimeSecurityPolicy) ptr option \<Rightarrow> cell mem \<Rightarrow>
    (cell, gRuntimeSecurityPolicy) ptr option \<times> cell mem" where
  "RuntimeSecurityPolicy_DeepCopy L = deep_copy_of rt_rep zero_gRuntimeSecurityPolicy (RuntimeSecurityPolicy_DeepCopyInto L)"

definition RuntimeSecurityPolicyList_DeepCopy :: "golib \<Rightarrow> (cell, gRuntimeSecurityPolicyList) ptr option \<Rightarrow> cell mem \<Rightarrow>
    (cell, gRuntimeSecurityPolicyList) ptr option \<times> cell mem" where
  "RuntimeSecurityPolicyList_DeepCopy L = deep_copy_of rtList_rep zero_gRuntimeSecurityPolicyList (RuntimeSecurityPolicyList_DeepCopyInto L)"

definition PlatformConfigSpec_DeepCopy :: "(cell, PlatformConfigSpec) ptr option \<Rightarrow> cell mem \<Rightarrow>
    (cell, PlatformConfigSpec) ptr option \<times> cell mem" where
  "PlatformConfigSpec_DeepCopy = deep_copy_of pcSpec_rep zero_PlatformConfigSpec PlatformConfigSpec_DeepCopyInto"

definition ProviderHealthStatus_DeepCopy :: "golib \<Rightarrow> (cell, ProviderHealthStatus) ptr option \<Rightarrow> cell mem \<Rightarrow>
    (cell, ProviderHealthStatus) ptr option \<times> cell mem" where
  "ProviderHealthStatus_DeepCopy L = deep_copy_of health_rep zero_ProviderHealthStatus (ProviderHealthStatus_DeepCopyInto L)"

definition PlatformConfigStatus_DeepCopy :: "golib \<Rightarrow> (cell, gPlatformConfigStatus) ptr option \<Rightarrow> cell mem \<Rightarrow>
    (cell, gPlatformConfigStatus) ptr option \<times> cell mem" where
  "PlatformConfigStatus_DeepCopy L = deep_copy_of pcStatus_rep zero_gPlatformConfigStatus (PlatformConfigStatus_DeepCopyInto L)"

definition PlatformConfig_DeepCopy :: "golib \<Rightarrow> (cell, gPlatformConfig) ptr option \<Rightarrow> cell mem \<Rightarrow>
    (cell, gPlatformConfig) ptr option \<times> cell mem" where
  "PlatformConfig_DeepCopy L = deep_copy_of pc_rep zero_gPlatformConfig (PlatformConfig_DeepCopyInto L)"

definition PlatformConfigList_DeepCopy :: "golib \<Rightarrow> (cell, gPlatformConfigList) ptr option \<Rightarrow> cell mem \<Rightarrow>
    (cell, gPlatformConfigList) ptr option \<times> cell mem" where
  "PlatformConfigList_DeepCopy L = deep_copy_of pcList_rep zero_gPlatformConfigList (PlatformConfigList_DeepCopyInto L)"

text \<open>
  A value of the interface type \<open>runtime.Object\<close>: nil, or a pointer with its type. An interface
  that holds a nil pointer is not nil, which is why \<open>DeepCopyObject\<close> tests for it.
\<close>

datatype runtime_Object =
    NilObject
  | SegmentationPolicyObject "(cell, gSegmentationPolicy) ptr option"
  | SegmentationPolicyListObject "(cell, gSegmentationPolicyList) ptr option"
  | RuntimeSecurityPolicyObject "(cell, gRuntimeSecurityPolicy) ptr option"
  | RuntimeSecurityPolicyListObject "(cell, gRuntimeSecurityPolicyList) ptr option"
  | PlatformConfigObject "(cell, gPlatformConfig) ptr option"
  | PlatformConfigListObject "(cell, gPlatformConfigList) ptr option"

definition SegmentationPolicy_DeepCopyObject :: "golib \<Rightarrow> (cell, gSegmentationPolicy) ptr option \<Rightarrow> cell mem \<Rightarrow>
    runtime_Object \<times> cell mem" where
  "SegmentationPolicy_DeepCopyObject L inp s = (case SegmentationPolicy_DeepCopy L inp s of
     (c, s) \<Rightarrow> (case c of Some _ \<Rightarrow> SegmentationPolicyObject c | None \<Rightarrow> NilObject, s))"

definition SegmentationPolicyList_DeepCopyObject :: "golib \<Rightarrow> (cell, gSegmentationPolicyList) ptr option \<Rightarrow> cell mem \<Rightarrow>
    runtime_Object \<times> cell mem" where
  "SegmentationPolicyList_DeepCopyObject L inp s = (case SegmentationPolicyList_DeepCopy L inp s of
     (c, s) \<Rightarrow> (case c of Some _ \<Rightarrow> SegmentationPolicyListObject c | None \<Rightarrow> NilObject, s))"

definition RuntimeSecurityPolicy_DeepCopyObject :: "golib \<Rightarrow> (cell, gRuntimeSecurityPolicy) ptr option \<Rightarrow> cell mem \<Rightarrow>
    runtime_Object \<times> cell mem" where
  "RuntimeSecurityPolicy_DeepCopyObject L inp s = (case RuntimeSecurityPolicy_DeepCopy L inp s of
     (c, s) \<Rightarrow> (case c of Some _ \<Rightarrow> RuntimeSecurityPolicyObject c | None \<Rightarrow> NilObject, s))"

definition RuntimeSecurityPolicyList_DeepCopyObject :: "golib \<Rightarrow> (cell, gRuntimeSecurityPolicyList) ptr option \<Rightarrow> cell mem \<Rightarrow>
    runtime_Object \<times> cell mem" where
  "RuntimeSecurityPolicyList_DeepCopyObject L inp s = (case RuntimeSecurityPolicyList_DeepCopy L inp s of
     (c, s) \<Rightarrow> (case c of Some _ \<Rightarrow> RuntimeSecurityPolicyListObject c | None \<Rightarrow> NilObject, s))"

definition PlatformConfig_DeepCopyObject :: "golib \<Rightarrow> (cell, gPlatformConfig) ptr option \<Rightarrow> cell mem \<Rightarrow>
    runtime_Object \<times> cell mem" where
  "PlatformConfig_DeepCopyObject L inp s = (case PlatformConfig_DeepCopy L inp s of
     (c, s) \<Rightarrow> (case c of Some _ \<Rightarrow> PlatformConfigObject c | None \<Rightarrow> NilObject, s))"

definition PlatformConfigList_DeepCopyObject :: "golib \<Rightarrow> (cell, gPlatformConfigList) ptr option \<Rightarrow> cell mem \<Rightarrow>
    runtime_Object \<times> cell mem" where
  "PlatformConfigList_DeepCopyObject L inp s = (case PlatformConfigList_DeepCopy L inp s of
     (c, s) \<Rightarrow> (case c of Some _ \<Rightarrow> PlatformConfigListObject c | None \<Rightarrow> NilObject, s))"

subsection \<open>What the structs stand for\<close>

definition listed :: "'a list option \<Rightarrow> 'a list" where
  "listed xs = (case xs of None \<Rightarrow> [] | Some ys \<Rightarrow> ys)"

text \<open>A pointer to a variable of a plain type.\<close>

definition pointer_desc :: "(cell, 'a) rep \<Rightarrow> (cell, cell_ref, 'a option) desc" where
  "pointer_desc r =
     \<lparr>val = (\<lambda>s p. case p of None \<Rightarrow> None | Some (a, i) \<Rightarrow> Some (unwrap r (s ! a ! i))),
      reach = (\<lambda>s p. case p of None \<Rightarrow> {} | Some (a, i) \<Rightarrow> {a}),
      sound = (\<lambda>s p. case p of None \<Rightarrow> True
        | Some (a, i) \<Rightarrow> a < length s \<and> i < length (s ! a) \<and> typed r (s ! a ! i))\<rparr>"

definition objectMeta_desc :: "(cell, gObjectMeta, ObjectMeta \<times> bool list) desc" where
  "objectMeta_desc = via (\<lambda>x. (gm_deletionTimestamp x, gm_finalizers x))
     (\<lambda>x (t, fs). (\<lparr>om_name = gm_name x, om_namespace = gm_namespace x,
        om_resourceVersion = gm_resourceVersion x, om_generation = gm_generation x,
        om_deletionTimestamp = t, om_finalizers = listed fs\<rparr>, [fs = None]))
     (pair_desc (pointer_desc time_rep) (slice_desc string_rep plain_desc))"

definition listMeta_desc :: "(cell, gListMeta, string \<times> string \<times> int64 option) desc" where
  "listMeta_desc = via glm_remainingItemCount
     (\<lambda>x n. (glm_resourceVersion x, glm_continue x, n)) (pointer_desc int64_rep)"

definition selector_desc :: "(cell, gWorkloadSelector, WorkloadSelector) desc" where
  "selector_desc = via gw_matchLabels (\<lambda>x m. \<lparr>matchLabels = m\<rparr>) (map_desc map_rep)"

definition rule_desc :: "(cell, gSegmentationRule, SegmentationRule) desc" where
  "rule_desc = via (\<lambda>x. (gr_ports x, gr_peerSelector x))
     (\<lambda>x (ps, m). \<lparr>ports = ps, peerSelector = m, peerNamespace = gr_peerNamespace x\<rparr>)
     (pair_desc (slice_desc int32_rep plain_desc) (map_desc map_rep))"

definition segSpec_desc :: "(cell, gSegmentationPolicySpec, SegmentationPolicySpec) desc" where
  "segSpec_desc = via (\<lambda>x. ((gss_selector x, gss_ingress x), gss_egress x))
     (\<lambda>x ((sel, i), e). \<lparr>sps_selector = sel, sps_ingress = i, sps_egress = e,
        sps_providerRef = gss_providerRef x\<rparr>)
     (pair_desc (pair_desc selector_desc (slice_desc rule_rep rule_desc)) (slice_desc rule_rep rule_desc))"

definition segStatus_desc :: "(cell, gSegmentationPolicyStatus, SegmentationPolicyStatus \<times> bool list) desc" where
  "segStatus_desc = via gst_conditions
     (\<lambda>x cs. (\<lparr>sst_conditions = listed cs, sst_observedGeneration = gst_observedGeneration x,
        sst_resolvedFlowProvider = gst_resolvedFlowProvider x\<rparr>, [cs = None]))
     (slice_desc condition_rep plain_desc)"

definition seg_desc :: "(cell, gSegmentationPolicy, TypeMeta \<times> SegmentationPolicy \<times> bool list) desc" where
  "seg_desc = via (\<lambda>x. (((gsp_TypeMeta x, gsp_ObjectMeta x), gsp_spec x), gsp_status x))
     (\<lambda>x (((tm, m), sp), st).
        (tm, \<lparr>sp_meta = fst m, sp_spec = sp, sp_status = fst st\<rparr>, snd m @ snd st))
     (pair_desc (pair_desc (pair_desc plain_desc objectMeta_desc) segSpec_desc) segStatus_desc)"

definition rtSpec_desc :: "(cell, gRuntimeSecurityPolicySpec, RuntimeSecurityPolicySpec) desc" where
  "rtSpec_desc = via (\<lambda>x. (grs_selector x, grs_deniedBinaries x))
     (\<lambda>x (sel, bs). \<lparr>rps_selector = sel, rps_tracingPolicyRef = grs_tracingPolicyRef x,
        rps_deniedBinaries = bs\<rparr>)
     (pair_desc selector_desc (slice_desc string_rep plain_desc))"

definition rtStatus_desc :: "(cell, gRuntimeSecurityPolicyStatus, RuntimeSecurityPolicyStatus \<times> bool list) desc" where
  "rtStatus_desc = via grt_conditions
     (\<lambda>x cs. (\<lparr>rst_conditions = listed cs, rst_observedGeneration = grt_observedGeneration x,
        rst_correlatedEvidenceCount = grt_correlatedEvidenceCount x\<rparr>, [cs = None]))
     (slice_desc condition_rep plain_desc)"

definition rt_desc :: "(cell, gRuntimeSecurityPolicy, TypeMeta \<times> RuntimeSecurityPolicy \<times> bool list) desc" where
  "rt_desc = via (\<lambda>x. (((grp_TypeMeta x, grp_ObjectMeta x), grp_spec x), grp_status x))
     (\<lambda>x (((tm, m), sp), st).
        (tm, \<lparr>rp_meta = fst m, rp_spec = sp, rp_status = fst st\<rparr>, snd m @ snd st))
     (pair_desc (pair_desc (pair_desc plain_desc objectMeta_desc) rtSpec_desc) rtStatus_desc)"

definition pcStatus_desc :: "(cell, gPlatformConfigStatus, PlatformConfigStatus \<times> bool list) desc" where
  "pcStatus_desc = via (\<lambda>x. (gpt_conditions x, gpt_providerHealth x))
     (\<lambda>x (cs, hs). (\<lparr>pst_conditions = listed cs, pst_observedGeneration = gpt_observedGeneration x,
        pst_providerHealth = listed hs\<rparr>, [cs = None, hs = None]))
     (pair_desc (slice_desc condition_rep plain_desc) (slice_desc health_rep plain_desc))"

definition pc_desc :: "(cell, gPlatformConfig, TypeMeta \<times> PlatformConfig \<times> bool list) desc" where
  "pc_desc = via (\<lambda>x. (((gpc_TypeMeta x, gpc_ObjectMeta x), gpc_spec x), gpc_status x))
     (\<lambda>x (((tm, m), sp), st).
        (tm, \<lparr>pc_meta = fst m, pc_spec = sp, pc_status = fst st\<rparr>, snd m @ snd st))
     (pair_desc (pair_desc (pair_desc plain_desc objectMeta_desc) plain_desc) pcStatus_desc)"

text \<open>A list stands for its type, its metadata and its items, nil told from empty.\<close>

type_synonym 'v items = "(TypeMeta \<times> (string \<times> string \<times> int64 option)) \<times> 'v list option"

definition segList_desc ::
  "(cell, gSegmentationPolicyList, (TypeMeta \<times> SegmentationPolicy \<times> bool list) items) desc" where
  "segList_desc = via (\<lambda>x. ((gspl_TypeMeta x, gspl_ListMeta x), gspl_items x)) (\<lambda>x w. w)
     (pair_desc (pair_desc plain_desc listMeta_desc) (slice_desc seg_rep seg_desc))"

definition rtList_desc ::
  "(cell, gRuntimeSecurityPolicyList, (TypeMeta \<times> RuntimeSecurityPolicy \<times> bool list) items) desc" where
  "rtList_desc = via (\<lambda>x. ((grpl_TypeMeta x, grpl_ListMeta x), grpl_items x)) (\<lambda>x w. w)
     (pair_desc (pair_desc plain_desc listMeta_desc) (slice_desc rt_rep rt_desc))"

definition pcList_desc ::
  "(cell, gPlatformConfigList, (TypeMeta \<times> PlatformConfig \<times> bool list) items) desc" where
  "pcList_desc = via (\<lambda>x. ((gpcl_TypeMeta x, gpcl_ListMeta x), gpcl_items x)) (\<lambda>x w. w)
     (pair_desc (pair_desc plain_desc listMeta_desc) (slice_desc pc_rep pc_desc))"

definition lib_laws :: "golib \<Rightarrow> bool" where
  "lib_laws L \<longleftrightarrow> deep_copy plain_desc (Time_DeepCopyInto L) \<and>
     deep_copy plain_desc (Condition_DeepCopyInto L) \<and>
     deep_copy objectMeta_desc (ObjectMeta_DeepCopyInto L) \<and>
     deep_copy listMeta_desc (ListMeta_DeepCopyInto L)"

subsection \<open>Every generated function is a deep copy\<close>

lemma described_pointer: "described (pointer_desc r)"
  by unfold_locales (auto simp: pointer_desc_def same_on_def split: option.splits)

lemmas described_parts [simp] = described_plain described_map described_pointer described_pair
  described_slice described_via

lemma described_structs [simp]:
  "described objectMeta_desc" "described listMeta_desc" "described selector_desc"
  "described rule_desc" "described segSpec_desc" "described segStatus_desc"
  "described seg_desc" "described rtSpec_desc" "described rtStatus_desc"
  "described rt_desc" "described pcStatus_desc" "described pc_desc"
  "described segList_desc" "described rtList_desc" "described pcList_desc"
  by (simp_all add: objectMeta_desc_def listMeta_desc_def selector_desc_def rule_desc_def segSpec_desc_def segStatus_desc_def seg_desc_def rtSpec_desc_def rtStatus_desc_def rt_desc_def pcStatus_desc_def pc_desc_def segList_desc_def rtList_desc_def pcList_desc_def)

text \<open>One step per field, by what is run there.\<close>

lemmas field_step = nested_copy.fills_field
lemmas struct_step = nested_copy.fills_field [OF deep_copy.as_nested]
lemmas plain_step = struct_step [OF plain_copies]
lemmas map_step = field_step [OF map_copies]
lemmas scalars_step = field_step [OF scalars_copy]
lemmas structs_step = field_step [OF deep_copy.slice_copies]

lemma selector_copies [simp]: "deep_copy selector_desc WorkloadSelector_DeepCopyInto"
  unfolding selector_desc_def WorkloadSelector_DeepCopyInto_def [abs_def] Let_def
  by (rule struct_copy [OF map_step])
    (auto simp: lens_def lib_laws_def)

lemma rule_copies [simp]: "deep_copy rule_desc SegmentationRule_DeepCopyInto"
  unfolding rule_desc_def SegmentationRule_DeepCopyInto_def [abs_def] Let_def
  by (rule struct_copy [OF fills_pair [OF scalars_step map_step]])
    (auto simp: lens_def lib_laws_def)

lemma segSpec_copies [simp]: "deep_copy segSpec_desc SegmentationPolicySpec_DeepCopyInto"
  unfolding segSpec_desc_def SegmentationPolicySpec_DeepCopyInto_def [abs_def] Let_def
  by (rule struct_copy [OF fills_pair [OF fills_pair [OF struct_step structs_step] structs_step]])
    (auto simp: lens_def lib_laws_def)

lemma segStatus_copies [simp]: "lib_laws L \<Longrightarrow> deep_copy segStatus_desc (SegmentationPolicyStatus_DeepCopyInto L)"
  unfolding segStatus_desc_def SegmentationPolicyStatus_DeepCopyInto_def [abs_def] Let_def
  by (rule struct_copy [OF structs_step])
    (auto simp: lens_def lib_laws_def)

lemma seg_copies [simp]: "lib_laws L \<Longrightarrow> deep_copy seg_desc (SegmentationPolicy_DeepCopyInto L)"
  unfolding seg_desc_def SegmentationPolicy_DeepCopyInto_def [abs_def] Let_def
  by (rule struct_copy [OF fills_pair [OF fills_pair [OF fills_pair [OF plain_step struct_step] struct_step] struct_step]])
    (auto simp: lens_def lib_laws_def)

lemma segList_copies [simp]: "lib_laws L \<Longrightarrow> deep_copy segList_desc (SegmentationPolicyList_DeepCopyInto L)"
  unfolding segList_desc_def SegmentationPolicyList_DeepCopyInto_def [abs_def] Let_def
  by (rule struct_copy [OF fills_pair [OF fills_pair [OF plain_step struct_step] structs_step]])
    (auto simp: lens_def lib_laws_def)

lemma rtSpec_copies [simp]: "deep_copy rtSpec_desc RuntimeSecurityPolicySpec_DeepCopyInto"
  unfolding rtSpec_desc_def RuntimeSecurityPolicySpec_DeepCopyInto_def [abs_def] Let_def
  by (rule struct_copy [OF fills_pair [OF struct_step scalars_step]])
    (auto simp: lens_def lib_laws_def)

lemma rtStatus_copies [simp]: "lib_laws L \<Longrightarrow> deep_copy rtStatus_desc (RuntimeSecurityPolicyStatus_DeepCopyInto L)"
  unfolding rtStatus_desc_def RuntimeSecurityPolicyStatus_DeepCopyInto_def [abs_def] Let_def
  by (rule struct_copy [OF structs_step])
    (auto simp: lens_def lib_laws_def)

lemma rt_copies [simp]: "lib_laws L \<Longrightarrow> deep_copy rt_desc (RuntimeSecurityPolicy_DeepCopyInto L)"
  unfolding rt_desc_def RuntimeSecurityPolicy_DeepCopyInto_def [abs_def] Let_def
  by (rule struct_copy [OF fills_pair [OF fills_pair [OF fills_pair [OF plain_step struct_step] struct_step] struct_step]])
    (auto simp: lens_def lib_laws_def)

lemma rtList_copies [simp]: "lib_laws L \<Longrightarrow> deep_copy rtList_desc (RuntimeSecurityPolicyList_DeepCopyInto L)"
  unfolding rtList_desc_def RuntimeSecurityPolicyList_DeepCopyInto_def [abs_def] Let_def
  by (rule struct_copy [OF fills_pair [OF fills_pair [OF plain_step struct_step] structs_step]])
    (auto simp: lens_def lib_laws_def)

lemma pcSpec_copies [simp]: "deep_copy plain_desc PlatformConfigSpec_DeepCopyInto"
  unfolding PlatformConfigSpec_DeepCopyInto_def [abs_def] Let_def by (rule plain_copies)

lemma health_copies [simp]:
  assumes "lib_laws L"
  shows "deep_copy plain_desc (ProviderHealthStatus_DeepCopyInto L)"
proof -
  have "plain_desc = via phs_observedAt (\<lambda>x t. x\<lparr>phs_observedAt := t\<rparr>) plain_desc"
    by (simp add: plain_desc_def via_def)
  with assms show ?thesis
    unfolding ProviderHealthStatus_DeepCopyInto_def [abs_def] Let_def
    by (subst \<open>plain_desc = _\<close>, intro struct_copy [OF struct_step]) (auto simp: lens_def lib_laws_def)
qed

lemma pcStatus_copies [simp]: "lib_laws L \<Longrightarrow> deep_copy pcStatus_desc (PlatformConfigStatus_DeepCopyInto L)"
  unfolding pcStatus_desc_def PlatformConfigStatus_DeepCopyInto_def [abs_def] Let_def
  by (rule struct_copy [OF fills_pair [OF structs_step structs_step]])
    (auto simp: lens_def lib_laws_def)

lemma pc_copies [simp]: "lib_laws L \<Longrightarrow> deep_copy pc_desc (PlatformConfig_DeepCopyInto L)"
  unfolding pc_desc_def PlatformConfig_DeepCopyInto_def [abs_def] Let_def
  by (rule struct_copy [OF fills_pair [OF fills_pair [OF fills_pair [OF plain_step struct_step] plain_step] struct_step]])
    (auto simp: lens_def lib_laws_def)

lemma pcList_copies [simp]: "lib_laws L \<Longrightarrow> deep_copy pcList_desc (PlatformConfigList_DeepCopyInto L)"
  unfolding pcList_desc_def PlatformConfigList_DeepCopyInto_def [abs_def] Let_def
  by (rule struct_copy [OF fills_pair [OF fills_pair [OF plain_step struct_step] structs_step]])
    (auto simp: lens_def lib_laws_def)

end
