(* ===== verification/DeepCopyContract.thy ===== *)
theory DeepCopyContract
  imports DeepCopy
begin

text \<open>
  What the generated deep copies promise to those who call them: the values the rest of the
  development passes around may be passed as values, because a copy denotes the same as its
  original and shares no memory with it. The last section applies the contract to a policy list
  in memory and shows what happens outside of it.
\<close>

subsection \<open>The contract, for callers\<close>

definition holds_at :: "(cell, 'a, 'v) desc \<Rightarrow> (cell, 'a) ptr \<Rightarrow> cell mem \<Rightarrow> bool" where
  "holds_at D p s \<longleftrightarrow> base p < length s \<and> sound D s (deref p s)"

text \<open>In \<open>s'\<close>, the variable at \<open>q\<close> duplicates the one at \<open>p\<close> in the earlier memory \<open>s\<close>.\<close>

definition duplicate_of :: "(cell, 'a, 'v) desc \<Rightarrow> cell mem \<Rightarrow> (cell, 'a) ptr \<Rightarrow> cell mem \<Rightarrow>
    (cell, 'a) ptr \<Rightarrow> bool" where
  "duplicate_of D s p s' q \<longleftrightarrow> take (length s) s' = s \<and> holds_at D q s' \<and>
     val D s' (deref q s') = val D s (deref p s) \<and>
     insert (base q) (reach D s' (deref q s')) \<subseteq> {length s..<length s'}"

text \<open>\<open>DeepCopyObject\<close>: the nil interface for nil, else a duplicate under its own type.\<close>

definition copies_object :: "(cell, 'a, 'v) desc \<Rightarrow> ((cell, 'a) ptr option \<Rightarrow> runtime_Object) \<Rightarrow>
    ((cell, 'a) ptr option \<Rightarrow> cell mem \<Rightarrow> runtime_Object \<times> cell mem) \<Rightarrow> bool" where
  "copies_object D mk f \<longleftrightarrow> (\<forall>s. f None s = (NilObject, s)) \<and>
     (\<forall>p s. holds_at D p s \<longrightarrow>
       (\<exists>q s'. f (Some p) s = (mk (Some q), s') \<and> duplicate_of D s p s' q))"

text \<open>Whatever is written later to the memory of the one, the other denotes what it did.\<close>

definition isolates :: "(cell, 'a, 'v) desc \<Rightarrow>
    ((cell, 'a) ptr option \<Rightarrow> cell mem \<Rightarrow> (cell, 'a) ptr option \<times> cell mem) \<Rightarrow> bool" where
  "isolates D f \<longleftrightarrow> (\<forall>p s q s' t. holds_at D p s \<and> f (Some p) s = (Some q, s') \<longrightarrow>
     (same_on {..<length s} s' t \<longrightarrow> val D t (deref p t) = val D s (deref p s)) \<and>
     (same_on {length s..<length s'} s' t \<longrightarrow> val D t (deref q t) = val D s (deref p s)))"

text \<open>\<open>DeepCopyInto\<close> a variable that is there: nothing but it is changed.\<close>

definition overwrites :: "(cell, 'a, 'v) desc \<Rightarrow> 'a copier \<Rightarrow> bool" where
  "overwrites D f \<longleftrightarrow> (\<forall>p q s. holds_at D p s \<and> writable q s \<and> apart p q s \<and>
       base q \<notin> reach D s (deref p s) \<longrightarrow>
     (let s' = f p q s in take (length s) s' = assign q (deref q s') s \<and> holds_at D q s' \<and>
        val D s' (deref q s') = val D s (deref p s) \<and>
        reach D s' (deref q s') \<subseteq> {length s..<length s'}))"

lemma same_on_weaken: "same_on B s t \<Longrightarrow> A \<subseteq> B \<Longrightarrow> same_on A s t"
  by (auto simp: same_on_def)

lemma deref_same: "same_on {base p} s t \<Longrightarrow> deref p t = deref p s"
  by (simp add: same_on_def deref_def)

lemma deep_copy_duplicates:
  assumes f: "deep_copy D f" and r: "rep_ok r" and p: "holds_at D p s"
  obtains q s' where "deep_copy_of r z f (Some p) s = (Some q, s')" and "duplicate_of D s p s' q"
proof -
  obtain res s' where run: "deep_copy_of r z f (Some p) s = (res, s')"
    by (cases "deep_copy_of r z f (Some p) s")
  from p have p: "base p < length s" "sound D s (deref p s)" by (simp_all add: holds_at_def)
  from deep_copy.duplicates [OF f r p run] obtain q where
    "res = Some q" "take (length s) s' = s" "base q = length s" "length s < length s'"
    "sound D s' (deref q s')" "val D s' (deref q s') = val D s (deref p s)"
    "reach D s' (deref q s') \<subseteq> {Suc (length s)..<length s'}" .
  with run show thesis
    by (intro that [of q s']) (auto simp: duplicate_of_def holds_at_def)
qed

lemma duplicate_isolated:
  assumes D: "described D" and p: "holds_at D p s" and q: "duplicate_of D s p s' q"
  shows "same_on {..<length s} s' t \<Longrightarrow> val D t (deref p t) = val D s (deref p s)"
    and "same_on {length s..<length s'} s' t \<Longrightarrow> val D t (deref q t) = val D s (deref p s)"
proof -
  assume old: "same_on {..<length s} s' t"
  from q have "take (length s) s' = s" by (simp add: duplicate_of_def)
  then have "s' ! a = s ! a" if "a < length s" for a using that by (metis nth_take)
  with old have st: "same_on {..<length s} s t" by (simp add: same_on_def)
  from p have "base p < length s" "sound D s (deref p s)" by (simp_all add: holds_at_def)
  with described.allocated [OF D, of s "deref p s"] st
  have "same_on {base p} s t" "same_on (reach D s (deref p s)) s t"
    by (auto intro: same_on_weaken)
  with described.local [OF D \<open>sound D s (deref p s)\<close>] show "val D t (deref p t) = val D s (deref p s)"
    by (simp add: deref_same)
next
  assume new: "same_on {length s..<length s'} s' t"
  from q have q: "sound D s' (deref q s')" "val D s' (deref q s') = val D s (deref p s)"
    "insert (base q) (reach D s' (deref q s')) \<subseteq> {length s..<length s'}"
    by (simp_all add: duplicate_of_def holds_at_def)
  from new q(3) have "same_on {base q} s' t" "same_on (reach D s' (deref q s')) s' t"
    by (auto intro: same_on_weaken)
  with described.local [OF D q(1)] q(2) show "val D t (deref q t) = val D s (deref p s)"
    by (simp add: deref_same)
qed

lemma deep_copy_isolates: "deep_copy D f \<Longrightarrow> rep_ok r \<Longrightarrow> isolates D (deep_copy_of r z f)"
  unfolding isolates_def
  by (metis (no_types, lifting) deep_copy_duplicates deep_copy.axioms(1) duplicate_isolated
      option.inject prod.inject)

lemma deep_copy_overwrites:
  fixes D :: "(cell, 'a, 'v) desc"
  assumes f: "deep_copy D f"
  shows "overwrites D f"
  unfolding overwrites_def Let_def
proof (intro allI impI, elim conjE)
  fix p q :: "(cell, 'a) ptr" and s
  assume p: "holds_at D p s" and q: "writable q s" and pq: "apart p q s" "base q \<notin> reach D s (deref p s)"
  from p have v: "base p < length s" "sound D s (deref p s)" by (simp_all add: holds_at_def)
  from deep_copy.copies [OF f q v(1) pq(1) v(2) pq(2)] obtain x n where
    x: "f p q s = assign q x (s @ n)" "fresh_copy D s (deref p s) n x" by blast
  let ?t = "assign q x (s @ n)"
  have bq: "base q < length s" using q by (rule writable_base)
  have "same_on (reach D (s @ n) x) (s @ n) ?t"
    using x(2) bq by (intro same_on_assign) (auto simp: fresh_copy_def)
  from described.local [OF deep_copy.axioms(1) [OF f] _ this] x(2)
  have "sound D ?t x \<and> val D ?t x = val D s (deref p s) \<and> reach D ?t x \<subseteq> {length s..<length (s @ n)}"
    by (simp add: fresh_copy_def)
  moreover have "deref q ?t = x" using q by simp
  ultimately show "take (length s) (f p q s) = assign q (deref q (f p q s)) s \<and> holds_at D q (f p q s) \<and>
      val D (f p q s) (deref q (f p q s)) = val D s (deref p s) \<and>
      reach D (f p q s) (deref q (f p q s)) \<subseteq> {length s..<length (f p q s)}"
    using bq x(1) by (simp add: holds_at_def)
qed

lemma deep_copy_object:
  assumes "deep_copy D f" and "rep_ok r"
  shows "copies_object D mk (\<lambda>inp s. case deep_copy_of r z f inp s of
    (c, s) \<Rightarrow> (case c of None \<Rightarrow> NilObject | Some _ \<Rightarrow> mk c, s))"
  unfolding copies_object_def
proof (intro conjI allI impI)
  fix p s assume "holds_at D p s"
  then obtain q s' where "deep_copy_of r z f (Some p) s = (Some q, s')" "duplicate_of D s p s' q"
    by (rule deep_copy_duplicates [OF assms])
  then show "\<exists>q s'. (case deep_copy_of r z f (Some p) s of
      (c, s) \<Rightarrow> (case c of None \<Rightarrow> NilObject | Some _ \<Rightarrow> mk c, s)) = (mk (Some q), s') \<and>
      duplicate_of D s p s' q" by auto
qed (simp add: deep_copy_of_def)

lemmas DeepCopy_defs =
  WorkloadSelector_DeepCopy_def SegmentationRule_DeepCopy_def SegmentationPolicySpec_DeepCopy_def
  SegmentationPolicyStatus_DeepCopy_def SegmentationPolicy_DeepCopy_def SegmentationPolicyList_DeepCopy_def
  RuntimeSecurityPolicySpec_DeepCopy_def RuntimeSecurityPolicyStatus_DeepCopy_def
  RuntimeSecurityPolicy_DeepCopy_def RuntimeSecurityPolicyList_DeepCopy_def PlatformConfigSpec_DeepCopy_def
  ProviderHealthStatus_DeepCopy_def PlatformConfigStatus_DeepCopy_def PlatformConfig_DeepCopy_def
  PlatformConfigList_DeepCopy_def

subsection \<open>The contract holds\<close>

interpretation selector_copy: deep_copy selector_desc WorkloadSelector_DeepCopyInto
  by (rule selector_copies)

interpretation rule_copy: deep_copy rule_desc SegmentationRule_DeepCopyInto
  by (rule rule_copies)

interpretation segSpec_copy: deep_copy segSpec_desc SegmentationPolicySpec_DeepCopyInto
  by (rule segSpec_copies)

interpretation rtSpec_copy: deep_copy rtSpec_desc RuntimeSecurityPolicySpec_DeepCopyInto
  by (rule rtSpec_copies)

interpretation pcSpec_copy: deep_copy plain_desc PlatformConfigSpec_DeepCopyInto
  by (rule pcSpec_copies)

interpretation ports_copy: nested_copy "slice_desc int32_rep plain_desc" "copy_scalars int32_rep 0"
  by (rule scalars_copy) simp

subsection \<open>A policy list in memory\<close>

text \<open>The library as its documentation has it, and a list of one policy with one rule.\<close>

definition copy_pointer :: "(cell, 'a) rep \<Rightarrow> 'a \<Rightarrow> cell_ref copier" where
  "copy_pointer r z inp out s = (case deref inp s of None \<Rightarrow> s
     | Some (a, i) \<Rightarrow> assign out (Some (length s, 0)) (s @ [[wrap r (deref (cell_at r a i) s)]]))"

lemma pointer_copies:
  assumes r: "rep_ok r"
  shows "nested_copy (pointer_desc r) (copy_pointer r z)"
proof (intro nested_copy.intro nested_copy_axioms.intro described_pointer)
  fix p q :: "(cell, cell_ref) ptr" and s :: "cell mem"
  assume q: "writable q s" and pre: "deref q s = deref p s" "sound (pointer_desc r) s (deref p s)"
  show "\<exists>x n. copy_pointer r z p q s = assign q x (s @ n) \<and> fresh_copy (pointer_desc r) s (deref p s) n x"
  proof (cases "deref p s")
    case None
    with assign_deref [OF q] pre(1) have "assign q None s = s" by metis
    with None show ?thesis
      by (intro exI [of _ None] exI [of _ "[]"]) (simp add: copy_pointer_def fresh_copy_def pointer_desc_def)
  next
    case (Some ai)
    then obtain a i where "deref p s = Some (a, i)" by (cases ai) auto
    with r pre(2) show ?thesis
      by (intro exI [of _ "Some (length s, 0)"] exI [of _ "[[wrap r (deref (cell_at r a i) s)]]"])
        (simp add: copy_pointer_def fresh_copy_def pointer_desc_def rep_ok_def typed_def nth_append
          deref_def cell_at_def)
  qed
qed

definition sample_lib :: golib where
  "sample_lib = \<lparr>Time_DeepCopyInto = copy_plain, Condition_DeepCopyInto = copy_plain,
     ObjectMeta_DeepCopyInto = (\<lambda>inp out s. let s = copy_plain inp out s;
       s = at_field gm_deletionTimestamp gm_deletionTimestamp_update (copy_pointer time_rep 0) inp out s;
       s = at_field gm_finalizers gm_finalizers_update (copy_scalars string_rep []) inp out s
       in s),
     ListMeta_DeepCopyInto = (\<lambda>inp out s. let s = copy_plain inp out s;
       s = at_field glm_remainingItemCount glm_remainingItemCount_update (copy_pointer int64_rep 0) inp out s
       in s)\<rparr>"

lemma sample_lib_laws: "lib_laws sample_lib"
proof -
  have "deep_copy objectMeta_desc (ObjectMeta_DeepCopyInto sample_lib)"
    unfolding objectMeta_desc_def sample_lib_def golib.simps Let_def
    by (rule struct_copy [OF fills_pair [OF field_step [OF pointer_copies] scalars_step]]) (auto simp: lens_def)
  moreover have "deep_copy listMeta_desc (ListMeta_DeepCopyInto sample_lib)"
    unfolding listMeta_desc_def sample_lib_def golib.simps Let_def
    by (rule struct_copy [OF field_step [OF pointer_copies]]) (auto simp: lens_def)
  ultimately show ?thesis
    by (simp add: lib_laws_def plain_copies) (simp add: sample_lib_def plain_copies)
qed

definition sample_gseg :: gSegmentationPolicy where
  "sample_gseg = zero_gSegmentationPolicy\<lparr>gsp_TypeMeta := \<lparr>tm_kind = ''SegmentationPolicy'', tm_apiVersion = ''k8boss.io/v1alpha1''\<rparr>,
     gsp_ObjectMeta := zero_gObjectMeta\<lparr>gm_name := ''web'', gm_deletionTimestamp := Some (6, 0), gm_finalizers := Slice 2 0 1\<rparr>,
     gsp_spec := zero_gSegmentationPolicySpec\<lparr>gss_selector := \<lparr>gw_matchLabels = Some 3\<rparr>, gss_egress := Slice 4 0 1\<rparr>\<rparr>"

definition sample_grule :: gSegmentationRule where
  "sample_grule = \<lparr>gr_ports = Slice 5 1 1, gr_peerSelector = Some 3, gr_peerNamespace = ''db''\<rparr>"

definition sample_mem :: "cell mem" where
  "sample_mem =
     [[SegListCell (zero_gSegmentationPolicyList\<lparr>gspl_items := Slice 1 0 1\<rparr>)], [SegCell sample_gseg],
      [StringCell ''k8boss.io/cr-edges''], [MapCell [(''app'', ''web'')]], [RuleCell sample_grule],
      [Int32Cell 80, Int32Cell 443], [TimeCell 5], [RuleCell zero_gSegmentationRule]]"

definition sample_list_ptr :: "(cell, gSegmentationPolicyList) ptr" where
  "sample_list_ptr = cell_at segList_rep 0 0"

definition sample_rule_ptr :: "(cell, gSegmentationRule) ptr" where
  "sample_rule_ptr = cell_at rule_rep 4 0"

definition sample_out_ptr :: "(cell, gSegmentationRule) ptr" where
  "sample_out_ptr = cell_at rule_rep 7 0"

lemmas sample_mem_simps = sample_mem_def sample_list_ptr_def sample_rule_ptr_def sample_out_ptr_def
  sample_gseg_def sample_grule_def holds_at_def deref_def cell_at_def rep_defs typed_def
  segList_desc_def seg_desc_def segSpec_desc_def segStatus_desc_def selector_desc_def rule_desc_def
  objectMeta_desc_def listMeta_desc_def pointer_desc_def slice_desc_def map_desc_def pair_desc_def
  via_def plain_desc_def zero_gSegmentationPolicyList_def zero_gSegmentationPolicy_def zero_TypeMeta_def
  zero_gListMeta_def zero_gObjectMeta_def zero_gSegmentationPolicySpec_def
  zero_gSegmentationPolicyStatus_def zero_gWorkloadSelector_def

lemma sample_list_holds: "holds_at segList_desc sample_list_ptr sample_mem"
  by (simp add: sample_mem_simps)

lemma sample_rule_holds: "holds_at rule_desc sample_rule_ptr sample_mem"
  by (simp add: sample_mem_simps)

subsection \<open>Properties\<close>

text \<open>
  C36. Whatever memory holds, \<open>DeepCopyObject\<close> of a policy, a
  PlatformConfig or a list of them returns a variable of the same type that denotes the same (type,
  metadata, spec, status and items, nil told from empty), is well formed, and neither is nor reaches
  any object that was there before; the memory that was there is as it was. For a nil pointer it
  returns the nil interface, not an interface holding a nil pointer.
\<close>

theorem objects_duplicated:
  assumes "lib_laws L"
  shows "copies_object seg_desc SegmentationPolicyObject (SegmentationPolicy_DeepCopyObject L) \<and>
    copies_object segList_desc SegmentationPolicyListObject (SegmentationPolicyList_DeepCopyObject L) \<and>
    copies_object rt_desc RuntimeSecurityPolicyObject (RuntimeSecurityPolicy_DeepCopyObject L) \<and>
    copies_object rtList_desc RuntimeSecurityPolicyListObject (RuntimeSecurityPolicyList_DeepCopyObject L) \<and>
    copies_object pc_desc PlatformConfigObject (PlatformConfig_DeepCopyObject L) \<and>
    copies_object pcList_desc PlatformConfigListObject (PlatformConfigList_DeepCopyObject L)"
  using assms
  by (simp add: SegmentationPolicy_DeepCopyObject_def [abs_def] SegmentationPolicyList_DeepCopyObject_def [abs_def]
      RuntimeSecurityPolicy_DeepCopyObject_def [abs_def] RuntimeSecurityPolicyList_DeepCopyObject_def [abs_def]
      PlatformConfig_DeepCopyObject_def [abs_def] PlatformConfigList_DeepCopyObject_def [abs_def]
      DeepCopy_defs deep_copy_object)

lemma objects_duplicated_witness:
  "\<exists>q s'. SegmentationPolicyList_DeepCopyObject sample_lib (Some sample_list_ptr) sample_mem =
      (SegmentationPolicyListObject (Some q), s') \<and>
    duplicate_of segList_desc sample_mem sample_list_ptr s' q"
  using objects_duplicated [OF sample_lib_laws] sample_list_holds unfolding copies_object_def by blast

text \<open>
  C37. A copy and its original cannot be changed through each other: after
  \<open>DeepCopy\<close>, whatever is written to memory that is not the copy's, the copy denotes what the
  original did, and whatever is written to memory that was not there before, the original does.
  So a component may work on an object another one holds as if it had been passed by value.
\<close>

theorem copies_are_isolated:
  assumes "lib_laws L"
  shows "isolates seg_desc (SegmentationPolicy_DeepCopy L) \<and>
    isolates segList_desc (SegmentationPolicyList_DeepCopy L) \<and>
    isolates rt_desc (RuntimeSecurityPolicy_DeepCopy L) \<and>
    isolates rtList_desc (RuntimeSecurityPolicyList_DeepCopy L) \<and>
    isolates pc_desc (PlatformConfig_DeepCopy L) \<and>
    isolates pcList_desc (PlatformConfigList_DeepCopy L) \<and>
    isolates segSpec_desc SegmentationPolicySpec_DeepCopy \<and>
    isolates segStatus_desc (SegmentationPolicyStatus_DeepCopy L) \<and>
    isolates rtSpec_desc RuntimeSecurityPolicySpec_DeepCopy \<and>
    isolates rtStatus_desc (RuntimeSecurityPolicyStatus_DeepCopy L) \<and>
    isolates plain_desc PlatformConfigSpec_DeepCopy \<and>
    isolates pcStatus_desc (PlatformConfigStatus_DeepCopy L) \<and>
    isolates plain_desc (ProviderHealthStatus_DeepCopy L) \<and>
    isolates rule_desc SegmentationRule_DeepCopy \<and> isolates selector_desc WorkloadSelector_DeepCopy"
  using assms by (simp add: DeepCopy_defs deep_copy_isolates)

text \<open>The witness zeroes every port of the original: the copy still allows 443.\<close>

lemma copies_are_isolated_witness:
  "\<exists>q s'. SegmentationRule_DeepCopy (Some sample_rule_ptr) sample_mem = (Some q, s') \<and>
    ports (val rule_desc (s'[5 := [Int32Cell 0, Int32Cell 0]]) (deref q (s'[5 := [Int32Cell 0, Int32Cell 0]])))
      = Some [443]"
proof -
  have iso: "isolates rule_desc SegmentationRule_DeepCopy"
    using copies_are_isolated [OF sample_lib_laws] by simp
  obtain q s' where run: "SegmentationRule_DeepCopy (Some sample_rule_ptr) sample_mem = (Some q, s')"
    and "duplicate_of rule_desc sample_mem sample_rule_ptr s' q"
    using deep_copy_duplicates [OF rule_copy.deep_copy_axioms reps(8) sample_rule_holds] by (metis DeepCopy_defs(2))
  let ?t = "s'[5 := [Int32Cell 0, Int32Cell 0]]"
  have "same_on {length sample_mem..<length s'} s' ?t" by (simp add: same_on_def sample_mem_def)
  with iso run sample_rule_holds
  have "val rule_desc ?t (deref q ?t) = val rule_desc sample_mem (deref sample_rule_ptr sample_mem)"
    unfolding isolates_def by blast
  moreover have "ports (val rule_desc sample_mem (deref sample_rule_ptr sample_mem)) = Some [443]"
    by (simp add: sample_mem_simps)
  ultimately show ?thesis using run by metis
qed

text \<open>
  C38. \<open>DeepCopyInto\<close> a variable that is there and apart from the
  original changes that variable only, and what it puts there is well formed, denotes what the
  original does and reaches new memory only. It holds of every type of the package; a nil
  receiver is excluded by the type, as the code excludes it.
\<close>

theorem overwrites_only_target:
  assumes "lib_laws L"
  shows "overwrites seg_desc (SegmentationPolicy_DeepCopyInto L) \<and>
    overwrites segList_desc (SegmentationPolicyList_DeepCopyInto L) \<and>
    overwrites rt_desc (RuntimeSecurityPolicy_DeepCopyInto L) \<and>
    overwrites rtList_desc (RuntimeSecurityPolicyList_DeepCopyInto L) \<and>
    overwrites pc_desc (PlatformConfig_DeepCopyInto L) \<and>
    overwrites pcList_desc (PlatformConfigList_DeepCopyInto L) \<and>
    overwrites segSpec_desc SegmentationPolicySpec_DeepCopyInto \<and>
    overwrites segStatus_desc (SegmentationPolicyStatus_DeepCopyInto L) \<and>
    overwrites rtSpec_desc RuntimeSecurityPolicySpec_DeepCopyInto \<and>
    overwrites rtStatus_desc (RuntimeSecurityPolicyStatus_DeepCopyInto L) \<and>
    overwrites plain_desc PlatformConfigSpec_DeepCopyInto \<and>
    overwrites pcStatus_desc (PlatformConfigStatus_DeepCopyInto L) \<and>
    overwrites plain_desc (ProviderHealthStatus_DeepCopyInto L) \<and>
    overwrites rule_desc SegmentationRule_DeepCopyInto \<and>
    overwrites selector_desc WorkloadSelector_DeepCopyInto"
  using assms by (simp add: deep_copy_overwrites)

lemma overwrites_only_target_witness:
  "let s' = SegmentationRule_DeepCopyInto sample_rule_ptr sample_out_ptr sample_mem
   in take 7 s' = take 7 sample_mem \<and> ports (val rule_desc s' (deref sample_out_ptr s')) = Some [443]"
proof -
  let ?s' = "SegmentationRule_DeepCopyInto sample_rule_ptr sample_out_ptr sample_mem"
  have "overwrites rule_desc SegmentationRule_DeepCopyInto"
    using overwrites_only_target [OF sample_lib_laws] by simp
  moreover have "writable sample_out_ptr sample_mem" "apart sample_rule_ptr sample_out_ptr sample_mem"
    "base sample_out_ptr \<notin> reach rule_desc sample_mem (deref sample_rule_ptr sample_mem)"
    and orig: "ports (val rule_desc sample_mem (deref sample_rule_ptr sample_mem)) = Some [443]"
    by (simp_all add: writable_def apart_def assign_def sample_mem_simps)
  ultimately have s': "take (length sample_mem) ?s' = assign sample_out_ptr (deref sample_out_ptr ?s') sample_mem"
    "val rule_desc ?s' (deref sample_out_ptr ?s') = val rule_desc sample_mem (deref sample_rule_ptr sample_mem)"
    using sample_rule_holds unfolding overwrites_def Let_def by blast+
  from s'(1) have "take 7 (take (length sample_mem) ?s') = take 7 sample_mem"
    by (simp add: assign_def sample_out_ptr_def cell_at_def)
  moreover have "length sample_mem = 8" by (simp add: sample_mem_def)
  ultimately show ?thesis using s'(2) orig by (simp add: Let_def)
qed

text \<open>
  That the target is apart from the original is needed: a rule copied into itself loses its ports,
  because the new array is stored before the old one is read.
\<close>

lemma self_copy_erases:
  "let s' = SegmentationRule_DeepCopyInto sample_rule_ptr sample_rule_ptr sample_mem
   in ports (val rule_desc s' (deref sample_rule_ptr s')) = Some [0]"
  by (simp add: SegmentationRule_DeepCopyInto_def at_field_def copy_plain_def copy_scalars_def copy_map_def
      make_slice_def make_map_def sample_mem_simps Let_def fld_def assign_def map_entries_def)

end
