(* ===== verification/Spec2Isabelle.thy ===== *)
theory Spec2Isabelle
  imports Access Progress ClientContract RequestBodies DeepCopyContract
begin

text \<open>
  \<^bold>\<open>A model of the k8boss operator.\<close> The program is a Kubernetes operator: it reconciles three
  custom resources (SegmentationPolicy, RuntimeSecurityPolicy, PlatformConfig) with a remote
  control plane, whose answers decide what it reports and what it does next. The development
  translates the whole of the operator's own Go code and proves what it promises: nothing is
  written behind the kill switch, nothing is written that could not be cleaned up, nothing is
  reported Ready that was not confirmed, nothing is orphaned, and whatever could not be determined
  is reported as such.

  \<^bold>\<open>Theories and sources.\<close>

  \<^item> \<open>Prelude\<close>: state, effects and the trace logic \<open>emits\<close>. \<open>GoStd\<close>, \<open>Json\<close>,
    \<open>Unmarshal\<close>: the parts of the Go standard library whose behaviour the operator's decisions
    rest on (byte strings, UTF-8, \<open>%q\<close>, \<open>strconv\<close>, reading with \<open>encoding/json\<close>).
  \<^item> \<open>ApiTypes\<close>: \<open>api/v1alpha1\<close>, the resources field by field. \<open>Wire\<close>: the wire types of
    \<open>internal/backendclient/client.go\<close>, the events, and the environment (API server, transport,
    library helpers) as parameters, with the documented laws \<open>k8s_laws\<close>.
  \<^item> \<open>BackendClient\<close>: \<open>internal/backendclient/client.go\<close>, the client, its errors and calls;
    \<open>ClientContract\<close>: what it guarantees its callers. \<open>Utf8\<close>, \<open>Marshal\<close>: the text of its
    request bodies, and what it parses to; \<open>RequestBodies\<close>: what a decoder of the interface gets.
  \<^item> \<open>Common\<close>: \<open>internal/controller/common.go\<close>, names, cadences, conditions, the pause gate.
  \<^item> \<open>SegmentationController\<close>, \<open>RuntimeController\<close>, \<open>PlatformConfigController\<close>: the three
    reconcilers of \<open>internal/controller\<close>, one definition per handler (a handler that does two
    things in the source under two guards is split at the guard), each with its properties.
  \<^item> \<open>Preflight\<close>: \<open>internal/preflight/preflight.go\<close>, the readiness check.
  \<^item> \<open>Manager\<close>: \<open>cmd/main.go\<close>, the three \<open>SetupWithManager\<close> and the \<open>init\<close> functions of
    \<open>api/v1alpha1\<close>: settings, wiring, registration, start-up and exit code.
  \<^item> \<open>Memory\<close>, \<open>Copies\<close>: the memory of a Go program (structs, slices, maps, pointers into
    objects) and the calculus of deep copies on it. \<open>GoStructs\<close>, \<open>DeepCopy\<close>: the types of
    \<open>api/v1alpha1\<close> as they lie in memory and \<open>zz_generated.deepcopy.go\<close>, function by function;
    \<open>DeepCopyContract\<close>: what it promises.
  \<^item> \<open>Access\<close>: \<open>config/rbac/role.yaml\<close> against the calls of the reconcilers.
  \<^item> \<open>PolicyRuns\<close>: what every single run of the two policy reconcilers guarantees;
    \<open>Progress\<close>: what one run reaches when its calls are answered well.
  \<^item> \<open>Traces\<close>, \<open>PolicyProtocol\<close>: the abstract specification of the two policy reconcilers.
    \<open>Workers\<close>, \<open>Operator\<close>: many runs, interleaved and cut short. \<open>Samples\<close>: the concrete
    environments and objects on which theorems are applied.

  \<^bold>\<open>State.\<close> The operator keeps none of its own between runs but its settings, the client made of
  them and the readiness checker's discovery client; those are records. Everything else is outside.
  A run is a computation of the state monad over \<open>sys\<close>, which holds the outside as an opaque
  component \<open>ext\<close> that each call hands to a function of the environment, and a ghost trace of the
  calls made with their answers. \<open>emits m Q\<close> says that whatever the environment answers, the
  result and the trace of \<open>m\<close> satisfy \<open>Q\<close>; nothing is assumed of the answers. The interfaces the
  reconcilers rely on are locales: \<open>policy_resource\<close> (what reading and writing a resource does),
  \<open>policy_backend\<close> (what a push and a close answer), \<open>policy_controller\<close> (both; in it the abstract
  reconciler is proved to follow \<open>policy_run\<close>), \<open>policy_sender\<close> (also that a connected operator
  sends; in it such a run is proved to reach its request), \<open>backend_probe\<close> (what the readiness check relies
  on) and \<open>trace_property\<close> (what passes from runs to traces of the process); the deep copies meet
  \<open>deep_copy\<close>, their blocks \<open>nested_copy\<close>, over types that are \<open>described\<close>. They are interpreted
  on the code's model in the theories of the components.

  The reconcilers are modelled on values. The generated deep copies are what lets Go code treat
  the objects it shares as values, and they alone are modelled on memory: the descriptions of
  \<open>DeepCopy\<close> say which value of \<open>ApiTypes\<close> a struct in memory stands for.

  \<^bold>\<open>What is shown.\<close>

  \<^item> Refinement: each policy reconciler equals, handler by handler, an abstract one over its
    operations (\<open>seg_Reconcile_refines\<close>, \<open>rt_Reconcile_refines\<close>), and every run of it is one of the
    eleven paths of \<open>policy_run\<close>; a PlatformConfig run is one of the six paths of \<open>pc_run\<close>.
  \<^item> Safety of single runs, from those relations: the switch is read as off before edges are
    written, a release comes after a confirmed close, Ready after a confirmed and consistent push,
    requests are about objects the API server returned in the run, the status moves the observed
    generation only together with Ready.
  \<^item> Safety of the process (\<open>Operator\<close>): the same permissions still hold at the moment they are
    used, in every interleaving of the three controllers and with runs killed anywhere; the kill
    switch is only ever set to a value read from the bound PlatformConfig; an operator that lacks a
    setting sends nothing.
  \<^item> Permissions: the calls of the reconcilers are covered by the ClusterRole of the install, and
    by a narrower one of which every permission is needed (\<open>calls_within_role\<close>).
  \<^item> Termination and progress: every run ends after at most five calls, and returns without an
    error or a delay only when there is nothing left to do. A run of a connected operator whose
    calls are answered well brings the resource to where it should be, whatever state it was found
    in (\<open>policies_converge\<close>, \<open>platform_config_converges\<close>): Ready for its generation, or its edges
    closed and its finalizer gone. One without a connection says that it waits for its configuration
    (\<open>awaiting_configuration\<close>).
  \<^item> Errors: what every class of failure is reported as and when it is retried, what every answer
    of the control plane is read as, and how its two error shapes are parsed.
  \<^item> Texts: a decoder written from the names and types of the interface reads every request body
    back from its text (\<open>request_body_roundtrip\<close>), and no body the operator sends holds a null.
  \<^item> Deep copies: a copy denotes what its original does (\<open>objects_duplicated\<close>), the two cannot be
    changed through each other (\<open>copies_are_isolated\<close>), and a copy into a variable changes nothing
    else (\<open>overwrites_only_target\<close>); \<open>self_copy_erases\<close> shows that the target must not be the
    original.
  \<^item> Start-up: the same calls in the same order whatever settings are missing, the exit code, which
    settings make a connection, and the round trip of the cluster id.

  \<^bold>\<open>Bounds.\<close> Go's \<open>int\<close> is \<open>64 word\<close>, ports are \<open>32 word\<close>; the cluster id is compared as a signed
  number. Text is bytes. The JSON parser recurses on fuel \<open>2 * length s + 1\<close>, which
  \<open>parse_fuel_enough\<close> proves to be enough for every input, and on Go's limit of 10000 nested
  containers. Times and durations are integers in nanoseconds. Nil and empty maps and slices are
  told apart where the code does (\<open>None\<close> and \<open>Some\<close>).

  \<^bold>\<open>Not modelled.\<close> Log calls, which have no effect on anything modelled. The redirects that
  \<open>http.Client.Do\<close> may follow on its own: an HTTP event is one call of \<open>Do\<close>. The context and its
  deadlines: a call that is cancelled answers with an error, which every call may. The
  failure of \<open>json.Marshal\<close>, which these body types cannot cause; an event records the Go value
  that is marshalled, \<open>marshal_body\<close> is its text. The deep copies of the
  Kubernetes types (\<open>ObjectMeta\<close>, \<open>ListMeta\<close>, \<open>Condition\<close>, \<open>Time\<close>), which are the library's:
  parameters with the contract \<open>lib_laws\<close>. Slice capacities, as no deep copy appends. Parsing of the command line and the options of the logger. What controller-runtime does with a
  registration (queue, caches, leader election): the model lets every controller run on any request
  at any time, one at a time per controller, as its default does. The calls that leader election
  makes, and the readiness check in the traces of \<open>Operator\<close>: it has its own theory. For a repeated key of a JSON slice
  field Go reuses the elements already stored; here the later array is stored afresh.
\<close>

subsection \<open>The text of the requests\<close>

text \<open>A JSON value without null in it.\<close>

fun null_free :: "json \<Rightarrow> bool" and null_free_elems :: "json list \<Rightarrow> bool"
  and null_free_members :: "(string \<times> json) list \<Rightarrow> bool" where
  "null_free JNull = False"
| "null_free (JArr vs) = null_free_elems vs"
| "null_free (JObj ms) = null_free_members ms"
| "null_free v = True"
| "null_free_elems [] = True"
| "null_free_elems (v # vs) = (null_free v \<and> null_free_elems vs)"
| "null_free_members [] = True"
| "null_free_members ((k, v) # ms) = (null_free v \<and> null_free_members ms)"

lemma null_free_cleaned:
  "null_free (cleaned v) = null_free v" "null_free_elems (cleaned_elems vs) = null_free_elems vs"
  "null_free_members (cleaned_members ms) = null_free_members ms"
  by (induction v and vs and ms rule: cleaned_cleaned_elems_cleaned_members.induct) simp_all

lemma null_free_map:
  "(\<And>x. x \<in> set xs \<Longrightarrow> null_free (f x)) \<Longrightarrow> null_free_elems (map f xs)"
  "null_free_members (map (\<lambda>k. (k, JStr (g k))) ks)"
  by (induction xs; simp) (induction ks; simp)

lemma null_free_parts:
  "null_free (int64_json w)" "null_free (labels_json (Some m))" "null_free (ports_json (Some ps))"
  "null_free (strings_json (Some ss))"
  by (simp_all add: int64_json_def labels_json_def ports_json_def strings_json_def null_free_map)

lemma null_free_rules: "null_free (rules_json (Some (map toWireRule rs)))"
  by (auto simp: rules_json_def rule_json_def toWireRule_def null_free_parts nil_to_empty
      intro!: null_free_map)

lemma null_free_specs:
  "null_free (seg_spec_json (toWireSpec s))" "null_free (rt_spec_json (toRuntimeWireSpec t))"
  by (simp_all add: seg_spec_json_def rt_spec_json_def selector_json_def toWireSpec_def
      toRuntimeWireSpec_def nil_to_empty null_free_parts null_free_rules)

text \<open>A request whose body, if it has one, has no null in it.\<close>

definition plain_request :: "http_request \<Rightarrow> bool" where
  "plain_request req = (case rq_body req of None \<Rightarrow> True | Some b \<Rightarrow> null_free (body_json b))"

fun ev_plain :: "event \<Rightarrow> bool" where
  "ev_plain (EvHttp req _) = plain_request req"
| "ev_plain _ = True"

lemma plain_requests:
  "plain_request (seg_push_request r x)" "plain_request (seg_close_request r x)"
  "plain_request (rt_push_request r' y)" "plain_request (rt_close_request r' y)"
  "plain_request (pc_put_request r'' z)" "plain_request (pc_health_request r'')"
  by (simp_all add: plain_request_def seg_push_request_def seg_close_request_def rt_push_request_def
      rt_close_request_def pc_put_request_def pc_health_request_def Let_def null_free_specs null_free_parts)

lemma run_plain:
  assumes "policy_run K S n es v"
    and "\<And>x. obj_kind x = ct_kind S \<Longrightarrow> plain_request (ct_push S x) \<and> plain_request (ct_close S x)"
  shows "list_all ev_plain es"
proof -
  have "ev_plain e" if "e \<in> set es" for e
  proof (cases e)
    case (EvHttp req a)
    with run_requests [OF assms(1)] that assms(2) show ?thesis by (auto simp: returned_def)
  qed simp_all
  then show ?thesis by (simp add: list_all_iff)
qed

lemma seg_run_plain: "policy_run K (seg_contract r) n es v \<Longrightarrow> list_all ev_plain es"
proof (erule run_plain)
  fix x
  assume "obj_kind x = ct_kind (seg_contract r)"
  then show "plain_request (ct_push (seg_contract r) x) \<and> plain_request (ct_close (seg_contract r) x)"
    by (cases x) (simp_all add: plain_requests)
qed

lemma rt_run_plain: "policy_run K (rt_contract r) n es v \<Longrightarrow> list_all ev_plain es"
proof (erule run_plain)
  fix x
  assume "obj_kind x = ct_kind (rt_contract r)"
  then show "plain_request (ct_push (rt_contract r) x) \<and> plain_request (ct_close (rt_contract r) x)"
    by (cases x) (simp_all add: plain_requests)
qed

lemma pc_run_plain: "pc_run K r n es v \<Longrightarrow> list_all ev_plain es"
  by (cases rule: pc_run.cases) (auto simp: plain_requests)

text \<open>
  C27. Every body the operator ever sends is a JSON document without a null in it: no
  nil map or slice of a resource reaches the control plane as one.
\<close>

theorem requests_never_null:
  assumes "k8s_laws K" and "operator_trace K N op tr"
    and "EvHttp req a \<in> set tr" and "rq_body req = Some b"
  shows "\<exists>v. json_parse (marshal_body b) = Some v \<and> null_free v"
proof -
  from assms(2) obtain xs ys zs where
    workers: "worker (seg_Reconcile K N (op_seg op)) xs" "worker (rt_Reconcile K N (op_rt op)) ys"
      "worker (pc_Reconcile K N (op_pc op)) zs" and tr: "interleaves xs ys zs tr"
    by (rule operator_traceE)
  have "list_all ev_plain xs" by (rule seg_worker_all [OF assms(1) workers(1) seg_run_plain])
  moreover have "list_all ev_plain ys" by (rule rt_worker_all [OF assms(1) workers(2) rt_run_plain])
  moreover have "list_all ev_plain zs" by (rule pc_worker_all [OF assms(1) workers(3) pc_run_plain])
  ultimately have "list_all ev_plain tr" by (rule interleaves_all [OF tr])
  with assms(3,4) have "null_free (body_json b)"
    by (auto simp: list_all_iff plain_request_def dest!: bspec)
  then show ?thesis using marshal_parse [of b] by (simp add: null_free_cleaned)
qed

lemma requests_never_null_witness:
  "\<exists>req a b. EvHttp req a \<in> set (sample_trace [] None) \<and> rq_body req = Some b \<and>
     (\<exists>v. json_parse (marshal_body b) = Some v \<and> null_free v)"
proof -
  let ?req = "seg_push_request sample_sr (sample_seg [CREdgesFinalizer] None)"
  obtain b where b: "rq_body ?req = Some b" by (simp add: seg_push_request_def Let_def)
  have sent: "EvHttp ?req (Inr \<lparr>rs_status = 200, rs_body = Inr sample_body\<rparr>) \<in> set (sample_trace [] None)"
    using seg_sample_push by (auto simp: sample_trace_def)
  from requests_never_null [OF sample_laws sample_operator_trace this b] sent b show ?thesis by blast
qed

end
